(* ===== verification/Prelude.thy ===== *)
theory Prelude
  imports Main "HOL-Library.Sublist"
begin

text \<open>
  Shared vocabulary of the development. JavaScript strings are modelled as
  \<open>string\<close> (a list of bytes): the UTF-8 encoding of the UTF-16 string the
  program handles. The encoding is injective and turns concatenation into
  concatenation, so string equality, concatenation and the replacement of ASCII
  patterns mean the same on both sides. Non-ASCII text of the sources (Chinese
  labels and messages) is written as its UTF-8 bytes (\<open>CHR 0xE5\<close>, ...).

  This theory holds the string operations several components call:
  \<^item> \<open>starts_with\<close>, the executable prefix test, and its link to
    \<open>prefix\<close> of HOL-Library.Sublist;
  \<^item> \<open>to_upper\<close> and \<open>to_lower\<close>, \<open>String.prototype.toUpperCase\<close> and
    \<open>toLowerCase\<close> on ASCII letters (other characters are left unchanged);
  \<^item> \<open>replace_all\<close>, \<open>s.replace(/p/g, r)\<close> for a regular expression that
    matches the literal text \<open>p\<close>, with the special replacement patterns
    \<open>$$\<close>, \<open>$&\<close>, \<open>$`\<close> and \<open>$'\<close> of ECMAScript's GetSubstitution;
    \<open>replace_lit\<close> is the same scan without the patterns, and the two agree when
    the replacement contains no \<open>$\<close>.
\<close>

named_theorems js_simps "evaluation rules of the JavaScript value model"
named_theorems io_simps "evaluation rules of the effect monad"

type_synonym jstr = string

subsection \<open>Prefix test\<close>

fun starts_with :: "string \<Rightarrow> string \<Rightarrow> bool" where
  "starts_with [] s = True"
| "starts_with (c # p) [] = False"
| "starts_with (c # p) (d # s) = (c = d \<and> starts_with p s)"

lemma starts_with_iff: "starts_with p s \<longleftrightarrow> prefix p s"
  by (induction p s rule: starts_with.induct) auto

lemma starts_with_append [simp]: "starts_with p (p @ s)"
  by (simp add: starts_with_iff)

lemma starts_with_hd: "p \<noteq> [] \<Longrightarrow> starts_with p s \<Longrightarrow> s \<noteq> [] \<and> hd s = hd p"
  by (cases p; cases s) auto

subsection \<open>Code that throws\<close>

text \<open>A computation that may throw is a value of \<open>'e + 'a\<close> (\<open>Inl\<close> the
  exception); \<open>sbind\<close> runs the rest only after a normal result, and
  \<open>smap\<close> is \<open>Array.prototype.map\<close> with a callback that may throw: the
  elements are visited from the left and the first exception ends the loop.\<close>

definition sbind :: "'e + 'a \<Rightarrow> ('a \<Rightarrow> 'e + 'b) \<Rightarrow> 'e + 'b" where
  "sbind m f = (case m of Inl e \<Rightarrow> Inl e | Inr x \<Rightarrow> f x)"

lemma sbind_Inl [simp]: "sbind (Inl e) f = Inl e"
  and sbind_Inr [simp]: "sbind (Inr x) f = f x"
  by (simp_all add: sbind_def)

lemma sbind_eq_Inr: "sbind m f = Inr y \<longleftrightarrow> (\<exists>x. m = Inr x \<and> f x = Inr y)"
  by (cases m) simp_all

primrec smap :: "('a \<Rightarrow> 'e + 'b) \<Rightarrow> 'a list \<Rightarrow> 'e + 'b list" where
  "smap f [] = Inr []"
| "smap f (x # xs) = sbind (f x) (\<lambda>y. sbind (smap f xs) (\<lambda>ys. Inr (y # ys)))"

lemma smap_Inr_length: "smap f xs = Inr ys \<Longrightarrow> length ys = length xs"
  by (induction xs arbitrary: ys) (auto simp: sbind_eq_Inr)

lemma smap_Inr_nth:
  "smap f xs = Inr ys \<Longrightarrow> i < length xs \<Longrightarrow> f (xs ! i) = Inr (ys ! i)"
proof (induction xs arbitrary: ys i)
  case (Cons x xs)
  then obtain y ys' where "f x = Inr y" "smap f xs = Inr ys'" "ys = y # ys'"
    by (auto simp: sbind_eq_Inr)
  with Cons show ?case by (cases i) auto
qed simp

lemma smap_all_Inr: "(\<And>x. x \<in> set xs \<Longrightarrow> \<exists>y. f x = Inr y) \<Longrightarrow> \<exists>ys. smap f xs = Inr ys"
  by (induction xs) force+

subsection \<open>Joining\<close>

text \<open>\<open>Array.prototype.join(sep)\<close> on strings.\<close>

fun join :: "string \<Rightarrow> string list \<Rightarrow> string" where
  "join sep [] = []"
| "join sep [x] = x"
| "join sep (x # y # xs) = x @ sep @ join sep (y # xs)"

lemma join_Cons: "xs \<noteq> [] \<Longrightarrow> join sep (x # xs) = x @ sep @ join sep xs"
  by (cases xs) simp_all

subsection \<open>ASCII case mapping\<close>

definition ascii_upper_char :: "char \<Rightarrow> char" where
  "ascii_upper_char c =
     (if 97 \<le> (of_char c :: nat) \<and> (of_char c :: nat) \<le> 122
      then char_of ((of_char c :: nat) - 32) else c)"

definition ascii_lower_char :: "char \<Rightarrow> char" where
  "ascii_lower_char c =
     (if 65 \<le> (of_char c :: nat) \<and> (of_char c :: nat) \<le> 90
      then char_of ((of_char c :: nat) + 32) else c)"

definition to_upper :: "string \<Rightarrow> string" where
  "to_upper s = map ascii_upper_char s"

definition to_lower :: "string \<Rightarrow> string" where
  "to_lower s = map ascii_lower_char s"

lemma of_char_upper_range:
  "(of_char (ascii_upper_char c) :: nat) < 97 \<or> 122 < (of_char (ascii_upper_char c) :: nat)"
proof -
  have "(of_char c :: nat) < 256" by (rule nat_of_char_less_256)
  then show ?thesis by (auto simp: ascii_upper_char_def)
qed

lemma ascii_upper_char_idem [simp]: "ascii_upper_char (ascii_upper_char c) = ascii_upper_char c"
  using of_char_upper_range [of c]
  by (subst (1) ascii_upper_char_def) (auto simp del: of_char_of)

lemma to_upper_idem [simp]: "to_upper (to_upper s) = to_upper s"
  by (simp add: to_upper_def)

lemma length_to_upper [simp]: "length (to_upper s) = length s"
  by (simp add: to_upper_def)

lemma to_upper_append [simp]: "to_upper (s @ t) = to_upper s @ to_upper t"
  by (simp add: to_upper_def)

lemma length_to_lower [simp]: "length (to_lower s) = length s"
  by (simp add: to_lower_def)

lemma ascii_lower_char_fixed:
  "\<not> (65 \<le> (of_char c :: nat) \<and> (of_char c :: nat) \<le> 90) \<Longrightarrow> ascii_lower_char c = c"
  by (auto simp: ascii_lower_char_def)

lemma ascii_lower_char_eq_other:
  assumes d: "\<not> (65 \<le> (of_char d :: nat) \<and> (of_char d :: nat) \<le> 122)"
  shows "ascii_lower_char c = d \<longleftrightarrow> c = d"
proof
  assume eq: "ascii_lower_char c = d"
  show "c = d"
  proof (cases "65 \<le> (of_char c :: nat) \<and> (of_char c :: nat) \<le> 90")
    case True
    then have "(of_char d :: nat) = of_char c + 32"
      using eq by (auto simp: ascii_lower_char_def)
    with True d show ?thesis by simp
  next
    case False
    with eq show ?thesis by (simp add: ascii_lower_char_fixed)
  qed
next
  assume "c = d"
  with d show "ascii_lower_char c = d" by (auto simp: ascii_lower_char_def)
qed

lemma in_set_to_lower_other:
  assumes "\<not> (65 \<le> (of_char d :: nat) \<and> (of_char d :: nat) \<le> 122)"
  shows "d \<in> set (to_lower s) \<longleftrightarrow> d \<in> set s"
proof
  assume "d \<in> set (to_lower s)"
  then obtain x where "x \<in> set s" and "ascii_lower_char x = d"
    by (auto simp: to_lower_def)
  with assms show "d \<in> set s" by (simp add: ascii_lower_char_eq_other)
next
  assume "d \<in> set s"
  then have "ascii_lower_char d \<in> set (to_lower s)" by (simp add: to_lower_def)
  moreover have "ascii_lower_char d = d"
    using assms by (simp add: ascii_lower_char_eq_other)
  ultimately show "d \<in> set (to_lower s)" by simp
qed

subsection \<open>Replacement of a literal pattern\<close>

text \<open>
  ECMAScript GetSubstitution for a pattern without capture groups: in the
  replacement text, \<open>$$\<close> is a dollar sign, \<open>$&\<close> the matched text, \<open>$`\<close> the
  text before the match and \<open>$'\<close> the text after it; everything else is copied.
\<close>

fun get_substitution :: "string \<Rightarrow> string \<Rightarrow> string \<Rightarrow> string \<Rightarrow> string" where
  "get_substitution m b a [] = []"
| "get_substitution m b a [c] = [c]"
| "get_substitution m b a (c # d # t) =
     (if c = CHR ''$'' \<and> d = CHR ''$'' then CHR ''$'' # get_substitution m b a t
      else if c = CHR ''$'' \<and> d = CHR ''&'' then m @ get_substitution m b a t
      else if c = CHR ''$'' \<and> d = CHR 0x60 then b @ get_substitution m b a t
      else if c = CHR ''$'' \<and> d = CHR 0x27 then a @ get_substitution m b a t
      else c # get_substitution m b a (d # t))"

text \<open>
  \<open>replace_scan p r done s\<close> scans \<open>s\<close> from the left, \<open>done\<close> being the part of
  the subject already scanned; each occurrence of \<open>p\<close> is replaced and the scan
  resumes after it, as the global flag of the regular expression does.
\<close>

function replace_scan :: "string \<Rightarrow> string \<Rightarrow> string \<Rightarrow> string \<Rightarrow> string" where
  "replace_scan p r done [] = []"
| "replace_scan p r done (c # s) =
     (if p \<noteq> [] \<and> starts_with p (c # s)
      then get_substitution p done (drop (length p) (c # s)) r
           @ replace_scan p r (done @ p) (drop (length p) (c # s))
      else c # replace_scan p r (done @ [c]) s)"
  by pat_completeness auto
termination
  by (relation "measure (\<lambda>(p, r, d, s). length s)") auto

definition replace_all :: "string \<Rightarrow> string \<Rightarrow> string \<Rightarrow> string" where
  "replace_all p r s = replace_scan p r [] s"

function replace_lit :: "string \<Rightarrow> string \<Rightarrow> string \<Rightarrow> string" where
  "replace_lit p r [] = []"
| "replace_lit p r (c # s) =
     (if p \<noteq> [] \<and> starts_with p (c # s)
      then r @ replace_lit p r (drop (length p) (c # s))
      else c # replace_lit p r s)"
  by pat_completeness auto
termination
  by (relation "measure (\<lambda>(p, r, s). length s)") auto

lemma get_substitution_plain:
  "CHR ''$'' \<notin> set r \<Longrightarrow> get_substitution m b a r = r"
  by (induction m b a r rule: get_substitution.induct) auto

lemma replace_scan_plain:
  "CHR ''$'' \<notin> set r \<Longrightarrow> replace_scan p r d s = replace_lit p r s"
  by (induction p r d s rule: replace_scan.induct) (auto simp: get_substitution_plain)

lemma replace_all_plain:
  "CHR ''$'' \<notin> set r \<Longrightarrow> replace_all p r s = replace_lit p r s"
  by (simp add: replace_all_def replace_scan_plain)

text \<open>
  Where the first character of the pattern does not occur in a piece of the
  subject, no match starts in it: the scan copies the piece and goes on after it.
\<close>

lemma replace_lit_skip:
  "p \<noteq> [] \<Longrightarrow> hd p \<notin> set v \<Longrightarrow> replace_lit p r (v @ w) = v @ replace_lit p r w"
proof (induction v)
  case Nil
  then show ?case by simp
next
  case (Cons c v)
  then have "\<not> starts_with p (c # v @ w)"
    using starts_with_hd [of p "c # v @ w"] by auto
  with Cons show ?case by simp
qed

lemma replace_lit_id:
  "p \<noteq> [] \<Longrightarrow> hd p \<notin> set v \<Longrightarrow> replace_lit p r v = v"
  using replace_lit_skip [of p v r "[]"] by simp

lemma replace_lit_match:
  "p \<noteq> [] \<Longrightarrow> replace_lit p r (p @ w) = r @ replace_lit p r w"
  by (cases p) simp_all

lemma replace_lit_length_same:
  "length r = length p \<Longrightarrow> length (replace_lit p r s) = length s"
proof (induction p r s rule: replace_lit.induct)
  case (2 p r c s)
  show ?case
  proof (cases "p \<noteq> [] \<and> starts_with p (c # s)")
    case True
    then have "length p \<le> length (c # s)"
      by (auto simp: starts_with_iff dest: prefix_length_le)
    with True 2 show ?thesis by simp
  next
    case False
    with 2 show ?thesis by auto
  qed
qed simp

lemma replace_lit_single_notin:
  "c \<noteq> d \<Longrightarrow> c \<notin> set (replace_lit [c] [d] s)"
  by (induction "[c]" "[d]" s rule: replace_lit.induct) auto

end
