(* ===== verification/JsValue.thy ===== *)
theory JsValue
  imports Prelude
begin

text \<open>
  The JavaScript values the adapters handle: what \<open>JSON.parse\<close> (through
  \<open>axios\<close> or \<open>fetch(...).json()\<close>) returns for an upstream body, and the
  object literals the handlers build. \<open>undefined\<close> is a value of its own, since
  a missing field reads as \<open>undefined\<close> and the code tests for it. Objects are
  association lists in insertion order (the order \<open>JSON.stringify\<close> prints) with
  distinct keys; numbers are integers (every number the code computes with or
  compares is one: status codes, \<open>arrivalDays\<close>, limits; fractional prices are
  only copied). Values from \<open>JSON.parse\<close> are fresh objects, so \<open>===\<close> between
  two of them is false, and the model compares only primitives.

  The operations are the ones of ECMAScript the sources use: property access
  (\<open>x.k\<close> throws a \<open>TypeError\<close> on \<open>undefined\<close> and \<open>null\<close>), indexing,
  truthiness (\<open>!x\<close>, \<open>&&\<close>, \<open>||\<close>), strict equality, loose equality with
  \<open>0\<close>, template-literal interpolation (ToString), and \<open>JSON.stringify\<close> with and
  without an indentation gap.
\<close>

datatype jsval =
    JUndef
  | JNull
  | JBool bool
  | JNum int
  | JStr string
  | JArr "jsval list"
  | JObj "(string \<times> jsval) list"

text \<open>Exceptions a handler can throw, with the message the runtime prints.\<close>

datatype js_exn =
    TypeError string
  | Error string

subsection \<open>Decimal digits\<close>

fun nat_digits :: "nat \<Rightarrow> string" where
  "nat_digits n =
     (if n < 10 then [char_of (48 + n)]
      else nat_digits (n div 10) @ [char_of (48 + n mod 10)])"

declare nat_digits.simps [simp del]

definition int_to_str :: "int \<Rightarrow> string" where
  "int_to_str i = (if i < 0 then CHR ''-'' # nat_digits (nat (- i)) else nat_digits (nat i))"

subsection \<open>Property access, truthiness, equality\<close>

definition quote_key :: "string \<Rightarrow> string" where
  "quote_key k = CHR 0x27 # k @ [CHR 0x27]"

text \<open>V8's message for a property read on \<open>undefined\<close> or \<open>null\<close>.\<close>

definition read_error :: "string \<Rightarrow> string \<Rightarrow> js_exn" where
  "read_error what k =
     TypeError (''Cannot read properties of '' @ what @ '' (reading '' @ quote_key k @ '')'')"

fun get_prop :: "jsval \<Rightarrow> string \<Rightarrow> js_exn + jsval" where
  "get_prop JUndef k = Inl (read_error ''undefined'' k)"
| "get_prop JNull k = Inl (read_error ''null'' k)"
| "get_prop (JObj kvs) k = Inr (case map_of kvs k of None \<Rightarrow> JUndef | Some v \<Rightarrow> v)"
| "get_prop (JArr xs) k =
     (if k = ''length'' then Inr (JNum (int (length xs))) else Inr JUndef)"
| "get_prop (JStr s) k =
     (if k = ''length'' then Inr (JNum (int (length s))) else Inr JUndef)"
| "get_prop (JBool b) k = Inr JUndef"
| "get_prop (JNum n) k = Inr JUndef"

text \<open>\<open>x[i]\<close> for a numeric index.\<close>

fun get_idx :: "jsval \<Rightarrow> nat \<Rightarrow> js_exn + jsval" where
  "get_idx JUndef i = Inl (read_error ''undefined'' (nat_digits i))"
| "get_idx JNull i = Inl (read_error ''null'' (nat_digits i))"
| "get_idx (JArr xs) i = Inr (if i < length xs then xs ! i else JUndef)"
| "get_idx (JObj kvs) i = Inr (case map_of kvs (nat_digits i) of None \<Rightarrow> JUndef | Some v \<Rightarrow> v)"
| "get_idx v i = Inr JUndef"

fun truthy :: "jsval \<Rightarrow> bool" where
  "truthy JUndef = False"
| "truthy JNull = False"
| "truthy (JBool b) = b"
| "truthy (JNum n) = (n \<noteq> 0)"
| "truthy (JStr s) = (s \<noteq> [])"
| "truthy (JArr xs) = True"
| "truthy (JObj kvs) = True"

text \<open>\<open>undefined\<close> and \<open>null\<close>, the two values a property read throws on.\<close>

definition nullish :: "jsval \<Rightarrow> bool" where
  "nullish v = (v = JUndef \<or> v = JNull)"

definition prop_val :: "jsval \<Rightarrow> string \<Rightarrow> jsval" where
  "prop_val v k = (case get_prop v k of Inr x \<Rightarrow> x | Inl e \<Rightarrow> JUndef)"

text \<open>\<open>a || b\<close> and \<open>a && b\<close> return one of their operands.\<close>

definition js_or :: "jsval \<Rightarrow> jsval \<Rightarrow> jsval" where
  "js_or a b = (if truthy a then a else b)"

definition js_and :: "jsval \<Rightarrow> jsval \<Rightarrow> jsval" where
  "js_and a b = (if truthy a then b else a)"

text \<open>\<open>===\<close>: primitives by value; two objects only when they are one object,
  which never holds for the freshly parsed values the code compares.\<close>

fun strict_eq :: "jsval \<Rightarrow> jsval \<Rightarrow> bool" where
  "strict_eq JUndef JUndef = True"
| "strict_eq JNull JNull = True"
| "strict_eq (JBool a) (JBool b) = (a = b)"
| "strict_eq (JNum a) (JNum b) = (a = b)"
| "strict_eq (JStr a) (JStr b) = (a = b)"
| "strict_eq a b = False"

text \<open>
  ToNumber on text: surrounding white space is ignored, the empty text is 0,
  an optional sign and decimal digits give an integer; other text is NaN
  (\<open>None\<close>). Fractional and hexadecimal literals are not modelled.
\<close>

definition js_space :: "char \<Rightarrow> bool" where
  "js_space c = (c \<in> {CHR '' '', CHR 0x09, CHR 0x0A, CHR 0x0B, CHR 0x0C, CHR 0x0D})"

definition digits_val :: "string \<Rightarrow> nat" where
  "digits_val s = foldl (\<lambda>acc c. 10 * acc + (of_char c - 48)) 0 s"

definition is_digit :: "char \<Rightarrow> bool" where
  "is_digit c = (48 \<le> (of_char c :: nat) \<and> (of_char c :: nat) \<le> 57)"

definition str_to_int :: "string \<Rightarrow> int option" where
  "str_to_int s =
     (let t = rev (dropWhile js_space (rev (dropWhile js_space s)))
      in case t of
           [] \<Rightarrow> Some 0
         | c # r \<Rightarrow>
             (let (sg, ds) = (if c = CHR ''-'' then (-1, r) else if c = CHR ''+'' then (1, r) else (1, t))
              in if ds \<noteq> [] \<and> (\<forall>d \<in> set ds. is_digit d) then Some (sg * int (digits_val ds)) else None))"

subsection \<open>ToString and template literals\<close>

fun to_str :: "jsval \<Rightarrow> string" where
  "to_str JUndef = ''undefined''"
| "to_str JNull = ''null''"
| "to_str (JBool b) = (if b then ''true'' else ''false'')"
| "to_str (JNum n) = int_to_str n"
| "to_str (JStr s) = s"
| "to_str (JArr xs) =
     join '','' (map (\<lambda>x. case x of JUndef \<Rightarrow> [] | JNull \<Rightarrow> [] | _ \<Rightarrow> to_str x) xs)"
| "to_str (JObj kvs) = ''[object Object]''"

text \<open>ToNumber, \<open>None\<close> standing for NaN.\<close>

fun to_number :: "jsval \<Rightarrow> int option" where
  "to_number JUndef = None"
| "to_number JNull = Some 0"
| "to_number (JBool b) = Some (if b then 1 else 0)"
| "to_number (JNum n) = Some n"
| "to_number (JStr s) = str_to_int s"
| "to_number (JArr xs) = str_to_int (to_str (JArr xs))"
| "to_number (JObj kvs) = None"

text \<open>\<open>x == 0\<close>: \<open>null\<close> and \<open>undefined\<close> equal only each other; every
  other value is compared by its ToNumber.\<close>

fun loose_eq_zero :: "jsval \<Rightarrow> bool" where
  "loose_eq_zero JUndef = False"
| "loose_eq_zero JNull = False"
| "loose_eq_zero v = (to_number v = Some 0)"

text \<open>\<open>x > n\<close> for a number \<open>n\<close>: false when ToNumber gives NaN.\<close>

definition gt_num :: "jsval \<Rightarrow> int \<Rightarrow> bool" where
  "gt_num v n = (case to_number v of None \<Rightarrow> False | Some m \<Rightarrow> n < m)"

subsection \<open>JSON.stringify\<close>

definition hex_digit :: "nat \<Rightarrow> char" where
  "hex_digit n = char_of (if n < 10 then 48 + n else 87 + n)"

text \<open>QuoteJSONString: the two-character escapes, \<open>\\u00xx\<close> for the other
  control characters, every other code unit unchanged.\<close>

definition json_escape :: "char \<Rightarrow> string" where
  "json_escape c =
     (if c = CHR 0x22 then [CHR 0x5C, CHR 0x22]
      else if c = CHR 0x5C then [CHR 0x5C, CHR 0x5C]
      else if c = CHR 0x08 then [CHR 0x5C, CHR ''b'']
      else if c = CHR 0x0C then [CHR 0x5C, CHR ''f'']
      else if c = CHR 0x0A then [CHR 0x5C, CHR ''n'']
      else if c = CHR 0x0D then [CHR 0x5C, CHR ''r'']
      else if c = CHR 0x09 then [CHR 0x5C, CHR ''t'']
      else if (of_char c :: nat) < 32
      then [CHR 0x5C, CHR ''u'', CHR ''0'', CHR ''0'',
            hex_digit (of_char c div 16), hex_digit (of_char c mod 16)]
      else [c])"

definition json_quote :: "string \<Rightarrow> string" where
  "json_quote s = CHR 0x22 # concat (map json_escape s) @ [CHR 0x22]"

text \<open>The brackets around the serialised members or elements, with the
  indentation \<open>JSON.stringify(v, null, gap)\<close> prints when the gap is not empty.\<close>

definition json_wrap :: "string \<Rightarrow> string \<Rightarrow> char \<Rightarrow> char \<Rightarrow> string list \<Rightarrow> string" where
  "json_wrap gap ind op cl items =
     (if items = [] then [op, cl]
      else if gap = [] then op # join '','' items @ [cl]
      else op # CHR 0x0A # ind @ gap @ join (CHR '','' # CHR 0x0A # ind @ gap) items
           @ CHR 0x0A # ind @ [cl])"

text \<open>SerializeJSONProperty: \<open>None\<close> is the \<open>undefined\<close> that
  \<open>JSON.stringify\<close> returns for \<open>undefined\<close>; such members are left out of
  objects and printed as \<open>null\<close> in arrays.\<close>

fun json_ser :: "string \<Rightarrow> string \<Rightarrow> jsval \<Rightarrow> string option" where
  "json_ser gap ind JUndef = None"
| "json_ser gap ind JNull = Some ''null''"
| "json_ser gap ind (JBool b) = Some (if b then ''true'' else ''false'')"
| "json_ser gap ind (JNum n) = Some (int_to_str n)"
| "json_ser gap ind (JStr s) = Some (json_quote s)"
| "json_ser gap ind (JArr xs) =
     Some (json_wrap gap ind CHR ''['' CHR '']''
       (map (\<lambda>x. case json_ser gap (ind @ gap) x of None \<Rightarrow> ''null'' | Some t \<Rightarrow> t) xs))"
| "json_ser gap ind (JObj kvs) =
     Some (json_wrap gap ind CHR ''{'' CHR ''}''
       (concat (map (\<lambda>kv. case json_ser gap (ind @ gap) (snd kv) of
            None \<Rightarrow> []
          | Some t \<Rightarrow> [json_quote (fst kv) @ CHR '':'' # (if gap = [] then [] else '' '') @ t]) kvs)))"

definition json_stringify :: "jsval \<Rightarrow> string option" where
  "json_stringify v = json_ser [] [] v"

definition json_stringify_indent :: "nat \<Rightarrow> jsval \<Rightarrow> string option" where
  "json_stringify_indent n v = json_ser (replicate n (CHR '' '')) [] v"

subsection \<open>Tool results\<close>

text \<open>The content block \<open>{ type: "text", text }\<close> every tool returns.\<close>

definition text_block :: "string \<Rightarrow> jsval" where
  "text_block s = JObj [(''type'', JStr ''text''), (''text'', JStr s)]"

text \<open>How a protocol client reads a tool result: the result schema has an
  optional boolean \<open>isError\<close>, false when absent; other fields pass through
  unread.\<close>

definition client_is_error :: "jsval \<Rightarrow> bool" where
  "client_is_error r = (get_prop r ''isError'' = Inr (JBool True))"

text \<open>The value of \<open>JSON.stringify\<close> as a JavaScript value: a string, or
  \<open>undefined\<close>.\<close>

definition json_result :: "string option \<Rightarrow> jsval" where
  "json_result r = (case r of None \<Rightarrow> JUndef | Some t \<Rightarrow> JStr t)"

text \<open>\<open>v?.map(f)\<close>: \<open>undefined\<close> for \<open>undefined\<close> and \<open>null\<close>, the mapped
  array for an array, and a \<open>TypeError\<close> for any other value, which has no
  \<open>map\<close> method.\<close>

definition opt_map :: "string \<Rightarrow> (jsval \<Rightarrow> js_exn + jsval) \<Rightarrow> jsval \<Rightarrow> js_exn + jsval" where
  "opt_map what f v =
     (case v of
        JUndef \<Rightarrow> Inr JUndef
      | JNull \<Rightarrow> Inr JUndef
      | JArr xs \<Rightarrow> sbind (smap f xs) (\<lambda>ys. Inr (JArr ys))
      | _ \<Rightarrow> Inl (TypeError (what @ '' is not a function'')))"

subsection \<open>Lemmas\<close>

lemma get_prop_total: "\<not> nullish v \<Longrightarrow> get_prop v k = Inr (prop_val v k)"
  by (cases v) (simp_all add: nullish_def prop_val_def)

lemma get_prop_nullish: "nullish v \<Longrightarrow> \<exists>e. get_prop v k = Inl e"
  by (auto simp: nullish_def)

end
