(* ===== verification/Effects.thy ===== *)
theory Effects
  imports JsValue
begin

text \<open>
  The effects of a tool handler, made explicit. A handler is an \<open>'a io\<close>: given
  the world (what the upstream servers answer, the values \<open>Math.random()\<close>
  draws, the clock) and the running state (the requests sent so far, the number
  of random draws made) it returns a value or a thrown exception, and the new
  state. \<open>await\<close> is \<open>io_bind\<close>: a rejected promise propagates as \<open>Inl\<close>
  and skips the rest of the handler, as an exception does.

  An upstream call is \<open>io_request\<close>: it appends the request to the trace and
  returns what the world answers: the parsed body (\<open>res.data\<close> of axios, the
  value of \<open>response.json()\<close> of fetch) or the error the client library throws
  (network failure, a non-2xx status for axios, a body that is not JSON).

  \<open>Math.random()\<close> returns a double \<open>k / 2^53\<close> with \<open>k < 2^53\<close>; the world
  gives \<open>k\<close> for each draw. \<open>Math.floor(Math.random() * n)\<close> is
  \<open>random_index n k\<close>: the product is rounded to 53 significant bits (round to
  nearest, ties to even) before the floor, as the double multiplication does.
\<close>

record http_req =
  req_method :: string
  req_url :: string
  req_params :: "(string \<times> jsval) list"
  req_headers :: "(string \<times> string) list"
  req_body :: "jsval option"

text \<open>The local calendar fields of \<open>new Date()\<close>: \<open>getFullYear()\<close>,
  \<open>getMonth()\<close> (from 0), \<open>getDate()\<close>, \<open>getHours()\<close>, \<open>getMinutes()\<close>,
  \<open>getSeconds()\<close>.\<close>

record date_fields =
  d_year :: int
  d_month :: nat
  d_day :: nat
  d_hours :: nat
  d_minutes :: nat
  d_seconds :: nat

record world =
  respond :: "http_req \<Rightarrow> js_exn + jsval"
  rand :: "nat \<Rightarrow> nat"
  now_ms :: int
  local_now :: date_fields

text \<open>\<open>stdout\<close> collects the lines \<open>console.log\<close> writes; in a server on the
  stdio transport that stream carries the protocol messages.\<close>

record io_st =
  sent :: "http_req list"
  draws :: nat
  stdout :: "string list"

type_synonym 'a io = "world \<Rightarrow> io_st \<Rightarrow> (js_exn + 'a) \<times> io_st"

definition io_return :: "'a \<Rightarrow> 'a io" where
  "io_return x = (\<lambda>w s. (Inr x, s))"

definition io_lift :: "js_exn + 'a \<Rightarrow> 'a io" where
  "io_lift r = (\<lambda>w s. (r, s))"

definition io_bind :: "'a io \<Rightarrow> ('a \<Rightarrow> 'b io) \<Rightarrow> 'b io" where
  "io_bind m f =
     (\<lambda>w s. case m w s of (Inl e, s') \<Rightarrow> (Inl e, s') | (Inr x, s') \<Rightarrow> f x w s')"

definition io_request :: "http_req \<Rightarrow> jsval io" where
  "io_request r = (\<lambda>w s. (respond w r, s\<lparr>sent := sent s @ [r]\<rparr>))"

definition io_random :: "nat io" where
  "io_random = (\<lambda>w s. (Inr (rand w (draws s) mod 2 ^ 53), s\<lparr>draws := Suc (draws s)\<rparr>))"

definition io_now :: "int io" where
  "io_now = (\<lambda>w s. (Inr (now_ms w), s))"

definition io_local_now :: "date_fields io" where
  "io_local_now = (\<lambda>w s. (Inr (local_now w), s))"

definition io_log :: "string \<Rightarrow> unit io" where
  "io_log l = (\<lambda>w s. (Inr (), s\<lparr>stdout := stdout s @ [l]\<rparr>))"

text \<open>\<open>v.k\<close> inside a handler: a read on \<open>undefined\<close> or \<open>null\<close> throws.\<close>

definition io_get :: "jsval \<Rightarrow> string \<Rightarrow> jsval io" where
  "io_get v k = io_lift (get_prop v k)"

lemma io_bind_get [io_simps]:
  "get_prop v k = Inr x \<Longrightarrow> io_bind (io_get v k) f = f x"
  by (simp add: io_get_def io_bind_def io_lift_def)

lemma io_bind_get_Inl [io_simps]:
  "get_prop v k = Inl e \<Longrightarrow> io_bind (io_get v k) f = io_lift (Inl e)"
  by (simp add: io_get_def io_bind_def io_lift_def)

lemma io_bind_get_total [io_simps]:
  "\<not> nullish v \<Longrightarrow> io_bind (io_get v k) f = f (prop_val v k)"
  by (simp add: io_bind_get get_prop_total)

text \<open>\<open>try { await m } catch (e) { h(e) }\<close>.\<close>

definition io_catch :: "'a io \<Rightarrow> (js_exn \<Rightarrow> 'a io) \<Rightarrow> 'a io" where
  "io_catch m h = (\<lambda>w s. case m w s of (Inl e, s') \<Rightarrow> h e w s' | (Inr x, s') \<Rightarrow> (Inr x, s'))"

lemma io_get_apply: "io_get v k w s = (get_prop v k, s)"
  by (simp add: io_get_def io_lift_def)

definition io_init :: io_st where
  "io_init = \<lparr>sent = [], draws = 0, stdout = []\<rparr>"

definition run_io :: "'a io \<Rightarrow> world \<Rightarrow> (js_exn + 'a) \<times> io_st" where
  "run_io m w = m w io_init"

text \<open>A world with no network: every request fails, every draw is 0, and the
  clock reads the epoch. The examples of the other theories run in it.\<close>

definition offline_world :: world where
  "offline_world =
     \<lparr>respond = (\<lambda>r. Inl (Error ''getaddrinfo ENOTFOUND'')), rand = (\<lambda>n. 0), now_ms = 0,
      local_now = \<lparr>d_year = 1970, d_month = 0, d_day = 1, d_hours = 0, d_minutes = 0,
                   d_seconds = 0\<rparr>\<rparr>"

text \<open>Every value the computation returns, in any world and from any state,
  satisfies \<open>P\<close> (an exception is not a returned value).\<close>

definition io_ensures :: "'a io \<Rightarrow> ('a \<Rightarrow> bool) \<Rightarrow> bool" where
  "io_ensures m P = (\<forall>w s r s'. m w s = (Inr r, s') \<longrightarrow> P r)"

abbreviation io_result :: "'a io \<Rightarrow> world \<Rightarrow> js_exn + 'a" where
  "io_result m w \<equiv> fst (run_io m w)"

abbreviation io_sent :: "'a io \<Rightarrow> world \<Rightarrow> http_req list" where
  "io_sent m w \<equiv> sent (snd (run_io m w))"

lemma io_ensures_return: "P x \<Longrightarrow> io_ensures (io_return x) P"
  by (simp add: io_ensures_def io_return_def)

lemma io_ensures_bind: "(\<And>x. io_ensures (f x) P) \<Longrightarrow> io_ensures (io_bind m f) P"
  by (auto simp: io_ensures_def io_bind_def split: prod.splits sum.splits)

lemma io_ensures_lift_Inl: "io_ensures (io_lift (Inl e)) P"
  by (simp add: io_ensures_def io_lift_def)

lemma io_ensures_if: "io_ensures a P \<Longrightarrow> io_ensures b P \<Longrightarrow> io_ensures (if c then a else b) P"
  by simp

lemmas io_ensures_rules = io_ensures_return io_ensures_bind io_ensures_lift_Inl io_ensures_if

lemma io_bind_return [simp, io_simps]: "io_bind (io_return x) f = f x"
  by (simp add: io_bind_def io_return_def)

lemma io_bind_lift_Inl [simp, io_simps]: "io_bind (io_lift (Inl e)) f = io_lift (Inl e)"
  by (simp add: io_bind_def io_lift_def)

lemma io_bind_lift_Inr [simp, io_simps]: "io_bind (io_lift (Inr x)) f = f x"
  by (simp add: io_bind_def io_lift_def)

lemma io_lift_Inr [simp, io_simps]: "io_lift (Inr x) = io_return x"
  by (simp add: io_lift_def io_return_def)

lemma io_bind_assoc [io_simps]: "io_bind (io_bind m f) g = io_bind m (\<lambda>x. io_bind (f x) g)"
  by (auto simp: io_bind_def fun_eq_iff split: prod.splits sum.splits)

lemma io_bind_request [io_simps]:
  "io_bind (io_request r) f w s =
     (case respond w r of
        Inl e \<Rightarrow> (Inl e, s\<lparr>sent := sent s @ [r]\<rparr>)
      | Inr x \<Rightarrow> f x w (s\<lparr>sent := sent s @ [r]\<rparr>))"
  by (simp add: io_bind_def io_request_def split: sum.splits)

lemma io_bind_random [io_simps]:
  "io_bind io_random f w s = f (rand w (draws s) mod 2 ^ 53) w (s\<lparr>draws := Suc (draws s)\<rparr>)"
  by (simp add: io_bind_def io_random_def)

lemma io_bind_now [io_simps]: "io_bind io_now f w s = f (now_ms w) w s"
  by (simp add: io_bind_def io_now_def)

lemma io_bind_local_now [io_simps]: "io_bind io_local_now f w s = f (local_now w) w s"
  by (simp add: io_bind_def io_local_now_def)

lemma io_bind_log [io_simps]:
  "io_bind (io_log l) f w s = f () w (s\<lparr>stdout := stdout s @ [l]\<rparr>)"
  by (simp add: io_bind_def io_log_def)

text \<open>A handler ends in \<open>io_return\<close> or \<open>io_lift\<close> applied to the world and
  the state; these rules read off the result and the final state.\<close>

lemma fst_io_return [io_simps]: "fst (io_return x w s) = Inr x"
  and snd_io_return [io_simps]: "snd (io_return x w s) = s"
  by (simp_all add: io_return_def)

lemma fst_io_lift [io_simps]: "fst (io_lift r w s) = r"
  and snd_io_lift [io_simps]: "snd (io_lift r w s) = s"
  by (simp_all add: io_lift_def)

subsection \<open>Random choice\<close>

fun bit_length :: "nat \<Rightarrow> nat" where
  "bit_length n = (if n = 0 then 0 else Suc (bit_length (n div 2)))"

declare bit_length.simps [simp del]

text \<open>\<open>x\<close> rounded to 53 significant bits, ties to even.\<close>

definition round53 :: "nat \<Rightarrow> nat" where
  "round53 x =
     (let s = bit_length x - 53; u = 2 ^ s; q = x div u; r = x mod u
      in if 2 * r > u \<or> (2 * r = u \<and> odd q) then (q + 1) * u else q * u)"

definition random_index :: "nat \<Rightarrow> nat \<Rightarrow> nat" where
  "random_index n k = round53 (k * n) div 2 ^ 53"

definition io_random_index :: "nat \<Rightarrow> nat io" where
  "io_random_index n = io_bind io_random (\<lambda>k. io_return (random_index n k))"

lemma bit_length_less: "n < 2 ^ bit_length n"
proof (induction n rule: bit_length.induct)
  case (1 n)
  then show ?case by (subst bit_length.simps) auto
qed

lemma bit_length_le: "n < 2 ^ k \<Longrightarrow> bit_length n \<le> k"
proof (induction n arbitrary: k rule: bit_length.induct)
  case (1 n)
  show ?case
  proof (cases "n = 0")
    case True
    then show ?thesis by (simp add: bit_length.simps)
  next
    case False
    then obtain k' where k: "k = Suc k'"
      using "1.prems" by (cases k) auto
    with "1.prems" have "n div 2 < 2 ^ k'" by simp
    with False "1.IH" k show ?thesis by (subst bit_length.simps) simp
  qed
qed

text \<open>
  Rounding to a multiple of \<open>u\<close> stays below a multiple \<open>M\<close> of \<open>u\<close> whenever
  the value is more than half a unit below \<open>M\<close>.
\<close>

lemma round_unit_below:
  fixes x u m :: nat
  assumes "0 < u" and "2 * x + u < 2 * (m * u)"
  shows "(if 2 * (x mod u) > u \<or> (2 * (x mod u) = u \<and> odd (x div u))
          then (x div u + 1) * u else x div u * u) < m * u"
proof -
  define q r where "q = x div u" and "r = x mod u"
  have x: "x = q * u + r" and r: "r < u"
    using assms(1) by (simp_all add: q_def r_def)
  have "q < m"
  proof (rule ccontr)
    assume "\<not> q < m"
    then have "m * u \<le> q * u" by simp
    then show False using x assms(2) by linarith
  qed
  show ?thesis
  proof (cases "q + 1 < m")
    case True
    then have "(q + 1) * u < m * u" using assms(1) by (metis mult_less_cancel2)
    moreover have "q * u < m * u" using \<open>q < m\<close> assms(1) by simp
    ultimately show ?thesis by (simp add: q_def [symmetric] r_def [symmetric])
  next
    case False
    with \<open>q < m\<close> have m: "m = q + 1" by simp
    with x assms(2) have "2 * r < u" by (simp add: algebra_simps)
    with m assms(1) show ?thesis by (simp add: q_def [symmetric] r_def [symmetric])
  qed
qed

lemma random_index_less:
  assumes k: "k < 2 ^ 53" and n: "0 < n" "n < 2 ^ 53" and np: "2 ^ bit_length n < 2 * n"
  shows "random_index n k < n"
proof -
  define x where "x = k * n"
  define s where "s = bit_length x - 53"
  define u :: nat where "u = 2 ^ s"
  have xlt: "x < 2 ^ (bit_length n + 53)"
  proof -
    have "x < 2 ^ 53 * n" using k n by (simp add: x_def)
    also have "\<dots> < 2 ^ 53 * 2 ^ bit_length n" using bit_length_less [of n] by simp
    finally show ?thesis by (simp add: power_add mult.commute)
  qed
  then have sb: "s \<le> bit_length n" using bit_length_le [OF xlt] by (simp add: s_def)
  have bn: "bit_length n \<le> 53" using bit_length_le [OF n(2)] .
  have u0: "0 < u" by (simp add: u_def)
  define m where "m = n * 2 ^ (53 - s)"
  have mu: "m * u = n * 2 ^ 53"
    using sb bn by (simp add: m_def u_def power_add [symmetric])
  have "u \<le> 2 ^ bit_length n" using sb by (simp add: u_def)
  then have u2n: "u < 2 * n" using np by simp
  have "x + n \<le> n * 2 ^ 53" using k by (simp add: x_def)
  then have "2 * x + u < 2 * (m * u)" using u2n mu by linarith
  note below = round_unit_below [OF u0 this]
  have r: "round53 x = (if 2 * (x mod u) > u \<or> (2 * (x mod u) = u \<and> odd (x div u))
          then (x div u + 1) * u else x div u * u)"
    by (simp only: round53_def Let_def u_def s_def)
  have "round53 x < m * u"
    unfolding r by (rule below)
  then show ?thesis
    using mu by (simp add: random_index_def x_def [symmetric] less_mult_imp_div_less)
qed

end
