(* ===== verification/Train.thy ===== *)
theory Train
  imports Effects
begin

text \<open>
  The train-ticket adapter, \<open>src/dist/12306_tool.js\<close> (the compiled form of
  \<open>12306_tool.ts\<close>, whose source is not in the repository). The tool
  \<open>query_train_tickets_list\<close> runs \<open>handleGetHuochepiaoList\<close>: it checks its
  three arguments, resolves the two station names to codes with a first POST
  request, searches trains with a second one, and reshapes the answer with
  \<open>convertFieldNames\<close>, translating seat-class codes with \<open>convertSeatName\<close>.
  Results are built by \<open>buildSuccessResponse\<close> and \<open>buildErrorResponse\<close>.
  The tool \<open>get_current_system_time\<close> runs \<open>handleGetSystemTime\<close>, which
  formats the local time as \<open>yyyy-MM-dd hh:mm:ss\<close>.

  Labels and messages are the UTF-8 bytes of the Chinese text of the source; each
  definition's name says what the label means.
\<close>

subsection \<open>Constants\<close>

definition TONGCHENG_CODE_URL :: string where
  "TONGCHENG_CODE_URL = ''https://www.ly.com/trainbffapi/getCodeByStationName''"

definition TONGCHENG_TRAIN_URL :: string where
  "TONGCHENG_TRAIN_URL = ''https://www.ly.com/trainsearchbffapi/trainSearch''"

definition USER_AGENTS :: "string list" where
  "USER_AGENTS = [
     ''Mozilla/5.0 (Windows NT 10.0; Win64; x64) AppleWebKit/537.36 (KHTML, like Gecko) Chrome/124.0.0.0 Safari/537.36'',
     ''Mozilla/5.0 (Macintosh; Intel Mac OS X 10_15_7) AppleWebKit/537.36 (KHTML, like Gecko) Chrome/124.0.0.0 Safari/537.36'',
     ''Mozilla/5.0 (Windows NT 10.0; Win64; x64; rv:125.0) Gecko/20100101 Firefox/125.0'',
     ''Mozilla/5.0 (Macintosh; Intel Mac OS X 10.15; rv:125.0) Gecko/20100101 Firefox/125.0'',
     ''Mozilla/5.0 (Macintosh; Intel Mac OS X 10_15_7) AppleWebKit/605.1.15 (KHTML, like Gecko) Version/17.4 Safari/605.1.15'',
     ''Mozilla/5.0 (Windows NT 10.0; Win64; x64) AppleWebKit/537.36 (KHTML, like Gecko) Chrome/124.0.0.0 Safari/537.36 Edg/124.0.2478.67'',
     ''Mozilla/5.0 (iPhone; CPU iPhone OS 17_4 like Mac OS X) AppleWebKit/605.1.15 (KHTML, like Gecko) Version/17.4 Mobile/15E148 Safari/604.1'',
     ''Mozilla/5.0 (Linux; Android 13; SM-G998B) AppleWebKit/537.36 (KHTML, like Gecko) Chrome/124.0.0.0 Mobile Safari/537.36'',
     ''Mozilla/5.0 (Windows NT 10.0; Win64; x64) AppleWebKit/537.36 (KHTML, like Gecko) Chrome/124.0.0.0 Safari/537.36 OPR/85.0.4341.18'',
     ''Mozilla/5.0 (X11; Linux x86_64) AppleWebKit/537.36 (KHTML, like Gecko) Chrome/124.0.0.0 Safari/537.36 Vivaldi/6.2.3105.47'']"

text \<open>Seat labels: shangwuzuo (business), yidengzuo (first class), erdengzuo
  (second class), ruanwo (soft sleeper), yingwo (hard sleeper), yingzuo (hard
  seat), wuzuo (standing).\<close>

definition seat_business :: string where
  "seat_business = [CHR 0xE5, CHR 0x95, CHR 0x86, CHR 0xE5, CHR 0x8A, CHR 0xA1, CHR 0xE5, CHR 0xBA, CHR 0xA7]"

definition seat_first :: string where
  "seat_first = [CHR 0xE4, CHR 0xB8, CHR 0x80, CHR 0xE7, CHR 0xAD, CHR 0x89, CHR 0xE5, CHR 0xBA, CHR 0xA7]"

definition seat_second :: string where
  "seat_second = [CHR 0xE4, CHR 0xBA, CHR 0x8C, CHR 0xE7, CHR 0xAD, CHR 0x89, CHR 0xE5, CHR 0xBA, CHR 0xA7]"

definition seat_soft_sleeper :: string where
  "seat_soft_sleeper = [CHR 0xE8, CHR 0xBD, CHR 0xAF, CHR 0xE5, CHR 0x8D, CHR 0xA7]"

definition seat_hard_sleeper :: string where
  "seat_hard_sleeper = [CHR 0xE7, CHR 0xA1, CHR 0xAC, CHR 0xE5, CHR 0x8D, CHR 0xA7]"

definition seat_hard_seat :: string where
  "seat_hard_seat = [CHR 0xE7, CHR 0xA1, CHR 0xAC, CHR 0xE5, CHR 0xBA, CHR 0xA7]"

definition seat_standing :: string where
  "seat_standing = [CHR 0xE6, CHR 0x97, CHR 0xA0, CHR 0xE5, CHR 0xBA, CHR 0xA7]"

text \<open>Keys of the reshaped result (user's departure / arrival query, train list,
  arrives the same day, yes / no, departure station is a stop on the way, is the
  origin, train number, departure and arrival station, date and time, running
  time, seats, seat type, price, tickets left).\<close>

definition k_user_dep :: string where
  "k_user_dep = [CHR 0xE7, CHR 0x94, CHR 0xA8, CHR 0xE6, CHR 0x88, CHR 0xB7, CHR 0xE6, CHR 0x9F, CHR 0xA5, CHR 0xE8, CHR 0xAF, CHR 0xA2, CHR 0xE5, CHR 0x87, CHR 0xBA, CHR 0xE5, CHR 0x8F, CHR 0x91, CHR 0xE7, CHR 0xAB, CHR 0x99]"

definition k_user_arr :: string where
  "k_user_arr = [CHR 0xE7, CHR 0x94, CHR 0xA8, CHR 0xE6, CHR 0x88, CHR 0xB7, CHR 0xE6, CHR 0x9F, CHR 0xA5, CHR 0xE8, CHR 0xAF, CHR 0xA2, CHR 0xE5, CHR 0x88, CHR 0xB0, CHR 0xE8, CHR 0xBE, CHR 0xBE, CHR 0xE7, CHR 0xAB, CHR 0x99]"

definition k_train_list :: string where
  "k_train_list = [CHR 0xE8, CHR 0xBD, CHR 0xA6, CHR 0xE6, CHR 0xAC, CHR 0xA1, CHR 0xE5, CHR 0x88, CHR 0x97, CHR 0xE8, CHR 0xA1, CHR 0xA8]"

definition k_same_day :: string where
  "k_same_day = [CHR 0xE6, CHR 0x98, CHR 0xAF, CHR 0xE5, CHR 0x90, CHR 0xA6, CHR 0xE5, CHR 0xBD, CHR 0x93, CHR 0xE6, CHR 0x97, CHR 0xA5, CHR 0xE5, CHR 0x88, CHR 0xB0, CHR 0xE8, CHR 0xBE, CHR 0xBE]"

definition v_no :: string where
  "v_no = [CHR 0xE5, CHR 0x90, CHR 0xA6]"

definition v_yes :: string where
  "v_yes = [CHR 0xE6, CHR 0x98, CHR 0xAF]"

definition k_is_via :: string where
  "k_is_via = [CHR 0xE5, CHR 0x87, CHR 0xBA, CHR 0xE5, CHR 0x8F, CHR 0x91, CHR 0xE7, CHR 0x81, CHR 0xAB, CHR 0xE8, CHR 0xBD, CHR 0xA6, CHR 0xE7, CHR 0xAB, CHR 0x99, CHR 0xE6, CHR 0x98, CHR 0xAF, CHR 0xE5, CHR 0x90, CHR 0xA6, CHR 0xE6, CHR 0x98, CHR 0xAF, CHR 0xE7, CHR 0xBB, CHR 0x8F, CHR 0xE5, CHR 0x81, CHR 0x9C, CHR 0xE7, CHR 0xAB, CHR 0x99]"

definition v_not_via :: string where
  "v_not_via = [CHR 0xE4, CHR 0xB8, CHR 0x8D, CHR 0xE6, CHR 0x98, CHR 0xAF, CHR 0xE7, CHR 0xBB, CHR 0x8F, CHR 0xE5, CHR 0x81, CHR 0x9C, CHR 0xE7, CHR 0xAB, CHR 0x99]"

definition v_via :: string where
  "v_via = [CHR 0xE6, CHR 0x98, CHR 0xAF, CHR 0xE7, CHR 0xBB, CHR 0x8F, CHR 0xE5, CHR 0x81, CHR 0x9C, CHR 0xE7, CHR 0xAB, CHR 0x99]"

definition k_is_origin :: string where
  "k_is_origin = [CHR 0xE5, CHR 0x87, CHR 0xBA, CHR 0xE5, CHR 0x8F, CHR 0x91, CHR 0xE7, CHR 0x81, CHR 0xAB, CHR 0xE8, CHR 0xBD, CHR 0xA6, CHR 0xE7, CHR 0xAB, CHR 0x99, CHR 0xE6, CHR 0x98, CHR 0xAF, CHR 0xE5, CHR 0x90, CHR 0xA6, CHR 0xE6, CHR 0x98, CHR 0xAF, CHR 0xE5, CHR 0xA7, CHR 0x8B, CHR 0xE5, CHR 0x8F, CHR 0x91, CHR 0xE7, CHR 0xAB, CHR 0x99]"

definition v_origin :: string where
  "v_origin = [CHR 0xE6, CHR 0x98, CHR 0xAF, CHR 0xE5, CHR 0xA7, CHR 0x8B, CHR 0xE5, CHR 0x8F, CHR 0x91, CHR 0xE7, CHR 0xAB, CHR 0x99]"

definition v_not_origin :: string where
  "v_not_origin = [CHR 0xE4, CHR 0xB8, CHR 0x8D, CHR 0xE6, CHR 0x98, CHR 0xAF, CHR 0xE5, CHR 0xA7, CHR 0x8B, CHR 0xE5, CHR 0x8F, CHR 0x91, CHR 0xE7, CHR 0xAB, CHR 0x99]"

definition k_train_code :: string where
  "k_train_code = [CHR 0xE8, CHR 0xBD, CHR 0xA6, CHR 0xE6, CHR 0xAC, CHR 0xA1, CHR 0xE5, CHR 0x8F, CHR 0xB7]"

definition k_dep_station :: string where
  "k_dep_station = [CHR 0xE5, CHR 0x87, CHR 0xBA, CHR 0xE5, CHR 0x8F, CHR 0x91, CHR 0xE8, CHR 0xBD, CHR 0xA6, CHR 0xE7, CHR 0xAB, CHR 0x99, CHR 0xE5, CHR 0x90, CHR 0x8D, CHR 0xE7, CHR 0xA7, CHR 0xB0]"

definition k_dep_date :: string where
  "k_dep_date = [CHR 0xE5, CHR 0x87, CHR 0xBA, CHR 0xE5, CHR 0x8F, CHR 0x91, CHR 0xE6, CHR 0x97, CHR 0xA5, CHR 0xE6, CHR 0x9C, CHR 0x9F]"

definition k_dep_time :: string where
  "k_dep_time = [CHR 0xE5, CHR 0x87, CHR 0xBA, CHR 0xE5, CHR 0x8F, CHR 0x91, CHR 0xE6, CHR 0x97, CHR 0xB6, CHR 0xE9, CHR 0x97, CHR 0xB4]"

definition k_arr_station :: string where
  "k_arr_station = [CHR 0xE5, CHR 0x88, CHR 0xB0, CHR 0xE8, CHR 0xBE, CHR 0xBE, CHR 0xE8, CHR 0xBD, CHR 0xA6, CHR 0xE7, CHR 0xAB, CHR 0x99, CHR 0xE5, CHR 0x90, CHR 0x8D, CHR 0xE7, CHR 0xA7, CHR 0xB0]"

definition k_arr_date :: string where
  "k_arr_date = [CHR 0xE5, CHR 0x88, CHR 0xB0, CHR 0xE8, CHR 0xBE, CHR 0xBE, CHR 0xE6, CHR 0x97, CHR 0xA5, CHR 0xE6, CHR 0x9C, CHR 0x9F]"

definition k_arr_time :: string where
  "k_arr_time = [CHR 0xE5, CHR 0x88, CHR 0xB0, CHR 0xE8, CHR 0xBE, CHR 0xBE, CHR 0xE6, CHR 0x97, CHR 0xB6, CHR 0xE9, CHR 0x97, CHR 0xB4]"

definition k_run_time :: string where
  "k_run_time = [CHR 0xE5, CHR 0x8E, CHR 0x86, CHR 0xE6, CHR 0x97, CHR 0xB6, CHR 0xE5, CHR 0xB0, CHR 0x8F, CHR 0xE6, CHR 0x97, CHR 0xB6, CHR 0xE5, CHR 0x88, CHR 0x86, CHR 0xE9, CHR 0x92, CHR 0x9F]"

definition k_seats :: string where
  "k_seats = [CHR 0xE5, CHR 0xBA, CHR 0xA7, CHR 0xE4, CHR 0xBD, CHR 0x8D, CHR 0xE7, CHR 0xB1, CHR 0xBB, CHR 0xE5, CHR 0x9E, CHR 0x8B]"

definition k_seat_type :: string where
  "k_seat_type = [CHR 0xE7, CHR 0xB1, CHR 0xBB, CHR 0xE5, CHR 0x9E, CHR 0x8B]"

definition k_seat_price :: string where
  "k_seat_price = [CHR 0xE4, CHR 0xBB, CHR 0xB7, CHR 0xE6, CHR 0xA0, CHR 0xBC]"

definition k_seat_left :: string where
  "k_seat_left = [CHR 0xE4, CHR 0xBD, CHR 0x99, CHR 0xE7, CHR 0xA5, CHR 0xA8]"

text \<open>Messages: arguments incomplete, station-code lookup failed, train-list
  lookup failed (followed by the upstream message), no data.\<close>

definition msg_incomplete :: string where
  "msg_incomplete = [CHR 0xE5, CHR 0x8F, CHR 0x82, CHR 0xE6, CHR 0x95, CHR 0xB0, CHR 0xE4, CHR 0xB8, CHR 0x8D, CHR 0xE5, CHR 0xAE, CHR 0x8C, CHR 0xE6, CHR 0x95, CHR 0xB4, CHR 0xEF, CHR 0xBC, CHR 0x8C, CHR 0xE8, CHR 0xAF, CHR 0xB7, CHR 0xE7, CHR 0xA1, CHR 0xAE, CHR 0xE4, CHR 0xBF, CHR 0x9D, CHR 0xE6, CHR 0x8F, CHR 0x90, CHR 0xE4, CHR 0xBE, CHR 0x9B, CHR 0xE4, CHR 0xBA, CHR 0x86] @ ''depStationName'' @ [CHR 0xE3, CHR 0x80, CHR 0x81] @ ''arrStationName'' @ [CHR 0xE3, CHR 0x80, CHR 0x81] @ ''depDate''"

definition msg_code_fail :: string where
  "msg_code_fail = [CHR 0xE8, CHR 0x8E, CHR 0xB7, CHR 0xE5, CHR 0x8F, CHR 0x96, CHR 0xE7, CHR 0x81, CHR 0xAB, CHR 0xE8, CHR 0xBD, CHR 0xA6, CHR 0xE7, CHR 0xA5, CHR 0xA8, CHR 0xE5, CHR 0x9F, CHR 0x8E, CHR 0xE5, CHR 0xB8, CHR 0x82, CHR 0xE7, CHR 0xBC, CHR 0x96, CHR 0xE7, CHR 0xA0, CHR 0x81, CHR 0xE6, CHR 0x95, CHR 0xB0, CHR 0xE6, CHR 0x8D, CHR 0xAE, CHR 0xE5, CHR 0xA4, CHR 0xB1, CHR 0xE8, CHR 0xB4, CHR 0xA5]"

definition msg_list_fail :: string where
  "msg_list_fail = [CHR 0xE8, CHR 0x8E, CHR 0xB7, CHR 0xE5, CHR 0x8F, CHR 0x96, CHR 0xE7, CHR 0x81, CHR 0xAB, CHR 0xE8, CHR 0xBD, CHR 0xA6, CHR 0xE7, CHR 0xA5, CHR 0xA8, CHR 0xE5, CHR 0x88, CHR 0x97, CHR 0xE8, CHR 0xA1, CHR 0xA8, CHR 0xE6, CHR 0x95, CHR 0xB0, CHR 0xE6, CHR 0x8D, CHR 0xAE, CHR 0xE5, CHR 0xA4, CHR 0xB1, CHR 0xE8, CHR 0xB4, CHR 0xA5] @ '':''"

definition msg_empty :: string where
  "msg_empty = [CHR 0xE6, CHR 0x95, CHR 0xB0, CHR 0xE6, CHR 0x8D, CHR 0xAE, CHR 0xE4, CHR 0xB8, CHR 0xBA, CHR 0xE7, CHR 0xA9, CHR 0xBA]"

subsection \<open>Responses\<close>

text \<open>Both builders set a field named \<open>error\<close>; the protocol's result flag is
  \<open>isError\<close>.\<close>

definition buildSuccessResponse :: "jsval \<Rightarrow> jsval" where
  "buildSuccessResponse text =
     JObj [(''content'', JArr [JObj [(''type'', JStr ''text''), (''text'', text)]]),
           (''error'', JBool False)]"

definition buildErrorResponse :: "jsval \<Rightarrow> jsval" where
  "buildErrorResponse text =
     JObj [(''content'', JArr [JObj [(''type'', JStr ''text''), (''text'', text)]]),
           (''error'', JBool True)]"

subsection \<open>Seat names and field conversion\<close>

definition convertSeatName :: "jsval \<Rightarrow> string" where
  "convertSeatName seatClassCode =
     (if strict_eq seatClassCode (JStr ''9'') then seat_business
      else if strict_eq seatClassCode (JStr ''M'') then seat_first
      else if strict_eq seatClassCode (JStr ''O'') then seat_second
      else if strict_eq seatClassCode (JStr ''4'') then seat_soft_sleeper
      else if strict_eq seatClassCode (JStr ''3'') then seat_hard_sleeper
      else if strict_eq seatClassCode (JStr ''1'') then seat_hard_seat
      else if strict_eq seatClassCode (JStr ''W'') then seat_standing
      else [])"

text \<open>The callback of \<open>item.trainAvs?.map(seat => ...)\<close>.\<close>

definition convertSeat :: "jsval \<Rightarrow> js_exn + jsval" where
  "convertSeat seat =
     sbind (get_prop seat ''seatClassCode'') (\<lambda>code.
     sbind (get_prop seat ''price'') (\<lambda>price.
     sbind (get_prop seat ''num'') (\<lambda>num.
       Inr (JObj [(k_seat_type, JStr (convertSeatName code)),
                  (k_seat_price, price), (k_seat_left, num)]))))"

text \<open>The callback of \<open>resultData.trains?.map(item => ...)\<close>. The source reads
  \<open>depStationCode\<close> and \<open>startStationCode\<close> twice; a read of a plain object
  has no effect, so each is read once here.\<close>

definition convertTrain :: "jsval \<Rightarrow> js_exn + jsval" where
  "convertTrain item =
     sbind (get_prop item ''arrivalDays'') (\<lambda>arrivalDays.
     sbind (get_prop item ''depStationCode'') (\<lambda>depCode.
     sbind (get_prop item ''startStationCode'') (\<lambda>startCode.
     sbind (get_prop item ''trainCode'') (\<lambda>trainCode.
     sbind (get_prop item ''depStationName'') (\<lambda>depName.
     sbind (get_prop item ''depDate'') (\<lambda>depDate.
     sbind (get_prop item ''depTime'') (\<lambda>depTime.
     sbind (get_prop item ''arrStationName'') (\<lambda>arrName.
     sbind (get_prop item ''arrDate'') (\<lambda>arrDate.
     sbind (get_prop item ''arrTime'') (\<lambda>arrTime.
     sbind (get_prop item ''runTime'') (\<lambda>runTime.
     sbind (get_prop item ''trainAvs'') (\<lambda>trainAvs.
     sbind (opt_map ''item.trainAvs?.map'' convertSeat trainAvs) (\<lambda>seats.
       Inr (JObj [
         (k_same_day, JStr (if gt_num arrivalDays 1 then v_no else v_yes)),
         (k_is_via, JStr (if strict_eq depCode startCode then v_not_via else v_via)),
         (k_is_origin, JStr (if strict_eq depCode startCode then v_origin else v_not_origin)),
         (k_train_code, trainCode),
         (k_dep_station, depName),
         (k_dep_date, depDate),
         (k_dep_time, depTime),
         (k_arr_station, arrName),
         (k_arr_date, arrDate),
         (k_arr_time, arrTime),
         (k_run_time, runTime),
         (k_seats, seats)]))))))))))))))"

definition convertFieldNames :: "jsval \<Rightarrow> string \<Rightarrow> string \<Rightarrow> js_exn + jsval" where
  "convertFieldNames resultData depStationName arrStationName =
     (if \<not> truthy resultData then Inr resultData
      else
        sbind (get_prop resultData ''trains'') (\<lambda>trains.
        sbind (opt_map ''resultData.trains?.map'' convertTrain trains) (\<lambda>list.
          Inr (JObj [(k_user_dep, JStr depStationName),
                     (k_user_arr, JStr arrStationName),
                     (k_train_list, js_or list (JArr []))]))))"

subsection \<open>The handler\<close>

text \<open>\<open>USER_AGENTS[Math.floor(Math.random() * USER_AGENTS.length)]\<close>; an index
  past the end would read \<open>undefined\<close>.\<close>

definition getRandomUserAgent :: "jsval io" where
  "getRandomUserAgent =
     io_bind (io_random_index (length USER_AGENTS)) (\<lambda>i.
       io_return (if i < length USER_AGENTS then JStr (USER_AGENTS ! i) else JUndef))"

text \<open>The request headers; \<open>fetch\<close> turns each header value into a string.\<close>

definition train_headers :: "jsval \<Rightarrow> (string \<times> string) list" where
  "train_headers ua =
     [(''Content-Type'', ''application/json''),
      (''Host'', ''www.ly.com''),
      (''Origin'', ''https://www.ly.com''),
      (''Accept-Encoding'', ''gzip, deflate, br, zstd''),
      (''User-Agent'', to_str ua)]"

definition post_json :: "string \<Rightarrow> (string \<times> string) list \<Rightarrow> jsval \<Rightarrow> http_req" where
  "post_json url headers body =
     \<lparr>req_method = ''POST'', req_url = url, req_params = [], req_headers = headers,
      req_body = Some body\<rparr>"

definition code_request :: "(string \<times> string) list \<Rightarrow> string \<Rightarrow> string \<Rightarrow> http_req" where
  "code_request headers dep arr =
     post_json TONGCHENG_CODE_URL headers
       (JObj [(''names'', JArr [JStr dep, JStr arr]), (''pid'', JNum 1)])"

definition search_params :: "jsval \<Rightarrow> jsval \<Rightarrow> string \<Rightarrow> int \<Rightarrow> jsval" where
  "search_params startCode endCode depDate now =
     JObj [(''depStation'', startCode), (''arrStation'', endCode), (''depDate'', JStr depDate),
           (''type'', JStr ''ADULT''), (''traceId'', JStr (int_to_str now)), (''pid'', JNum 1)]"

text \<open>After the train search has answered: the two status checks, the empty
  case and the conversion.\<close>

definition search_result :: "jsval \<Rightarrow> string \<Rightarrow> string \<Rightarrow> jsval io" where
  "search_result data2 depStationName arrStationName =
     io_bind (io_get data2 ''code'') (\<lambda>code2.
     if truthy code2 \<and> \<not> strict_eq code2 (JNum 200) then
       io_bind (io_get data2 ''message'') (\<lambda>m.
         io_return (buildErrorResponse (JStr (msg_list_fail @ to_str m))))
     else
     io_bind (io_get data2 ''success'') (\<lambda>success.
     if \<not> truthy success then
       io_bind (io_get data2 ''errorMessage'') (\<lambda>m.
         io_return (buildErrorResponse (JStr (msg_list_fail @ to_str m))))
     else
     io_bind (io_get data2 ''data'') (\<lambda>resultData.
     io_bind (io_get resultData ''trains'') (\<lambda>trains.
     if \<not> truthy trains then io_return (buildSuccessResponse (JStr msg_empty))
     else
     io_bind (io_get trains ''length'') (\<lambda>len.
     if loose_eq_zero len then io_return (buildSuccessResponse (JStr msg_empty))
     else
     io_bind (io_lift (convertFieldNames resultData depStationName arrStationName)) (\<lambda>finalResult.
       io_return (buildSuccessResponse (json_result (json_stringify_indent 2 finalResult)))))))))"

text \<open>The arguments arrive as strings (the tool's input schema), for which
  \<open>!s\<close> and \<open>s == ""\<close> both mean that \<open>s\<close> is empty.\<close>

definition handleGetHuochepiaoList :: "string \<Rightarrow> string \<Rightarrow> string \<Rightarrow> jsval io" where
  "handleGetHuochepiaoList depStationName arrStationName depDate =
     (if depStationName = [] \<or> arrStationName = [] \<or> depDate = []
      then io_return (buildErrorResponse (JStr msg_incomplete))
      else
      io_bind getRandomUserAgent (\<lambda>ua.
      let headers = train_headers ua in
      io_bind (io_request (code_request headers depStationName arrStationName)) (\<lambda>respBody.
      io_bind (io_get respBody ''code'') (\<lambda>code.
      if \<not> strict_eq code (JNum 200) then io_return (buildErrorResponse (JStr msg_code_fail))
      else
      io_bind (io_get respBody ''data'') (\<lambda>codes.
      io_bind (io_lift (get_idx codes 0)) (\<lambda>startCode.
      io_bind (io_lift (get_idx codes 1)) (\<lambda>endCode.
      io_bind io_now (\<lambda>now.
      let params2 = search_params startCode endCode depDate now in
      io_bind (io_log (case json_stringify params2 of None \<Rightarrow> ''undefined'' | Some t \<Rightarrow> t)) (\<lambda>_.
      io_bind (io_request (post_json TONGCHENG_TRAIN_URL headers params2)) (\<lambda>data2.
        search_result data2 depStationName arrStationName))))))))))"

subsection \<open>System time\<close>

text \<open>\<open>String(n).padStart(2, "0")\<close>.\<close>

definition pad2 :: "string \<Rightarrow> string" where
  "pad2 s = replicate (2 - length s) (CHR ''0'') @ s"

definition format_time :: "date_fields \<Rightarrow> string" where
  "format_time now =
     int_to_str (d_year now) @ ''-'' @ pad2 (nat_digits (d_month now + 1)) @ ''-''
     @ pad2 (nat_digits (d_day now)) @ '' '' @ pad2 (nat_digits (d_hours now)) @ '':''
     @ pad2 (nat_digits (d_minutes now)) @ '':'' @ pad2 (nat_digits (d_seconds now))"

definition handleGetSystemTime :: "jsval io" where
  "handleGetSystemTime =
     io_bind io_local_now (\<lambda>now.
       io_return (JObj [(''content'', JArr [text_block (format_time now)]),
                        (''isError'', JBool False)]))"

subsection \<open>Specification devices and sample data\<close>

text \<open>The seat table of the specification: code and label, in the source's order.\<close>

definition seat_table :: "(string \<times> string) list" where
  "seat_table = [(''9'', seat_business), (''M'', seat_first), (''O'', seat_second),
     (''4'', seat_soft_sleeper), (''3'', seat_hard_sleeper), (''1'', seat_hard_seat),
     (''W'', seat_standing)]"

text \<open>A train record the conversion accepts: a value other than \<open>undefined\<close>
  and \<open>null\<close>, whose \<open>trainAvs\<close> is missing or an array without such values.\<close>

definition train_ok :: "jsval \<Rightarrow> bool" where
  "train_ok it =
     (\<not> nullish it \<and>
      (case prop_val it ''trainAvs'' of JArr ss \<Rightarrow> list_all (\<lambda>s. \<not> nullish s) ss | v \<Rightarrow> nullish v))"

text \<open>Reading \<open>yyyy-MM-dd hh:mm:ss\<close> back into its six numbers.\<close>

definition parse_time :: "string \<Rightarrow> (nat \<times> nat \<times> nat \<times> nat \<times> nat \<times> nat) option" where
  "parse_time t =
     (case t of
        [y1, y2, y3, y4, s1, mo1, mo2, s2, d1, d2, sp, h1, h2, c1, mi1, mi2, c2, se1, se2] \<Rightarrow>
          (if s1 = CHR ''-'' \<and> s2 = CHR ''-'' \<and> sp = CHR '' '' \<and> c1 = CHR '':'' \<and> c2 = CHR '':''
              \<and> (\<forall>c \<in> set [y1, y2, y3, y4, mo1, mo2, d1, d2, h1, h2, mi1, mi2, se1, se2]. is_digit c)
           then Some (digits_val [y1, y2, y3, y4], digits_val [mo1, mo2], digits_val [d1, d2],
                      digits_val [h1, h2], digits_val [mi1, mi2], digits_val [se1, se2])
           else None)
      | _ \<Rightarrow> None)"

text \<open>Sample upstream answers in the shape the source expects (the comment of
  \<open>handleGetHuochepiaoList\<close> shows the station-code answer), for the witnesses:
  the station names beijing and shanghai resolve to BJP and SHH, and one train
  with one second-class seat is found.\<close>

definition demo_dep :: string where
  "demo_dep = [CHR 0xE5, CHR 0x8C, CHR 0x97, CHR 0xE4, CHR 0xBA, CHR 0xAC]"

definition demo_arr :: string where
  "demo_arr = [CHR 0xE4, CHR 0xB8, CHR 0x8A, CHR 0xE6, CHR 0xB5, CHR 0xB7]"

definition demo_codes :: jsval where
  "demo_codes = JObj [(''code'', JNum 200), (''data'', JArr [JStr ''BJP'', JStr ''SHH'']),
                      (''g'', JStr ''1745854839135-18780'')]"

definition demo_seat :: jsval where
  "demo_seat = JObj [(''seatClassCode'', JStr ''O''), (''price'', JNum 553), (''num'', JNum 21)]"

definition demo_train :: jsval where
  "demo_train = JObj [(''trainCode'', JStr ''G1''), (''depStationCode'', JStr ''VNP''),
     (''startStationCode'', JStr ''VNP''), (''depStationName'', JStr ''Beijingnan''),
     (''arrStationName'', JStr ''Shanghaihongqiao''), (''depDate'', JStr ''2025-08-30''),
     (''depTime'', JStr ''07:00''), (''arrDate'', JStr ''2025-08-30''),
     (''arrTime'', JStr ''11:29''), (''runTime'', JStr ''4:29''), (''arrivalDays'', JNum 0),
     (''trainAvs'', JArr [demo_seat])]"

definition demo_search :: jsval where
  "demo_search = JObj [(''code'', JNum 200), (''success'', JBool True),
                       (''data'', JObj [(''trains'', JArr [demo_train])])]"

definition demo_world :: world where
  "demo_world =
     \<lparr>respond = (\<lambda>r. if req_url r = TONGCHENG_CODE_URL then Inr demo_codes
                     else if req_url r = TONGCHENG_TRAIN_URL then Inr demo_search
                     else Inl (Error ''Request failed with status code 404'')),
      rand = (\<lambda>n. 0), now_ms = 1756512000000,
      local_now = \<lparr>d_year = 2025, d_month = 7, d_day = 30, d_hours = 8, d_minutes = 5,
                   d_seconds = 9\<rparr>\<rparr>"

text \<open>The results the ticket handler returns are built by the two response
  builders.\<close>

definition built_response :: "jsval \<Rightarrow> bool" where
  "built_response r = (\<exists>t. r = buildErrorResponse t \<or> r = buildSuccessResponse t)"

subsection \<open>Lemmas\<close>

lemmas train_run_simps = handleGetHuochepiaoList_def search_result_def run_io_def io_init_def
  getRandomUserAgent_def io_random_index_def Let_def

lemmas train_key_defs = k_same_day_def k_is_via_def k_is_origin_def k_train_code_def
  k_dep_station_def k_dep_date_def k_dep_time_def k_arr_station_def k_arr_date_def
  k_arr_time_def k_run_time_def k_seats_def

lemmas train_value_defs = v_origin_def v_not_origin_def v_via_def v_not_via_def v_yes_def v_no_def

lemmas demo_defs = demo_dep_def demo_arr_def demo_codes_def demo_seat_def demo_train_def
  demo_search_def demo_world_def

lemma length_USER_AGENTS: "length USER_AGENTS = 10"
  by (simp add: USER_AGENTS_def)

lemma user_agent_index_less [simp]:
  "k < 2 ^ 53 \<Longrightarrow> random_index (length USER_AGENTS) k < length USER_AGENTS"
  unfolding length_USER_AGENTS by (rule random_index_less) (simp_all add: bit_length.simps)

lemma convertSeat_Inr:
  "convertSeat seat = Inr out \<longleftrightarrow>
     (\<exists>c p n. get_prop seat ''seatClassCode'' = Inr c \<and> get_prop seat ''price'' = Inr p
        \<and> get_prop seat ''num'' = Inr n
        \<and> out = JObj [(k_seat_type, JStr (convertSeatName c)), (k_seat_price, p), (k_seat_left, n)])"
  by (auto simp: convertSeat_def sbind_eq_Inr)

lemma convertTrain_Inr:
  "convertTrain item = Inr out \<longleftrightarrow>
     (\<exists>ad dc sc tc dn dd dt an ada at rt avs seats.
        get_prop item ''arrivalDays'' = Inr ad \<and> get_prop item ''depStationCode'' = Inr dc
      \<and> get_prop item ''startStationCode'' = Inr sc \<and> get_prop item ''trainCode'' = Inr tc
      \<and> get_prop item ''depStationName'' = Inr dn \<and> get_prop item ''depDate'' = Inr dd
      \<and> get_prop item ''depTime'' = Inr dt \<and> get_prop item ''arrStationName'' = Inr an
      \<and> get_prop item ''arrDate'' = Inr ada \<and> get_prop item ''arrTime'' = Inr at
      \<and> get_prop item ''runTime'' = Inr rt \<and> get_prop item ''trainAvs'' = Inr avs
      \<and> opt_map ''item.trainAvs?.map'' convertSeat avs = Inr seats
      \<and> out = JObj [
         (k_same_day, JStr (if gt_num ad 1 then v_no else v_yes)),
         (k_is_via, JStr (if strict_eq dc sc then v_not_via else v_via)),
         (k_is_origin, JStr (if strict_eq dc sc then v_origin else v_not_origin)),
         (k_train_code, tc), (k_dep_station, dn), (k_dep_date, dd), (k_dep_time, dt),
         (k_arr_station, an), (k_arr_date, ada), (k_arr_time, at), (k_run_time, rt),
         (k_seats, seats)])"
  unfolding convertTrain_def by (simp add: sbind_eq_Inr split del: if_split) blast

lemma convertSeat_total: "\<not> nullish s \<Longrightarrow> \<exists>out. convertSeat s = Inr out"
  by (simp add: convertSeat_def get_prop_total)

lemma convertTrain_total: "train_ok it \<Longrightarrow> \<exists>out. convertTrain it = Inr out"
proof -
  assume ok: "train_ok it"
  then have it: "\<not> nullish it" by (simp add: train_ok_def)
  have "\<exists>seats. opt_map ''item.trainAvs?.map'' convertSeat (prop_val it ''trainAvs'') = Inr seats"
  proof (cases "prop_val it ''trainAvs''")
    case (JArr ss)
    with ok have "\<forall>s \<in> set ss. \<not> nullish s" by (simp add: train_ok_def list_all_iff)
    then obtain ys where "smap convertSeat ss = Inr ys"
      using smap_all_Inr [of ss convertSeat] convertSeat_total by blast
    with JArr show ?thesis by (simp add: opt_map_def)
  qed (use ok in \<open>auto simp: train_ok_def nullish_def opt_map_def\<close>)
  with it show ?thesis by (auto simp: convertTrain_def get_prop_total)
qed

lemma char_of_48: "char_of (48::nat) = CHR ''0''"
proof -
  have "(of_char (CHR ''0'') :: nat) = 48" by simp
  then show ?thesis by (metis char_of_char)
qed

lemma nat_digits_unfold:
  "nat_digits n =
     (if n < 10 then [char_of (48 + n)] else nat_digits (n div 10) @ [char_of (48 + n mod 10)])"
  by (rule nat_digits.simps)

lemma pad2_nat_digits:
  assumes "n < 100"
  shows "pad2 (nat_digits n) = [char_of (48 + n div 10), char_of (48 + n mod 10)]"
proof (cases "n < 10")
  case True
  then show ?thesis by (simp add: pad2_def nat_digits_unfold char_of_48)
next
  case False
  with assms have "n div 10 < 10" by simp
  with False show ?thesis
    by (simp add: pad2_def nat_digits_unfold [of n] nat_digits_unfold [of "n div 10"])
qed

lemma nat_digits_4:
  assumes "1000 \<le> n" "n < 10000"
  shows "nat_digits n = [char_of (48 + n div 1000), char_of (48 + n div 100 mod 10),
                         char_of (48 + n div 10 mod 10), char_of (48 + n mod 10)]"
proof -
  have "n div 1000 < 10" "\<not> n < 10" "\<not> n div 10 < 10" "\<not> n div 100 < 10"
    using assms by auto
  moreover have "n div 10 div 10 = n div 100" "n div 100 div 10 = n div 1000"
    by (simp_all add: div_mult2_eq)
  ultimately show ?thesis
    by (simp add: nat_digits_unfold [of n] nat_digits_unfold [of "n div 10"]
        nat_digits_unfold [of "n div 100"] nat_digits_unfold [of "n div 1000"])
qed

lemma int_to_str_4:
  "1000 \<le> yn \<Longrightarrow> yn < 10000 \<Longrightarrow> int_to_str (int yn) =
     [char_of (48 + yn div 1000), char_of (48 + yn div 100 mod 10),
      char_of (48 + yn div 10 mod 10), char_of (48 + yn mod 10)]"
  by (simp add: int_to_str_def nat_digits_4)

lemma of_char_digit [simp]: "(k::nat) < 10 \<Longrightarrow> (of_char (char_of (48 + k)) :: nat) = 48 + k"
  by simp

lemma is_digit_digit [simp]: "(k::nat) < 10 \<Longrightarrow> is_digit (char_of (48 + k))"
  by (simp add: is_digit_def)

lemma digits_val_2: "n < 100 \<Longrightarrow> digits_val [char_of (48 + n div 10), char_of (48 + n mod 10)] = n"
  by (simp add: digits_val_def)

lemma digits_val_4:
  assumes "n < 10000"
  shows "digits_val [char_of (48 + n div 1000), char_of (48 + n div 100 mod 10),
     char_of (48 + n div 10 mod 10), char_of (48 + n mod 10)] = n"
proof -
  have a: "n div 100 div 10 = n div 1000" "n div 10 div 10 = n div 100"
    by (simp_all add: div_mult2_eq [symmetric])
  have "10 * (n div 1000) + n div 100 mod 10 = n div 100"
    using mult_div_mod_eq [of 10 "n div 100"] a(1) by simp
  moreover have "10 * (n div 100) + n div 10 mod 10 = n div 10"
    using mult_div_mod_eq [of 10 "n div 10"] a(2) by simp
  moreover have "10 * (n div 10) + n mod 10 = n"
    by (rule mult_div_mod_eq)
  moreover have "n div 1000 < 10" using assms by simp
  ultimately show ?thesis by (simp add: digits_val_def del: of_char_of)
qed

subsection \<open>Properties of the train adapter\<close>

lemma built_not_flagged: "built_response r \<Longrightarrow> \<not> client_is_error r"
  by (auto simp: built_response_def client_is_error_def buildErrorResponse_def
      buildSuccessResponse_def)

lemma search_result_built: "io_ensures (search_result data2 dep arr) built_response"
  unfolding search_result_def
  by (intro io_ensures_rules allI) (auto simp: built_response_def intro: io_ensures_return)

lemma handler_results_built:
  "io_ensures (handleGetHuochepiaoList dep arr date) built_response"
  unfolding handleGetHuochepiaoList_def Let_def
  by (intro io_ensures_rules search_result_built) (auto simp: built_response_def intro: io_ensures_return)

text \<open>C1: when any of the departure station, the arrival station or the date is
  empty, the handler answers with the incomplete-arguments error and does nothing
  else: no request is sent, no random number drawn, nothing logged.\<close>

theorem train_missing_args:
  assumes "depStationName = [] \<or> arrStationName = [] \<or> depDate = []"
  shows "run_io (handleGetHuochepiaoList depStationName arrStationName depDate) w =
           (Inr (buildErrorResponse (JStr msg_incomplete)), io_init)"
  using assms by (simp add: handleGetHuochepiaoList_def run_io_def io_return_def)

theorem train_missing_args_witness:
  "run_io (handleGetHuochepiaoList [] demo_arr ''2025-08-30'') demo_world =
     (Inr (buildErrorResponse (JStr msg_incomplete)), io_init)"
  using train_missing_args [of "[]" demo_arr "''2025-08-30''" demo_world] by simp

text \<open>C2: when the station-code service resolves the two names (code 200 and at
  least two codes) and the train search succeeds with a non-empty train list that
  converts, the handler returns the converted list, printed as indented JSON, as
  a success; it has sent exactly two requests, the code lookup and then the search
  for the two resolved codes, with the same headers; and it has written the
  search parameters to standard output.\<close>

theorem train_search_success:
  assumes args: "dep \<noteq> []" "arr \<noteq> []" "date \<noteq> []"
    and r1: "\<forall>h. respond w (code_request h dep arr) = Inr body"
    and c1: "get_prop body ''code'' = Inr (JNum 200)"
    and d1: "get_prop body ''data'' = Inr (JArr (st # en # rest))"
    and r2: "\<forall>h. respond w (post_json TONGCHENG_TRAIN_URL h (search_params st en date (now_ms w)))
               = Inr data2"
    and c2: "get_prop data2 ''code'' = Inr code2" "\<not> truthy code2 \<or> strict_eq code2 (JNum 200)"
    and ok: "get_prop data2 ''success'' = Inr sc" "truthy sc"
    and rd: "get_prop data2 ''data'' = Inr rdata"
    and tr: "get_prop rdata ''trains'' = Inr (JArr (t # ts))"
    and cv: "convertFieldNames rdata dep arr = Inr fr"
  shows "io_result (handleGetHuochepiaoList dep arr date) w =
           Inr (buildSuccessResponse (json_result (json_stringify_indent 2 fr)))
       \<and> (\<exists>h. io_sent (handleGetHuochepiaoList dep arr date) w =
              [code_request h dep arr,
               post_json TONGCHENG_TRAIN_URL h (search_params st en date (now_ms w))])
       \<and> stdout (snd (run_io (handleGetHuochepiaoList dep arr date) w)) =
           [the (json_stringify (search_params st en date (now_ms w)))]"
  using assms by (auto simp: train_run_simps io_simps json_stringify_def search_params_def)

theorem train_search_success_witness:
  "\<exists>fr. io_result (handleGetHuochepiaoList demo_dep demo_arr ''2025-08-30'') demo_world =
          Inr (buildSuccessResponse (json_result (json_stringify_indent 2 fr)))
     \<and> (\<exists>h. io_sent (handleGetHuochepiaoList demo_dep demo_arr ''2025-08-30'') demo_world =
          [code_request h demo_dep demo_arr,
           post_json TONGCHENG_TRAIN_URL h
             (search_params (JStr ''BJP'') (JStr ''SHH'') ''2025-08-30'' 1756512000000)])"
proof -
  obtain fr where fr: "convertFieldNames (JObj [(''trains'', JArr [demo_train])]) demo_dep demo_arr
                         = Inr fr"
    by (simp add: convertFieldNames_def convertTrain_def convertSeat_def opt_map_def js_or_def
        demo_defs)
  have req: "\<forall>h. respond demo_world (code_request h demo_dep demo_arr) = Inr demo_codes"
    "\<forall>h. respond demo_world (post_json TONGCHENG_TRAIN_URL h
        (search_params (JStr ''BJP'') (JStr ''SHH'') ''2025-08-30'' (now_ms demo_world)))
        = Inr demo_search"
    by (simp_all add: demo_world_def code_request_def post_json_def TONGCHENG_CODE_URL_def
        TONGCHENG_TRAIN_URL_def)
  have h: "demo_dep \<noteq> []" "demo_arr \<noteq> []" "''2025-08-30'' \<noteq> []"
    "get_prop demo_codes ''code'' = Inr (JNum 200)"
    "get_prop demo_codes ''data'' = Inr (JArr [JStr ''BJP'', JStr ''SHH''])"
    "get_prop demo_search ''code'' = Inr (JNum 200)"
    "\<not> truthy (JNum 200) \<or> strict_eq (JNum 200) (JNum 200)"
    "get_prop demo_search ''success'' = Inr (JBool True)" "truthy (JBool True)"
    "get_prop demo_search ''data'' = Inr (JObj [(''trains'', JArr [demo_train])])"
    "get_prop (JObj [(''trains'', JArr [demo_train])]) ''trains'' = Inr (JArr [demo_train])"
    by (simp_all add: demo_dep_def demo_arr_def demo_codes_def demo_search_def)
  from train_search_success [OF h(1-3) req(1) h(4) h(5) req(2) h(6-11) fr]
  show ?thesis by (auto simp: demo_world_def)
qed

text \<open>C3: the seat-name translation is the table lookup of the specification:
  each of the seven codes 9, M, O, 4, 3, 1, W gives its own non-empty label, and
  every other value, string or not, gives the empty label.\<close>

theorem convertSeatName_table:
  "convertSeatName v =
     (case v of JStr c \<Rightarrow> (case map_of seat_table c of Some l \<Rightarrow> l | None \<Rightarrow> []) | _ \<Rightarrow> [])
   \<and> distinct (map snd seat_table) \<and> [] \<notin> snd ` set seat_table"
proof -
  have "convertSeatName v =
     (case v of JStr c \<Rightarrow> (case map_of seat_table c of Some l \<Rightarrow> l | None \<Rightarrow> []) | _ \<Rightarrow> [])"
    by (cases v) (auto simp: convertSeatName_def seat_table_def)
  moreover have "distinct (map snd seat_table) \<and> [] \<notin> snd ` set seat_table"
    by (simp add: seat_table_def seat_business_def seat_first_def seat_second_def
        seat_soft_sleeper_def seat_hard_sleeper_def seat_hard_seat_def seat_standing_def)
  ultimately show ?thesis by blast
qed

text \<open>C4: a converted train carries one converted seat for each seat of its
  \<open>trainAvs\<close> array, in order, and each converted seat's type is the
  translation of that seat's \<open>seatClassCode\<close>.\<close>

theorem convertTrain_seats:
  assumes "convertTrain item = Inr out" and "get_prop item ''trainAvs'' = Inr (JArr seats)"
  shows "\<exists>seats'. get_prop out k_seats = Inr (JArr seats') \<and> length seats' = length seats
     \<and> (\<forall>i < length seats. \<exists>c. get_prop (seats ! i) ''seatClassCode'' = Inr c
           \<and> get_prop (seats' ! i) k_seat_type = Inr (JStr (convertSeatName c)))"
proof -
  from assms obtain seats' where sm: "smap convertSeat seats = Inr seats'"
    and out: "get_prop out k_seats = Inr (JArr seats')"
    unfolding convertTrain_Inr
    by (auto simp: opt_map_def sbind_eq_Inr train_key_defs)
  have "\<forall>i < length seats. \<exists>c. get_prop (seats ! i) ''seatClassCode'' = Inr c
           \<and> get_prop (seats' ! i) k_seat_type = Inr (JStr (convertSeatName c))"
  proof (intro allI impI)
    fix i assume "i < length seats"
    with sm have "convertSeat (seats ! i) = Inr (seats' ! i)" by (rule smap_Inr_nth)
    then show "\<exists>c. get_prop (seats ! i) ''seatClassCode'' = Inr c
           \<and> get_prop (seats' ! i) k_seat_type = Inr (JStr (convertSeatName c))"
      unfolding convertSeat_Inr by (auto simp: k_seat_type_def k_seat_price_def k_seat_left_def)
  qed
  with out smap_Inr_length [OF sm] show ?thesis by blast
qed

theorem convertTrain_seats_witness:
  "\<exists>out. convertTrain demo_train = Inr out \<and>
     (\<exists>seats'. get_prop out k_seats = Inr (JArr seats') \<and> length seats' = 1
        \<and> get_prop (seats' ! 0) k_seat_type = Inr (JStr seat_second))"
proof -
  obtain out where out: "convertTrain demo_train = Inr out"
    by (simp add: convertTrain_def convertSeat_def opt_map_def demo_train_def demo_seat_def)
  have "get_prop demo_train ''trainAvs'' = Inr (JArr [demo_seat])"
    by (simp add: demo_train_def)
  from convertTrain_seats [OF out this] show ?thesis
    using out by (auto simp: demo_seat_def convertSeatName_def)
qed

text \<open>When the station-code service answers with a code other than 200, the
  handler returns the code-lookup error; it has sent the code lookup and nothing
  else, and has written nothing to standard output.\<close>

theorem train_code_lookup_fails:
  assumes args: "dep \<noteq> []" "arr \<noteq> []" "date \<noteq> []"
    and resp: "\<forall>h. respond w (code_request h dep arr) = Inr body"
    and code: "get_prop body ''code'' = Inr c" and bad: "\<not> strict_eq c (JNum 200)"
  shows "io_result (handleGetHuochepiaoList dep arr date) w =
           Inr (buildErrorResponse (JStr msg_code_fail))
       \<and> (\<exists>h. io_sent (handleGetHuochepiaoList dep arr date) w = [code_request h dep arr])
       \<and> stdout (snd (run_io (handleGetHuochepiaoList dep arr date) w)) = []"
  using assms by (auto simp: train_run_simps io_simps)

theorem train_code_lookup_fails_witness:
  "io_result (handleGetHuochepiaoList demo_dep demo_arr ''2025-08-30'')
      (demo_world\<lparr>respond := \<lambda>r. Inr (JObj [(''code'', JNum 500)])\<rparr>) =
     Inr (buildErrorResponse (JStr msg_code_fail))"
proof -
  have "demo_dep \<noteq> []" "demo_arr \<noteq> []" by (simp_all add: demo_dep_def demo_arr_def)
  from train_code_lookup_fails [OF this, of "''2025-08-30''"
      "demo_world\<lparr>respond := \<lambda>r. Inr (JObj [(''code'', JNum 500)])\<rparr>"
      "JObj [(''code'', JNum 500)]" "JNum 500"]
  show ?thesis by simp
qed

text \<open>C5: on a search answer whose trains are all acceptable records, the
  conversion does not throw: it returns the user's two station names and one
  converted entry per train, in order.\<close>

theorem convertFieldNames_trains:
  assumes "truthy rd" and "get_prop rd ''trains'' = Inr (JArr items)"
    and "list_all train_ok items"
  shows "\<exists>outs. convertFieldNames rd dep arr =
             Inr (JObj [(k_user_dep, JStr dep), (k_user_arr, JStr arr), (k_train_list, JArr outs)])
          \<and> length outs = length items
          \<and> (\<forall>i < length items. convertTrain (items ! i) = Inr (outs ! i))"
proof -
  from assms(3) obtain outs where sm: "smap convertTrain items = Inr outs"
    using smap_all_Inr [of items convertTrain] convertTrain_total by (force simp: list_all_iff)
  then have "\<forall>i < length items. convertTrain (items ! i) = Inr (outs ! i)"
    by (simp add: smap_Inr_nth)
  with sm assms(1,2) show ?thesis
    by (auto simp: convertFieldNames_def opt_map_def js_or_def smap_Inr_length)
qed

theorem convertFieldNames_trains_witness:
  "\<exists>outs. convertFieldNames (JObj [(''trains'', JArr [demo_train, demo_train])]) demo_dep demo_arr =
      Inr (JObj [(k_user_dep, JStr demo_dep), (k_user_arr, JStr demo_arr), (k_train_list, JArr outs)])
    \<and> length outs = 2"
proof -
  have "truthy (JObj [(''trains'', JArr [demo_train, demo_train])])"
    "get_prop (JObj [(''trains'', JArr [demo_train, demo_train])]) ''trains''
       = Inr (JArr [demo_train, demo_train])"
    "list_all train_ok [demo_train, demo_train]"
    by (simp_all add: train_ok_def nullish_def prop_val_def demo_train_def demo_seat_def)
  from convertFieldNames_trains [OF this, of demo_dep demo_arr] show ?thesis by auto
qed

text \<open>C6: the two station flags of a converted train agree: it is marked as the
  train's origin exactly when it is marked as not being a stop on the way.\<close>

theorem convertTrain_origin_via:
  assumes "convertTrain item = Inr out"
  shows "get_prop out k_is_origin = Inr (JStr v_origin) \<longleftrightarrow>
         get_prop out k_is_via = Inr (JStr v_not_via)"
  using assms unfolding convertTrain_Inr
  by (auto simp: train_key_defs train_value_defs split: if_splits)

theorem convertTrain_origin_via_witness:
  "\<exists>out. convertTrain demo_train = Inr out \<and> get_prop out k_is_origin = Inr (JStr v_origin)
      \<and> get_prop out k_is_via = Inr (JStr v_not_via)"
proof -
  obtain out where out: "convertTrain demo_train = Inr out"
    by (simp add: convertTrain_def convertSeat_def opt_map_def demo_train_def demo_seat_def)
  have "get_prop out k_is_origin = Inr (JStr v_origin)"
    using out by (auto simp: convertTrain_Inr demo_train_def train_key_defs)
  with convertTrain_origin_via [OF out] out show ?thesis by blast
qed

text \<open>C7: no result of the ticket handler is ever seen as an error by a protocol
  client, whatever the arguments and whatever the upstream services answer: every
  value it returns is built by \<open>buildErrorResponse\<close> or
  \<open>buildSuccessResponse\<close>, which set a field \<open>error\<close> and leave the result's
  flag \<open>isError\<close> absent. Only an exception (a failed request, a malformed
  answer) reaches the client as an error.\<close>

theorem train_errors_not_flagged:
  "handleGetHuochepiaoList dep arr date w s = (Inr r, s') \<Longrightarrow> \<not> client_is_error r"
  using handler_results_built [of dep arr date] built_not_flagged
  by (auto simp: io_ensures_def)

theorem train_errors_not_flagged_witness:
  "\<not> client_is_error (buildErrorResponse (JStr msg_incomplete))"
  using train_errors_not_flagged [of "[]" "''b''" "''c''" offline_world io_init
      "buildErrorResponse (JStr msg_incomplete)" io_init]
  by (simp add: handleGetHuochepiaoList_def io_return_def)

text \<open>C8: for every local time with a four-digit year and fields in their ranges,
  the system-time text has the form yyyy-MM-dd hh:mm:ss and reads back as the year,
  the month counted from 1, the day, hours, minutes and seconds.\<close>

theorem format_time_roundtrip:
  assumes y: "1000 \<le> d_year d" "d_year d \<le> 9999"
    and m: "d_month d < 12" and dd: "d_day d \<le> 31"
    and h: "d_hours d < 24" and mi: "d_minutes d < 60" and s: "d_seconds d < 60"
  shows "parse_time (format_time d) =
           Some (nat (d_year d), d_month d + 1, d_day d, d_hours d, d_minutes d, d_seconds d)"
proof -
  define yn where "yn = nat (d_year d)"
  have yn: "d_year d = int yn" "1000 \<le> yn" "yn < 10000"
    using y by (simp_all add: yn_def)
  have "d_month d + 1 < 100" "d_day d < 100" "d_hours d < 100" "d_minutes d < 100"
    "d_seconds d < 100" using m dd h mi s by simp_all
  note p = pad2_nat_digits [OF this(1)] pad2_nat_digits [OF this(2)] pad2_nat_digits [OF this(3)]
    pad2_nat_digits [OF this(4)] pad2_nat_digits [OF this(5)]
  have ds: "yn div 1000 < 10" "(d_month d + 1) div 10 < 10" "d_day d div 10 < 10"
    "d_hours d div 10 < 10" "d_minutes d div 10 < 10" "d_seconds d div 10 < 10"
    using yn m dd h mi s by simp_all
  show ?thesis
    unfolding format_time_def yn(1) int_to_str_4 [OF yn(2,3)] p
    using ds yn(3) m dd h mi s
    by (simp add: parse_time_def digits_val_2 digits_val_4 yn_def del: of_char_of)
qed

theorem format_time_roundtrip_witness:
  "parse_time (format_time (local_now demo_world)) = Some (2025, 8, 30, 8, 5, 9)"
  using format_time_roundtrip [of "local_now demo_world"] by (simp add: demo_world_def)

text \<open>C9: the User-Agent the handler sends is always one of the ten strings
  of \<open>USER_AGENTS\<close>: the index drawn from \<open>Math.random()\<close> is below ten for every
  double the generator can return.\<close>

theorem getRandomUserAgent_in_list:
  "\<exists>ua. fst (getRandomUserAgent w s) = Inr (JStr ua) \<and> ua \<in> set USER_AGENTS"
  by (simp add: getRandomUserAgent_def io_random_index_def io_bind_assoc io_bind_random
      fst_io_return)

end
