(* ===== verification/Registry.thy ===== *)
theory Registry
  imports Effects
begin

text \<open>
  The tool registry of the MCP SDK's \<open>McpServer\<close>, which every server of the
  repository fills at start-up and which dispatches \<open>tools/call\<close> requests. The
  SDK is a dependency, not part of the repository, so this theory follows the
  specification (section 4.1, Tool Registry) and the SDK behaviour it describes:
  \<^item> \<open>registerTool(name, config, cb)\<close> and \<open>tool(name, description, shape, cb)\<close>
    add a tool and throw when the name is already registered;
  \<^item> \<open>tool\<close> treats its third argument as the input schema only when it is a
    zod raw shape (an empty object, or an object with a zod value); any other
    object is taken as annotations, and the tool then has no input schema;
  \<^item> \<open>tools/call\<close> fails with ``unknown tool'' for a name not registered,
    validates the arguments against the schema (\<open>z.object(shape)\<close>: declared
    fields only, in the order of the shape, unknown fields dropped) and fails
    with ``invalid arguments'' naming the first offending field, and otherwise
    awaits the callback: with the parsed arguments when there is a schema, with
    the request's \<open>extra\<close> object when there is none. An exception of the callback
    becomes a result flagged \<open>isError\<close> whose text is the exception's message.

  A callback is a \<open>jsval \<Rightarrow> jsval io\<close>: the argument object in, the result
  out, with the effects of \<open>Effects\<close>.
\<close>

subsection \<open>Input schemas\<close>

text \<open>\<open>z.string()\<close>, \<open>z.number()\<close>, \<open>z.array(t)\<close>, \<open>z.enum([...])\<close>.\<close>

datatype zod_type = ZString | ZNumber | ZArray zod_type | ZEnum "string list"

text \<open>A raw shape: field name, type, and whether it is \<open>.optional()\<close>.\<close>

type_synonym zod_shape = "(string \<times> zod_type \<times> bool) list"

fun zod_check :: "zod_type \<Rightarrow> jsval \<Rightarrow> bool" where
  "zod_check ZString v = (case v of JStr s \<Rightarrow> True | _ \<Rightarrow> False)"
| "zod_check ZNumber v = (case v of JNum n \<Rightarrow> True | _ \<Rightarrow> False)"
| "zod_check (ZArray t) v = (case v of JArr xs \<Rightarrow> list_all (zod_check t) xs | _ \<Rightarrow> False)"
| "zod_check (ZEnum vs) v = (case v of JStr s \<Rightarrow> s \<in> set vs | _ \<Rightarrow> False)"

text \<open>The fields of the parsed object, or the first field that fails: a
  missing required field, or a present field (an optional one included) of the
  wrong type.\<close>

fun zod_fields :: "zod_shape \<Rightarrow> jsval \<Rightarrow> string + (string \<times> jsval) list" where
  "zod_fields [] args = Inr []"
| "zod_fields ((k, t, opt) # sh) args =
     (let v = prop_val args k in
      if v = JUndef then (if opt then zod_fields sh args else Inl k)
      else if zod_check t v then
        (case zod_fields sh args of Inl e \<Rightarrow> Inl e | Inr kvs \<Rightarrow> Inr ((k, v) # kvs))
      else Inl k)"

text \<open>\<open>z.object(shape).safeParse(args)\<close>: the arguments must be an object.\<close>

definition zod_parse :: "zod_shape \<Rightarrow> jsval \<Rightarrow> string + jsval" where
  "zod_parse sh args =
     (case args of
        JObj kvs \<Rightarrow> (case zod_fields sh args of Inl k \<Rightarrow> Inl k | Inr fs \<Rightarrow> Inr (JObj fs))
      | _ \<Rightarrow> Inl [])"

subsection \<open>The registry\<close>

record tool_entry =
  t_schema :: "zod_shape option"
  t_handler :: "jsval \<Rightarrow> jsval io"

record registry =
  tools :: "(string \<times> tool_entry) list"

definition empty_registry :: registry where
  "empty_registry = \<lparr>tools = []\<rparr>"

definition registered :: "registry \<Rightarrow> string \<Rightarrow> bool" where
  "registered reg name = (name \<in> set (map fst (tools reg)))"

definition registerTool ::
  "string \<Rightarrow> zod_shape option \<Rightarrow> (jsval \<Rightarrow> jsval io) \<Rightarrow> registry \<Rightarrow> js_exn + registry" where
  "registerTool name schema cb reg =
     (if registered reg name then Inl (Error (''Tool '' @ name @ '' is already registered''))
      else Inr (reg\<lparr>tools := tools reg @ [(name, \<lparr>t_schema = schema, t_handler = cb\<rparr>)]\<rparr>))"

text \<open>The third argument of \<open>server.tool(name, description, arg, cb)\<close>: a zod
  raw shape, or a plain object literal.\<close>

datatype tool_arg = ZodShape zod_shape | PlainObject "(string \<times> jsval) list"

definition tool_arg_schema :: "tool_arg \<Rightarrow> zod_shape option" where
  "tool_arg_schema a =
     (case a of ZodShape sh \<Rightarrow> Some sh | PlainObject kvs \<Rightarrow> if kvs = [] then Some [] else None)"

definition server_tool ::
  "string \<Rightarrow> tool_arg \<Rightarrow> (jsval \<Rightarrow> jsval io) \<Rightarrow> registry \<Rightarrow> js_exn + registry" where
  "server_tool name arg cb reg = registerTool name (tool_arg_schema arg) cb reg"

subsection \<open>Calls\<close>

datatype call_outcome = RpcError string | ToolResult jsval

fun exn_message :: "js_exn \<Rightarrow> string" where
  "exn_message (TypeError m) = m"
| "exn_message (Error m) = m"

definition error_result :: "js_exn \<Rightarrow> jsval" where
  "error_result e =
     JObj [(''content'', JArr [text_block (exn_message e)]), (''isError'', JBool True)]"

text \<open>The \<open>extra\<close> argument of a request handler: the abort signal and the
  request id; it has no \<open>args\<close> field.\<close>

definition request_extra :: jsval where
  "request_extra = JObj [(''signal'', JObj [(''aborted'', JBool False)]), (''requestId'', JNum 1)]"

text \<open>Awaiting the callback inside the SDK's \<open>try\<close>.\<close>

definition run_callback :: "(jsval \<Rightarrow> jsval io) \<Rightarrow> jsval \<Rightarrow> call_outcome io" where
  "run_callback cb a =
     (\<lambda>w s. case cb a w s of
        (Inl e, s') \<Rightarrow> (Inr (ToolResult (error_result e)), s')
      | (Inr r, s') \<Rightarrow> (Inr (ToolResult r), s'))"

definition callTool :: "registry \<Rightarrow> string \<Rightarrow> jsval \<Rightarrow> call_outcome io" where
  "callTool reg name args =
     (case map_of (tools reg) name of
        None \<Rightarrow> io_return (RpcError (''Tool '' @ name @ '' not found''))
      | Some t \<Rightarrow>
          (case t_schema t of
             None \<Rightarrow> run_callback (t_handler t) request_extra
           | Some sh \<Rightarrow>
               (case zod_parse sh args of
                  Inl k \<Rightarrow> io_return (RpcError (''Invalid arguments for tool '' @ name @ '': '' @ k))
                | Inr parsed \<Rightarrow> run_callback (t_handler t) parsed)))"

subsection \<open>Registration as a step relation\<close>

text \<open>The registries a server can build: the empty one, and any successful
  registration on one of them.\<close>

inductive reg_reach :: "registry \<Rightarrow> bool" where
  reach_empty: "reg_reach empty_registry"
| reach_register: "reg_reach reg \<Longrightarrow> registerTool name sc cb reg = Inr reg' \<Longrightarrow> reg_reach reg'"

text \<open>\<open>list.forEach(registerTool)\<close>: the first exception stops the loop.\<close>

fun register_all :: "(string \<times> zod_shape option \<times> (jsval \<Rightarrow> jsval io)) list \<Rightarrow> registry \<Rightarrow> js_exn + registry" where
  "register_all [] reg = Inr reg"
| "register_all ((n, sc, cb) # ts) reg = sbind (registerTool n sc cb reg) (register_all ts)"


subsection \<open>Lemmas\<close>

lemma registerTool_Inr:
  "registerTool name sc cb reg = Inr reg' \<longleftrightarrow>
     \<not> registered reg name
     \<and> reg' = reg\<lparr>tools := tools reg @ [(name, \<lparr>t_schema = sc, t_handler = cb\<rparr>)]\<rparr>"
  by (auto simp: registerTool_def)

lemma register_all_Inr:
  assumes "distinct (map fst ts)" and "\<forall>n \<in> set (map fst ts). \<not> registered reg n"
  shows "register_all ts reg =
           Inr (reg\<lparr>tools := tools reg @ map (\<lambda>(n, sc, cb). (n, \<lparr>t_schema = sc, t_handler = cb\<rparr>)) ts\<rparr>)"
  using assms
proof (induction ts arbitrary: reg)
  case Nil
  then show ?case by simp
next
  case (Cons t ts)
  obtain n sc cb where t: "t = (n, sc, cb)" by (cases t) auto
  with Cons.prems have nr: "\<not> registered reg n" by simp
  let ?reg1 = "reg\<lparr>tools := tools reg @ [(n, \<lparr>t_schema = sc, t_handler = cb\<rparr>)]\<rparr>"
  have "\<forall>m \<in> set (map fst ts). \<not> registered ?reg1 m"
    using Cons.prems t by (auto simp: registered_def)
  with Cons.prems t have "register_all ts ?reg1 =
      Inr (?reg1\<lparr>tools := tools ?reg1 @ map (\<lambda>(n, sc, cb). (n, \<lparr>t_schema = sc, t_handler = cb\<rparr>)) ts\<rparr>)"
    by (intro Cons.IH) auto
  with t nr show ?case by (simp add: registerTool_def)
qed

lemma reg_reach_register_all:
  "reg_reach reg \<Longrightarrow> register_all ts reg = Inr reg' \<Longrightarrow> reg_reach reg'"
proof (induction ts arbitrary: reg)
  case Nil
  then show ?case by simp
next
  case (Cons t ts)
  obtain n sc cb where t: "t = (n, sc, cb)" by (cases t) auto
  with Cons.prems obtain reg1 where r1: "registerTool n sc cb reg = Inr reg1"
    and rest: "register_all ts reg1 = Inr reg'"
    by (auto simp: sbind_eq_Inr)
  from Cons.prems(1) r1 have "reg_reach reg1" by (rule reach_register)
  then show ?case using rest by (rule Cons.IH)
qed

lemma zod_fields_sound:
  "zod_fields sh args = Inr fs \<Longrightarrow>
     fs = map (\<lambda>(k, t, opt). (k, prop_val args k))
            (filter (\<lambda>(k, t, opt). prop_val args k \<noteq> JUndef) sh)
   \<and> (\<forall>(k, t, opt) \<in> set sh. if prop_val args k = JUndef then opt else zod_check t (prop_val args k))"
proof (induction sh arbitrary: fs)
  case Nil
  then show ?case by simp
next
  case (Cons f sh)
  obtain k t opt where f: "f = (k, t, opt)" by (cases f) auto
  show ?case
    using Cons.prems Cons.IH
    by (auto simp: f Let_def split: if_splits sum.splits)
qed

lemma zod_fields_complete:
  "\<forall>(k, t, opt) \<in> set sh. if prop_val args k = JUndef then opt else zod_check t (prop_val args k)
   \<Longrightarrow> \<exists>fs. zod_fields sh args = Inr fs"
proof (induction sh)
  case Nil
  then show ?case by simp
next
  case (Cons f sh)
  obtain k t opt where f: "f = (k, t, opt)" by (cases f) auto
  from Cons obtain fs where "zod_fields sh args = Inr fs" by auto
  with Cons.prems show ?case by (auto simp: f Let_def split: if_splits)
qed

lemma run_callback_Inl:
  "fst (cb a w s) = Inl e \<Longrightarrow>
     run_callback cb a w s = (Inr (ToolResult (error_result e)), snd (cb a w s))"
  by (cases "cb a w s") (auto simp: run_callback_def split: sum.splits)

lemma run_callback_Inr:
  "fst (cb a w s) = Inr r \<Longrightarrow> run_callback cb a w s = (Inr (ToolResult r), snd (cb a w s))"
  by (cases "cb a w s") (auto simp: run_callback_def split: sum.splits)

lemma error_result_flagged: "client_is_error (error_result e)"
  by (simp add: error_result_def client_is_error_def)

subsection \<open>Properties of the registry\<close>

text \<open>in every registry a server can build by registering tools one after
  another from the empty one, the tool names are distinct: a second registration
  of a name is refused.\<close>

theorem reg_reach_distinct: "reg_reach reg \<Longrightarrow> distinct (map fst (tools reg))"
proof (induction rule: reg_reach.induct)
  case reach_empty
  then show ?case by (simp add: empty_registry_def)
next
  case (reach_register reg name sc cb reg')
  then show ?case by (auto simp: registerTool_Inr registered_def)
qed

theorem reg_reach_distinct_witness:
  "distinct (map fst (tools (empty_registry\<lparr>tools := [(''a'', \<lparr>t_schema = None, t_handler = io_return\<rparr>), (''b'', \<lparr>t_schema = None, t_handler = io_return\<rparr>)]\<rparr>)))"
proof -
  let ?e = "\<lparr>t_schema = None, t_handler = io_return\<rparr> :: tool_entry"
  have r1: "registerTool ''a'' None (io_return) empty_registry = Inr (empty_registry\<lparr>tools := [(''a'', ?e)]\<rparr>)"
    by (simp add: registerTool_def registered_def empty_registry_def)
  have r2: "registerTool ''b'' None (io_return) (empty_registry\<lparr>tools := [(''a'', ?e)]\<rparr>)
      = Inr (empty_registry\<lparr>tools := [(''a'', ?e), (''b'', ?e)]\<rparr>)"
    by (simp add: registerTool_def registered_def empty_registry_def)
  have "reg_reach (empty_registry\<lparr>tools := [(''a'', ?e), (''b'', ?e)]\<rparr>)"
    using reach_register [OF reach_register [OF reach_empty r1] r2] .
  then show ?thesis by (rule reg_reach_distinct)
qed

text \<open>after a successful registration the new name finds the new schema and
  callback, and every other name finds what it found before.\<close>

theorem registerTool_lookup:
  assumes "registerTool name sc cb reg = Inr reg'"
  shows "map_of (tools reg') name = Some \<lparr>t_schema = sc, t_handler = cb\<rparr>
     \<and> (\<forall>m. m \<noteq> name \<longrightarrow> map_of (tools reg') m = map_of (tools reg) m)"
proof -
  from assms have nr: "name \<notin> set (map fst (tools reg))"
    and r': "reg' = reg\<lparr>tools := tools reg @ [(name, \<lparr>t_schema = sc, t_handler = cb\<rparr>)]\<rparr>"
    by (auto simp: registerTool_Inr registered_def)
  from nr have "map_of (tools reg) name = None" by (simp add: map_of_eq_None_iff)
  with r' show ?thesis by (auto simp: map_add_def split: option.splits)
qed

theorem registerTool_lookup_witness:
  "map_of (tools (empty_registry\<lparr>tools := [(''a'', \<lparr>t_schema = None, t_handler = io_return\<rparr>),
       (''b'', \<lparr>t_schema = Some [], t_handler = io_return\<rparr>)]\<rparr>)) ''b''
     = Some \<lparr>t_schema = Some [], t_handler = io_return\<rparr>
   \<and> map_of (tools (empty_registry\<lparr>tools := [(''a'', \<lparr>t_schema = None, t_handler = io_return\<rparr>),
       (''b'', \<lparr>t_schema = Some [], t_handler = io_return\<rparr>)]\<rparr>)) ''a''
     = Some \<lparr>t_schema = None, t_handler = io_return\<rparr>"
proof -
  have r: "registerTool ''b'' (Some []) io_return
      (empty_registry\<lparr>tools := [(''a'', \<lparr>t_schema = None, t_handler = io_return\<rparr>)]\<rparr>)
    = Inr (empty_registry\<lparr>tools := [(''a'', \<lparr>t_schema = None, t_handler = io_return\<rparr>),
       (''b'', \<lparr>t_schema = Some [], t_handler = io_return\<rparr>)]\<rparr>)"
    by (simp add: registerTool_def registered_def empty_registry_def)
  from registerTool_lookup [OF r] show ?thesis by simp
qed

text \<open>the argument check accepts exactly the objects in which every required
  field of the schema is present and every present field has its declared type.\<close>

theorem zod_parse_iff:
  "(\<exists>p. zod_parse sh args = Inr p) \<longleftrightarrow>
     (\<exists>kvs. args = JObj kvs)
     \<and> (\<forall>(k, t, opt) \<in> set sh. if prop_val args k = JUndef then opt else zod_check t (prop_val args k))"
proof
  assume "\<exists>p. zod_parse sh args = Inr p"
  then obtain kvs fs where "args = JObj kvs" "zod_fields sh args = Inr fs"
    by (auto simp: zod_parse_def split: jsval.splits sum.splits)
  then show "(\<exists>kvs. args = JObj kvs)
     \<and> (\<forall>(k, t, opt) \<in> set sh. if prop_val args k = JUndef then opt else zod_check t (prop_val args k))"
    using zod_fields_sound by blast
next
  assume h: "(\<exists>kvs. args = JObj kvs)
     \<and> (\<forall>(k, t, opt) \<in> set sh. if prop_val args k = JUndef then opt else zod_check t (prop_val args k))"
  then obtain fs where "zod_fields sh args = Inr fs" using zod_fields_complete by blast
  with h show "\<exists>p. zod_parse sh args = Inr p" by (auto simp: zod_parse_def)
qed

theorem zod_parse_iff_witness:
  "\<exists>p. zod_parse [(''symbol'', ZString, False), (''limit'', ZNumber, True)]
          (JObj [(''symbol'', JStr ''BTCUSDT''), (''extra'', JNum 1)]) = Inr p"
  using zod_parse_iff [of "[(''symbol'', ZString, False), (''limit'', ZNumber, True)]"
      "JObj [(''symbol'', JStr ''BTCUSDT''), (''extra'', JNum 1)]"]
  by (simp add: prop_val_def)

text \<open>a call of a name that is not registered fails with the unknown-tool
  error and has no effect.\<close>

theorem callTool_unknown:
  "\<not> registered reg name \<Longrightarrow>
     callTool reg name args w s = (Inr (RpcError (''Tool '' @ name @ '' not found'')), s)"
proof -
  assume "\<not> registered reg name"
  then have "map_of (tools reg) name = None" by (simp add: registered_def map_of_eq_None_iff)
  then show ?thesis by (simp add: callTool_def io_return_def)
qed

theorem callTool_unknown_witness:
  "callTool empty_registry ''getCryptoPrice'' (JObj []) offline_world io_init =
     (Inr (RpcError (''Tool getCryptoPrice not found'')), io_init)"
  using callTool_unknown [of empty_registry "''getCryptoPrice''" "JObj []" offline_world io_init]
  by (simp add: registered_def empty_registry_def)

text \<open>a call whose arguments fail the tool's schema fails with the
  invalid-arguments error naming the offending field and runs nothing; a call whose
  arguments pass runs the callback on the parsed arguments.\<close>

theorem callTool_validates:
  assumes "map_of (tools reg) name = Some t" and "t_schema t = Some sh"
  shows "(zod_parse sh args = Inl k \<longrightarrow>
            callTool reg name args w s =
              (Inr (RpcError (''Invalid arguments for tool '' @ name @ '': '' @ k)), s))
       \<and> (zod_parse sh args = Inr p \<longrightarrow>
            callTool reg name args = run_callback (t_handler t) p)"
  using assms by (simp add: callTool_def io_return_def)

theorem callTool_validates_witness:
  "callTool (empty_registry\<lparr>tools := [(''t'', \<lparr>t_schema = Some [(''symbol'', ZString, False)],
       t_handler = io_return\<rparr>)]\<rparr>) ''t'' (JObj []) offline_world io_init =
     (Inr (RpcError (''Invalid arguments for tool t: symbol'')), io_init)"
proof -
  have z: "zod_parse [(''symbol'', ZString, False)] (JObj []) = Inl ''symbol''"
    by (simp add: zod_parse_def prop_val_def)
  show ?thesis
    using callTool_validates [of "empty_registry\<lparr>tools := [(''t'', \<lparr>t_schema = Some [(''symbol'', ZString, False)],
       t_handler = io_return\<rparr>)]\<rparr>" "''t''" "\<lparr>t_schema = Some [(''symbol'', ZString, False)],
       t_handler = io_return\<rparr>" "[(''symbol'', ZString, False)]" "JObj []" "''symbol''"
       offline_world io_init]
    by (simp add: z)
qed

end
