(* ===== verification/Startup.thy ===== *)
theory Startup
  imports Registry
begin

text \<open>
  Construction and start-up of a server. \<open>new McpServer(serverInfo, options)\<close>
  keeps its first argument as the server's \<open>serverInfo\<close> and takes the
  \<open>instructions\<close> it announces from the second, \<open>options\<close>; the initialize
  handshake answers with the negotiated protocol version, the capabilities of
  what is registered, \<open>serverInfo\<close> as given, and \<open>instructions\<close> when
  \<open>options\<close> carried a non-empty text (modelled from the specification, like
  the rest of the SDK in \<open>Registry\<close>).

  Every server of the repository ends with the same \<open>main()\<close>: create the
  stdio transport, await the empty \<open>init()\<close>, await \<open>server.connect\<close>, and
  write a banner with \<open>console.error\<close>; \<open>main().catch\<close> writes the error and
  calls \<open>process.exit(1)\<close>. \<open>server_main\<close> is that function of the outcome of
  \<open>connect\<close>; the error is written as \<open>util.inspect\<close> starts it, its name and
  message (the stack frames that follow are not modelled).
\<close>

subsection \<open>The SDK's server object and the initialize result\<close>

record server_obj =
  srv_info :: jsval
  srv_instructions :: "string option"

definition new_mcp_server :: "jsval \<Rightarrow> jsval option \<Rightarrow> server_obj" where
  "new_mcp_server info opts =
     \<lparr>srv_info = info,
      srv_instructions = (case opts of
         Some opt \<Rightarrow> (case prop_val opt ''instructions'' of JStr s \<Rightarrow> Some s | _ \<Rightarrow> None)
       | None \<Rightarrow> None)\<rparr>"

definition tool_capabilities :: "registry \<Rightarrow> jsval" where
  "tool_capabilities reg =
     (if tools reg = [] then JObj [] else JObj [(''tools'', JObj [(''listChanged'', JBool True)])])"

definition initialize_result :: "server_obj \<Rightarrow> registry \<Rightarrow> string \<Rightarrow> jsval" where
  "initialize_result srv reg pv =
     JObj ([(''protocolVersion'', JStr pv), (''capabilities'', tool_capabilities reg),
            (''serverInfo'', srv_info srv)]
           @ (case srv_instructions srv of
                Some i \<Rightarrow> if i = [] then [] else [(''instructions'', JStr i)]
              | None \<Rightarrow> []))"

text \<open>The initialize result of a server never carries \<open>instructions\<close> of its
  own, and the text \<open>txt\<close> reaches the client only as a member of
  \<open>serverInfo\<close>, whatever is registered and whatever version is negotiated.\<close>

definition instructions_only_in_info :: "server_obj \<Rightarrow> string \<Rightarrow> bool" where
  "instructions_only_in_info srv txt =
     (\<forall>reg pv. prop_val (initialize_result srv reg pv) ''instructions'' = JUndef
        \<and> prop_val (prop_val (initialize_result srv reg pv) ''serverInfo'') ''instructions'' = JStr txt)"

subsection \<open>Start-up\<close>

record start_out =
  err_lines :: "string list"
  exit_code :: "int option"
  serving :: bool

fun exn_inspect :: "js_exn \<Rightarrow> string" where
  "exn_inspect (TypeError m) = ''TypeError: '' @ m"
| "exn_inspect (Error m) = ''Error: '' @ m"

definition msg_running :: string where
  "msg_running = ''MCP Server running on stdio @Xing''"

definition server_main :: "string \<Rightarrow> js_exn + unit \<Rightarrow> start_out" where
  "server_main banner conn =
     (case conn of
        Inr u \<Rightarrow> \<lparr>err_lines = [banner], exit_code = None, serving = True\<rparr>
      | Inl e \<Rightarrow> \<lparr>err_lines = [''Fatal error in main(): '' @ exn_inspect e], exit_code = Some 1,
                 serving = False\<rparr>)"

subsection \<open>Lemmas\<close>

lemma initialize_server_info [simp]:
  "prop_val (initialize_result srv reg pv) ''serverInfo'' = srv_info srv"
  by (simp add: initialize_result_def prop_val_def split: option.splits)

lemma srv_info_new [simp]: "srv_info (new_mcp_server info opts) = info"
  by (simp add: new_mcp_server_def)

lemma initialize_no_options [simp]:
  "prop_val (initialize_result (new_mcp_server info None) reg pv) ''instructions'' = JUndef"
  by (simp add: initialize_result_def new_mcp_server_def prop_val_def)

lemma instructions_only_in_info_new:
  "prop_val info ''instructions'' = JStr txt \<Longrightarrow>
     instructions_only_in_info (new_mcp_server info None) txt"
  by (simp add: instructions_only_in_info_def)

lemma initialize_with_options:
  "prop_val opt ''instructions'' = JStr i \<Longrightarrow> i \<noteq> [] \<Longrightarrow>
     prop_val (initialize_result (new_mcp_server info (Some opt)) reg pv) ''instructions'' = JStr i"
  by (simp add: initialize_result_def new_mcp_server_def prop_val_def)

lemma server_main_outcome:
  "exit_code (server_main b conn) = Some 1 \<longleftrightarrow> (\<exists>e. conn = Inl e)"
  "serving (server_main b conn) \<longleftrightarrow> (\<exists>u. conn = Inr u)"
  by (auto simp: server_main_def split: sum.splits)

end
