(* ===== verification/TrainServer.thy ===== *)
theory TrainServer
  imports Train Startup
begin

text \<open>
  The start-up of the train-ticket server, \<open>src/dist/12306_tool.js\<close> lines
  225-248: \<open>server.registerTool\<close> of \<open>query_train_tickets_list\<close> with a zod
  shape of three required strings and a callback that passes them to
  \<open>handleGetHuochepiaoList\<close>, then \<open>server.tool\<close> of
  \<open>get_current_system_time\<close> with the empty shape \<open>{}\<close> and a callback that
  calls \<open>handleGetSystemTime\<close>. Registration and calls are those of the SDK
  model in \<open>Registry\<close>.
\<close>

subsection \<open>The exported tool descriptions\<close>

text \<open>\<open>GET_HUOCHEPIAO_LIST\<close>, \<open>GET_SYSTIME\<close> and \<open>SUPPORT_TOOLS\<close> (lines 30-62):
  plain objects with a name, a description and a JSON-schema \<open>inputSchema\<close>.
  The server registers the tools under these names and descriptions but validates
  with its own zod shapes; the JSON schemas are only exported.\<close>

definition huochepiao_description :: string where
  "huochepiao_description =
     [CHR 0xE7, CHR 0x81, CHR 0xAB, CHR 0xE8, CHR 0xBD, CHR 0xA6, CHR 0xE7, CHR 0xA5, CHR 0xA8, CHR 0xE8, CHR 0xBD, CHR 0xA6, CHR 0xE6, CHR 0xAC, CHR 0xA1, CHR 0xE5, CHR 0x88, CHR 0x97, CHR 0xE8, CHR 0xA1, CHR 0xA8, CHR 0xE6, CHR 0x9F, CHR 0xA5, CHR 0xE8, CHR 0xAF, CHR 0xA2, CHR 0xE5, CHR 0x8A, CHR 0x9F, CHR 0xE8, CHR 0x83, CHR 0xBD, CHR 0xEF, CHR 0xBC, CHR 0x8C, CHR 0xE6, CHR 0x9F, CHR 0xA5, CHR 0xE8, CHR 0xAF, CHR 0xA2, CHR 0xE6, CHR 0x8C, CHR 0x87, CHR 0xE5, CHR 0xAE, CHR 0x9A, CHR 0xE6, CHR 0x97, CHR 0xA5, CHR 0xE6, CHR 0x9C, CHR 0x9F, CHR 0xE3, CHR 0x80, CHR 0x81, CHR 0xE5, CHR 0x87, CHR 0xBA, CHR 0xE5, CHR 0x8F, CHR 0x91, CHR 0xE5, CHR 0x9C, CHR 0xB0, CHR 0xE5, CHR 0x92, CHR 0x8C, CHR 0xE7, CHR 0x9B, CHR 0xAE, CHR 0xE7, CHR 0x9A, CHR 0x84, CHR 0xE5, CHR 0x9C, CHR 0xB0, CHR 0xE4, CHR 0xB9, CHR 0x8B, CHR 0xE9, CHR 0x97, CHR 0xB4, CHR 0xE7, CHR 0x9A, CHR 0x84, CHR 0xE7, CHR 0x81, CHR 0xAB, CHR 0xE8, CHR 0xBD, CHR 0xA6, CHR 0xE7, CHR 0xA5, CHR 0xA8, CHR 0xE4, CHR 0xBF, CHR 0xA1, CHR 0xE6, CHR 0x81, CHR 0xAF, CHR 0xE3, CHR 0x80, CHR 0x82, CHR 0xE8, CHR 0xBE, CHR 0x93, CHR 0xE5, CHR 0x85, CHR 0xA5, CHR 0xE7, CHR 0x94, CHR 0xA8, CHR 0xE6, CHR 0x88, CHR 0xB7, CHR 0xE6, CHR 0x8F, CHR 0x90, CHR 0xE4, CHR 0xBE, CHR 0x9B, CHR 0xE7, CHR 0x9A, CHR 0x84, CHR 0xE5, CHR 0x87, CHR 0xBA, CHR 0xE5, CHR 0x8F, CHR 0x91, CHR 0xE7, CHR 0xAB, CHR 0x99, CHR 0xE5, CHR 0x87, CHR 0xBA, CHR 0xE5, CHR 0x8F, CHR 0x91, CHR 0xE5, CHR 0x9F, CHR 0x8E, CHR 0xE5, CHR 0xB8, CHR 0x82, CHR 0xE3, CHR 0x80, CHR 0x81, CHR 0xE5, CHR 0x88, CHR 0xB0, CHR 0xE8, CHR 0xBE, CHR 0xBE, CHR 0xE7, CHR 0xAB, CHR 0x99, CHR 0xE5, CHR 0x88, CHR 0xB0, CHR 0xE8, CHR 0xBE, CHR 0xBE, CHR 0xE5, CHR 0x9F, CHR 0x8E, CHR 0xE5, CHR 0xB8, CHR 0x82, CHR 0xE3, CHR 0x80, CHR 0x81, CHR 0xE5, CHR 0x87, CHR 0xBA, CHR 0xE5, CHR 0x8F, CHR 0x91, CHR 0xE6, CHR 0x97, CHR 0xA5, CHR 0xE6, CHR 0x9C, CHR 0x9F, CHR 0xE8, CHR 0xBF, CHR 0x9B, CHR 0xE8, CHR 0xA1, CHR 0x8C, CHR 0xE6, CHR 0x9F, CHR 0xA5, CHR 0xE8, CHR 0xAF, CHR 0xA2, CHR 0xE7, CHR 0xBB, CHR 0x93, CHR 0xE6, CHR 0x9E, CHR 0x9C, CHR 0xEF, CHR 0xBC, CHR 0x8C, CHR 0xE8, CHR 0xBF, CHR 0x94, CHR 0xE5, CHR 0x9B, CHR 0x9E, CHR 0xE5, CHR 0x8C, CHR 0x85, CHR 0xE5, CHR 0x90, CHR 0xAB, CHR 0xE8, CHR 0xBD, CHR 0xA6, CHR 0xE6, CHR 0xAC, CHR 0xA1, CHR 0xE5, CHR 0x88, CHR 0x97, CHR 0xE8, CHR 0xA1, CHR 0xA8, CHR 0xE3, CHR 0x80, CHR 0x81, CHR 0xE5, CHR 0x87, CHR 0xBA, CHR 0xE5, CHR 0x8F, CHR 0x91]
     @ ''/''
     @ [CHR 0xE5, CHR 0x88, CHR 0xB0, CHR 0xE8, CHR 0xBE, CHR 0xBE, CHR 0xE7, CHR 0xAB, CHR 0x99, CHR 0xE4, CHR 0xBF, CHR 0xA1, CHR 0xE6, CHR 0x81, CHR 0xAF, CHR 0xE3, CHR 0x80, CHR 0x81, CHR 0xE5, CHR 0xBA, CHR 0xA7, CHR 0xE4, CHR 0xBD, CHR 0x8D, CHR 0xE7, CHR 0xB1, CHR 0xBB, CHR 0xE5, CHR 0x9E, CHR 0x8B, CHR 0xE5, CHR 0x8F, CHR 0x8A, CHR 0xE7, CHR 0xA5, CHR 0xA8, CHR 0xE4, CHR 0xBB, CHR 0xB7, CHR 0xE7, CHR 0xAD, CHR 0x89, CHR 0xE8, CHR 0xAF, CHR 0xA6, CHR 0xE7, CHR 0xBB, CHR 0x86, CHR 0xE4, CHR 0xBF, CHR 0xA1, CHR 0xE6, CHR 0x81, CHR 0xAF, CHR 0xE3, CHR 0x80, CHR 0x82, CHR 0xE6, CHR 0x9C, CHR 0xAC, CHR 0xE5, CHR 0xB7, CHR 0xA5, CHR 0xE5, CHR 0x85, CHR 0xB7, CHR 0xE6, CHR 0x8F, CHR 0x90, CHR 0xE4, CHR 0xBE, CHR 0x9B, CHR 0xE4, CHR 0xB8, CHR 0xAD, CHR 0xE5, CHR 0x9B, CHR 0xBD, CHR 0xE5, CHR 0xA2, CHR 0x83, CHR 0xE5, CHR 0x86, CHR 0x85, CHR 0xE7, CHR 0x81, CHR 0xAB, CHR 0xE8, CHR 0xBD, CHR 0xA6, CHR 0xE7, CHR 0xA5, CHR 0xA8, CHR 0xE7, CHR 0x8F, CHR 0xAD, CHR 0xE6, CHR 0xAC, CHR 0xA1, CHR 0xE4, CHR 0xBF, CHR 0xA1, CHR 0xE6, CHR 0x81, CHR 0xAF, CHR 0xE7, CHR 0x9A, CHR 0x84, CHR 0xE5, CHR 0x85, CHR 0xA8, CHR 0xE9, CHR 0x9D, CHR 0xA2, CHR 0xE6, CHR 0x9F, CHR 0xA5, CHR 0xE8, CHR 0xAF, CHR 0xA2, CHR 0xE6, CHR 0x9C, CHR 0x8D, CHR 0xE5, CHR 0x8A, CHR 0xA1, CHR 0xEF, CHR 0xBC, CHR 0x8C, CHR 0xE6, CHR 0x95, CHR 0xB0, CHR 0xE6, CHR 0x8D, CHR 0xAE, CHR 0xE5, CHR 0xAE, CHR 0x9E, CHR 0xE6, CHR 0x97, CHR 0xB6, CHR 0xE5, CHR 0xAF, CHR 0xB9, CHR 0xE6, CHR 0x8E, CHR 0xA5, CHR 0xE5, CHR 0x90, CHR 0x8C, CHR 0xE7, CHR 0xA8, CHR 0x8B, CHR 0xE6, CHR 0x97, CHR 0x85, CHR 0xE8, CHR 0xA1, CHR 0x8C, CHR 0xE7, CHR 0xBD, CHR 0x91, CHR 0xE5, CHR 0xAE, CHR 0x98, CHR 0xE6, CHR 0x96, CHR 0xB9, CHR 0xE6, CHR 0x8E, CHR 0xA5, CHR 0xE5, CHR 0x8F, CHR 0xA3, CHR 0xE3, CHR 0x80, CHR 0x82]
     @ '' ''
     @ [CHR 0xE6, CHR 0x8F, CHR 0x90, CHR 0xE4, CHR 0xBE, CHR 0x9B, CHR 0xE4, CHR 0xB8, CHR 0x8D, CHR 0xE5, CHR 0x90, CHR 0x8C, CHR 0xE5, CHR 0xBA, CHR 0xA7, CHR 0xE4, CHR 0xBD, CHR 0x8D, CHR 0xE7, CHR 0xB1, CHR 0xBB, CHR 0xE5, CHR 0x9E, CHR 0x8B, CHR 0xEF, CHR 0xBC, CHR 0x88, CHR 0xE5, CHR 0x95, CHR 0x86, CHR 0xE5, CHR 0x8A, CHR 0xA1, CHR 0xE5, CHR 0xBA, CHR 0xA7]
     @ ''/''
     @ [CHR 0xE4, CHR 0xB8, CHR 0x80, CHR 0xE7, CHR 0xAD, CHR 0x89, CHR 0xE5, CHR 0xBA, CHR 0xA7]
     @ ''/''
     @ [CHR 0xE4, CHR 0xBA, CHR 0x8C, CHR 0xE7, CHR 0xAD, CHR 0x89, CHR 0xE5, CHR 0xBA, CHR 0xA7, CHR 0xE7, CHR 0xAD, CHR 0x89, CHR 0xEF, CHR 0xBC, CHR 0x89, CHR 0xE7, CHR 0x9A, CHR 0x84, CHR 0xE5, CHR 0xAE, CHR 0x9E, CHR 0xE6, CHR 0x97, CHR 0xB6, CHR 0xE7, CHR 0xA5, CHR 0xA8, CHR 0xE4, CHR 0xBB, CHR 0xB7]"

definition dep_station_description :: string where
  "dep_station_description =
     [CHR 0xE5, CHR 0x87, CHR 0xBA, CHR 0xE5, CHR 0x8F, CHR 0x91, CHR 0xE7, CHR 0x81, CHR 0xAB, CHR 0xE8, CHR 0xBD, CHR 0xA6, CHR 0xE7, CHR 0xAB, CHR 0x99, CHR 0xE5, CHR 0x90, CHR 0x8D, CHR 0xE7, CHR 0xA7, CHR 0xB0, CHR 0xE6, CHR 0x88, CHR 0x96, CHR 0xE8, CHR 0x80, CHR 0x85, CHR 0xE5, CHR 0x87, CHR 0xBA, CHR 0xE5, CHR 0x8F, CHR 0x91, CHR 0xE5, CHR 0x9F, CHR 0x8E, CHR 0xE5, CHR 0xB8, CHR 0x82, CHR 0xE5, CHR 0x90, CHR 0x8D, CHR 0xE7, CHR 0xA7, CHR 0xB0, CHR 0xE3, CHR 0x80, CHR 0x82, CHR 0xE6, CHR 0x94, CHR 0xAF, CHR 0xE6, CHR 0x8C, CHR 0x81, CHR 0xE8, CHR 0xBE, CHR 0x93, CHR 0xE5, CHR 0x85, CHR 0xA5, CHR 0xE7, CHR 0x81, CHR 0xAB, CHR 0xE8, CHR 0xBD, CHR 0xA6, CHR 0xE7, CHR 0xAB, CHR 0x99, CHR 0xE5, CHR 0x85, CHR 0xA8, CHR 0xE7, CHR 0xA7, CHR 0xB0, CHR 0xEF, CHR 0xBC, CHR 0x88, CHR 0xE5, CHR 0xA6, CHR 0x82, CHR 0xE5, CHR 0x8C, CHR 0x97, CHR 0xE4, CHR 0xBA, CHR 0xAC, CHR 0xE8, CHR 0xA5, CHR 0xBF, CHR 0xE7, CHR 0xAB, CHR 0x99, CHR 0xEF, CHR 0xBC, CHR 0x89, CHR 0xE6, CHR 0x88, CHR 0x96, CHR 0xE5, CHR 0x9F, CHR 0x8E, CHR 0xE5, CHR 0xB8, CHR 0x82, CHR 0xE5, CHR 0x90, CHR 0x8D, CHR 0xEF, CHR 0xBC, CHR 0x88, CHR 0xE5, CHR 0xA6, CHR 0x82, CHR 0xE5, CHR 0x8C, CHR 0x97, CHR 0xE4, CHR 0xBA, CHR 0xAC, CHR 0xEF, CHR 0xBC, CHR 0x89]"

definition arr_station_description :: string where
  "arr_station_description =
     [CHR 0xE7, CHR 0x9B, CHR 0xAE, CHR 0xE7, CHR 0x9A, CHR 0x84, CHR 0xE5, CHR 0x9C, CHR 0xB0, CHR 0xE7, CHR 0x81, CHR 0xAB, CHR 0xE8, CHR 0xBD, CHR 0xA6, CHR 0xE7, CHR 0xAB, CHR 0x99, CHR 0xE5, CHR 0x90, CHR 0x8D, CHR 0xE7, CHR 0xA7, CHR 0xB0, CHR 0xE6, CHR 0x88, CHR 0x96, CHR 0xE8, CHR 0x80, CHR 0x85, CHR 0xE5, CHR 0x88, CHR 0xB0, CHR 0xE5, CHR 0x9F, CHR 0x8E, CHR 0xE5, CHR 0xB8, CHR 0x82, CHR 0xE5, CHR 0x90, CHR 0x8D, CHR 0xE7, CHR 0xA7, CHR 0xB0, CHR 0xE3, CHR 0x80, CHR 0x82, CHR 0xE6, CHR 0x94, CHR 0xAF, CHR 0xE6, CHR 0x8C, CHR 0x81, CHR 0xE8, CHR 0xBE, CHR 0x93, CHR 0xE5, CHR 0x85, CHR 0xA5, CHR 0xE7, CHR 0x81, CHR 0xAB, CHR 0xE8, CHR 0xBD, CHR 0xA6, CHR 0xE7, CHR 0xAB, CHR 0x99, CHR 0xE5, CHR 0x85, CHR 0xA8, CHR 0xE7, CHR 0xA7, CHR 0xB0, CHR 0xEF, CHR 0xBC, CHR 0x88, CHR 0xE5, CHR 0xA6, CHR 0x82, CHR 0xE5, CHR 0x8C, CHR 0x97, CHR 0xE4, CHR 0xBA, CHR 0xAC, CHR 0xE8, CHR 0xA5, CHR 0xBF, CHR 0xE7, CHR 0xAB, CHR 0x99, CHR 0xEF, CHR 0xBC, CHR 0x89, CHR 0xE6, CHR 0x88, CHR 0x96, CHR 0xE5, CHR 0x9F, CHR 0x8E, CHR 0xE5, CHR 0xB8, CHR 0x82, CHR 0xE5, CHR 0x90, CHR 0x8D, CHR 0xEF, CHR 0xBC, CHR 0x88, CHR 0xE5, CHR 0xA6, CHR 0x82, CHR 0xE5, CHR 0x8C, CHR 0x97, CHR 0xE4, CHR 0xBA, CHR 0xAC, CHR 0xEF, CHR 0xBC, CHR 0x89]"

definition dep_date_description :: string where
  "dep_date_description =
     [CHR 0xE5, CHR 0x87, CHR 0xBA, CHR 0xE5, CHR 0x8F, CHR 0x91, CHR 0xE6, CHR 0x97, CHR 0xA5, CHR 0xE6, CHR 0x9C, CHR 0x9F, CHR 0xEF, CHR 0xBC, CHR 0x9A, CHR 0xE6, CHR 0xA0, CHR 0xBC, CHR 0xE5, CHR 0xBC, CHR 0x8F, CHR 0xE5, CHR 0xBF, CHR 0x85, CHR 0xE9, CHR 0xA1, CHR 0xBB, CHR 0xE4, CHR 0xB8, CHR 0xBA]
     @ ''yyyy-MM-dd''"

definition systime_description :: string where
  "systime_description =
     [CHR 0xE6, CHR 0x9F, CHR 0xA5, CHR 0xE8, CHR 0xAF, CHR 0xA2, CHR 0xE5, CHR 0xBD, CHR 0x93, CHR 0xE5, CHR 0x89, CHR 0x8D, CHR 0xE7, CHR 0xB3, CHR 0xBB, CHR 0xE7, CHR 0xBB, CHR 0x9F, CHR 0xE6, CHR 0x97, CHR 0xB6, CHR 0xE9, CHR 0x97, CHR 0xB4, CHR 0xE5, CHR 0xB7, CHR 0xA5, CHR 0xE5, CHR 0x85, CHR 0xB7, CHR 0xEF, CHR 0xBC, CHR 0x8C, CHR 0xE5, CHR 0xAE, CHR 0x83, CHR 0xE5, CHR 0x8F, CHR 0xAF, CHR 0xE4, CHR 0xBB, CHR 0xA5, CHR 0xE5, CHR 0xB8, CHR 0xAE, CHR 0xE5, CHR 0x8A, CHR 0xA9, CHR 0xE4, CHR 0xBD, CHR 0xA0, CHR 0xE8, CHR 0x8E, CHR 0xB7, CHR 0xE5, CHR 0x8F, CHR 0x96, CHR 0xE5, CHR 0xBD, CHR 0x93, CHR 0xE5, CHR 0x89, CHR 0x8D, CHR 0xE7, CHR 0xB3, CHR 0xBB, CHR 0xE7, CHR 0xBB, CHR 0x9F, CHR 0xE6, CHR 0x97, CHR 0xA5, CHR 0xE6, CHR 0x9C, CHR 0x9F, CHR 0xE6, CHR 0x97, CHR 0xB6, CHR 0xE9, CHR 0x97, CHR 0xB4, CHR 0xEF, CHR 0xBC, CHR 0x8C, CHR 0xE8, CHR 0xBF, CHR 0x94, CHR 0xE5, CHR 0x9B, CHR 0x9E, CHR 0xE6, CHR 0xA0, CHR 0xBC, CHR 0xE5, CHR 0xBC, CHR 0x8F, CHR 0xE4, CHR 0xB8, CHR 0xBA]
     @ '':yyyy-MM-dd hh:mm:ss''
     @ [CHR 0xEF, CHR 0xBC, CHR 0x8C, CHR 0xE5, CHR 0x8F, CHR 0xAF, CHR 0xE7, CHR 0x94, CHR 0xA8, CHR 0xE4, CHR 0xBA, CHR 0x8E, CHR 0xE7, CHR 0x81, CHR 0xAB, CHR 0xE8, CHR 0xBD, CHR 0xA6, CHR 0xE7, CHR 0xA5, CHR 0xA8, CHR 0xE6, CHR 0x9F, CHR 0xA5, CHR 0xE8, CHR 0xAF, CHR 0xA2, CHR 0xE7, CHR 0xAD, CHR 0x89, CHR 0xE9, CHR 0x9C, CHR 0x80, CHR 0xE8, CHR 0xA6, CHR 0x81, CHR 0xE6, CHR 0x97, CHR 0xB6, CHR 0xE9, CHR 0x97, CHR 0xB4, CHR 0xE9, CHR 0xAA, CHR 0x8C, CHR 0xE8, CHR 0xAF, CHR 0x81, CHR 0xE7, CHR 0x9A, CHR 0x84, CHR 0xE5, CHR 0x9C, CHR 0xBA, CHR 0xE6, CHR 0x99, CHR 0xAF, CHR 0xE3, CHR 0x80, CHR 0x82, CHR 0xE4, CHR 0xBE, CHR 0x8B, CHR 0xE5, CHR 0xA6, CHR 0x82, CHR 0xE8, CHR 0x8E, CHR 0xB7, CHR 0xE5, CHR 0x8F, CHR 0x96, CHR 0xE4, CHR 0xBB, CHR 0x8A, CHR 0xE5, CHR 0xA4, CHR 0xA9, CHR 0xE5, CHR 0x8C, CHR 0x97, CHR 0xE4, CHR 0xBA, CHR 0xAC, CHR 0xE5, CHR 0x88, CHR 0xB0, CHR 0xE4, CHR 0xB8, CHR 0x8A, CHR 0xE6, CHR 0xB5, CHR 0xB7, CHR 0xE7, CHR 0x9A, CHR 0x84, CHR 0xE7, CHR 0x81, CHR 0xAB, CHR 0xE8, CHR 0xBD, CHR 0xA6, CHR 0xE7, CHR 0xA5, CHR 0xA8, CHR 0xEF, CHR 0xBC, CHR 0x8C, CHR 0xE5, CHR 0x88, CHR 0x99, CHR 0xE5, CHR 0x85, CHR 0x88, CHR 0xE8, CHR 0xB0, CHR 0x83, CHR 0xE7, CHR 0x94, CHR 0xA8, CHR 0xE5, CHR 0xBD, CHR 0x93, CHR 0xE5, CHR 0x89, CHR 0x8D, CHR 0xE6, CHR 0x96, CHR 0xB9, CHR 0xE6, CHR 0xB3, CHR 0x95, CHR 0xE8, CHR 0x8E, CHR 0xB7, CHR 0xE5, CHR 0x8F, CHR 0x96, CHR 0xE6, CHR 0x97, CHR 0xB6, CHR 0xE9, CHR 0x97, CHR 0xB4, CHR 0xEF, CHR 0xBC, CHR 0x8C, CHR 0xE5, CHR 0x86, CHR 0x8D, CHR 0xE8, CHR 0x8E, CHR 0xB7, CHR 0xE5, CHR 0x8F, CHR 0x96, CHR 0xE7, CHR 0x81, CHR 0xAB, CHR 0xE8, CHR 0xBD, CHR 0xA6, CHR 0xE7, CHR 0xA5, CHR 0xA8, CHR 0xE8, CHR 0xAF, CHR 0xA6, CHR 0xE6, CHR 0x83, CHR 0x85]"

definition GET_HUOCHEPIAO_LIST :: jsval where
  "GET_HUOCHEPIAO_LIST =
     JObj [(''name'', JStr ''query_train_tickets_list''),
           (''description'', JStr huochepiao_description),
           (''inputSchema'', JObj [
              (''type'', JStr ''object''),
              (''properties'', JObj [
                 (''depStationName'', JObj [(''type'', JStr ''string''), (''description'', JStr dep_station_description)]),
                 (''arrStationName'', JObj [(''type'', JStr ''string''), (''description'', JStr arr_station_description)]),
                 (''depDate'', JObj [(''type'', JStr ''string''), (''description'', JStr dep_date_description)])]),
              (''required'', JArr [JStr ''depStationName'', JStr ''arrStationName'', JStr ''depDate''])])]"

definition GET_SYSTIME :: jsval where
  "GET_SYSTIME =
     JObj [(''name'', JStr ''get_current_system_time''),
           (''description'', JStr systime_description),
           (''inputSchema'', JObj [(''type'', JStr ''object''), (''properties'', JObj []), (''required'', JArr [])])]"

definition SUPPORT_TOOLS :: jsval where
  "SUPPORT_TOOLS = JArr [GET_SYSTIME]"

subsection \<open>Registration\<close>

text \<open>The destructured parameters of the callback. The schema lets only strings
  through, so the second case of \<open>str_val\<close> is never taken on a call.\<close>

fun str_val :: "jsval \<Rightarrow> string" where
  "str_val (JStr s) = s"
| "str_val v = []"

text \<open>What a client that validates against an exported JSON schema accepts (JSON
  Schema's \<open>type: "object"\<close>, \<open>required\<close>, and the \<open>type\<close> of each listed
  property; a device of the specification, to compare the exported schemas
  with the zod shapes the server checks). A property whose value is
  \<open>undefined\<close> is absent, as in JSON.\<close>

definition json_type_ok :: "jsval \<Rightarrow> jsval \<Rightarrow> bool" where
  "json_type_ok ps v =
     (if prop_val ps ''type'' = JStr ''string'' then (case v of JStr x \<Rightarrow> True | _ \<Rightarrow> False)
      else if prop_val ps ''type'' = JStr ''number'' then (case v of JNum x \<Rightarrow> True | _ \<Rightarrow> False)
      else True)"

definition json_schema_valid :: "jsval \<Rightarrow> jsval \<Rightarrow> bool" where
  "json_schema_valid sch args =
     (prop_val sch ''type'' = JStr ''object'' \<and> (case args of JObj kvs \<Rightarrow> True | _ \<Rightarrow> False)
      \<and> (case prop_val sch ''required'' of
           JArr req \<Rightarrow> list_all (\<lambda>r. prop_val args (str_val r) \<noteq> JUndef) req | _ \<Rightarrow> True)
      \<and> (case prop_val sch ''properties'' of
           JObj props \<Rightarrow> list_all (\<lambda>(k, ps). prop_val args k = JUndef \<or> json_type_ok ps (prop_val args k)) props
         | _ \<Rightarrow> True))"

definition train_tool_name :: string where
  "train_tool_name = str_val (prop_val GET_HUOCHEPIAO_LIST ''name'')"

definition systime_tool_name :: string where
  "systime_tool_name = str_val (prop_val GET_SYSTIME ''name'')"

text \<open>The \<open>inputSchema\<close> passed to \<open>registerTool\<close>: three \<open>z.string()\<close>
  fields, none optional (the \<open>describe\<close> texts do not affect parsing).\<close>

definition train_shape :: zod_shape where
  "train_shape = [(''depStationName'', ZString, False), (''arrStationName'', ZString, False),
                  (''depDate'', ZString, False)]"

definition train_tool_cb :: "jsval \<Rightarrow> jsval io" where
  "train_tool_cb args =
     handleGetHuochepiaoList (str_val (prop_val args ''depStationName''))
       (str_val (prop_val args ''arrStationName'')) (str_val (prop_val args ''depDate''))"

definition systime_cb :: "jsval \<Rightarrow> jsval io" where
  "systime_cb args = handleGetSystemTime"

definition train_register :: "registry \<Rightarrow> js_exn + registry" where
  "train_register reg =
     sbind (registerTool train_tool_name (Some train_shape) train_tool_cb reg)
       (server_tool systime_tool_name (PlainObject []) systime_cb)"

subsection \<open>Server construction and start-up\<close>

text \<open>The object passed to \<open>new McpServer\<close> (\<open>12306_tool.js\<close>), the server's only
  argument, and the \<open>main()\<close> that connects it to the stdio transport.\<close>

definition train_instructions :: string where
  "train_instructions =
     [CHR 0xE6, CHR 0x9C, CHR 0xAC] @ '' MCP ''
     @ [CHR 0xE6, CHR 0x9C, CHR 0x8D, CHR 0xE5, CHR 0x8A, CHR 0xA1, CHR 0xE4, CHR 0xB8,
      CHR 0x93, CHR 0xE4, CHR 0xB8, CHR 0xBA]
     @ ''12306''
     @ [CHR 0xE7, CHR 0x81, CHR 0xAB, CHR 0xE8, CHR 0xBD, CHR 0xA6, CHR 0xE7, CHR 0xA5,
      CHR 0xA8, CHR 0xE6, CHR 0x9F, CHR 0xA5, CHR 0xE8, CHR 0xAF, CHR 0xA2, CHR 0xE8, CHR 0xAE,
      CHR 0xBE, CHR 0xE8, CHR 0xAE, CHR 0xA1, CHR 0xEF, CHR 0xBC, CHR 0x8C, CHR 0xE6, CHR 0x8F,
      CHR 0x90, CHR 0xE4, CHR 0xBE, CHR 0x9B, CHR 0xE8, CHR 0xBD, CHR 0xA6, CHR 0xE6, CHR 0xAC,
      CHR 0xA1, CHR 0xE5, CHR 0x88, CHR 0x97, CHR 0xE8, CHR 0xA1, CHR 0xA8, CHR 0xE6, CHR 0x9F,
      CHR 0xA5, CHR 0xE8, CHR 0xAF, CHR 0xA2, CHR 0xE5, CHR 0x92, CHR 0x8C, CHR 0xE5, CHR 0xBD,
      CHR 0x93, CHR 0xE5, CHR 0x89, CHR 0x8D, CHR 0xE7, CHR 0xB3, CHR 0xBB, CHR 0xE7, CHR 0xBB,
      CHR 0x9F, CHR 0xE6, CHR 0x97, CHR 0xB6, CHR 0xE9, CHR 0x97, CHR 0xB4, CHR 0xE6, CHR 0x9F,
      CHR 0xA5, CHR 0xE8, CHR 0xAF, CHR 0xA2, CHR 0xE5, CHR 0x8A, CHR 0x9F, CHR 0xE8, CHR 0x83,
      CHR 0xBD, CHR 0xE3, CHR 0x80, CHR 0x82, CHR 0xE6, CHR 0x9C, CHR 0x8D, CHR 0xE5, CHR 0x8A,
      CHR 0xA1, CHR 0xE5, CHR 0x8A, CHR 0x9F, CHR 0xE8, CHR 0x83, CHR 0xBD, CHR 0xE5, CHR 0x92,
      CHR 0x8C, CHR 0xE8, CHR 0xA7, CHR 0x84, CHR 0xE5, CHR 0x88, CHR 0x99, CHR 0xE5, CHR 0xA6,
      CHR 0x82, CHR 0xE4, CHR 0xB8, CHR 0x8B]"

definition train_server_info :: jsval where
  "train_server_info =
     JObj [(''name'', JStr ''xing-12306-mcp''),
           (''version'', JStr ''1.0.0''),
           (''capabilities'', JObj [(''resources'', JObj []), (''tools'', JObj [])]),
           (''instructions'', JStr train_instructions)]"

text \<open>\<open>const server = new McpServer({...})\<close>: the object is the only argument,
  so it is the server's \<open>serverInfo\<close> and there are no options.\<close>

definition train_server :: server_obj where
  "train_server = new_mcp_server train_server_info None"

definition train_main :: "js_exn + unit \<Rightarrow> start_out" where
  "train_main conn = server_main msg_running conn"

lemma train_tool_name_eq: "train_tool_name = ''query_train_tickets_list''"
  by (simp add: train_tool_name_def GET_HUOCHEPIAO_LIST_def prop_val_def)

lemma systime_tool_name_eq: "systime_tool_name = ''get_current_system_time''"
  by (simp add: systime_tool_name_def GET_SYSTIME_def prop_val_def)

lemma train_register_empty:
  "train_register empty_registry =
     Inr \<lparr>tools = [(train_tool_name, \<lparr>t_schema = Some train_shape, t_handler = train_tool_cb\<rparr>),
                   (systime_tool_name, \<lparr>t_schema = Some [], t_handler = systime_cb\<rparr>)]\<rparr>"
  by (simp add: train_register_def registerTool_def server_tool_def tool_arg_schema_def
      registered_def empty_registry_def sbind_def train_tool_name_eq systime_tool_name_eq)

lemma train_shape_parse_strings:
  "zod_parse train_shape (JObj [(''depStationName'', JStr a), (''arrStationName'', JStr b), (''depDate'', JStr c)])
     = Inr (JObj [(''depStationName'', JStr a), (''arrStationName'', JStr b), (''depDate'', JStr c)])"
  by (simp add: zod_parse_def train_shape_def prop_val_def)

lemma train_shape_parse_no_date:
  "zod_parse train_shape (JObj [(''depStationName'', JStr a), (''arrStationName'', JStr b)]) = Inl ''depDate''"
  by (simp add: zod_parse_def train_shape_def prop_val_def)

text \<open>The train server registers its two tools in order; a call of
  query_train_tickets_list with the three strings runs handleGetHuochepiaoList on
  them (its exception becoming an error result); a call without depDate is refused
  by the schema before the handler runs, with no effect; and a call of
  get_current_system_time with any object runs handleGetSystemTime.\<close>

theorem train_server_calls:
  "\<exists>reg. train_register empty_registry = Inr reg
     \<and> map fst (tools reg) = [train_tool_name, systime_tool_name]
     \<and> (\<forall>a b c w s. callTool reg train_tool_name
            (JObj [(''depStationName'', JStr a), (''arrStationName'', JStr b), (''depDate'', JStr c)]) w s
          = (case handleGetHuochepiaoList a b c w s of
               (Inl e, s') \<Rightarrow> (Inr (ToolResult (error_result e)), s')
             | (Inr r, s') \<Rightarrow> (Inr (ToolResult r), s')))
     \<and> (\<forall>a b w s. callTool reg train_tool_name
            (JObj [(''depStationName'', JStr a), (''arrStationName'', JStr b)]) w s
          = (Inr (RpcError (''Invalid arguments for tool query_train_tickets_list: depDate'')), s))
     \<and> (\<forall>kvs w s. callTool reg systime_tool_name (JObj kvs) w s = run_callback (\<lambda>x. handleGetSystemTime) (JObj []) w s)"
proof -
  let ?reg = "\<lparr>tools = [(train_tool_name, \<lparr>t_schema = Some train_shape, t_handler = train_tool_cb\<rparr>),
                   (systime_tool_name, \<lparr>t_schema = Some [], t_handler = systime_cb\<rparr>)]\<rparr>"
  have ne: "systime_tool_name \<noteq> train_tool_name" by (simp add: train_tool_name_eq systime_tool_name_eq)
  have "callTool ?reg train_tool_name
            (JObj [(''depStationName'', JStr a), (''arrStationName'', JStr b), (''depDate'', JStr c)]) w s
          = (case handleGetHuochepiaoList a b c w s of
               (Inl e, s') \<Rightarrow> (Inr (ToolResult (error_result e)), s')
             | (Inr r, s') \<Rightarrow> (Inr (ToolResult r), s'))" for a b c w s
    by (simp add: callTool_def train_shape_parse_strings run_callback_def train_tool_cb_def prop_val_def)
  moreover have "callTool ?reg train_tool_name (JObj [(''depStationName'', JStr a), (''arrStationName'', JStr b)]) w s
          = (Inr (RpcError (''Invalid arguments for tool query_train_tickets_list: depDate'')), s)" for a b w s
    by (simp add: callTool_def train_shape_parse_no_date io_return_def train_tool_name_eq)
  moreover have "callTool ?reg systime_tool_name (JObj kvs) w s = run_callback (\<lambda>x. handleGetSystemTime) (JObj []) w s"
    for kvs w s
    using ne by (simp add: callTool_def zod_parse_def run_callback_def systime_cb_def)
  ultimately show ?thesis using train_register_empty by simp
qed

lemma zod_fields_ok:
  "(case zod_fields sh args of Inr fs \<Rightarrow> True | Inl k \<Rightarrow> False) =
     list_all (\<lambda>(k, t, opt). (prop_val args k = JUndef \<longrightarrow> opt)
       \<and> (prop_val args k \<noteq> JUndef \<longrightarrow> zod_check t (prop_val args k))) sh"
proof (induction sh)
  case Nil
  then show ?case by simp
next
  case (Cons f sh)
  obtain k t opt where "f = (k, t, opt)" by (cases f) auto
  with Cons show ?case by (auto simp: Let_def split: sum.split)
qed

text \<open>C21: the JSON schemas the module exports for the two tools describe exactly
  the arguments the server validates: for every argument value, a client checking
  it against the exported schema of the train query accepts it exactly when the
  server's zod shape of three required strings does, and likewise for the time
  tool and its empty shape.\<close>

theorem exported_schemas_agree:
  "(json_schema_valid (prop_val GET_HUOCHEPIAO_LIST ''inputSchema'') args
      \<longleftrightarrow> (\<exists>p. zod_parse train_shape args = Inr p))
   \<and> (json_schema_valid (prop_val GET_SYSTIME ''inputSchema'') args
      \<longleftrightarrow> (\<exists>p. zod_parse (the (tool_arg_schema (PlainObject []))) args = Inr p))"
proof (cases "\<exists>kvs. args = JObj kvs")
  case True
  then obtain kvs where a: "args = JObj kvs" by blast
  have z: "(\<exists>p. zod_parse sh (JObj kvs) = Inr p) \<longleftrightarrow>
             list_all (\<lambda>(k, t, opt). (prop_val (JObj kvs) k = JUndef \<longrightarrow> opt)
                \<and> (prop_val (JObj kvs) k \<noteq> JUndef \<longrightarrow> zod_check t (prop_val (JObj kvs) k))) sh" for sh
    unfolding zod_fields_ok [symmetric] by (simp add: zod_parse_def split: sum.split)
  show ?thesis
    unfolding a z
    by (simp add: json_schema_valid_def json_type_ok_def GET_HUOCHEPIAO_LIST_def GET_SYSTIME_def
        train_shape_def tool_arg_schema_def prop_val_def) blast
next
  case False
  then show ?thesis
    by (cases args) (simp_all add: json_schema_valid_def zod_parse_def tool_arg_schema_def)
qed

end
