(* ===== verification/Json.thy ===== *)
theory Json
  imports JsValue
begin

text \<open>
  How the other side reads the JSON text \<open>JSON.stringify\<close> prints for an array
  of strings: a scanner for \<open>[\<close>, string literals with their escapes, \<open>,\<close> and
  \<open>]\<close>. It is the reading the exchange applies to the \<open>symbols\<close> parameter of
  the Binance ticker call; the lemmas show that it returns the array that was
  printed.
\<close>

definition hex_val :: "char \<Rightarrow> nat option" where
  "hex_val c =
     (let n = of_char c :: nat in
      if 48 \<le> n \<and> n < 58 then Some (n - 48)
      else if 97 \<le> n \<and> n < 103 then Some (n - 87)
      else if 65 \<le> n \<and> n < 71 then Some (n - 55)
      else None)"

text \<open>The one-character escapes of a JSON string.\<close>

definition esc_char :: "char \<Rightarrow> char option" where
  "esc_char c =
     (if c = CHR 0x22 then Some (CHR 0x22)
      else if c = CHR 0x5C then Some (CHR 0x5C)
      else if c = CHR ''/'' then Some (CHR ''/'')
      else if c = CHR ''b'' then Some (CHR 0x08)
      else if c = CHR ''f'' then Some (CHR 0x0C)
      else if c = CHR ''n'' then Some (CHR 0x0A)
      else if c = CHR ''r'' then Some (CHR 0x0D)
      else if c = CHR ''t'' then Some (CHR 0x09)
      else None)"

datatype jmode = JStart | JFirst | JNext | JIn | JEsc | JHex nat nat | JAfter | JEnd

fun jscan :: "jmode \<Rightarrow> string list \<Rightarrow> string \<Rightarrow> string \<Rightarrow> string list option" where
  "jscan JEnd xs cur [] = Some xs"
| "jscan m xs cur [] = None"
| "jscan JStart xs cur (c # r) = (if c = CHR ''['' then jscan JFirst xs cur r else None)"
| "jscan JFirst xs cur (c # r) =
     (if c = CHR '']'' then jscan JEnd xs cur r
      else if c = CHR 0x22 then jscan JIn xs [] r else None)"
| "jscan JNext xs cur (c # r) = (if c = CHR 0x22 then jscan JIn xs [] r else None)"
| "jscan JIn xs cur (c # r) =
     (if c = CHR 0x22 then jscan JAfter (xs @ [cur]) [] r
      else if c = CHR 0x5C then jscan JEsc xs cur r
      else if (of_char c :: nat) < 32 then None
      else jscan JIn xs (cur @ [c]) r)"
| "jscan JEsc xs cur (c # r) =
     (case esc_char c of
        Some d \<Rightarrow> jscan JIn xs (cur @ [d]) r
      | None \<Rightarrow> if c = CHR ''u'' then jscan (JHex 4 0) xs cur r else None)"
| "jscan (JHex n v) xs cur (c # r) =
     (case hex_val c of
        None \<Rightarrow> None
      | Some h \<Rightarrow> if n \<le> 1 then jscan JIn xs (cur @ [char_of (16 * v + h)]) r
                 else jscan (JHex (n - 1) (16 * v + h)) xs cur r)"
| "jscan JAfter xs cur (c # r) =
     (if c = CHR '','' then jscan JNext xs cur r
      else if c = CHR '']'' then jscan JEnd xs cur r else None)"
| "jscan JEnd xs cur (c # r) = None"

definition json_str_array :: "string \<Rightarrow> string list option" where
  "json_str_array t = jscan JStart [] [] t"

lemma hex_val_hex_digit [simp]: "n < 16 \<Longrightarrow> hex_val (hex_digit n) = Some n"
proof -
  assume "n < 16"
  then consider "n < 10" | "10 \<le> n" "n < 16" by linarith
  then show ?thesis
  proof cases
    case 1
    then show ?thesis by (simp add: hex_val_def hex_digit_def)
  next
    case 2
    then show ?thesis by (simp add: hex_val_def hex_digit_def)
  qed
qed

lemma jscan_escape:
  "jscan JIn xs cur (json_escape c @ rest) = jscan JIn xs (cur @ [c]) rest"
proof -
  have lt: "(of_char c :: nat) < 256" by (rule nat_of_char_less_256)
  show ?thesis
  proof (cases "(of_char c :: nat) < 32")
    case True
    then have ne: "c \<noteq> CHR 0x22" "c \<noteq> CHR 0x5C" by auto
    have hx: "hex_val (hex_digit (of_char c div 16)) = Some (of_char c div 16)"
      "hex_val (hex_digit (of_char c mod 16)) = Some (of_char c mod 16)"
      using True by simp_all
    have ch: "char_of (16 * (of_char c div 16) + of_char c mod 16 :: nat) = c"
      by (simp only: mult_div_mod_eq char_of_char)
    show ?thesis
    proof (cases "c = CHR 0x08 \<or> c = CHR 0x0C \<or> c = CHR 0x0A \<or> c = CHR 0x0D \<or> c = CHR 0x09")
      case True
      then show ?thesis by (auto simp: json_escape_def esc_char_def)
    next
      case False
      have h0: "hex_val (CHR ''0'') = Some 0" by (simp add: hex_val_def)
      from False ne \<open>(of_char c :: nat) < 32\<close> show ?thesis
        by (simp add: json_escape_def esc_char_def h0 hx ch)
    qed
  next
    case False
    then show ?thesis by (auto simp: json_escape_def esc_char_def)
  qed
qed

lemma jscan_escaped:
  "jscan JIn xs cur (concat (map json_escape s) @ rest) = jscan JIn xs (cur @ s) rest"
proof (induction s arbitrary: cur)
  case Nil
  then show ?case by simp
next
  case (Cons c s)
  have "jscan JIn xs cur (concat (map json_escape (c # s)) @ rest)
      = jscan JIn xs (cur @ [c]) (concat (map json_escape s) @ rest)"
    using jscan_escape [of xs cur c "concat (map json_escape s) @ rest"] by simp
  with Cons.IH show ?case by simp
qed

lemma jscan_quoted:
  "jscan JNext xs cur (json_quote s @ rest) = jscan JAfter (xs @ [s]) [] rest"
  by (simp add: json_quote_def jscan_escaped)

lemma jscan_elems:
  "jscan JNext xs cur (join '','' (map json_quote (y # ys)) @ '']'') = Some (xs @ y # ys)"
proof (induction ys arbitrary: xs y cur)
  case Nil
  then show ?case by (simp add: jscan_quoted)
next
  case (Cons z zs)
  have "join '','' (map json_quote (y # z # zs)) @ '']''
      = json_quote y @ CHR '','' # join '','' (map json_quote (z # zs)) @ '']''"
    by simp
  then show ?case
    using Cons.IH [of "xs @ [y]" "[]" z] by (simp only: jscan_quoted) simp
qed

lemma join_quote_hd: "\<exists>r. join '','' (map json_quote (y # zs)) = CHR 0x22 # r"
  by (cases zs) (simp_all add: json_quote_def)

lemma json_str_array_stringify:
  "json_str_array (the (json_stringify (JArr (map JStr ys)))) = Some ys"
proof (cases ys)
  case Nil
  then show ?thesis by (simp add: json_str_array_def json_stringify_def json_wrap_def)
next
  case (Cons y zs)
  have first: "jscan JFirst [] [] (join '','' (map json_quote (y # zs)) @ '']'')
             = jscan JNext [] [] (join '','' (map json_quote (y # zs)) @ '']'')"
    using join_quote_hd [of y zs] by auto
  show ?thesis
    using Cons first jscan_elems [of "[]" "[]" y zs]
    by (simp add: json_str_array_def json_stringify_def json_wrap_def comp_def)
qed

end
