(* ===== verification/Binance.thy ===== *)
theory Binance
  imports Effects Json
begin

text \<open>
  The Binance request builders of \<open>src/src/binance/binance_get_api.ts\<close> and the
  base-URL choice of \<open>binance_config\<close> (its TypeScript source is not in the
  repository; the compiled \<open>src/dist/binance/binance_config.js\<close> is).

  Every builder is one call of \<open>axiosBinanceGet(path, params)\<close>: it draws a base
  URL from the pool of six with \<open>Math.random()\<close>, sends one GET to the base URL
  followed by the path with the parameter object, and returns the parsed body,
  or rejects with the error axios throws. The parameter object is modelled as the
  list of its entries in insertion order; an absent object (\<open>undefined\<close>) is the
  empty list, which axios serialises in the same way. Optional arguments are
  JavaScript values (\<open>JUndef\<close> when left out), so that \<open>??\<close>, \<open>&&\<close>,
  \<open>?.\<close> and \<open>if (x)\<close> are read as the code reads them.
\<close>

subsection \<open>Base URL\<close>

definition binanceBaseUrls :: "string list" where
  "binanceBaseUrls =
     [''https://api.binance.com'', ''https://api-gcp.binance.com'',
      ''https://api1.binance.com'', ''https://api2.binance.com'',
      ''https://api3.binance.com'', ''https://api4.binance.com'']"

text \<open>\<open>binanceBaseUrls[Math.floor(Math.random() * binanceBaseUrls.length)]\<close>.\<close>

definition getBaseUrl :: "jsval io" where
  "getBaseUrl =
     io_bind (io_random_index (length binanceBaseUrls)) (\<lambda>idx.
       io_return (if idx < length binanceBaseUrls then JStr (binanceBaseUrls ! idx) else JUndef))"

text \<open>The rest of \<open>binance_config\<close> (present only compiled, as
  \<open>src/dist/binance/binance_config.js\<close>): the API key
  \<open>process.env.BINANCE_API_KEY || ""\<close>, which no builder sends, and the text
  \<open>DefaultTradingPairDescription\<close>, which no tool uses. The text is one template
  literal into which string concatenations were pasted, so it contains their quotes
  and plus signs.\<close>

definition binanceApiKey :: "(string \<Rightarrow> string option) \<Rightarrow> string" where
  "binanceApiKey env = (case env ''BINANCE_API_KEY'' of Some k \<Rightarrow> if k \<noteq> [] then k else [] | None \<Rightarrow> [])"

definition DefaultTradingPairDescription :: string where
  "DefaultTradingPairDescription =
     [CHR 0xE9, CHR 0xBB, CHR 0x98, CHR 0xE8, CHR 0xAE, CHR 0xA4, CHR 0xE8, CHR 0xA1, CHR 0x8C, CHR 0xE4, CHR 0xB8, CHR 0xBA, CHR 0xEF, CHR 0xBC, CHR 0x9A, CHR 0x0A, CHR 0x22]
     @ '' +'' @ [CHR 0x0A] @ ''            '' @ [CHR 0x22] @ ''- ''
     @ [CHR 0xE5, CHR 0xA6, CHR 0x82, CHR 0xE6, CHR 0x9E, CHR 0x9C, CHR 0xE5, CHR 0x8F, CHR 0xAA, CHR 0xE8, CHR 0xBE, CHR 0x93, CHR 0xE5, CHR 0x85, CHR 0xA5, CHR 0xE5, CHR 0xB8, CHR 0x81, CHR 0xE7, CHR 0xA7, CHR 0x8D, CHR 0xEF, CHR 0xBC, CHR 0x88, CHR 0xE5, CHR 0xA6, CHR 0x82]
     @ '' '' @ [CHR 0x22] @ ''BTC''
     @ [CHR 0x22, CHR 0xEF, CHR 0xBC, CHR 0x89, CHR 0xEF, CHR 0xBC, CHR 0x8C, CHR 0xE7, CHR 0xB3, CHR 0xBB, CHR 0xE7, CHR 0xBB, CHR 0x9F, CHR 0xE4, CHR 0xBC, CHR 0x9A, CHR 0xE8, CHR 0x87, CHR 0xAA, CHR 0xE5, CHR 0x8A, CHR 0xA8, CHR 0xE8, CHR 0xA1, CHR 0xA5, CHR 0xE5, CHR 0x85, CHR 0xA8, CHR 0xE4, CHR 0xB8, CHR 0xBA]
     @ '' BTCUSDT ''
     @ [CHR 0xE4, CHR 0xBA, CHR 0xA4, CHR 0xE6, CHR 0x98, CHR 0x93, CHR 0xE5, CHR 0xAF, CHR 0xB9, CHR 0xE3, CHR 0x80, CHR 0x82, CHR 0x0A, CHR 0x22]
     @ '' +'' @ [CHR 0x0A] @ ''            '' @ [CHR 0x22] @ ''- ''
     @ [CHR 0xE5, CHR 0xA6, CHR 0x82, CHR 0xE6, CHR 0x9E, CHR 0x9C, CHR 0xE9, CHR 0x9C, CHR 0x80, CHR 0xE8, CHR 0xA6, CHR 0x81, CHR 0xE6, CHR 0x8C, CHR 0x87, CHR 0xE5, CHR 0xAE, CHR 0x9A, CHR 0xE9, CHR 0x9D, CHR 0x9E]
     @ '' USDT ''
     @ [CHR 0xE4, CHR 0xBA, CHR 0xA4, CHR 0xE6, CHR 0x98, CHR 0x93, CHR 0xE5, CHR 0xAF, CHR 0xB9, CHR 0xEF, CHR 0xBC, CHR 0x88, CHR 0xE5, CHR 0xA6, CHR 0x82]
     @ '' BTCETH''
     @ [CHR 0xEF, CHR 0xBC, CHR 0x89, CHR 0xEF, CHR 0xBC, CHR 0x8C, CHR 0xE8, CHR 0xAF, CHR 0xB7, CHR 0xE5, CHR 0xAE, CHR 0x8C, CHR 0xE6, CHR 0x95, CHR 0xB4, CHR 0xE8, CHR 0xBE, CHR 0x93, CHR 0xE5, CHR 0x85, CHR 0xA5, CHR 0xE4, CHR 0xBA, CHR 0xA4, CHR 0xE6, CHR 0x98, CHR 0x93, CHR 0xE5, CHR 0xAF, CHR 0xB9, CHR 0xE3, CHR 0x80, CHR 0x82, CHR 0x0A, CHR 0x22]
     @ '' +'' @ [CHR 0x0A] @ ''            '' @ [CHR 0x22, CHR 0x0A, CHR 0x22] @ '' +''
     @ [CHR 0x0A] @ ''            ''
     @ [CHR 0x22, CHR 0xE7, CHR 0xA4, CHR 0xBA, CHR 0xE4, CHR 0xBE, CHR 0x8B, CHR 0xEF, CHR 0xBC, CHR 0x9A, CHR 0x0A, CHR 0x22]
     @ '' +'' @ [CHR 0x0A] @ ''            '' @ [CHR 0x22] @ ''- ''
     @ [CHR 0xE8, CHR 0xBE, CHR 0x93, CHR 0xE5, CHR 0x85, CHR 0xA5] @ '' '' @ [CHR 0x22]
     @ ''BTC'' @ [CHR 0x22] @ '' '' @ [CHR 0xE2, CHR 0x86, CHR 0x92] @ '' ''
     @ [CHR 0xE6, CHR 0x9F, CHR 0xA5, CHR 0xE8, CHR 0xAF, CHR 0xA2] @ '' BTCUSDT ''
     @ [CHR 0xE6, CHR 0x9C, CHR 0x80, CHR 0xE8, CHR 0xBF, CHR 0x91, CHR 0xE6, CHR 0x88, CHR 0x90, CHR 0xE4, CHR 0xBA, CHR 0xA4, CHR 0x0A, CHR 0x22]
     @ '' +'' @ [CHR 0x0A] @ ''            '' @ [CHR 0x22] @ ''- ''
     @ [CHR 0xE8, CHR 0xBE, CHR 0x93, CHR 0xE5, CHR 0x85, CHR 0xA5] @ '' '' @ [CHR 0x22]
     @ ''ETHBTC'' @ [CHR 0x22] @ '' '' @ [CHR 0xE2, CHR 0x86, CHR 0x92] @ '' ''
     @ [CHR 0xE6, CHR 0x9F, CHR 0xA5, CHR 0xE8, CHR 0xAF, CHR 0xA2] @ '' ETHBTC ''
     @ [CHR 0xE6, CHR 0x9C, CHR 0x80, CHR 0xE8, CHR 0xBF, CHR 0x91, CHR 0xE6, CHR 0x88, CHR 0x90, CHR 0xE4, CHR 0xBA, CHR 0xA4]"

subsection \<open>The GET helper\<close>

definition get_request :: "string \<Rightarrow> (string \<times> jsval) list \<Rightarrow> http_req" where
  "get_request url params =
     \<lparr>req_method = ''GET'', req_url = url, req_params = params, req_headers = [],
      req_body = None\<rparr>"

text \<open>\<open>`${baseUrl}${path}`\<close> and \<open>(await axios.get(url, { params })).data\<close>.\<close>

definition axiosBinanceGet :: "string \<Rightarrow> (string \<times> jsval) list \<Rightarrow> jsval io" where
  "axiosBinanceGet path params =
     io_bind getBaseUrl (\<lambda>baseUrl.
       io_request (get_request (to_str baseUrl @ path) params))"

subsection \<open>Parameter idioms\<close>

text \<open>\<open>...(v && { k: v })\<close> and \<open>if (v) params.k = v\<close>: the entry is there
  exactly when \<open>v\<close> is truthy (spreading a falsy primitive adds nothing).\<close>

definition spread_if :: "string \<Rightarrow> jsval \<Rightarrow> (string \<times> jsval) list" where
  "spread_if k v = (if truthy v then [(k, v)] else [])"

text \<open>\<open>x ?? d\<close>.\<close>

definition nullish_default :: "jsval \<Rightarrow> jsval \<Rightarrow> jsval" where
  "nullish_default x d = (if nullish x then d else x)"

text \<open>\<open>opts?.k\<close>: \<open>undefined\<close> when \<open>opts\<close> is \<open>undefined\<close> or \<open>null\<close>.\<close>

definition opt_get :: "jsval \<Rightarrow> string \<Rightarrow> jsval" where
  "opt_get opts k = (if nullish opts then JUndef else prop_val opts k)"

text \<open>\<open>symbol: symbol.toUpperCase()\<close>.\<close>

definition upper_symbol :: "string \<Rightarrow> string \<times> jsval" where
  "upper_symbol symbol = (''symbol'', JStr (to_upper symbol))"

subsection \<open>The builders\<close>

definition fetchBinanceTrades :: "string \<Rightarrow> jsval \<Rightarrow> jsval io" where
  "fetchBinanceTrades symbol limit =
     axiosBinanceGet ''/api/v3/trades''
       [upper_symbol symbol, (''limit'', nullish_default limit (JNum 100))]"

definition binanceDepth :: "string \<Rightarrow> jsval \<Rightarrow> jsval io" where
  "binanceDepth symbol limit =
     axiosBinanceGet ''/api/v3/depth''
       [upper_symbol symbol, (''limit'', nullish_default limit (JNum 100))]"

definition ping :: "jsval io" where
  "ping = axiosBinanceGet ''/api/v3/ping'' []"

definition serverTime :: "jsval io" where
  "serverTime = axiosBinanceGet ''/api/v3/time'' []"

definition exchangeInfo :: "(string \<times> jsval) list \<Rightarrow> jsval io" where
  "exchangeInfo params = axiosBinanceGet ''/api/v3/exchangeInfo'' params"

definition orderBook :: "string \<Rightarrow> jsval \<Rightarrow> jsval io" where
  "orderBook symbol limit =
     axiosBinanceGet ''/api/v3/depth'' (upper_symbol symbol # spread_if ''limit'' limit)"

definition recentTrades :: "string \<Rightarrow> jsval \<Rightarrow> jsval io" where
  "recentTrades symbol limit =
     axiosBinanceGet ''/api/v3/trades'' (upper_symbol symbol # spread_if ''limit'' limit)"

definition historicalTrades :: "string \<Rightarrow> jsval \<Rightarrow> jsval \<Rightarrow> jsval io" where
  "historicalTrades symbol limit fromId =
     axiosBinanceGet ''/api/v3/historicalTrades''
       (upper_symbol symbol # spread_if ''limit'' limit @ spread_if ''fromId'' fromId)"

definition aggTrades :: "string \<Rightarrow> jsval \<Rightarrow> jsval io" where
  "aggTrades symbol opts =
     axiosBinanceGet ''/api/v3/aggTrades''
       (upper_symbol symbol # spread_if ''fromId'' (opt_get opts ''fromId'')
        @ spread_if ''startTime'' (opt_get opts ''startTime'')
        @ spread_if ''endTime'' (opt_get opts ''endTime'')
        @ spread_if ''limit'' (opt_get opts ''limit''))"

text \<open>The candlestick parameters, shared by \<open>klines\<close> and \<open>uiKlines\<close>, whose
  bodies differ only in the path.\<close>

definition kline_params :: "string \<Rightarrow> string \<Rightarrow> jsval \<Rightarrow> (string \<times> jsval) list" where
  "kline_params symbol interval opts =
     upper_symbol symbol # (''interval'', JStr interval)
     # spread_if ''startTime'' (opt_get opts ''startTime'')
     @ spread_if ''endTime'' (opt_get opts ''endTime'')
     @ spread_if ''limit'' (opt_get opts ''limit'')
     @ spread_if ''timeZone'' (opt_get opts ''timeZone'')"

definition klines :: "string \<Rightarrow> string \<Rightarrow> jsval \<Rightarrow> jsval io" where
  "klines symbol interval opts =
     axiosBinanceGet ''/api/v3/klines'' (kline_params symbol interval opts)"

definition uiKlines :: "string \<Rightarrow> string \<Rightarrow> jsval \<Rightarrow> jsval io" where
  "uiKlines symbol interval opts =
     axiosBinanceGet ''/api/v3/uiKlines'' (kline_params symbol interval opts)"

definition avgPrice :: "string \<Rightarrow> jsval io" where
  "avgPrice symbol = axiosBinanceGet ''/api/v3/avgPrice'' [upper_symbol symbol]"

definition ticker24hr :: "string \<Rightarrow> jsval io" where
  "ticker24hr symbol = axiosBinanceGet ''/api/v3/ticker/24hr'' [upper_symbol symbol]"

definition binanceTradingDay :: "string \<Rightarrow> jsval io" where
  "binanceTradingDay symbol = axiosBinanceGet ''/api/v3/ticker/tradingDay'' [upper_symbol symbol]"

text \<open>\<open>symbol ? { symbol } : undefined\<close>: the symbol is passed as given.\<close>

definition binanceTickerPrice :: "jsval \<Rightarrow> jsval io" where
  "binanceTickerPrice symbol = axiosBinanceGet ''/api/v3/ticker/price'' (spread_if ''symbol'' symbol)"

definition binanceBookTicker :: "jsval \<Rightarrow> jsval io" where
  "binanceBookTicker symbol =
     axiosBinanceGet ''/api/v3/ticker/bookTicker'' (spread_if ''symbol'' symbol)"

text \<open>The parameters are set one by one on an empty object; \<open>symbols\<close> goes
  out as its JSON text.\<close>

definition binanceTicker :: "jsval \<Rightarrow> jsval \<Rightarrow> jsval \<Rightarrow> jsval \<Rightarrow> jsval io" where
  "binanceTicker symbol symbols windowSize type =
     axiosBinanceGet ''/api/v3/ticker''
       (spread_if ''symbol'' symbol
        @ (if truthy symbols then [(''symbols'', json_result (json_stringify symbols))] else [])
        @ spread_if ''windowSize'' windowSize
        @ spread_if ''type'' type)"

subsection \<open>Lemmas\<close>

lemma default_description_pasted_concat:
  "sublist [CHR 0x0A, CHR 0x22, CHR '' '', CHR ''+''] DefaultTradingPairDescription"
  unfolding DefaultTradingPairDescription_def by code_simp

lemma length_binanceBaseUrls: "length binanceBaseUrls = 6"
  by (simp add: binanceBaseUrls_def)

lemma base_url_index_less [simp]:
  "k < 2 ^ 53 \<Longrightarrow> random_index (length binanceBaseUrls) k < length binanceBaseUrls"
  unfolding length_binanceBaseUrls by (rule random_index_less) (simp_all add: bit_length.simps)

lemma axiosBinanceGet_step:
  "axiosBinanceGet path params w s =
     (let r = get_request (binanceBaseUrls ! random_index (length binanceBaseUrls)
                (rand w (draws s) mod 2 ^ 53) @ path) params
      in (respond w r, s\<lparr>draws := Suc (draws s), sent := sent s @ [r]\<rparr>))"
  by (simp add: axiosBinanceGet_def getBaseUrl_def io_random_index_def io_bind_assoc
      io_bind_random Let_def io_request_def)

lemma axiosBinanceGet_params_eq:
  assumes "axiosBinanceGet path ps = axiosBinanceGet path' ps'"
  shows "ps = ps'"
proof -
  from assms have "io_sent (axiosBinanceGet path ps) w = io_sent (axiosBinanceGet path' ps') w"
    for w by simp
  then show ?thesis
    by (simp add: run_io_def axiosBinanceGet_step io_init_def Let_def get_request_def)
qed

subsection \<open>Properties of the Binance request builders\<close>

text \<open>Every Binance builder sends exactly one GET request, to one of the six
  base URLs of the pool followed by the builder's path, with the builder's
  parameters; it draws one random number and returns what the exchange answers.\<close>

theorem axiosBinanceGet_one_get:
  "\<exists>b \<in> set binanceBaseUrls.
     run_io (axiosBinanceGet path params) w =
       (respond w (get_request (b @ path) params),
        io_init\<lparr>draws := 1, sent := [get_request (b @ path) params]\<rparr>)"
  by (auto simp: run_io_def axiosBinanceGet_step io_init_def Let_def)

text \<open>C10: the builders that upper-case the symbol are case-insensitive: a symbol
  in any case gives the same requests and the same result as its upper-case form.\<close>

theorem binance_symbol_case_insensitive:
  "fetchBinanceTrades s l = fetchBinanceTrades (to_upper s) l
   \<and> binanceDepth s l = binanceDepth (to_upper s) l
   \<and> orderBook s l = orderBook (to_upper s) l
   \<and> recentTrades s l = recentTrades (to_upper s) l
   \<and> historicalTrades s l f = historicalTrades (to_upper s) l f
   \<and> aggTrades s opts = aggTrades (to_upper s) opts
   \<and> klines s i opts = klines (to_upper s) i opts
   \<and> uiKlines s i opts = uiKlines (to_upper s) i opts
   \<and> avgPrice s = avgPrice (to_upper s)
   \<and> ticker24hr s = ticker24hr (to_upper s)
   \<and> binanceTradingDay s = binanceTradingDay (to_upper s)"
  by (simp add: fetchBinanceTrades_def binanceDepth_def orderBook_def recentTrades_def
      historicalTrades_def aggTrades_def klines_def uiKlines_def kline_params_def avgPrice_def
      ticker24hr_def binanceTradingDay_def upper_symbol_def)

text \<open>C11: the latest-price, best-bid/ask and windowed-ticker builders pass the
  symbol as given: a symbol that is not in upper case gives a different request
  from its upper-case form.\<close>

theorem binance_ticker_case_sensitive:
  assumes "to_upper s \<noteq> s"
  shows "io_sent (binanceTickerPrice (JStr s)) w \<noteq> io_sent (binanceTickerPrice (JStr (to_upper s))) w
   \<and> io_sent (binanceBookTicker (JStr s)) w \<noteq> io_sent (binanceBookTicker (JStr (to_upper s))) w
   \<and> io_sent (binanceTicker (JStr s) syms ws ty) w
       \<noteq> io_sent (binanceTicker (JStr (to_upper s)) syms ws ty) w"
proof -
  from assms have "s \<noteq> []" by (auto simp: to_upper_def)
  with assms show ?thesis
    by (simp add: binanceTickerPrice_def binanceBookTicker_def binanceTicker_def spread_if_def
        run_io_def axiosBinanceGet_step Let_def get_request_def)
qed
theorem binance_ticker_case_sensitive_witness:
  "io_sent (binanceTickerPrice (JStr ''btcusdt'')) offline_world
     \<noteq> io_sent (binanceTickerPrice (JStr ''BTCUSDT'')) offline_world"
proof -
  have "to_upper ''btcusdt'' = ''BTCUSDT''" "to_upper ''btcusdt'' \<noteq> ''btcusdt''"
    by code_simp+
  with binance_ticker_case_sensitive [of "''btcusdt''" offline_world] show ?thesis by simp
qed

text \<open>C12: \<open>orderBook\<close> and \<open>binanceDepth\<close> (both on the depth endpoint), and
  \<open>recentTrades\<close> and \<open>fetchBinanceTrades\<close> (both on the trades endpoint),
  behave alike exactly for a truthy limit: for an absent limit the second sends
  100 and the first sends none, and a limit of 0 is sent by the second and dropped
  by the first.\<close>

theorem depth_limit_agreement:
  "(orderBook s l = binanceDepth s l \<longleftrightarrow> truthy l)
   \<and> (recentTrades s l = fetchBinanceTrades s l \<longleftrightarrow> truthy l)
   \<and> binanceDepth s JUndef = orderBook s (JNum 100)
   \<and> fetchBinanceTrades s JUndef = recentTrades s (JNum 100)
   \<and> binanceDepth s (JNum 0) = axiosBinanceGet ''/api/v3/depth'' [upper_symbol s, (''limit'', JNum 0)]
   \<and> orderBook s (JNum 0) = axiosBinanceGet ''/api/v3/depth'' [upper_symbol s]
   \<and> fetchBinanceTrades s (JNum 0) = axiosBinanceGet ''/api/v3/trades'' [upper_symbol s, (''limit'', JNum 0)]
   \<and> recentTrades s (JNum 0) = axiosBinanceGet ''/api/v3/trades'' [upper_symbol s]"
proof -
  have vals: "binanceDepth s JUndef = orderBook s (JNum 100)"
    "fetchBinanceTrades s JUndef = recentTrades s (JNum 100)"
    "binanceDepth s (JNum 0) = axiosBinanceGet ''/api/v3/depth'' [upper_symbol s, (''limit'', JNum 0)]"
    "orderBook s (JNum 0) = axiosBinanceGet ''/api/v3/depth'' [upper_symbol s]"
    "fetchBinanceTrades s (JNum 0) = axiosBinanceGet ''/api/v3/trades'' [upper_symbol s, (''limit'', JNum 0)]"
    "recentTrades s (JNum 0) = axiosBinanceGet ''/api/v3/trades'' [upper_symbol s]"
    by (simp_all add: binanceDepth_def orderBook_def fetchBinanceTrades_def recentTrades_def
        nullish_default_def nullish_def spread_if_def)
  have nn: "truthy l \<Longrightarrow> nullish_default l (JNum 100) = l"
    by (cases l) (simp_all add: nullish_default_def nullish_def)
  have sp: "truthy l \<Longrightarrow> spread_if ''limit'' l = [(''limit'', l)]"
    by (simp add: spread_if_def)
  have sn: "\<not> truthy l \<Longrightarrow> spread_if ''limit'' l = []"
    by (simp add: spread_if_def)
  have "orderBook s l = binanceDepth s l \<Longrightarrow> truthy l"
  proof (rule ccontr)
    assume "orderBook s l = binanceDepth s l" "\<not> truthy l"
    then show False
      unfolding orderBook_def binanceDepth_def sn [OF \<open>\<not> truthy l\<close>]
      by (auto dest: axiosBinanceGet_params_eq)
  qed
  moreover have "recentTrades s l = fetchBinanceTrades s l \<Longrightarrow> truthy l"
  proof (rule ccontr)
    assume "recentTrades s l = fetchBinanceTrades s l" "\<not> truthy l"
    then show False
      unfolding recentTrades_def fetchBinanceTrades_def sn [OF \<open>\<not> truthy l\<close>]
      by (auto dest: axiosBinanceGet_params_eq)
  qed
  moreover have "truthy l \<Longrightarrow> orderBook s l = binanceDepth s l"
    by (simp add: orderBook_def binanceDepth_def nn sp)
  moreover have "truthy l \<Longrightarrow> recentTrades s l = fetchBinanceTrades s l"
    by (simp add: recentTrades_def fetchBinanceTrades_def nn sp)
  ultimately show ?thesis using vals by blast
qed

text \<open>C13: the windowed ticker sends a list of symbols as the JSON text of the
  array, from which the exchange reads back exactly that list.\<close>

theorem binanceTicker_symbols_roundtrip:
  "\<exists>b t. io_sent (binanceTicker symbol (JArr (map JStr ys)) ws ty) w =
     [get_request (b @ ''/api/v3/ticker'')
        (spread_if ''symbol'' symbol @ (''symbols'', JStr t)
         # spread_if ''windowSize'' ws @ spread_if ''type'' ty)]
   \<and> json_str_array t = Some ys"
proof -
  obtain t where t: "json_stringify (JArr (map JStr ys)) = Some t"
    by (simp add: json_stringify_def)
  with json_str_array_stringify [of ys] have "json_str_array t = Some ys" by simp
  with t show ?thesis
    by (simp add: binanceTicker_def run_io_def axiosBinanceGet_step Let_def io_init_def
        json_result_def) blast
qed

end
