(* ===== verification/BinanceServer.thy ===== *)
theory BinanceServer
  imports Binance Startup
begin

text \<open>
  The Binance tool server: the eight tool configurations of
  \<open>src/src/binance/binance_get_tool.ts\<close> (name, input schema, handler; the
  titles and descriptions are prose for the client and are left out) and their
  registration by \<open>registerBinanceGetTool\<close> in
  \<open>src/src/binance/binance_server.ts\<close>. Each handler destructures its arguments,
  calls one request builder of \<open>Binance\<close> and returns the answer as JSON text.
\<close>

subsection \<open>Tool configurations\<close>

record tool_config =
  tc_name :: string
  tc_schema :: zod_shape
  tc_handler :: "jsval \<Rightarrow> jsval io"

text \<open>\<open>symbol.toUpperCase()\<close> evaluated on the value the handler received: the
  builders' parameter objects start with it, so it runs before the base URL is
  drawn. After the schema check the value is always a string.\<close>

definition with_symbol :: "jsval \<Rightarrow> (string \<Rightarrow> jsval io) \<Rightarrow> jsval io" where
  "with_symbol v f =
     (case v of
        JStr s \<Rightarrow> f s
      | JUndef \<Rightarrow> io_lift (Inl (read_error ''undefined'' ''toUpperCase''))
      | JNull \<Rightarrow> io_lift (Inl (read_error ''null'' ''toUpperCase''))
      | _ \<Rightarrow> io_lift (Inl (TypeError ''symbol.toUpperCase is not a function'')))"

text \<open>\<open>{ content: [{ type: "text", text: JSON.stringify(data) }] }\<close>.\<close>

definition text_result :: "jsval \<Rightarrow> jsval" where
  "text_result data =
     JObj [(''content'', JArr [JObj [(''type'', JStr ''text''), (''text'', json_result (json_stringify data))]])]"

definition symbol_field :: "string \<times> zod_type \<times> bool" where
  "symbol_field = (''symbol'', ZString, False)"

definition getCryptoPrice :: tool_config where
  "getCryptoPrice =
     \<lparr>tc_name = ''getCryptoPrice'',
      tc_schema = [symbol_field, (''limit'', ZNumber, True)],
      tc_handler = (\<lambda>args. with_symbol (prop_val args ''symbol'') (\<lambda>symbol.
        io_bind (binanceDepth symbol (prop_val args ''limit'')) (\<lambda>data.
          io_return (text_result data))))\<rparr>"

definition binanceRecentTrades :: tool_config where
  "binanceRecentTrades =
     \<lparr>tc_name = ''binanceRecentTrades'',
      tc_schema = [symbol_field, (''limit'', ZNumber, True)],
      tc_handler = (\<lambda>args. with_symbol (prop_val args ''symbol'') (\<lambda>symbol.
        io_bind (fetchBinanceTrades symbol (prop_val args ''limit'')) (\<lambda>data.
          io_return (text_result data))))\<rparr>"

definition binanceTradingDayTool :: tool_config where
  "binanceTradingDayTool =
     \<lparr>tc_name = ''binanceTradingDay'', tc_schema = [symbol_field],
      tc_handler = (\<lambda>args. with_symbol (prop_val args ''symbol'') (\<lambda>symbol.
        io_bind (binanceTradingDay symbol) (\<lambda>data. io_return (text_result data))))\<rparr>"

definition binanceAvgPriceTool :: tool_config where
  "binanceAvgPriceTool =
     \<lparr>tc_name = ''binanceAvgPrice'', tc_schema = [symbol_field],
      tc_handler = (\<lambda>args. with_symbol (prop_val args ''symbol'') (\<lambda>symbol.
        io_bind (avgPrice symbol) (\<lambda>data. io_return (text_result data))))\<rparr>"

text \<open>The description calls \<open>symbol\<close> optional; the schema requires it.\<close>

definition binanceTicker24hrTool :: tool_config where
  "binanceTicker24hrTool =
     \<lparr>tc_name = ''binanceTicker24hr'', tc_schema = [symbol_field],
      tc_handler = (\<lambda>args. with_symbol (prop_val args ''symbol'') (\<lambda>symbol.
        io_bind (ticker24hr symbol) (\<lambda>data. io_return (text_result data))))\<rparr>"

definition binanceTickerPriceTool :: tool_config where
  "binanceTickerPriceTool =
     \<lparr>tc_name = ''binanceTickerPrice'', tc_schema = [(''symbol'', ZString, True)],
      tc_handler = (\<lambda>args.
        io_bind (binanceTickerPrice (prop_val args ''symbol'')) (\<lambda>data.
          io_return (text_result data)))\<rparr>"

definition binanceBookTickerTool :: tool_config where
  "binanceBookTickerTool =
     \<lparr>tc_name = ''binanceBookTicker'', tc_schema = [(''symbol'', ZString, True)],
      tc_handler = (\<lambda>args.
        io_bind (binanceBookTicker (prop_val args ''symbol'')) (\<lambda>data.
          io_return (text_result data)))\<rparr>"

definition binanceTickerTool :: tool_config where
  "binanceTickerTool =
     \<lparr>tc_name = ''binanceTicker'',
      tc_schema = [(''symbol'', ZString, True), (''symbols'', ZArray ZString, True),
                   (''windowSize'', ZString, True), (''type'', ZEnum [''FULL'', ''MINI''], True)],
      tc_handler = (\<lambda>args.
        io_bind (binanceTicker (prop_val args ''symbol'') (prop_val args ''symbols'')
                   (prop_val args ''windowSize'') (prop_val args ''type'')) (\<lambda>data.
          io_return (text_result data)))\<rparr>"

subsection \<open>Registration\<close>

definition binanceGetToolList :: "tool_config list" where
  "binanceGetToolList =
     [getCryptoPrice, binanceRecentTrades, binanceAvgPriceTool, binanceBookTickerTool,
      binanceTicker24hrTool, binanceTradingDayTool, binanceTickerPriceTool, binanceTickerTool]"

text \<open>\<open>server.registerTool(toolConfig.name, toolConfig.config, toolConfig.handler)\<close>.\<close>

definition registerBinanceTool :: "tool_config \<Rightarrow> registry \<Rightarrow> js_exn + registry" where
  "registerBinanceTool tc reg = registerTool (tc_name tc) (Some (tc_schema tc)) (tc_handler tc) reg"

text \<open>\<open>binanceGetToolList.forEach(registerBinanceTool)\<close>: the first exception
  stops the loop and escapes.\<close>

fun register_each :: "tool_config list \<Rightarrow> registry \<Rightarrow> js_exn + registry" where
  "register_each [] reg = Inr reg"
| "register_each (tc # tcs) reg = sbind (registerBinanceTool tc reg) (register_each tcs)"

definition registerBinanceGetTool :: "registry \<Rightarrow> js_exn + registry" where
  "registerBinanceGetTool reg = register_each binanceGetToolList reg"

text \<open>The registry the server holds after start-up.\<close>

definition binance_registry :: registry where
  "binance_registry =
     empty_registry\<lparr>tools := map (\<lambda>tc. (tc_name tc, \<lparr>t_schema = Some (tc_schema tc),
                                            t_handler = tc_handler tc\<rparr>)) binanceGetToolList\<rparr>"


subsection \<open>Lemmas\<close>

subsection \<open>Server construction and start-up\<close>

text \<open>The object passed to \<open>new McpServer\<close> (\<open>binance_server.ts\<close>; note the key \<open>ddescription\<close>), the server's only
  argument, and the \<open>main()\<close> that connects it to the stdio transport.\<close>

definition binance_ddescription :: string where
  "binance_ddescription =
     [CHR 0x0A] @ ''    '' @ [CHR 0xE8, CHR 0xBF, CHR 0x99, CHR 0xE4, CHR 0xB8, CHR 0xAA]
     @ '' MCP ''
     @ [CHR 0xE5, CHR 0xB7, CHR 0xA5, CHR 0xE5, CHR 0x85, CHR 0xB7, CHR 0xE7, CHR 0x94,
      CHR 0xA8, CHR 0xE4, CHR 0xBA, CHR 0x8E, CHR 0xE8, CHR 0xAE, CHR 0xBF, CHR 0xE9, CHR 0x97,
      CHR 0xAE, CHR 0xE5, CHR 0x8C, CHR 0xBA, CHR 0xE5, CHR 0x9D, CHR 0x97, CHR 0xE9, CHR 0x93,
      CHR 0xBE, CHR 0xE8, CHR 0x99, CHR 0x9A, CHR 0xE6, CHR 0x8B, CHR 0x9F, CHR 0xE8, CHR 0xB4,
      CHR 0xA7, CHR 0xE5, CHR 0xB8, CHR 0x81, CHR 0xE4, CHR 0xBF, CHR 0xA1, CHR 0xE6, CHR 0x81,
      CHR 0xAF, CHR 0xEF, CHR 0xBC, CHR 0x8C, CHR 0xE5, CHR 0xB9, CHR 0xB6, CHR 0xE5, CHR 0x9C,
      CHR 0xA8]
     @ '' Binance ''
     @ [CHR 0xE4, CHR 0xB8, CHR 0x8A, CHR 0xE8, CHR 0xBF, CHR 0x9B, CHR 0xE8, CHR 0xA1,
      CHR 0x8C, CHR 0xE4, CHR 0xBA, CHR 0xA4, CHR 0xE6, CHR 0x98, CHR 0x93, CHR 0xE6, CHR 0x93,
      CHR 0x8D, CHR 0xE4, CHR 0xBD, CHR 0x9C, CHR 0xE3, CHR 0x80, CHR 0x82, CHR 0x0A, CHR 0x0A]
     @ ''    ''
     @ [CHR 0xE4, CHR 0xB8, CHR 0xBB, CHR 0xE8, CHR 0xA6, CHR 0x81, CHR 0xE5, CHR 0x8A,
      CHR 0x9F, CHR 0xE8, CHR 0x83, CHR 0xBD, CHR 0xEF, CHR 0xBC, CHR 0x9A, CHR 0x0A]
     @ ''    1. ''
     @ [CHR 0xE6, CHR 0x9F, CHR 0xA5, CHR 0xE8, CHR 0xAF, CHR 0xA2, CHR 0xE8, CHR 0x99,
      CHR 0x9A, CHR 0xE6, CHR 0x8B, CHR 0x9F, CHR 0xE8, CHR 0xB4, CHR 0xA7, CHR 0xE5, CHR 0xB8,
      CHR 0x81, CHR 0xE4, CHR 0xBB, CHR 0xB7, CHR 0xE6, CHR 0xA0, CHR 0xBC, CHR 0xE3, CHR 0x80,
      CHR 0x81, CHR 0xE4, CHR 0xBA, CHR 0xA4, CHR 0xE6, CHR 0x98, CHR 0x93, CHR 0xE5, CHR 0xAF,
      CHR 0xB9, CHR 0xE3, CHR 0x80, CHR 0x81, CHR 0xE6, CHR 0x9C, CHR 0x80, CHR 0xE8, CHR 0xBF,
      CHR 0x91, CHR 0xE6, CHR 0x88, CHR 0x90, CHR 0xE4, CHR 0xBA, CHR 0xA4, CHR 0xE8, CHR 0xAE,
      CHR 0xB0, CHR 0xE5, CHR 0xBD, CHR 0x95, CHR 0xE3, CHR 0x80, CHR 0x81, CHR 0xE8, CHR 0xAE,
      CHR 0xA2, CHR 0xE5, CHR 0x8D, CHR 0x95, CHR 0xE7, CHR 0xB0, CHR 0xBF, CHR 0xE6, CHR 0xB7,
      CHR 0xB1, CHR 0xE5, CHR 0xBA, CHR 0xA6, CHR 0xE7, CHR 0xAD, CHR 0x89, CHR 0xE4, CHR 0xBF,
      CHR 0xA1, CHR 0xE6, CHR 0x81, CHR 0xAF, CHR 0xE3, CHR 0x80, CHR 0x82, CHR 0x0A]
     @ ''    2. '' @ [CHR 0xE5, CHR 0x9C, CHR 0xA8] @ '' Binance ''
     @ [CHR 0xE4, CHR 0xB8, CHR 0x8A, CHR 0xE6, CHR 0x89, CHR 0xA7, CHR 0xE8, CHR 0xA1,
      CHR 0x8C, CHR 0xE8, CHR 0xAE, CHR 0xA2, CHR 0xE5, CHR 0x8D, CHR 0x95, CHR 0xE6, CHR 0x93,
      CHR 0x8D, CHR 0xE4, CHR 0xBD, CHR 0x9C, CHR 0xEF, CHR 0xBC, CHR 0x8C, CHR 0xE5, CHR 0x8C,
      CHR 0x85, CHR 0xE6, CHR 0x8B, CHR 0xAC, CHR 0xE4, CHR 0xB8, CHR 0x8B, CHR 0xE5, CHR 0x8D,
      CHR 0x95, CHR 0xE3, CHR 0x80, CHR 0x81, CHR 0xE6, CHR 0x92, CHR 0xA4, CHR 0xE5, CHR 0x8D,
      CHR 0x95, CHR 0xE3, CHR 0x80, CHR 0x81, CHR 0xE6, CHR 0x9F, CHR 0xA5, CHR 0xE7, CHR 0x9C,
      CHR 0x8B, CHR 0xE8, CHR 0xAE, CHR 0xA2, CHR 0xE5, CHR 0x8D, CHR 0x95, CHR 0xE7, CHR 0x8A,
      CHR 0xB6, CHR 0xE6, CHR 0x80, CHR 0x81, CHR 0xE7, CHR 0xAD, CHR 0x89, CHR 0xE3, CHR 0x80,
      CHR 0x82, CHR 0x0A, CHR 0x0A]
     @ ''    ''
     @ [CHR 0xE4, CHR 0xBD, CHR 0xBF, CHR 0xE7, CHR 0x94, CHR 0xA8, CHR 0xE8, CHR 0xA7,
      CHR 0x84, CHR 0xE5, CHR 0x88, CHR 0x99, CHR 0xEF, CHR 0xBC, CHR 0x9A, CHR 0x0A]
     @ ''    - ''
     @ [CHR 0xE6, CHR 0x9F, CHR 0xA5, CHR 0xE8, CHR 0xAF, CHR 0xA2, CHR 0xE4, CHR 0xBB,
      CHR 0xB7, CHR 0xE6, CHR 0xA0, CHR 0xBC, CHR 0xE6, CHR 0x88, CHR 0x96, CHR 0xE4, CHR 0xBA,
      CHR 0xA4, CHR 0xE6, CHR 0x98, CHR 0x93, CHR 0xE5, CHR 0xAF, CHR 0xB9, CHR 0xE4, CHR 0xBF,
      CHR 0xA1, CHR 0xE6, CHR 0x81, CHR 0xAF, CHR 0xE6, CHR 0x97, CHR 0xB6, CHR 0xEF, CHR 0xBC,
      CHR 0x8C, CHR 0xE5, CHR 0x8F, CHR 0xAF, CHR 0xE4, CHR 0xBB, CHR 0xA5, CHR 0xE8, CHR 0xBE,
      CHR 0x93, CHR 0xE5, CHR 0x85, CHR 0xA5, CHR 0xE5, CHR 0xB8, CHR 0x81, CHR 0xE7, CHR 0xA7,
      CHR 0x8D, CHR 0xE6, CHR 0x88, CHR 0x96, CHR 0xE5, CHR 0xAE, CHR 0x8C, CHR 0xE6, CHR 0x95,
      CHR 0xB4, CHR 0xE4, CHR 0xBA, CHR 0xA4, CHR 0xE6, CHR 0x98, CHR 0x93, CHR 0xE5, CHR 0xAF,
      CHR 0xB9, CHR 0xEF, CHR 0xBC, CHR 0x8C, CHR 0xE4, CHR 0xBE, CHR 0x8B, CHR 0xE5, CHR 0xA6,
      CHR 0x82]
     @ '':'' @ [CHR 0x0A] @ ''      - '' @ [CHR 0x22] @ ''BTC'' @ [CHR 0x22] @ '' ''
     @ [CHR 0xE2, CHR 0x86, CHR 0x92] @ '' ''
     @ [CHR 0xE9, CHR 0xBB, CHR 0x98, CHR 0xE8, CHR 0xAE, CHR 0xA4, CHR 0xE6, CHR 0x9F,
      CHR 0xA5, CHR 0xE8, CHR 0xAF, CHR 0xA2]
     @ '' BTCUSDT'' @ [CHR 0x0A] @ ''      - '' @ [CHR 0x22] @ ''ETHBTC'' @ [CHR 0x22] @ '' ''
     @ [CHR 0xE2, CHR 0x86, CHR 0x92] @ '' ''
     @ [CHR 0xE6, CHR 0x9F, CHR 0xA5, CHR 0xE8, CHR 0xAF, CHR 0xA2] @ '' ETHBTC'' @ [CHR 0x0A]
     @ ''    - ''
     @ [CHR 0xE8, CHR 0xAE, CHR 0xA2, CHR 0xE5, CHR 0x8D, CHR 0x95, CHR 0xE6, CHR 0x93,
      CHR 0x8D, CHR 0xE4, CHR 0xBD, CHR 0x9C, CHR 0xE9, CHR 0x9C, CHR 0x80, CHR 0xE6, CHR 0x98,
      CHR 0x8E, CHR 0xE7, CHR 0xA1, CHR 0xAE, CHR 0xE6, CHR 0x8C, CHR 0x87, CHR 0xE5, CHR 0xAE,
      CHR 0x9A, CHR 0xE4, CHR 0xBA, CHR 0xA4, CHR 0xE6, CHR 0x98, CHR 0x93, CHR 0xE5, CHR 0xAF,
      CHR 0xB9, CHR 0xE3, CHR 0x80, CHR 0x81, CHR 0xE6, CHR 0x93, CHR 0x8D, CHR 0xE4, CHR 0xBD,
      CHR 0x9C, CHR 0xE7, CHR 0xB1, CHR 0xBB, CHR 0xE5, CHR 0x9E, CHR 0x8B, CHR 0xEF, CHR 0xBC,
      CHR 0x88, CHR 0xE4, CHR 0xB9, CHR 0xB0]
     @ ''/''
     @ [CHR 0xE5, CHR 0x8D, CHR 0x96, CHR 0xEF, CHR 0xBC, CHR 0x89, CHR 0xE3, CHR 0x80,
      CHR 0x81, CHR 0xE6, CHR 0x95, CHR 0xB0, CHR 0xE9, CHR 0x87, CHR 0x8F, CHR 0xE3, CHR 0x80,
      CHR 0x81, CHR 0xE4, CHR 0xBB, CHR 0xB7, CHR 0xE6, CHR 0xA0, CHR 0xBC, CHR 0xE7, CHR 0xAD,
      CHR 0x89, CHR 0xE5, CHR 0x8F, CHR 0x82, CHR 0xE6, CHR 0x95, CHR 0xB0, CHR 0xE3, CHR 0x80,
      CHR 0x82, CHR 0x0A]
     @ ''    - ''
     @ [CHR 0xE6, CHR 0x89, CHR 0x80, CHR 0xE6, CHR 0x9C, CHR 0x89, CHR 0xE4, CHR 0xBA,
      CHR 0xA4, CHR 0xE6, CHR 0x98, CHR 0x93, CHR 0xE6, CHR 0x93, CHR 0x8D, CHR 0xE4, CHR 0xBD,
      CHR 0x9C, CHR 0xE4, CHR 0xBC, CHR 0x9A, CHR 0xE7, CHR 0x9B, CHR 0xB4, CHR 0xE6, CHR 0x8E,
      CHR 0xA5, CHR 0xE5, CHR 0x9C, CHR 0xA8]
     @ '' Binance ''
     @ [CHR 0xE4, CHR 0xB8, CHR 0x8A, CHR 0xE6, CHR 0x89, CHR 0xA7, CHR 0xE8, CHR 0xA1,
      CHR 0x8C, CHR 0xEF, CHR 0xBC, CHR 0x8C, CHR 0xE8, CHR 0xAF, CHR 0xB7, CHR 0xE8, CHR 0xB0,
      CHR 0xA8, CHR 0xE6, CHR 0x85, CHR 0x8E, CHR 0xE4, CHR 0xBD, CHR 0xBF, CHR 0xE7, CHR 0x94,
      CHR 0xA8, CHR 0xE3, CHR 0x80, CHR 0x82, CHR 0x0A, CHR 0x0A]
     @ ''    ''
     @ [CHR 0xE7, CHR 0xA4, CHR 0xBA, CHR 0xE4, CHR 0xBE, CHR 0x8B, CHR 0xEF, CHR 0xBC,
      CHR 0x9A, CHR 0x0A]
     @ ''    - '' @ [CHR 0xE6, CHR 0x9F, CHR 0xA5, CHR 0xE8, CHR 0xAF, CHR 0xA2] @ '' BTC ''
     @ [CHR 0xE5, CHR 0xBD, CHR 0x93, CHR 0xE5, CHR 0x89, CHR 0x8D, CHR 0xE4, CHR 0xBB,
      CHR 0xB7, CHR 0xE6, CHR 0xA0, CHR 0xBC]
     @ '' '' @ [CHR 0xE2, CHR 0x86, CHR 0x92] @ '' symbol='' @ [CHR 0x22] @ ''BTC''
     @ [CHR 0x22, CHR 0x0A] @ ''    - ''
     @ [CHR 0xE4, CHR 0xB8, CHR 0x8B, CHR 0xE5, CHR 0x8D, CHR 0x95, CHR 0xE4, CHR 0xB9,
      CHR 0xB0, CHR 0xE5, CHR 0x85, CHR 0xA5]
     @ '' BTCUSDT '' @ [CHR 0xE2, CHR 0x86, CHR 0x92] @ '' symbol='' @ [CHR 0x22] @ ''BTCUSDT''
     @ [CHR 0x22] @ '', side='' @ [CHR 0x22] @ ''BUY'' @ [CHR 0x22]
     @ '', quantity=0.1, price=30000'' @ [CHR 0x0A] @ ''    ''"

definition binance_instructions :: string where
  "binance_instructions =
     [CHR 0x0A] @ ''    ''
     @ [CHR 0xE5, CHR 0xBD, CHR 0x93, CHR 0xE7, CHR 0x94, CHR 0xA8, CHR 0xE6, CHR 0x88,
      CHR 0xB7, CHR 0xE8, CHR 0xAF, CHR 0xA2, CHR 0xE9, CHR 0x97, CHR 0xAE, CHR 0xE8, CHR 0x99,
      CHR 0x9A, CHR 0xE6, CHR 0x8B, CHR 0x9F, CHR 0xE8, CHR 0xB4, CHR 0xA7, CHR 0xE5, CHR 0xB8,
      CHR 0x81, CHR 0xE4, CHR 0xBB, CHR 0xB7, CHR 0xE6, CHR 0xA0, CHR 0xBC, CHR 0xE3, CHR 0x80,
      CHR 0x81, CHR 0xE4, CHR 0xBA, CHR 0xA4, CHR 0xE6, CHR 0x98, CHR 0x93, CHR 0xE5, CHR 0xAF,
      CHR 0xB9, CHR 0xE4, CHR 0xBF, CHR 0xA1, CHR 0xE6, CHR 0x81, CHR 0xAF, CHR 0xE3, CHR 0x80,
      CHR 0x81, CHR 0xE6, CHR 0x9C, CHR 0x80, CHR 0xE8, CHR 0xBF, CHR 0x91, CHR 0xE6, CHR 0x88,
      CHR 0x90, CHR 0xE4, CHR 0xBA, CHR 0xA4, CHR 0xE3, CHR 0x80, CHR 0x81, CHR 0xE8, CHR 0xAE,
      CHR 0xA2, CHR 0xE5, CHR 0x8D, CHR 0x95, CHR 0xE7, CHR 0xB0, CHR 0xBF, CHR 0xE7, CHR 0xAD,
      CHR 0x89, CHR 0xE5, CHR 0x86, CHR 0x85, CHR 0xE5, CHR 0xAE, CHR 0xB9, CHR 0xE6, CHR 0x97,
      CHR 0xB6, CHR 0xEF, CHR 0xBC, CHR 0x8C, CHR 0xE4, CHR 0xBD, CHR 0xBF, CHR 0xE7, CHR 0x94,
      CHR 0xA8, CHR 0xE6, CHR 0x9C, CHR 0xAC, CHR 0xE5, CHR 0xB7, CHR 0xA5, CHR 0xE5, CHR 0x85,
      CHR 0xB7, CHR 0xE6, CHR 0x9F, CHR 0xA5, CHR 0xE8, CHR 0xAF, CHR 0xA2, CHR 0xE3, CHR 0x80,
      CHR 0x82, CHR 0x0A]
     @ ''    ''
     @ [CHR 0xE5, CHR 0xBD, CHR 0x93, CHR 0xE7, CHR 0x94, CHR 0xA8, CHR 0xE6, CHR 0x88,
      CHR 0xB7, CHR 0xE9, CHR 0x9C, CHR 0x80, CHR 0xE8, CHR 0xA6, CHR 0x81, CHR 0xE5, CHR 0x9C,
      CHR 0xA8]
     @ '' Binance ''
     @ [CHR 0xE4, CHR 0xB8, CHR 0x8A, CHR 0xE6, CHR 0x89, CHR 0xA7, CHR 0xE8, CHR 0xA1,
      CHR 0x8C, CHR 0xE4, CHR 0xB9, CHR 0xB0, CHR 0xE5, CHR 0x85, CHR 0xA5, CHR 0xE6, CHR 0x88,
      CHR 0x96, CHR 0xE5, CHR 0x8D, CHR 0x96, CHR 0xE5, CHR 0x87, CHR 0xBA, CHR 0xE6, CHR 0x93,
      CHR 0x8D, CHR 0xE4, CHR 0xBD, CHR 0x9C, CHR 0xE6, CHR 0x97, CHR 0xB6, CHR 0xEF, CHR 0xBC,
      CHR 0x8C, CHR 0xE4, CHR 0xBD, CHR 0xBF, CHR 0xE7, CHR 0x94, CHR 0xA8, CHR 0xE6, CHR 0x9C,
      CHR 0xAC, CHR 0xE5, CHR 0xB7, CHR 0xA5, CHR 0xE5, CHR 0x85, CHR 0xB7, CHR 0xE4, CHR 0xB8,
      CHR 0x8B, CHR 0xE5, CHR 0x8D, CHR 0x95, CHR 0xE6, CHR 0x88, CHR 0x96, CHR 0xE6, CHR 0x92,
      CHR 0xA4, CHR 0xE5, CHR 0x8D, CHR 0x95, CHR 0xE3, CHR 0x80, CHR 0x82, CHR 0x0A, CHR 0x0A]
     @ ''    ''
     @ [CHR 0xE8, CHR 0xAF, CHR 0xB7, CHR 0xE9, CHR 0x81, CHR 0xB5, CHR 0xE5, CHR 0xBE,
      CHR 0xAA, CHR 0xE4, CHR 0xBB, CHR 0xA5, CHR 0xE4, CHR 0xB8, CHR 0x8B, CHR 0xE8, CHR 0xA7,
      CHR 0x84, CHR 0xE5, CHR 0x88, CHR 0x99, CHR 0xEF, CHR 0xBC, CHR 0x9A, CHR 0x0A]
     @ ''    1. ''
     @ [CHR 0xE6, CHR 0x9F, CHR 0xA5, CHR 0xE8, CHR 0xAF, CHR 0xA2, CHR 0xE4, CHR 0xBF,
      CHR 0xA1, CHR 0xE6, CHR 0x81, CHR 0xAF, CHR 0xEF, CHR 0xBC, CHR 0x9A, CHR 0x0A]
     @ ''      - ''
     @ [CHR 0xE7, CHR 0x94, CHR 0xA8, CHR 0xE6, CHR 0x88, CHR 0xB7, CHR 0xE5, CHR 0x8F,
      CHR 0xAA, CHR 0xE8, CHR 0xBE, CHR 0x93, CHR 0xE5, CHR 0x85, CHR 0xA5, CHR 0xE5, CHR 0xB8,
      CHR 0x81, CHR 0xE7, CHR 0xA7, CHR 0x8D, CHR 0xE6, CHR 0x97, CHR 0xB6, CHR 0xEF, CHR 0xBC,
      CHR 0x8C, CHR 0xE8, CHR 0x87, CHR 0xAA, CHR 0xE5, CHR 0x8A, CHR 0xA8, CHR 0xE8, CHR 0xA1,
      CHR 0xA5, CHR 0xE5, CHR 0x85, CHR 0xA8, CHR 0xE4, CHR 0xB8, CHR 0xBA]
     @ '' XXXUSDT ''
     @ [CHR 0xE4, CHR 0xBA, CHR 0xA4, CHR 0xE6, CHR 0x98, CHR 0x93, CHR 0xE5, CHR 0xAF,
      CHR 0xB9, CHR 0x0A]
     @ ''      - ''
     @ [CHR 0xE8, CHR 0xBF, CHR 0x94, CHR 0xE5, CHR 0x9B, CHR 0x9E, CHR 0xE7, CHR 0x9A,
      CHR 0x84, CHR 0xE6, CHR 0x95, CHR 0xB0, CHR 0xE6, CHR 0x8D, CHR 0xAE, CHR 0xE9, CHR 0x9C,
      CHR 0x80, CHR 0xE6, CHR 0xA0, CHR 0xBC, CHR 0xE5, CHR 0xBC, CHR 0x8F, CHR 0xE5, CHR 0x8C,
      CHR 0x96, CHR 0xE4, CHR 0xB8, CHR 0xBA]
     @ '' JSON ''
     @ [CHR 0xE6, CHR 0x88, CHR 0x96, CHR 0xE5, CHR 0x8F, CHR 0xAF, CHR 0xE8, CHR 0xAF,
      CHR 0xBB, CHR 0xE6, CHR 0x96, CHR 0x87, CHR 0xE6, CHR 0x9C, CHR 0xAC, CHR 0x0A]
     @ ''    2. ''
     @ [CHR 0xE8, CHR 0xAE, CHR 0xA2, CHR 0xE5, CHR 0x8D, CHR 0x95, CHR 0xE6, CHR 0x93,
      CHR 0x8D, CHR 0xE4, CHR 0xBD, CHR 0x9C, CHR 0xEF, CHR 0xBC, CHR 0x9A, CHR 0x0A]
     @ ''      - ''
     @ [CHR 0xE5, CHR 0xBF, CHR 0x85, CHR 0xE9, CHR 0xA1, CHR 0xBB, CHR 0xE6, CHR 0x8C,
      CHR 0x87, CHR 0xE5, CHR 0xAE, CHR 0x9A, CHR 0xE4, CHR 0xBA, CHR 0xA4, CHR 0xE6, CHR 0x98,
      CHR 0x93, CHR 0xE5, CHR 0xAF, CHR 0xB9]
     @ ''(symbol)''
     @ [CHR 0xE3, CHR 0x80, CHR 0x81, CHR 0xE6, CHR 0x93, CHR 0x8D, CHR 0xE4, CHR 0xBD,
      CHR 0x9C, CHR 0xE7, CHR 0xB1, CHR 0xBB, CHR 0xE5, CHR 0x9E, CHR 0x8B]
     @ ''(side: BUY/SELL)''
     @ [CHR 0xE3, CHR 0x80, CHR 0x81, CHR 0xE6, CHR 0x95, CHR 0xB0, CHR 0xE9, CHR 0x87, CHR 0x8F]
     @ ''(quantity)''
     @ [CHR 0xE5, CHR 0x92, CHR 0x8C, CHR 0xE4, CHR 0xBB, CHR 0xB7, CHR 0xE6, CHR 0xA0, CHR 0xBC]
     @ ''(price)'' @ [CHR 0x0A] @ ''      - ''
     @ [CHR 0xE8, CHR 0xBF, CHR 0x94, CHR 0xE5, CHR 0x9B, CHR 0x9E, CHR 0xE8, CHR 0xAE,
      CHR 0xA2, CHR 0xE5, CHR 0x8D, CHR 0x95, CHR 0xE6, CHR 0x89, CHR 0xA7, CHR 0xE8, CHR 0xA1,
      CHR 0x8C, CHR 0xE7, CHR 0xBB, CHR 0x93, CHR 0xE6, CHR 0x9E, CHR 0x9C, CHR 0xEF, CHR 0xBC,
      CHR 0x8C, CHR 0xE5, CHR 0x8C, CHR 0x85, CHR 0xE6, CHR 0x8B, CHR 0xAC, CHR 0xE8, CHR 0xAE,
      CHR 0xA2, CHR 0xE5, CHR 0x8D, CHR 0x95]
     @ ''ID''
     @ [CHR 0xE3, CHR 0x80, CHR 0x81, CHR 0xE7, CHR 0x8A, CHR 0xB6, CHR 0xE6, CHR 0x80,
      CHR 0x81, CHR 0xE7, CHR 0xAD, CHR 0x89, CHR 0x0A]
     @ ''    3. ''
     @ [CHR 0xE4, CHR 0xB8, CHR 0x8D, CHR 0xE8, CHR 0xA6, CHR 0x81, CHR 0xE5, CHR 0xB0,
      CHR 0x9D, CHR 0xE8, CHR 0xAF, CHR 0x95, CHR 0xE8, CHR 0xAE, CHR 0xBF, CHR 0xE9, CHR 0x97,
      CHR 0xAE, CHR 0xE5, CHR 0x85, CHR 0xB6, CHR 0xE4, CHR 0xBB, CHR 0x96, CHR 0xE4, CHR 0xBA,
      CHR 0xA4, CHR 0xE6, CHR 0x98, CHR 0x93, CHR 0xE6, CHR 0x89, CHR 0x80, CHR 0xE6, CHR 0x88,
      CHR 0x96, CHR 0xE9, CHR 0x9D, CHR 0x9E, CHR 0xE5, CHR 0xB8, CHR 0x81, CHR 0xE5, CHR 0xAE,
      CHR 0x89, CHR 0xE8, CHR 0xB4, CHR 0xA6, CHR 0xE6, CHR 0x88, CHR 0xB7, CHR 0xE7, CHR 0x9A,
      CHR 0x84, CHR 0xE6, CHR 0x95, CHR 0xB0, CHR 0xE6, CHR 0x8D, CHR 0xAE, CHR 0x0A]
     @ ''    4. ''
     @ [CHR 0xE6, CHR 0x89, CHR 0x80, CHR 0xE6, CHR 0x9C, CHR 0x89, CHR 0xE5, CHR 0x93,
      CHR 0x8D, CHR 0xE5, CHR 0xBA, CHR 0x94, CHR 0xE5, CHR 0xBF, CHR 0x85, CHR 0xE9, CHR 0xA1,
      CHR 0xBB, CHR 0xE4, CHR 0xB8, CHR 0xA5, CHR 0xE6, CHR 0xA0, CHR 0xBC, CHR 0xE9, CHR 0x81,
      CHR 0xB5, CHR 0xE5, CHR 0xBE, CHR 0xAA]
     @ '' MCP content ''
     @ [CHR 0xE6, CHR 0xA0, CHR 0xBC, CHR 0xE5, CHR 0xBC, CHR 0x8F, CHR 0x0A, CHR 0x0A]
     @ ''    ''
     @ [CHR 0xE7, CHR 0xA4, CHR 0xBA, CHR 0xE4, CHR 0xBE, CHR 0x8B, CHR 0xE8, CHR 0xB0,
      CHR 0x83, CHR 0xE7, CHR 0x94, CHR 0xA8, CHR 0xEF, CHR 0xBC, CHR 0x9A, CHR 0x0A]
     @ ''    - ''
     @ [CHR 0xE6, CHR 0x9F, CHR 0xA5, CHR 0xE8, CHR 0xAF, CHR 0xA2, CHR 0xE4, CHR 0xBB,
      CHR 0xB7, CHR 0xE6, CHR 0xA0, CHR 0xBC, CHR 0xEF, CHR 0xBC, CHR 0x9A]
     @ ''{ '' @ [CHR 0x22] @ ''symbol'' @ [CHR 0x22] @ '': '' @ [CHR 0x22] @ ''BTC'' @ [CHR 0x22]
     @ '' }'' @ [CHR 0x0A] @ ''    - ''
     @ [CHR 0xE4, CHR 0xB8, CHR 0x8B, CHR 0xE5, CHR 0x8D, CHR 0x95, CHR 0xE4, CHR 0xB9,
      CHR 0xB0, CHR 0xE5, CHR 0x85, CHR 0xA5, CHR 0xEF, CHR 0xBC, CHR 0x9A]
     @ ''{ '' @ [CHR 0x22] @ ''symbol'' @ [CHR 0x22] @ '': '' @ [CHR 0x22] @ ''ETHUSDT''
     @ [CHR 0x22] @ '', '' @ [CHR 0x22] @ ''side'' @ [CHR 0x22] @ '': '' @ [CHR 0x22] @ ''BUY''
     @ [CHR 0x22] @ '', '' @ [CHR 0x22] @ ''quantity'' @ [CHR 0x22] @ '': 0.5, '' @ [CHR 0x22]
     @ ''price'' @ [CHR 0x22] @ '': 2000 }'' @ [CHR 0x0A] @ ''    ''"

definition binance_server_info :: jsval where
  "binance_server_info =
     JObj [(''name'', JStr ''Xbinance-mcp''),
           (''version'', JStr ''1.0.0''),
           (''ddescription'', JStr binance_ddescription),
           (''instructions'', JStr binance_instructions)]"

text \<open>\<open>const server = new McpServer({...})\<close>: the object is the only argument,
  so it is the server's \<open>serverInfo\<close> and there are no options.\<close>

definition binance_server :: server_obj where
  "binance_server = new_mcp_server binance_server_info None"

definition msg_binance_running :: string where
  "msg_binance_running = ''Binance MCP Server running on stdio @Xing''"

definition binance_main :: "js_exn + unit \<Rightarrow> start_out" where
  "binance_main conn = server_main msg_binance_running conn"

lemma register_each_all:
  "register_each tcs =
     register_all (map (\<lambda>tc. (tc_name tc, Some (tc_schema tc), tc_handler tc)) tcs)"
proof (induction tcs)
  case Nil
  show ?case by (rule ext) simp
next
  case (Cons tc tcs)
  show ?case by (rule ext) (simp add: registerBinanceTool_def Cons.IH)
qed

lemma binance_tool_names:
  "map tc_name binanceGetToolList =
     [''getCryptoPrice'', ''binanceRecentTrades'', ''binanceAvgPrice'', ''binanceBookTicker'',
      ''binanceTicker24hr'', ''binanceTradingDay'', ''binanceTickerPrice'', ''binanceTicker'']"
  by (simp add: binanceGetToolList_def getCryptoPrice_def binanceRecentTrades_def
      binanceAvgPriceTool_def binanceBookTickerTool_def binanceTicker24hrTool_def
      binanceTradingDayTool_def binanceTickerPriceTool_def binanceTickerTool_def)

lemma registerBinanceGetTool_empty:
  "registerBinanceGetTool empty_registry = Inr binance_registry"
proof -
  have d: "distinct (map fst (map (\<lambda>tc. (tc_name tc, Some (tc_schema tc), tc_handler tc))
                         binanceGetToolList))"
    using binance_tool_names by (simp add: comp_def)
  show ?thesis
    unfolding registerBinanceGetTool_def register_each_all
    by (subst register_all_Inr [OF d])
       (simp_all add: registered_def empty_registry_def binance_registry_def comp_def)
qed

lemma binance_lookup:
  assumes "tc \<in> set binanceGetToolList"
  shows "map_of (tools binance_registry) (tc_name tc) =
           Some \<lparr>t_schema = Some (tc_schema tc), t_handler = tc_handler tc\<rparr>"
proof -
  have "distinct (map fst (tools binance_registry))"
    using binance_tool_names by (simp add: binance_registry_def empty_registry_def comp_def)
  moreover have "(tc_name tc, \<lparr>t_schema = Some (tc_schema tc), t_handler = tc_handler tc\<rparr>)
                   \<in> set (tools binance_registry)"
    using assms by (auto simp: binance_registry_def empty_registry_def)
  ultimately show ?thesis by (rule map_of_is_SomeI)
qed

lemma binance_lookup_getCryptoPrice:
  "map_of (tools binance_registry) ''getCryptoPrice'' =
     Some \<lparr>t_schema = Some (tc_schema getCryptoPrice), t_handler = tc_handler getCryptoPrice\<rparr>"
  using binance_lookup [of getCryptoPrice]
  by (simp add: binanceGetToolList_def getCryptoPrice_def)

lemma zod_parse_missing_first:
  "prop_val (JObj kvs) k = JUndef \<Longrightarrow> zod_parse ((k, t, False) # sh) (JObj kvs) = Inl k"
  by (simp add: zod_parse_def)

lemma required_symbol_call:
  assumes "tc \<in> set binanceGetToolList" and "tc_schema tc = symbol_field # rest"
    and "prop_val (JObj kvs) ''symbol'' = JUndef"
  shows "callTool binance_registry (tc_name tc) (JObj kvs) w s =
           (Inr (RpcError (''Invalid arguments for tool '' @ tc_name tc @ '': symbol'')), s)"
  by (simp add: binance_lookup [OF assms(1)] callTool_def assms(2) symbol_field_def
      zod_parse_missing_first [OF assms(3)] io_return_def)

subsection \<open>Properties of the Binance server\<close>

text \<open>The start-up registration of the Binance server succeeds and yields a
  reachable registry holding the eight tools in the order of
  \<open>binanceGetToolList\<close>.\<close>

theorem binance_server_registers:
  "\<exists>reg. registerBinanceGetTool empty_registry = Inr reg \<and> reg_reach reg
     \<and> map fst (tools reg) =
         [''getCryptoPrice'', ''binanceRecentTrades'', ''binanceAvgPrice'', ''binanceBookTicker'',
          ''binanceTicker24hr'', ''binanceTradingDay'', ''binanceTickerPrice'', ''binanceTicker'']"
proof -
  have "reg_reach binance_registry"
    using reg_reach_register_all [OF reach_empty]
      registerBinanceGetTool_empty
    unfolding registerBinanceGetTool_def register_each_all by blast
  then show ?thesis
    using registerBinanceGetTool_empty binance_tool_names
    by (simp add: binance_registry_def comp_def)
qed

text \<open>C14: a call of \<open>getCryptoPrice\<close> with a symbol and no limit sends one GET to
  the depth endpoint of a pool URL with the upper-cased symbol and limit 100, and
  returns the answer as JSON text; a failed request becomes a result flagged as
  an error. The symbol is not completed to a USDT pair.\<close>

theorem getCryptoPrice_call:
  "\<exists>b \<in> set binanceBaseUrls.
     let r = get_request (b @ ''/api/v3/depth'') [(''symbol'', JStr (to_upper s)), (''limit'', JNum 100)]
     in run_io (callTool binance_registry ''getCryptoPrice'' (JObj [(''symbol'', JStr s)])) w =
          (Inr (ToolResult (case respond w r of Inl e \<Rightarrow> error_result e | Inr d \<Rightarrow> text_result d)),
           io_init\<lparr>draws := 1, sent := [r]\<rparr>)"
proof -
  have zp: "zod_parse (tc_schema getCryptoPrice) (JObj [(''symbol'', JStr s)])
              = Inr (JObj [(''symbol'', JStr s)])"
    by (simp add: zod_parse_def getCryptoPrice_def symbol_field_def prop_val_def)
  have h: "tc_handler getCryptoPrice (JObj [(''symbol'', JStr s)]) =
           io_bind (binanceDepth s JUndef) (\<lambda>data. io_return (text_result data))"
    by (simp add: getCryptoPrice_def with_symbol_def prop_val_def)
  define b where "b = binanceBaseUrls ! random_index (length binanceBaseUrls) (rand w 0 mod 2 ^ 53)"
  have b: "b \<in> set binanceBaseUrls" by (simp add: b_def)
  have "let r = get_request (b @ ''/api/v3/depth'') [(''symbol'', JStr (to_upper s)), (''limit'', JNum 100)]
     in run_io (callTool binance_registry ''getCryptoPrice'' (JObj [(''symbol'', JStr s)])) w =
          (Inr (ToolResult (case respond w r of Inl e \<Rightarrow> error_result e | Inr d \<Rightarrow> text_result d)),
           io_init\<lparr>draws := 1, sent := [r]\<rparr>)"
    by (simp add: callTool_def binance_lookup_getCryptoPrice zp h run_io_def run_callback_def
        io_bind_def binanceDepth_def axiosBinanceGet_step nullish_default_def nullish_def
        upper_symbol_def io_init_def io_return_def Let_def b_def split: sum.splits)
  with b show ?thesis by blast
qed

text \<open>C15: the five tools whose schema requires a symbol refuse every call whose
  argument object has no symbol, whatever else it holds (a limit, say), naming
  the field; they send nothing and leave the state unchanged.\<close>

theorem binance_symbol_required:
  assumes "n \<in> {''getCryptoPrice'', ''binanceRecentTrades'', ''binanceAvgPrice'',
                  ''binanceTicker24hr'', ''binanceTradingDay''}"
    and "prop_val (JObj kvs) ''symbol'' = JUndef"
  shows "callTool binance_registry n (JObj kvs) w s =
           (Inr (RpcError (''Invalid arguments for tool '' @ n @ '': symbol'')), s)"
proof -
  have mem: "getCryptoPrice \<in> set binanceGetToolList" "binanceRecentTrades \<in> set binanceGetToolList"
    "binanceAvgPriceTool \<in> set binanceGetToolList" "binanceTicker24hrTool \<in> set binanceGetToolList"
    "binanceTradingDayTool \<in> set binanceGetToolList"
    by (simp_all add: binanceGetToolList_def)
  have sch: "tc_schema getCryptoPrice = symbol_field # [(''limit'', ZNumber, True)]"
    "tc_schema binanceRecentTrades = symbol_field # [(''limit'', ZNumber, True)]"
    "tc_schema binanceAvgPriceTool = symbol_field # []"
    "tc_schema binanceTicker24hrTool = symbol_field # []"
    "tc_schema binanceTradingDayTool = symbol_field # []"
    by (simp_all add: getCryptoPrice_def binanceRecentTrades_def binanceAvgPriceTool_def
        binanceTicker24hrTool_def binanceTradingDayTool_def)
  have nm: "tc_name getCryptoPrice = ''getCryptoPrice''"
    "tc_name binanceRecentTrades = ''binanceRecentTrades''"
    "tc_name binanceAvgPriceTool = ''binanceAvgPrice''"
    "tc_name binanceTicker24hrTool = ''binanceTicker24hr''"
    "tc_name binanceTradingDayTool = ''binanceTradingDay''"
    by (simp_all add: getCryptoPrice_def binanceRecentTrades_def binanceAvgPriceTool_def
        binanceTicker24hrTool_def binanceTradingDayTool_def)
  note calls = required_symbol_call [OF mem(1) sch(1) assms(2)]
    required_symbol_call [OF mem(2) sch(2) assms(2)] required_symbol_call [OF mem(3) sch(3) assms(2)]
    required_symbol_call [OF mem(4) sch(4) assms(2)] required_symbol_call [OF mem(5) sch(5) assms(2)]
  from assms(1) show ?thesis
    using calls unfolding nm by auto
qed

theorem binance_symbol_required_witness:
  "callTool binance_registry ''getCryptoPrice'' (JObj [(''limit'', JNum 5)]) offline_world io_init =
     (Inr (RpcError (''Invalid arguments for tool getCryptoPrice: symbol'')), io_init)"
  using binance_symbol_required [of "''getCryptoPrice''" "[(''limit'', JNum 5)]" offline_world io_init]
  by (simp add: prop_val_def)

end
