(* ===== verification/Tests.thy ===== *)
theory Tests
  imports TrainServer BinanceServer
begin

text \<open>
  The vitest suites of \<open>src/test\<close>. \<open>it(name, fn, timeout)\<close> registers a test
  case; the runner runs the cases of a file one after the other, in order, and a
  case passes when the promise of its body fulfils and fails with the error it
  rejects with (vitest's documented behaviour, modelled from its
  documentation). Each body awaits one call of the program and writes
  \<open>JSON.stringify(data)\<close> with \<open>console.log\<close>; none calls \<open>expect\<close>. The
  timeouts are kept as data: the effect model has no clock that advances while
  a request is in flight, so a case never times out here.
  \<^item> \<open>binance_tests\<close>: \<open>test/binance.test.ts\<close>, three builders of
    \<open>binance_get_api.ts\<close> on \<open>BTCUSDT\<close>;
  \<^item> \<open>train_tests\<close>: \<open>test/add.test.ts\<close>, \<open>handleGetHuochepiaoList\<close> for
    Beijing to Shanghai on 2025-08-30.
\<close>

datatype test_outcome = Pass | Fail js_exn

record test_case =
  t_name :: string
  t_timeout :: nat
  t_body :: "unit io"

text \<open>\<open>console.log(JSON.stringify(data))\<close>: \<open>undefined\<close> prints as such.\<close>

definition log_json :: "jsval \<Rightarrow> unit io" where
  "log_json data = io_log (case json_stringify data of None \<Rightarrow> ''undefined'' | Some t \<Rightarrow> t)"

text \<open>\<open>it(name, async () => { const data = await call; console.log(...) }, timeout)\<close>.\<close>

definition it_case :: "string \<Rightarrow> jsval io \<Rightarrow> nat \<Rightarrow> test_case" where
  "it_case name call timeout = \<lparr>t_name = name, t_timeout = timeout, t_body = io_bind call log_json\<rparr>"

definition run_test :: "test_case \<Rightarrow> world \<Rightarrow> io_st \<Rightarrow> test_outcome \<times> io_st" where
  "run_test t w s = (case t_body t w s of (Inl e, s') \<Rightarrow> (Fail e, s') | (Inr u, s') \<Rightarrow> (Pass, s'))"

fun run_suite :: "test_case list \<Rightarrow> world \<Rightarrow> io_st \<Rightarrow> (string \<times> test_outcome) list \<times> io_st" where
  "run_suite [] w s = ([], s)"
| "run_suite (t # ts) w s =
     (let (r, s1) = run_test t w s; (rs, s2) = run_suite ts w s1 in ((t_name t, r) # rs, s2))"

definition binance_tests :: "test_case list" where
  "binance_tests =
     [it_case ''binanceDepth'' (binanceDepth ''BTCUSDT'' (JNum 100)) 10000,
      it_case ''fetchBinanceTrades'' (fetchBinanceTrades ''BTCUSDT'' (JNum 100)) 10000,
      it_case ''fetchBinanceTrades'' (ticker24hr ''BTCUSDT'') 10000]"

definition test_dep :: string where
  "test_dep = [CHR 0xE5, CHR 0x8C, CHR 0x97, CHR 0xE4, CHR 0xBA, CHR 0xAC]"

definition test_arr :: string where
  "test_arr = [CHR 0xE4, CHR 0xB8, CHR 0x8A, CHR 0xE6, CHR 0xB5, CHR 0xB7]"

definition train_tests :: "test_case list" where
  "train_tests = [it_case ''12306 api test'' (handleGetHuochepiaoList test_dep test_arr ''2025-08-30'') 300000]"

subsection \<open>Lemmas\<close>

lemma to_upper_BTCUSDT [simp]: "to_upper ''BTCUSDT'' = ''BTCUSDT''"
  by code_simp

lemma t_name_it_case [simp]: "t_name (it_case n m tmo) = n"
  by (simp add: it_case_def)

lemma run_suite_single:
  "run_suite [t] w s = ([(t_name t, fst (run_test t w s))], snd (run_test t w s))"
  by (simp add: split_def Let_def)

text \<open>A case whose body is one Binance GET passes in a world that answers every
  request, whatever the answer: it has sent the one request and written one
  line.\<close>

lemma it_case_get_pass:
  assumes "\<forall>r. \<exists>v. respond w r = Inr v"
  shows "\<exists>b \<in> set binanceBaseUrls. \<exists>l.
           run_test (it_case n (axiosBinanceGet path ps) tmo) w s =
             (Pass, s\<lparr>draws := Suc (draws s), sent := sent s @ [get_request (b @ path) ps],
                      stdout := stdout s @ [l]\<rparr>)"
proof -
  define r where "r = get_request (binanceBaseUrls ! random_index (length binanceBaseUrls)
                (rand w (draws s) mod 2 ^ 53) @ path) ps"
  obtain v where v: "respond w r = Inr v" using assms by blast
  have b: "binanceBaseUrls ! random_index (length binanceBaseUrls) (rand w (draws s) mod 2 ^ 53)
             \<in> set binanceBaseUrls"
    by simp
  show ?thesis
    using v b
    by (auto simp: run_test_def it_case_def io_bind_def axiosBinanceGet_step Let_def r_def
        log_json_def io_log_def)
qed

lemma run_suite_gets:
  assumes "\<forall>r. \<exists>v. respond w r = Inr v"
  shows "\<exists>bs s'. run_suite (map (\<lambda>(n, p, ps). it_case n (axiosBinanceGet p ps) tmo) cs) w s =
             (map (\<lambda>(n, p, ps). (n, Pass)) cs, s')
           \<and> length bs = length cs \<and> set bs \<subseteq> set binanceBaseUrls
           \<and> sent s' = sent s @ map2 (\<lambda>b (n, p, ps). get_request (b @ p) ps) bs cs"
proof (induction cs arbitrary: s)
  case Nil
  then show ?case by simp
next
  case (Cons c cs)
  obtain n p ps where c: "c = (n, p, ps)" by (cases c) auto
  obtain b l where b: "b \<in> set binanceBaseUrls"
    and r: "run_test (it_case n (axiosBinanceGet p ps) tmo) w s =
             (Pass, s\<lparr>draws := Suc (draws s), sent := sent s @ [get_request (b @ p) ps],
                      stdout := stdout s @ [l]\<rparr>)"
    using it_case_get_pass [OF assms] by blast
  obtain bs s' where ih:
    "run_suite (map (\<lambda>(n, p, ps). it_case n (axiosBinanceGet p ps) tmo) cs) w
        (s\<lparr>draws := Suc (draws s), sent := sent s @ [get_request (b @ p) ps], stdout := stdout s @ [l]\<rparr>) =
       (map (\<lambda>(n, p, ps). (n, Pass)) cs, s')"
    "length bs = length cs" "set bs \<subseteq> set binanceBaseUrls"
    "sent s' = sent s @ [get_request (b @ p) ps] @ map2 (\<lambda>b (n, p, ps). get_request (b @ p) ps) bs cs"
    using Cons.IH by fastforce
  show ?case
    by (rule exI [of _ "b # bs"], rule exI [of _ s']) (auto simp: c r ih b split: prod.split)
qed

lemma binance_tests_gets:
  "binance_tests = map (\<lambda>(n, p, ps). it_case n (axiosBinanceGet p ps) 10000)
     [(''binanceDepth'', ''/api/v3/depth'', [(''symbol'', JStr ''BTCUSDT''), (''limit'', JNum 100)]),
      (''fetchBinanceTrades'', ''/api/v3/trades'', [(''symbol'', JStr ''BTCUSDT''), (''limit'', JNum 100)]),
      (''fetchBinanceTrades'', ''/api/v3/ticker/24hr'', [(''symbol'', JStr ''BTCUSDT'')])]"
  by (simp add: binance_tests_def binanceDepth_def fetchBinanceTrades_def ticker24hr_def
      upper_symbol_def nullish_default_def)

lemma run_test_it_case:
  "run_test (it_case n m tmo) w s =
     (case m w s of
        (Inl e, s') \<Rightarrow> (Fail e, s')
      | (Inr x, s') \<Rightarrow>
          (Pass, s'\<lparr>stdout := stdout s' @ [case json_stringify x of None \<Rightarrow> ''undefined'' | Some t \<Rightarrow> t]\<rparr>))"
  by (simp add: run_test_def it_case_def io_bind_def log_json_def io_log_def split: prod.split sum.split)

subsection \<open>Properties of the test suites\<close>

text \<open>C22: The Binance suite checks nothing about the data: in every world that
  answers each request, whatever it answers, all three cases pass. The suite
  sends the depth and recent-trades GETs for BTCUSDT with limit 100 and a 24-hour
  ticker GET for BTCUSDT, in this order; the third case, named
  fetchBinanceTrades like the second, tests ticker24hr.\<close>

theorem binance_tests_unchecked:
  assumes "\<forall>r. \<exists>v. respond w r = Inr v"
  shows "fst (run_suite binance_tests w io_init) =
           [(''binanceDepth'', Pass), (''fetchBinanceTrades'', Pass), (''fetchBinanceTrades'', Pass)]
       \<and> (\<exists>b1 \<in> set binanceBaseUrls. \<exists>b2 \<in> set binanceBaseUrls. \<exists>b3 \<in> set binanceBaseUrls.
            sent (snd (run_suite binance_tests w io_init)) =
              [get_request (b1 @ ''/api/v3/depth'') [(''symbol'', JStr ''BTCUSDT''), (''limit'', JNum 100)],
               get_request (b2 @ ''/api/v3/trades'') [(''symbol'', JStr ''BTCUSDT''), (''limit'', JNum 100)],
               get_request (b3 @ ''/api/v3/ticker/24hr'') [(''symbol'', JStr ''BTCUSDT'')]])"
proof -
  define cs where "cs =
     [(''binanceDepth'', ''/api/v3/depth'', [(''symbol'', JStr ''BTCUSDT''), (''limit'', JNum 100)]),
      (''fetchBinanceTrades'', ''/api/v3/trades'', [(''symbol'', JStr ''BTCUSDT''), (''limit'', JNum 100)]),
      (''fetchBinanceTrades'', ''/api/v3/ticker/24hr'', [(''symbol'', JStr ''BTCUSDT'')])]"
  have tests: "binance_tests = map (\<lambda>(n, p, ps). it_case n (axiosBinanceGet p ps) 10000) cs"
    unfolding cs_def by (rule binance_tests_gets)
  obtain bs s' where run: "run_suite binance_tests w io_init = (map (\<lambda>(n, p, ps). (n, Pass)) cs, s')"
    and len: "length bs = length cs" and bs: "set bs \<subseteq> set binanceBaseUrls"
    and snt: "sent s' = sent io_init @ map2 (\<lambda>b (n, p, ps). get_request (b @ p) ps) bs cs"
    using run_suite_gets [OF assms, of 10000 cs io_init] unfolding tests by blast
  obtain b1 b2 b3 where "bs = [b1, b2, b3]"
    using len by (auto simp: cs_def length_Suc_conv numeral_3_eq_3)
  then show ?thesis
    using run bs snt by (auto simp: cs_def io_init_def)
qed

theorem binance_tests_unchecked_witness:
  "fst (run_suite binance_tests (offline_world\<lparr>respond := \<lambda>r. Inr JNull\<rparr>) io_init) =
     [(''binanceDepth'', Pass), (''fetchBinanceTrades'', Pass), (''fetchBinanceTrades'', Pass)]"
  using binance_tests_unchecked [of "offline_world\<lparr>respond := \<lambda>r. Inr JNull\<rparr>"] by simp

text \<open>C23: The 12306 test passes when the ticket search fails: if the station-code
  service answers with a code other than 200, the handler returns its error
  result instead of throwing, the case passes, and the only trace of the failure
  is the error result the case writes to standard output.\<close>

theorem train_test_passes_on_failed_lookup:
  assumes resp: "\<forall>r. respond w r = Inr body"
    and code: "get_prop body ''code'' = Inr c" and bad: "\<not> strict_eq c (JNum 200)"
  shows "fst (run_suite train_tests w io_init) = [(''12306 api test'', Pass)]
       \<and> stdout (snd (run_suite train_tests w io_init)) =
           [the (json_stringify (buildErrorResponse (JStr msg_code_fail)))]"
proof -
  have "fst (handleGetHuochepiaoList test_dep test_arr ''2025-08-30'' w io_init) =
          Inr (buildErrorResponse (JStr msg_code_fail))"
    "stdout (snd (handleGetHuochepiaoList test_dep test_arr ''2025-08-30'' w io_init)) = []"
    using assms by (auto simp: train_run_simps io_simps test_dep_def test_arr_def)
  moreover have "json_stringify (buildErrorResponse (JStr msg_code_fail)) \<noteq> None"
    by (simp add: buildErrorResponse_def json_stringify_def)
  ultimately show ?thesis
    by (auto simp: train_tests_def run_suite_single run_test_it_case split: prod.split)
qed

theorem train_test_passes_on_failed_lookup_witness:
  "fst (run_suite train_tests (offline_world\<lparr>respond := \<lambda>r. Inr (JObj [(''code'', JNum 500)])\<rparr>) io_init)
     = [(''12306 api test'', Pass)]"
  using train_test_passes_on_failed_lookup
    [of "offline_world\<lparr>respond := \<lambda>r. Inr (JObj [(''code'', JNum 500)])\<rparr>"
        "JObj [(''code'', JNum 500)]" "JNum 500"]
  by simp

end
