(* ===== verification/Kuaidi.thy ===== *)
theory Kuaidi
  imports Startup
begin

text \<open>
  The courier-tracking server of \<open>src/src/kuaidi100_tool.ts\<close>: one tool,
  \<open>query_trace\<close>, registered with the four-argument \<open>server.tool(name,
  description, arg, cb)\<close>. Its third argument is a plain object describing the two
  parameters (\<open>{ type: "text", ... }\<close>), not a zod shape, so the SDK takes it
  for annotations and registers the tool with no input schema; the callback is
  then called with the request's \<open>extra\<close> object alone. The callback
  destructures \<open>{ args }\<close> from it, builds the query from
  \<open>args.kuaidiNum\<close> and \<open>args.phone\<close>, and returns the provider's answer as the
  text. \<open>httpGet\<close> turns a failed request into an \<open>Error\<close> with its own message.
\<close>

definition kuaidi100ApiKey :: string where
  "kuaidi100ApiKey = ''UcIntYJZ6508''"

definition kuaidi100ApiUrl :: string where
  "kuaidi100ApiUrl = ''https://api.kuaidi100.com/stdio/''"

definition kuaidi_request :: "string \<Rightarrow> (string \<times> jsval) list \<Rightarrow> http_req" where
  "kuaidi_request url params =
     \<lparr>req_method = ''GET'', req_url = url, req_params = params, req_headers = [], req_body = None\<rparr>"

definition httpGet :: "string \<Rightarrow> (string \<times> jsval) list \<Rightarrow> jsval io" where
  "httpGet url params =
     io_catch (io_request (kuaidi_request url params)) (\<lambda>e.
       io_lift (Inl (Error (''HTTP request failed: '' @ exn_message e))))"

definition query_trace_handler :: "jsval \<Rightarrow> jsval io" where
  "query_trace_handler extra =
     io_bind (io_get extra ''args'') (\<lambda>args.
     io_bind (io_get args ''kuaidiNum'') (\<lambda>kuaidiNum.
     io_bind (io_get args ''phone'') (\<lambda>phone.
     let params = [(''key'', JStr kuaidi100ApiKey), (''kuaidiNum'', kuaidiNum),
                   (''phone'', js_or phone (JStr []))] in
     io_bind (httpGet (kuaidi100ApiUrl @ ''queryTrace'') params) (\<lambda>response.
       io_return (JObj [(''content'', JArr [JObj [(''type'', JStr ''text''), (''text'', response)]])])))))"

text \<open>The object literal passed where the SDK expects the input schema.\<close>

definition query_trace_arg :: tool_arg where
  "query_trace_arg =
     PlainObject
       [(''kuaidiNum'', JObj [(''type'', JStr ''text''),
          (''description'', JStr [CHR 0xE5, CHR 0xBF, CHR 0xAB, CHR 0xE9, CHR 0x80, CHR 0x92,
                                  CHR 0xE5, CHR 0x8D, CHR 0x95, CHR 0xE5, CHR 0x8F, CHR 0xB7])]),
        (''phone'', JObj [(''type'', JStr ''string''),
          (''description'', JStr ([CHR 0xE6, CHR 0x89, CHR 0x8B, CHR 0xE6, CHR 0x9C, CHR 0xBA,
             CHR 0xE5, CHR 0x8F, CHR 0xB7, CHR 0xEF, CHR 0xBC, CHR 0x8C, CHR 0xE5, CHR 0xBD, CHR 0x93,
             CHR 0xE5, CHR 0xBF, CHR 0xAB, CHR 0xE9, CHR 0x80, CHR 0x92, CHR 0xE5, CHR 0x8D, CHR 0x95,
             CHR 0xE5, CHR 0x8F, CHR 0xB7, CHR 0xE4, CHR 0xB8, CHR 0xBA] @ ''SF''
             @ [CHR 0xE5, CHR 0xBC, CHR 0x80, CHR 0xE5, CHR 0xA4, CHR 0xB4, CHR 0xE6, CHR 0x97, CHR 0xB6,
                CHR 0xE5, CHR 0xBF, CHR 0x85, CHR 0xE5, CHR 0xA1, CHR 0xAB])),
          (''default'', JStr [])])]"

definition register_query_trace :: "registry \<Rightarrow> js_exn + registry" where
  "register_query_trace reg = server_tool ''query_trace'' query_trace_arg query_trace_handler reg"


subsection \<open>Lemmas\<close>

subsection \<open>Server construction and start-up\<close>

text \<open>The object passed to \<open>new McpServer\<close> (\<open>kuaidi100_tool.ts\<close>), the server's only
  argument, and the \<open>main()\<close> that connects it to the stdio transport.\<close>

definition kuaidi_instructions :: string where
  "kuaidi_instructions =
     [CHR 0xE6, CHR 0x9F, CHR 0xA5, CHR 0xE8, CHR 0xAF, CHR 0xA2, CHR 0xE7, CHR 0x89, CHR 0xA9,
      CHR 0xE6, CHR 0xB5, CHR 0x81, CHR 0xE8, CHR 0xBD, CHR 0xA8, CHR 0xE8, CHR 0xBF, CHR 0xB9,
      CHR 0xE6, CHR 0x9C, CHR 0x8D, CHR 0xE5, CHR 0x8A, CHR 0xA1, CHR 0xEF, CHR 0xBC, CHR 0x8C,
      CHR 0xE4, CHR 0xBC, CHR 0xA0, CHR 0xE5, CHR 0x85, CHR 0xA5, CHR 0xE5, CHR 0xBF, CHR 0xAB,
      CHR 0xE9, CHR 0x80, CHR 0x92, CHR 0xE5, CHR 0x8D, CHR 0x95, CHR 0xE5, CHR 0x8F, CHR 0xB7,
      CHR 0xE5, CHR 0x92, CHR 0x8C, CHR 0xE6, CHR 0x89, CHR 0x8B, CHR 0xE6, CHR 0x9C, CHR 0xBA,
      CHR 0xE5, CHR 0x8F, CHR 0xB7, CHR 0xEF, CHR 0xBC, CHR 0x8C, CHR 0xE8, CHR 0x8E, CHR 0xB7,
      CHR 0xE5, CHR 0x8F, CHR 0x96, CHR 0xE5, CHR 0xAF, CHR 0xB9, CHR 0xE5, CHR 0xBA, CHR 0x94,
      CHR 0xE5, CHR 0xBF, CHR 0xAB, CHR 0xE9, CHR 0x80, CHR 0x92, CHR 0xE7, CHR 0x9A, CHR 0x84,
      CHR 0xE7, CHR 0x89, CHR 0xA9, CHR 0xE6, CHR 0xB5, CHR 0x81, CHR 0xE8, CHR 0xBD, CHR 0xA8,
      CHR 0xE8, CHR 0xBF, CHR 0xB9]"

definition kuaidi_server_info :: jsval where
  "kuaidi_server_info =
     JObj [(''name'', JStr ''kuaidi100-mcp''),
           (''version'', JStr ''1.0.0''),
           (''capabilities'', JObj [(''resources'', JObj []), (''tools'', JObj [])]),
           (''instructions'', JStr kuaidi_instructions)]"

text \<open>\<open>const server = new McpServer({...})\<close>: the object is the only argument,
  so it is the server's \<open>serverInfo\<close> and there are no options.\<close>

definition kuaidi_server :: server_obj where
  "kuaidi_server = new_mcp_server kuaidi_server_info None"

definition kuaidi_main :: "js_exn + unit \<Rightarrow> start_out" where
  "kuaidi_main conn = server_main msg_running conn"

lemma register_query_trace_empty:
  "register_query_trace empty_registry =
     Inr (empty_registry\<lparr>tools := [(''query_trace'', \<lparr>t_schema = None, t_handler = query_trace_handler\<rparr>)]\<rparr>)"
  by (simp add: register_query_trace_def server_tool_def tool_arg_schema_def query_trace_arg_def
      registerTool_def registered_def empty_registry_def)

lemma query_trace_handler_extra:
  "query_trace_handler request_extra w s = (Inl (read_error ''undefined'' ''kuaidiNum''), s)"
  by (simp add: query_trace_handler_def request_extra_def io_bind_get_total nullish_def prop_val_def
      io_bind_def io_get_apply)

subsection \<open>Properties of the courier tool\<close>

text \<open>C19: the tool registers, and every call of it, whatever its arguments, ends
  in a result flagged as an error with the message of the \<open>TypeError\<close> thrown by
  \<open>args.kuaidiNum\<close>; no request is ever sent.\<close>

theorem query_trace_always_fails:
  "\<exists>reg. register_query_trace empty_registry = Inr reg
     \<and> (\<forall>args w s. callTool reg ''query_trace'' args w s =
          (Inr (ToolResult (error_result (read_error ''undefined'' ''kuaidiNum''))), s))
     \<and> client_is_error (error_result (read_error ''undefined'' ''kuaidiNum''))"
  by (simp add: register_query_trace_empty callTool_def run_callback_def query_trace_handler_extra
      error_result_flagged)

text \<open>Called with an object that does carry \<open>args\<close>, the callback sends one
  GET to the \<open>queryTrace\<close> endpoint with the key, the tracking number and the
  phone (the empty text when absent or falsy), and returns the provider's answer
  as the text, or rejects with the wrapped ``HTTP request failed'' error.\<close>

theorem query_trace_request:
  "run_io (query_trace_handler (JObj [(''args'', JObj kvs)])) w =
     (let r = kuaidi_request (kuaidi100ApiUrl @ ''queryTrace'')
                [(''key'', JStr kuaidi100ApiKey), (''kuaidiNum'', prop_val (JObj kvs) ''kuaidiNum''),
                 (''phone'', js_or (prop_val (JObj kvs) ''phone'') (JStr []))]
      in (case respond w r of
            Inl e \<Rightarrow> Inl (Error (''HTTP request failed: '' @ exn_message e))
          | Inr d \<Rightarrow> Inr (JObj [(''content'', JArr [JObj [(''type'', JStr ''text''), (''text'', d)]])]),
          io_init\<lparr>sent := [r]\<rparr>))"
  by (simp add: query_trace_handler_def io_get_apply prop_val_def Let_def
      httpGet_def io_catch_def io_bind_def io_request_def io_lift_def io_return_def run_io_def
      io_init_def split: sum.splits)

end
