(* ===== verification/DevEnv.thy ===== *)
theory DevEnv
  imports JsValue
begin

text \<open>
  The Python environment check of \<open>src/src/dev_environment_tool.ts\<close>, a
  script run on its own: an async main function awaits \<open>checkPython()\<close>,
  which runs \<open>python3 --version\<close> and, if that fails, \<open>python --version\<close>
  through \<open>child_process.exec\<close>; on success it logs the version, otherwise it
  runs \<open>installPython()\<close>, which picks install commands by \<open>os.platform()\<close>.

  \<open>exec\<close> returns at once and calls its callback later, so the script is a
  small event loop. Its state (\<open>dev_st\<close>) holds the console lines written,
  the commands started, the \<open>exec\<close> calls still in flight with their
  callbacks, and the microtask queue of promise continuations. \<open>dev_step\<close>
  is the loop's step relation: a microtask runs first; when there is none, any
  \<open>exec\<close> in flight may complete, its callback reading the outcome the world
  gives the command. \<open>dev_next\<close> is the same loop as a function that takes
  the first task, \<open>dev_run\<close> iterates it (terminating by the rank
  \<open>dev_rank\<close> of the pending work).

  The continuation of \<open>await installPython()\<close> is left out: it runs after
  the function's synchronous body and does nothing. \<open>trim\<close> removes ASCII
  white space, which covers the line breaks of a version text.
\<close>

subsection \<open>The world and the state\<close>

record exec_outcome =
  ex_err :: bool
  ex_stdout :: string
  ex_stderr :: string

record dev_world =
  platform :: string
  exec_res :: "string \<Rightarrow> exec_outcome"

datatype stream = StdOut | StdErr

text \<open>The callbacks passed to \<open>exec\<close>, named by their place in the source.\<close>

datatype callback = CbPython3 | CbPython | CbBrew | CbWhichApt | CbNone

text \<open>The continuations of the main function after \<open>await checkPython()\<close>:
  the promise resolved with a version text, or rejected.\<close>

datatype task = Found string | Missing

record dev_st =
  out_lines :: "(stream \<times> string) list"
  started :: "string list"
  pending :: "(string \<times> callback) list"
  microtasks :: "task list"

definition dev_empty :: dev_st where
  "dev_empty = \<lparr>out_lines = [], started = [], pending = [], microtasks = []\<rparr>"

subsection \<open>Messages and commands\<close>

definition msg_platform :: string where "msg_platform = [CHR 0xE5, CHR 0xBD, CHR 0x93, CHR 0xE5, CHR 0x89, CHR 0x8D, CHR 0xE7, CHR 0xB3, CHR 0xBB, CHR 0xE7, CHR 0xBB, CHR 0x9F] @ '': ''"
definition msg_brew :: string where "msg_brew = [CHR 0xE5, CHR 0xB0, CHR 0x9D, CHR 0xE8, CHR 0xAF, CHR 0x95, CHR 0xE4, CHR 0xBD, CHR 0xBF, CHR 0xE7, CHR 0x94, CHR 0xA8] @ '' Homebrew '' @ [CHR 0xE5, CHR 0xAE, CHR 0x89, CHR 0xE8, CHR 0xA3, CHR 0x85] @ '' Python...''"
definition msg_fail :: string where "msg_fail = [CHR 0xE5, CHR 0xAE, CHR 0x89, CHR 0xE8, CHR 0xA3, CHR 0x85, CHR 0xE5, CHR 0xA4, CHR 0xB1, CHR 0xE8, CHR 0xB4, CHR 0xA5] @ '':''"
definition msg_done :: string where "msg_done = [CHR 0xE5, CHR 0xAE, CHR 0x89, CHR 0xE8, CHR 0xA3, CHR 0x85, CHR 0xE5, CHR 0xAE, CHR 0x8C, CHR 0xE6, CHR 0x88, CHR 0x90] @ '':''"
definition msg_apt :: string where "msg_apt = [CHR 0xE5, CHR 0xB0, CHR 0x9D, CHR 0xE8, CHR 0xAF, CHR 0x95, CHR 0xE4, CHR 0xBD, CHR 0xBF, CHR 0xE7, CHR 0x94, CHR 0xA8] @ '' apt '' @ [CHR 0xE6, CHR 0x88, CHR 0x96] @ '' yum '' @ [CHR 0xE5, CHR 0xAE, CHR 0x89, CHR 0xE8, CHR 0xA3, CHR 0x85] @ '' Python...''"
definition msg_win :: string where "msg_win = ''Windows '' @ [CHR 0xE6, CHR 0xA3, CHR 0x80, CHR 0xE6, CHR 0xB5, CHR 0x8B, CHR 0xE5, CHR 0x88, CHR 0xB0, CHR 0xE6, CHR 0x9C, CHR 0xAA, CHR 0xE5, CHR 0xAE, CHR 0x89, CHR 0xE8, CHR 0xA3, CHR 0x85] @ '' Python'' @ [CHR 0xEF, CHR 0xBC, CHR 0x8C, CHR 0xE8, CHR 0xAF, CHR 0xB7, CHR 0xE4, CHR 0xBD, CHR 0xBF, CHR 0xE7, CHR 0x94, CHR 0xA8] @ '' winget '' @ [CHR 0xE6, CHR 0x88, CHR 0x96, CHR 0xE6, CHR 0x89, CHR 0x8B, CHR 0xE5, CHR 0x8A, CHR 0xA8, CHR 0xE5, CHR 0xAE, CHR 0x89, CHR 0xE8, CHR 0xA3, CHR 0x85] @ '':''"
definition msg_winget :: string where "msg_winget = ''winget install -e --id Python.Python.3''"
definition msg_unsupported :: string where "msg_unsupported = [CHR 0xE6, CHR 0x9A, CHR 0x82, CHR 0xE4, CHR 0xB8, CHR 0x8D, CHR 0xE6, CHR 0x94, CHR 0xAF, CHR 0xE6, CHR 0x8C, CHR 0x81, CHR 0xE6, CHR 0xAD, CHR 0xA4, CHR 0xE5, CHR 0xB9, CHR 0xB3, CHR 0xE5, CHR 0x8F, CHR 0xB0, CHR 0xEF, CHR 0xBC, CHR 0x8C, CHR 0xE8, CHR 0xAF, CHR 0xB7, CHR 0xE6, CHR 0x89, CHR 0x8B, CHR 0xE5, CHR 0x8A, CHR 0xA8, CHR 0xE5, CHR 0xAE, CHR 0x89, CHR 0xE8, CHR 0xA3, CHR 0x85] @ '' Python'' @ [CHR 0xE3, CHR 0x80, CHR 0x82]"
definition msg_found :: string where "msg_found = [CHR 0xE5, CHR 0xB7, CHR 0xB2, CHR 0xE6, CHR 0xA3, CHR 0x80, CHR 0xE6, CHR 0xB5, CHR 0x8B, CHR 0xE5, CHR 0x88, CHR 0xB0] @ '' Python '' @ [CHR 0xE7, CHR 0x8E, CHR 0xAF, CHR 0xE5, CHR 0xA2, CHR 0x83] @ '':''"
definition msg_missing :: string where "msg_missing = [CHR 0xE6, CHR 0x9C, CHR 0xAA, CHR 0xE6, CHR 0xA3, CHR 0x80, CHR 0xE6, CHR 0xB5, CHR 0x8B, CHR 0xE5, CHR 0x88, CHR 0xB0] @ '' Python'' @ [CHR 0xEF, CHR 0xBC, CHR 0x8C, CHR 0xE5, CHR 0xBC, CHR 0x80, CHR 0xE5, CHR 0xA7, CHR 0x8B, CHR 0xE5, CHR 0xAE, CHR 0x89, CHR 0xE8, CHR 0xA3, CHR 0x85] @ ''...''"

definition cmd_python3 :: string where "cmd_python3 = ''python3 --version''"
definition cmd_python :: string where "cmd_python = ''python --version''"
definition cmd_brew :: string where "cmd_brew = ''brew install python3''"
definition cmd_which_apt :: string where "cmd_which_apt = ''which apt-get''"
definition cmd_apt :: string where
  "cmd_apt = ''sudo apt-get update && sudo apt-get install -y python3 python3-pip''"
definition cmd_yum :: string where "cmd_yum = ''sudo yum install -y python3 python3-pip''"

subsection \<open>Operations\<close>

text \<open>\<open>exec(cmd, cb)\<close>: the command starts and its callback waits.\<close>

definition exec_cmd :: "string \<Rightarrow> callback \<Rightarrow> dev_st \<Rightarrow> dev_st" where
  "exec_cmd c cb s = s\<lparr>started := started s @ [c], pending := pending s @ [(c, cb)]\<rparr>"

text \<open>\<open>console.log(a, b)\<close> and \<open>console.error(a, b)\<close> write their arguments
  separated by a space.\<close>

definition log_line :: "stream \<Rightarrow> string \<Rightarrow> dev_st \<Rightarrow> dev_st" where
  "log_line st m s = s\<lparr>out_lines := out_lines s @ [(st, m)]\<rparr>"

definition log2 :: "stream \<Rightarrow> string \<Rightarrow> string \<Rightarrow> dev_st \<Rightarrow> dev_st" where
  "log2 st a b s = log_line st (a @ '' '' @ b) s"

definition settle :: "task \<Rightarrow> dev_st \<Rightarrow> dev_st" where
  "settle t s = s\<lparr>microtasks := microtasks s @ [t]\<rparr>"

text \<open>\<open>stdout || stderr\<close> on two strings.\<close>

definition str_or :: "string \<Rightarrow> string \<Rightarrow> string" where
  "str_or a b = (if a \<noteq> [] then a else b)"

definition js_trim :: "string \<Rightarrow> string" where
  "js_trim s = rev (dropWhile js_space (rev (dropWhile js_space s)))"

definition checkPython :: "dev_st \<Rightarrow> dev_st" where
  "checkPython s = exec_cmd cmd_python3 CbPython3 s"

definition installPython :: "dev_world \<Rightarrow> dev_st \<Rightarrow> dev_st" where
  "installPython w s =
     (let p = platform w; s1 = log_line StdOut (msg_platform @ p) s in
      if p = ''darwin'' then exec_cmd cmd_brew CbBrew (log_line StdOut msg_brew s1)
      else if p = ''linux'' then exec_cmd cmd_which_apt CbWhichApt (log_line StdOut msg_apt s1)
      else if p = ''win32'' then log_line StdOut msg_winget (log_line StdOut msg_win s1)
      else log_line StdOut msg_unsupported s1)"

text \<open>The body of each callback, on the outcome of its command.\<close>

fun run_cb :: "callback \<Rightarrow> exec_outcome \<Rightarrow> dev_st \<Rightarrow> dev_st" where
  "run_cb CbPython3 r s =
     (if \<not> ex_err r then settle (Found (str_or (ex_stdout r) (ex_stderr r))) s
      else exec_cmd cmd_python CbPython s)"
| "run_cb CbPython r s =
     (if \<not> ex_err r then settle (Found (str_or (ex_stdout r) (ex_stderr r))) s
      else settle Missing s)"
| "run_cb CbBrew r s =
     (if ex_err r then log2 StdErr msg_fail (ex_stderr r) s else log2 StdOut msg_done (ex_stdout r) s)"
| "run_cb CbWhichApt r s =
     (if \<not> ex_err r then exec_cmd cmd_apt CbNone s else exec_cmd cmd_yum CbNone s)"
| "run_cb CbNone r s = s"

text \<open>The main function after its \<open>await\<close>: the \<open>try\<close> branch and the
  \<open>catch\<close> branch.\<close>

fun run_task :: "dev_world \<Rightarrow> task \<Rightarrow> dev_st \<Rightarrow> dev_st" where
  "run_task w (Found v) s = log2 StdOut msg_found (js_trim v) s"
| "run_task w Missing s = installPython w (log_line StdOut msg_missing s)"

text \<open>The script up to its first \<open>await\<close>.\<close>

definition dev_start :: dev_st where
  "dev_start = checkPython dev_empty"

subsection \<open>The event loop\<close>

definition remove_at :: "nat \<Rightarrow> 'a list \<Rightarrow> 'a list" where
  "remove_at i xs = take i xs @ drop (Suc i) xs"

inductive dev_step :: "dev_world \<Rightarrow> dev_st \<Rightarrow> dev_st \<Rightarrow> bool" for w where
  micro_step: "microtasks s = t # ts \<Longrightarrow> dev_step w s (run_task w t (s\<lparr>microtasks := ts\<rparr>))"
| exec_step: "microtasks s = [] \<Longrightarrow> i < length (pending s) \<Longrightarrow> pending s ! i = (c, cb) \<Longrightarrow>
    dev_step w s (run_cb cb (exec_res w c) (s\<lparr>pending := remove_at i (pending s)\<rparr>))"

code_pred dev_step .

definition quiescent :: "dev_st \<Rightarrow> bool" where
  "quiescent s = (pending s = [] \<and> microtasks s = [])"

definition dev_next :: "dev_world \<Rightarrow> dev_st \<Rightarrow> dev_st option" where
  "dev_next w s =
     (case microtasks s of
        t # ts \<Rightarrow> Some (run_task w t (s\<lparr>microtasks := ts\<rparr>))
      | [] \<Rightarrow> (case pending s of
                 (c, cb) # ps \<Rightarrow> Some (run_cb cb (exec_res w c) (s\<lparr>pending := ps\<rparr>))
               | [] \<Rightarrow> None))"

fun cb_rank :: "callback \<Rightarrow> nat" where
  "cb_rank CbPython3 = 5"
| "cb_rank CbPython = 4"
| "cb_rank CbWhichApt = 2"
| "cb_rank CbBrew = 1"
| "cb_rank CbNone = 1"

fun task_rank :: "task \<Rightarrow> nat" where
  "task_rank (Found v) = 1"
| "task_rank Missing = 3"

definition dev_rank :: "dev_st \<Rightarrow> nat" where
  "dev_rank s = sum_list (map (cb_rank \<circ> snd) (pending s)) + sum_list (map task_rank (microtasks s))"

text \<open>The script read sequentially: what it prints and which commands it
  starts, by the outcomes of the two version checks, the platform and the
  outcome of the install helper.\<close>

definition dev_final :: "(stream \<times> string) list \<Rightarrow> string list \<Rightarrow> dev_st" where
  "dev_final ls cs = \<lparr>out_lines = ls, started = cs, pending = [], microtasks = []\<rparr>"

definition dev_spec :: "dev_world \<Rightarrow> dev_st" where
  "dev_spec w =
     (let r3 = exec_res w cmd_python3; r2 = exec_res w cmd_python; p = platform w;
          pre = [(StdOut, msg_missing), (StdOut, msg_platform @ p)] in
      if \<not> ex_err r3 then
        dev_final [(StdOut, msg_found @ '' '' @ js_trim (str_or (ex_stdout r3) (ex_stderr r3)))] [cmd_python3]
      else if \<not> ex_err r2 then
        dev_final [(StdOut, msg_found @ '' '' @ js_trim (str_or (ex_stdout r2) (ex_stderr r2)))]
          [cmd_python3, cmd_python]
      else if p = ''darwin'' then
        (let rb = exec_res w cmd_brew in
         dev_final (pre @ [(StdOut, msg_brew),
             if ex_err rb then (StdErr, msg_fail @ '' '' @ ex_stderr rb) else (StdOut, msg_done @ '' '' @ ex_stdout rb)])
           [cmd_python3, cmd_python, cmd_brew])
      else if p = ''linux'' then
        dev_final (pre @ [(StdOut, msg_apt)])
          [cmd_python3, cmd_python, cmd_which_apt,
           if \<not> ex_err (exec_res w cmd_which_apt) then cmd_apt else cmd_yum]
      else if p = ''win32'' then
        dev_final (pre @ [(StdOut, msg_win), (StdOut, msg_winget)]) [cmd_python3, cmd_python]
      else dev_final (pre @ [(StdOut, msg_unsupported)]) [cmd_python3, cmd_python])"

text \<open>Two sample worlds: a Linux machine with apt-get and no Python, and a
  machine whose python3 answers.\<close>

definition cmd_missing :: exec_outcome where
  "cmd_missing = \<lparr>ex_err = True, ex_stdout = [], ex_stderr = ''command not found''\<rparr>"

definition linux_world :: dev_world where
  "linux_world =
     \<lparr>platform = ''linux'',
      exec_res = (\<lambda>c. if c = cmd_which_apt
                       then \<lparr>ex_err = False, ex_stdout = ''/usr/bin/apt-get'', ex_stderr = []\<rparr>
                       else cmd_missing)\<rparr>"

definition python3_world :: dev_world where
  "python3_world =
     \<lparr>platform = ''darwin'',
      exec_res = (\<lambda>c. if c = cmd_python3
                       then \<lparr>ex_err = False, ex_stdout = ''Python 3.12.3'' @ [CHR 0x0A], ex_stderr = []\<rparr>
                       else cmd_missing)\<rparr>"

definition tasks :: "dev_st \<Rightarrow> nat" where
  "tasks s = length (pending s) + length (microtasks s)"

subsection \<open>The rank of the pending work\<close>

named_theorems dev_defs
declare exec_cmd_def [dev_defs] log_line_def [dev_defs] log2_def [dev_defs] settle_def [dev_defs]
  dev_rank_def [dev_defs] tasks_def [dev_defs]

lemma rank_exec_cmd [simp]: "dev_rank (exec_cmd c cb s) = dev_rank s + cb_rank cb"
  by (simp add: dev_defs)

lemma rank_log_line [simp]: "dev_rank (log_line st m s) = dev_rank s"
  by (simp add: dev_defs)

lemma rank_log2 [simp]: "dev_rank (log2 st a b s) = dev_rank s"
  by (simp add: dev_defs)

lemma rank_settle [simp]: "dev_rank (settle t s) = dev_rank s + task_rank t"
  by (simp add: dev_defs)

lemma rank_installPython: "dev_rank (installPython w s) \<le> dev_rank s + 2"
  by (simp add: installPython_def Let_def)

lemma rank_run_cb: "dev_rank (run_cb cb r s) < cb_rank cb + dev_rank s"
  by (cases cb) simp_all

lemma rank_run_task: "dev_rank (run_task w t s) < task_rank t + dev_rank s"
  using rank_installPython [of w "log_line StdOut msg_missing s"] by (cases t) simp_all

lemma rank_drop_micro: "microtasks s = t # ts \<Longrightarrow> dev_rank s = task_rank t + dev_rank (s\<lparr>microtasks := ts\<rparr>)"
  by (simp add: dev_rank_def)

lemma sum_list_remove_at:
  "i < length xs \<Longrightarrow> sum_list (map (f :: 'a \<Rightarrow> nat) xs) = f (xs ! i) + sum_list (map f (remove_at i xs))"
  by (subst id_take_nth_drop [of i xs]) (simp_all add: remove_at_def)

lemma rank_remove_pending:
  "i < length (pending s) \<Longrightarrow> pending s ! i = (c, cb) \<Longrightarrow>
     dev_rank s = cb_rank cb + dev_rank (s\<lparr>pending := remove_at i (pending s)\<rparr>)"
  using sum_list_remove_at [of i "pending s" "cb_rank \<circ> snd"] by (simp add: dev_rank_def)

lemma dev_next_rank: "dev_next w s = Some s' \<Longrightarrow> dev_rank s' < dev_rank s"
proof (cases "microtasks s")
  case Nil
  assume n: "dev_next w s = Some s'"
  then obtain c cb ps where p: "pending s = (c, cb) # ps"
    using Nil by (auto simp: dev_next_def split: list.splits)
  with Nil n have "s' = run_cb cb (exec_res w c) (s\<lparr>pending := ps\<rparr>)" by (simp add: dev_next_def)
  moreover have "dev_rank s = cb_rank cb + dev_rank (s\<lparr>pending := ps\<rparr>)"
    using p by (simp add: dev_rank_def)
  ultimately show ?thesis using rank_run_cb by simp
next
  case (Cons t ts)
  assume "dev_next w s = Some s'"
  with Cons have "s' = run_task w t (s\<lparr>microtasks := ts\<rparr>)" by (simp add: dev_next_def)
  with rank_drop_micro [OF Cons] rank_run_task show ?thesis by simp
qed

function dev_run :: "dev_world \<Rightarrow> dev_st \<Rightarrow> dev_st" where
  "dev_run w s = (case dev_next w s of None \<Rightarrow> s | Some s' \<Rightarrow> dev_run w s')"
  by pat_completeness auto
termination
  by (relation "measure (\<lambda>(w, s). dev_rank s)") (simp_all add: dev_next_rank)

declare dev_run.simps [simp del]

subsection \<open>The loop as a function\<close>

lemma remove_at_Cons_0 [simp]: "remove_at 0 (x # xs) = xs"
  by (simp add: remove_at_def)

lemma dev_next_step: "dev_next w s = Some s' \<Longrightarrow> dev_step w s s'"
proof (cases "microtasks s")
  case (Cons t ts)
  assume "dev_next w s = Some s'"
  with Cons show ?thesis by (auto simp: dev_next_def intro: micro_step)
next
  case Nil
  assume n: "dev_next w s = Some s'"
  then obtain c cb ps where p: "pending s = (c, cb) # ps"
    using Nil by (auto simp: dev_next_def split: list.splits)
  have "dev_step w s (run_cb cb (exec_res w c) (s\<lparr>pending := remove_at 0 (pending s)\<rparr>))"
    by (rule exec_step) (simp_all add: Nil p)
  with Nil n p show ?thesis by (simp add: dev_next_def)
qed

lemma tasks_one_pending:
  "tasks s \<le> 1 \<Longrightarrow> microtasks s = [] \<Longrightarrow> i < length (pending s) \<Longrightarrow> i = 0 \<and> pending s = [pending s ! 0]"
  by (cases "pending s") (auto simp: tasks_def)

lemma dev_step_next:
  assumes "tasks s \<le> 1" and "dev_step w s s'"
  shows "dev_next w s = Some s'"
  using assms(2)
proof cases
  case (micro_step t ts)
  then show ?thesis by (simp add: dev_next_def)
next
  case (exec_step i c cb)
  then have "i = 0 \<and> pending s = [pending s ! 0]" using tasks_one_pending [OF assms(1)] by blast
  then have "i = 0" "pending s = [(c, cb)]" using exec_step by auto
  with exec_step show ?thesis by (simp add: dev_next_def remove_at_def)
qed

lemma dev_next_None: "dev_next w s = None \<longleftrightarrow> quiescent s"
  by (simp add: dev_next_def quiescent_def split: list.splits)

lemma dev_run_reach: "(dev_step w)\<^sup>*\<^sup>* s (dev_run w s)"
proof (induction w s rule: dev_run.induct)
  case (1 w s)
  show ?case
  proof (cases "dev_next w s")
    case None
    then show ?thesis by (simp add: dev_run.simps)
  next
    case (Some s')
    with 1 have "(dev_step w)\<^sup>*\<^sup>* s' (dev_run w s')" by simp
    with Some show ?thesis
      by (simp add: dev_run.simps) (meson converse_rtranclp_into_rtranclp dev_next_step)
  qed
qed

lemma dev_run_quiescent: "quiescent (dev_run w s)"
  by (induction w s rule: dev_run.induct) (auto simp: dev_run.simps dev_next_None split: option.splits)

lemma tasks_exec_cmd [simp]: "tasks (exec_cmd c cb s) = Suc (tasks s)"
  by (simp add: dev_defs)

lemma tasks_log_line [simp]: "tasks (log_line st m s) = tasks s"
  by (simp add: dev_defs)

lemma tasks_log2 [simp]: "tasks (log2 st a b s) = tasks s"
  by (simp add: dev_defs)

lemma tasks_settle [simp]: "tasks (settle t s) = Suc (tasks s)"
  by (simp add: dev_defs)

lemma tasks_run_cb: "tasks (run_cb cb r s) \<le> Suc (tasks s)"
  by (cases cb) simp_all

lemma tasks_run_task: "tasks (run_task w t s) \<le> Suc (tasks s)"
  by (cases t) (simp_all add: installPython_def Let_def)

lemma dev_step_tasks: "dev_step w s s' \<Longrightarrow> tasks s \<le> 1 \<Longrightarrow> tasks s' \<le> 1"
proof (induction rule: dev_step.induct)
  case (micro_step s t ts)
  then have "tasks (s\<lparr>microtasks := ts\<rparr>) = 0" by (simp add: tasks_def)
  with tasks_run_task [of w t "s\<lparr>microtasks := ts\<rparr>"] show ?case by simp
next
  case (exec_step s i c cb)
  then have "tasks (s\<lparr>pending := remove_at i (pending s)\<rparr>) = 0"
    by (simp add: tasks_def remove_at_def)
  with tasks_run_cb [of cb "exec_res w c" "s\<lparr>pending := remove_at i (pending s)\<rparr>"] show ?case by simp
qed

lemma tasks_dev_start: "tasks dev_start = 1"
  by (simp add: dev_start_def checkPython_def dev_empty_def tasks_def exec_cmd_def)

lemma reach_tasks: "(dev_step w)\<^sup>*\<^sup>* dev_start s \<Longrightarrow> tasks s \<le> 1"
  by (induction rule: rtranclp_induct) (auto simp: tasks_dev_start dest: dev_step_tasks)

lemma reach_dev_run: "(dev_step w)\<^sup>*\<^sup>* dev_start s \<Longrightarrow> dev_run w s = dev_run w dev_start"
proof (induction rule: rtranclp_induct)
  case base
  then show ?case by simp
next
  case (step s s')
  then have "dev_next w s = Some s'" using reach_tasks dev_step_next by blast
  with step.IH show ?case by (simp add: dev_run.simps)
qed

lemma dev_step_rank: "dev_step w s s' \<Longrightarrow> dev_rank s' < dev_rank s"
proof (induction rule: dev_step.induct)
  case (micro_step s t ts)
  with rank_drop_micro [OF micro_step] rank_run_task show ?case by simp
next
  case (exec_step s i c cb)
  with rank_remove_pending [OF exec_step(2,3)] rank_run_cb show ?case by simp
qed

lemma dev_run_dev_spec: "dev_run w dev_start = dev_spec w"
  by (simp add: dev_run.simps dev_start_def checkPython_def dev_empty_def dev_next_def dev_defs
      installPython_def dev_spec_def dev_final_def Let_def cong: option.case_cong_weak)

lemma started_run_cb: "prefix (started s) (started (run_cb cb r s))"
  by (cases cb) (simp_all add: dev_defs)

lemma started_run_task: "prefix (started s) (started (run_task w t s))"
  by (cases t) (simp_all add: dev_defs installPython_def Let_def)

lemma dev_step_started: "dev_step w s s' \<Longrightarrow> prefix (started s) (started s')"
proof (induction rule: dev_step.induct)
  case (micro_step s t ts)
  then show ?case using started_run_task [of "s\<lparr>microtasks := ts\<rparr>" w t] by simp
next
  case (exec_step s i c cb)
  then show ?case
    using started_run_cb [of "s\<lparr>pending := remove_at i (pending s)\<rparr>" cb "exec_res w c"] by simp
qed

lemma steps_started: "(dev_step w)\<^sup>*\<^sup>* s s' \<Longrightarrow> prefix (started s) (started s')"
  by (induction rule: rtranclp_induct) (auto dest: dev_step_started intro: prefix_order.trans)

lemma reach_started_final:
  "(dev_step w)\<^sup>*\<^sup>* dev_start s \<Longrightarrow> set (started s) \<subseteq> set (started (dev_spec w))"
proof -
  assume r: "(dev_step w)\<^sup>*\<^sup>* dev_start s"
  have "(dev_step w)\<^sup>*\<^sup>* s (dev_run w dev_start)"
    using dev_run_reach [of w s] reach_dev_run [OF r] by simp
  then have "prefix (started s) (started (dev_spec w))"
    by (simp add: steps_started dev_run_dev_spec)
  then show ?thesis by (rule set_mono_prefix)
qed

subsection \<open>Properties of the script\<close>

text \<open>C32: the event loop of the script cannot run forever: for every outcome of the
  commands and every platform, there is no infinite sequence of loop steps.\<close>

theorem dev_loop_terminates: "wf {(s', s). dev_step w s s'}"
  by (rule wf_subset [OF wf_measure [of dev_rank]]) (auto dest: dev_step_rank)

text \<open>C31: from every state the script can reach, the loop goes on to a state with
  no callback in flight and no continuation queued: the script always finishes.\<close>

theorem dev_always_finishes:
  "(dev_step w)\<^sup>*\<^sup>* dev_start s \<Longrightarrow> \<exists>s'. (dev_step w)\<^sup>*\<^sup>* s s' \<and> quiescent s'"
  using dev_run_reach [of w s] dev_run_quiescent [of w s] by blast

theorem dev_always_finishes_witness:
  "\<exists>s'. (dev_step linux_world)\<^sup>*\<^sup>* dev_start s' \<and> quiescent s'"
  using dev_always_finishes [of linux_world dev_start] by simp

text \<open>C33: in every state the script reaches, at most one \<open>exec\<close> callback or
  promise continuation is outstanding, so a state that is not finished has exactly
  one successor: the script's output does not depend on the order of events.\<close>

theorem dev_loop_deterministic:
  "(dev_step w)\<^sup>*\<^sup>* dev_start s \<Longrightarrow> \<not> quiescent s \<Longrightarrow>
     length (pending s) + length (microtasks s) \<le> 1 \<and> (\<exists>!s'. dev_step w s s')"
proof -
  assume r: "(dev_step w)\<^sup>*\<^sup>* dev_start s" and q: "\<not> quiescent s"
  have t: "tasks s \<le> 1" using reach_tasks [OF r] .
  obtain s' where n: "dev_next w s = Some s'" using q dev_next_None by fastforce
  have "\<exists>!s'. dev_step w s s'"
  proof
    show "dev_step w s s'" using n by (rule dev_next_step)
  next
    fix s'' assume "dev_step w s s''"
    then have "dev_next w s = Some s''" using t by (rule dev_step_next [rotated])
    with n show "s'' = s'" by simp
  qed
  with t show ?thesis by (simp add: tasks_def)
qed

theorem dev_loop_deterministic_witness:
  "length (pending dev_start) + length (microtasks dev_start) \<le> 1 \<and> (\<exists>!s'. dev_step python3_world dev_start s')"
  using dev_loop_deterministic [of python3_world dev_start]
  by (simp add: quiescent_def dev_start_def checkPython_def dev_empty_def exec_cmd_def)

text \<open>C30: refinement of the sequential reading: every finished state the event loop
  reaches is the one dev_spec describes: the version line if python3 or else
  python answers, and otherwise the platform's install messages and commands.\<close>

theorem dev_loop_refines_spec:
  "(dev_step w)\<^sup>*\<^sup>* dev_start s \<Longrightarrow> quiescent s \<Longrightarrow> s = dev_spec w"
proof -
  assume r: "(dev_step w)\<^sup>*\<^sup>* dev_start s" and q: "quiescent s"
  have "dev_next w s = None" using q dev_next_None by blast
  then have "dev_run w s = s" by (simp add: dev_run.simps)
  with reach_dev_run [OF r] show ?thesis by (simp add: dev_run_dev_spec)
qed

theorem dev_loop_refines_spec_witness:
  "dev_final [(StdOut, msg_missing), (StdOut, msg_platform @ ''linux''), (StdOut, msg_apt)]
      [cmd_python3, cmd_python, cmd_which_apt, cmd_apt] = dev_spec linux_world"
proof -
  let ?f = "dev_final [(StdOut, msg_missing), (StdOut, msg_platform @ ''linux''), (StdOut, msg_apt)]
      [cmd_python3, cmd_python, cmd_which_apt, cmd_apt]"
  have e: "dev_spec linux_world = ?f"
    by (simp add: dev_spec_def linux_world_def cmd_missing_def cmd_python3_def cmd_python_def
        cmd_which_apt_def Let_def)
  have "(dev_step linux_world)\<^sup>*\<^sup>* dev_start ?f"
    using dev_run_reach [of linux_world dev_start] by (simp add: dev_run_dev_spec e)
  moreover have "quiescent ?f" by (simp add: quiescent_def dev_final_def)
  ultimately show ?thesis by (rule dev_loop_refines_spec)
qed

text \<open>C34: when one of the version checks succeeds, no install command is ever
  started, in any state of the run.\<close>

theorem dev_no_install_when_found:
  "\<not> ex_err (exec_res w cmd_python3) \<or> \<not> ex_err (exec_res w cmd_python) \<Longrightarrow>
     (dev_step w)\<^sup>*\<^sup>* dev_start s \<Longrightarrow> set (started s) \<subseteq> {cmd_python3, cmd_python}"
proof -
  assume f: "\<not> ex_err (exec_res w cmd_python3) \<or> \<not> ex_err (exec_res w cmd_python)"
    and r: "(dev_step w)\<^sup>*\<^sup>* dev_start s"
  from f have "set (started (dev_spec w)) \<subseteq> {cmd_python3, cmd_python}"
    by (auto simp: dev_spec_def dev_final_def Let_def)
  with reach_started_final [OF r] show ?thesis by blast
qed

theorem dev_no_install_when_found_witness:
  "set (started (dev_run python3_world dev_start)) \<subseteq> {cmd_python3, cmd_python}"
  using dev_no_install_when_found [of python3_world "dev_run python3_world dev_start"]
    dev_run_reach [of python3_world dev_start]
  by (simp add: python3_world_def)

text \<open>C35: on Linux, when both version checks fail, the script prints the missing
  line, the platform and the apt-or-yum line and nothing else: whether
  \<open>which apt-get\<close>, the install or \<open>sudo\<close> succeed is never reported.\<close>

theorem dev_linux_install_silent:
  "platform w = ''linux'' \<Longrightarrow> ex_err (exec_res w cmd_python3) \<Longrightarrow> ex_err (exec_res w cmd_python) \<Longrightarrow>
     out_lines (dev_run w dev_start) =
       [(StdOut, msg_missing), (StdOut, msg_platform @ ''linux''), (StdOut, msg_apt)]"
  by (simp add: dev_run_dev_spec dev_spec_def dev_final_def Let_def)

theorem dev_linux_install_silent_witness:
  "out_lines (dev_run linux_world dev_start) =
     [(StdOut, msg_missing), (StdOut, msg_platform @ ''linux''), (StdOut, msg_apt)]"
  using dev_linux_install_silent [of linux_world]
  by (simp add: linux_world_def cmd_missing_def cmd_python3_def cmd_python_def cmd_which_apt_def)

end
