(* ===== verification/Dist.thy ===== *)
theory Dist
  imports BinanceServer Kuaidi DevEnv
begin

text \<open>
  The compiled JavaScript the repository ships under \<open>src/dist\<close>, for the three
  modules whose TypeScript source is also present:
  \<^item> \<open>dist/binance/binance_get_tool.js\<close>: the eight tool configurations and the
    module's export table;
  \<^item> \<open>dist/kuaidi100_tool.js\<close>: the constants, \<open>httpGet\<close>, the \<open>query_trace\<close>
    registration, the server object and \<open>main\<close>;
  \<^item> \<open>dist/dev_environment_tool.js\<close>: \<open>checkPython\<close>, \<open>installPython\<close>, the exec
    callbacks and the async main.
  Each definition translates the compiled lines, with the same constructions as
  the theories of the sources (the module-loading prologue that \<open>tsc\<close> emits,
  \<open>__importStar\<close> and \<open>__importDefault\<close>, is not modelled: it only makes
  \<open>zod_1.default\<close>, \<open>axios_1.default\<close> and the named imports the libraries'
  objects). Text literals of the compiled code that are the same as the
  source's are written with the source's constants. The compiled lines are the
  source's, statement for statement, so the definitions coincide with those of
  the source theories; the lemma at the end records it. The compiled tool module
  requires \<open>./binance_get_api\<close>, which \<open>src/dist/binance\<close> does not contain.
\<close>

subsection \<open>dist/binance/binance_get_tool.js\<close>

definition dist_getCryptoPrice :: tool_config where
  "dist_getCryptoPrice =
     \<lparr>tc_name = ''getCryptoPrice'',
      tc_schema = [(''symbol'', ZString, False), (''limit'', ZNumber, True)],
      tc_handler = (\<lambda>args. with_symbol (prop_val args ''symbol'') (\<lambda>symbol.
        io_bind (binanceDepth symbol (prop_val args ''limit'')) (\<lambda>data.
          io_return (text_result data))))\<rparr>"

definition dist_binanceRecentTrades :: tool_config where
  "dist_binanceRecentTrades =
     \<lparr>tc_name = ''binanceRecentTrades'',
      tc_schema = [(''symbol'', ZString, False), (''limit'', ZNumber, True)],
      tc_handler = (\<lambda>args. with_symbol (prop_val args ''symbol'') (\<lambda>symbol.
        io_bind (fetchBinanceTrades symbol (prop_val args ''limit'')) (\<lambda>data.
          io_return (text_result data))))\<rparr>"

definition dist_binanceTradingDayTool :: tool_config where
  "dist_binanceTradingDayTool =
     \<lparr>tc_name = ''binanceTradingDay'', tc_schema = [(''symbol'', ZString, False)],
      tc_handler = (\<lambda>args. with_symbol (prop_val args ''symbol'') (\<lambda>symbol.
        io_bind (binanceTradingDay symbol) (\<lambda>data. io_return (text_result data))))\<rparr>"

definition dist_binanceAvgPriceTool :: tool_config where
  "dist_binanceAvgPriceTool =
     \<lparr>tc_name = ''binanceAvgPrice'', tc_schema = [(''symbol'', ZString, False)],
      tc_handler = (\<lambda>args. with_symbol (prop_val args ''symbol'') (\<lambda>symbol.
        io_bind (avgPrice symbol) (\<lambda>data. io_return (text_result data))))\<rparr>"

definition dist_binanceTicker24hrTool :: tool_config where
  "dist_binanceTicker24hrTool =
     \<lparr>tc_name = ''binanceTicker24hr'', tc_schema = [(''symbol'', ZString, False)],
      tc_handler = (\<lambda>args. with_symbol (prop_val args ''symbol'') (\<lambda>symbol.
        io_bind (ticker24hr symbol) (\<lambda>data. io_return (text_result data))))\<rparr>"

definition dist_binanceTickerPriceTool :: tool_config where
  "dist_binanceTickerPriceTool =
     \<lparr>tc_name = ''binanceTickerPrice'', tc_schema = [(''symbol'', ZString, True)],
      tc_handler = (\<lambda>args.
        io_bind (binanceTickerPrice (prop_val args ''symbol'')) (\<lambda>data.
          io_return (text_result data)))\<rparr>"

definition dist_binanceBookTickerTool :: tool_config where
  "dist_binanceBookTickerTool =
     \<lparr>tc_name = ''binanceBookTicker'', tc_schema = [(''symbol'', ZString, True)],
      tc_handler = (\<lambda>args.
        io_bind (binanceBookTicker (prop_val args ''symbol'')) (\<lambda>data.
          io_return (text_result data)))\<rparr>"

definition dist_binanceTickerTool :: tool_config where
  "dist_binanceTickerTool =
     \<lparr>tc_name = ''binanceTicker'',
      tc_schema = [(''symbol'', ZString, True), (''symbols'', ZArray ZString, True),
                   (''windowSize'', ZString, True), (''type'', ZEnum [''FULL'', ''MINI''], True)],
      tc_handler = (\<lambda>args.
        io_bind (binanceTicker (prop_val args ''symbol'') (prop_val args ''symbols'')
                   (prop_val args ''windowSize'') (prop_val args ''type'')) (\<lambda>data.
          io_return (text_result data)))\<rparr>"

text \<open>\<open>exports.getCryptoPrice = getCryptoPrice; ...\<close>: the module's exports, by
  name.\<close>

definition dist_binance_exports :: "(string \<times> tool_config) list" where
  "dist_binance_exports =
     [(''getCryptoPrice'', dist_getCryptoPrice), (''binanceRecentTrades'', dist_binanceRecentTrades),
      (''binanceTradingDayTool'', dist_binanceTradingDayTool),
      (''binanceAvgPriceTool'', dist_binanceAvgPriceTool),
      (''binanceTicker24hrTool'', dist_binanceTicker24hrTool),
      (''binanceTickerPriceTool'', dist_binanceTickerPriceTool),
      (''binanceBookTickerTool'', dist_binanceBookTickerTool),
      (''binanceTickerTool'', dist_binanceTickerTool)]"

subsection \<open>dist/kuaidi100_tool.js\<close>

definition dist_kuaidi100ApiKey :: string where
  "dist_kuaidi100ApiKey = ''UcIntYJZ6508''"

definition dist_kuaidi100ApiUrl :: string where
  "dist_kuaidi100ApiUrl = ''https://api.kuaidi100.com/stdio/''"

definition dist_kuaidi_server_info :: jsval where
  "dist_kuaidi_server_info =
     JObj [(''name'', JStr ''kuaidi100-mcp''),
           (''version'', JStr ''1.0.0''),
           (''capabilities'', JObj [(''resources'', JObj []), (''tools'', JObj [])]),
           (''instructions'', JStr kuaidi_instructions)]"

definition dist_httpGet :: "string \<Rightarrow> (string \<times> jsval) list \<Rightarrow> jsval io" where
  "dist_httpGet url params =
     io_catch (io_request (kuaidi_request url params)) (\<lambda>e.
       io_lift (Inl (Error (''HTTP request failed: '' @ exn_message e))))"

definition dist_query_trace_handler :: "jsval \<Rightarrow> jsval io" where
  "dist_query_trace_handler extra =
     io_bind (io_get extra ''args'') (\<lambda>args.
     io_bind (io_get args ''kuaidiNum'') (\<lambda>kuaidiNum.
     io_bind (io_get args ''phone'') (\<lambda>phone.
     let params = [(''key'', JStr dist_kuaidi100ApiKey), (''kuaidiNum'', kuaidiNum),
                   (''phone'', js_or phone (JStr []))] in
     io_bind (dist_httpGet (dist_kuaidi100ApiUrl @ ''queryTrace'') params) (\<lambda>response.
       io_return (JObj [(''content'', JArr [JObj [(''type'', JStr ''text''), (''text'', response)]])])))))"

definition dist_register_query_trace :: "registry \<Rightarrow> js_exn + registry" where
  "dist_register_query_trace reg = server_tool ''query_trace'' query_trace_arg dist_query_trace_handler reg"

definition dist_kuaidi_main :: "js_exn + unit \<Rightarrow> start_out" where
  "dist_kuaidi_main conn = server_main msg_running conn"

subsection \<open>dist/dev_environment_tool.js\<close>

definition dist_checkPython :: "dev_st \<Rightarrow> dev_st" where
  "dist_checkPython s = exec_cmd cmd_python3 CbPython3 s"

fun dist_run_cb :: "callback \<Rightarrow> exec_outcome \<Rightarrow> dev_st \<Rightarrow> dev_st" where
  "dist_run_cb CbPython3 r s =
     (if \<not> ex_err r then settle (Found (str_or (ex_stdout r) (ex_stderr r))) s
      else exec_cmd cmd_python CbPython s)"
| "dist_run_cb CbPython r s =
     (if \<not> ex_err r then settle (Found (str_or (ex_stdout r) (ex_stderr r))) s
      else settle Missing s)"
| "dist_run_cb CbBrew r s =
     (if ex_err r then log2 StdErr msg_fail (ex_stderr r) s else log2 StdOut msg_done (ex_stdout r) s)"
| "dist_run_cb CbWhichApt r s =
     (if \<not> ex_err r then exec_cmd cmd_apt CbNone s else exec_cmd cmd_yum CbNone s)"
| "dist_run_cb CbNone r s = s"

definition dist_installPython :: "dev_world \<Rightarrow> dev_st \<Rightarrow> dev_st" where
  "dist_installPython w s =
     (let p = platform w; s1 = log_line StdOut (msg_platform @ p) s in
      if p = ''darwin'' then exec_cmd cmd_brew CbBrew (log_line StdOut msg_brew s1)
      else if p = ''linux'' then exec_cmd cmd_which_apt CbWhichApt (log_line StdOut msg_apt s1)
      else if p = ''win32'' then log_line StdOut msg_winget (log_line StdOut msg_win s1)
      else log_line StdOut msg_unsupported s1)"

fun dist_run_task :: "dev_world \<Rightarrow> task \<Rightarrow> dev_st \<Rightarrow> dev_st" where
  "dist_run_task w (Found v) s = log2 StdOut msg_found (js_trim v) s"
| "dist_run_task w Missing s = dist_installPython w (log_line StdOut msg_missing s)"

subsection \<open>The build agrees with the sources\<close>

lemma dist_run_cb_eq: "dist_run_cb = run_cb"
proof (intro ext)
  fix c r s
  show "dist_run_cb c r s = run_cb c r s" by (cases c) simp_all
qed

lemma dist_run_task_eq: "dist_run_task = run_task"
proof (intro ext)
  fix w t s
  show "dist_run_task w t s = run_task w t s"
    by (cases t) (simp_all add: dist_installPython_def installPython_def)
qed

lemma dist_query_trace_handler_eq: "dist_query_trace_handler = query_trace_handler"
  by (simp add: fun_eq_iff dist_query_trace_handler_def query_trace_handler_def dist_httpGet_def
      httpGet_def dist_kuaidi100ApiKey_def kuaidi100ApiKey_def dist_kuaidi100ApiUrl_def
      kuaidi100ApiUrl_def)

text \<open>The compiled modules shipped in src/dist behave as their TypeScript
  sources: the Binance tool module exports the same eight configurations under
  the same names, the courier server registers the same query_trace tool and
  builds the same server object and main, and the Python check runs the same
  commands, callbacks and main function.\<close>

lemma dist_build_agrees:
  "dist_binance_exports =
     [(''getCryptoPrice'', getCryptoPrice), (''binanceRecentTrades'', binanceRecentTrades),
      (''binanceTradingDayTool'', binanceTradingDayTool), (''binanceAvgPriceTool'', binanceAvgPriceTool),
      (''binanceTicker24hrTool'', binanceTicker24hrTool), (''binanceTickerPriceTool'', binanceTickerPriceTool),
      (''binanceBookTickerTool'', binanceBookTickerTool), (''binanceTickerTool'', binanceTickerTool)]
   \<and> dist_register_query_trace = register_query_trace
   \<and> dist_kuaidi_server_info = kuaidi_server_info \<and> dist_kuaidi_main = kuaidi_main
   \<and> dist_checkPython = checkPython \<and> dist_installPython = installPython
   \<and> dist_run_cb = run_cb \<and> dist_run_task = run_task"
  by (simp add: dist_run_cb_eq dist_run_task_eq dist_binance_exports_def
      dist_getCryptoPrice_def getCryptoPrice_def dist_binanceRecentTrades_def binanceRecentTrades_def
      dist_binanceTradingDayTool_def binanceTradingDayTool_def dist_binanceAvgPriceTool_def
      binanceAvgPriceTool_def dist_binanceTicker24hrTool_def binanceTicker24hrTool_def
      dist_binanceTickerPriceTool_def binanceTickerPriceTool_def dist_binanceBookTickerTool_def
      binanceBookTickerTool_def dist_binanceTickerTool_def binanceTickerTool_def symbol_field_def
      dist_register_query_trace_def register_query_trace_def dist_query_trace_handler_eq
      dist_kuaidi_server_info_def kuaidi_server_info_def
      dist_kuaidi_main_def kuaidi_main_def dist_checkPython_def checkPython_def
      dist_installPython_def installPython_def fun_eq_iff)

end
