(* ===== verification/BinanceResource.thy ===== *)
theory BinanceResource
  imports JsValue
begin

text \<open>
  The one resource of the Binance server, \<open>src/src/binance/binance_server.ts\<close>
  lines 78-108: \<open>server.registerResource("financial-pdf",
  "file://../../data/financial1.pdf", metadata, read)\<close>. The read callback
  resolves \<open>../../data/financial1.pdf\<close> with \<open>path.resolve\<close> against the
  process's working directory, reads the file with \<open>fs.promises.readFile\<close> and
  returns its bytes as \<open>Buffer.toString("base64")\<close>.

  The file system is a world of its own: the working directory (absolute, as
  \<open>process.cwd()\<close> is) and a map from absolute paths to file contents, a
  missing path being the \<open>ENOENT\<close> rejection. \<open>path_resolve\<close> is the POSIX
  \<open>path.resolve\<close> of one relative or absolute path: split on \<open>/\<close>, drop empty
  and \<open>.\<close> segments, let \<open>..\<close> remove the segment before it (nothing above the
  root). \<open>base64\<close> is the RFC 4648 encoding with padding; \<open>unbase64\<close> is the
  decoder a client applies to the blob, a device of the specification.
\<close>

subsection \<open>Paths\<close>

fun split_on :: "char \<Rightarrow> string \<Rightarrow> string list" where
  "split_on c [] = [[]]"
| "split_on c (x # xs) =
     (if x = c then [] # split_on c xs
      else (case split_on c xs of s # ss \<Rightarrow> (x # s) # ss | [] \<Rightarrow> [[x]]))"

fun norm_segs :: "string list \<Rightarrow> string list \<Rightarrow> string list" where
  "norm_segs acc [] = rev acc"
| "norm_segs acc (x # xs) =
     (if x = [] \<or> x = ''.'' then norm_segs acc xs
      else if x = ''..'' then norm_segs (tl acc) xs
      else norm_segs (x # acc) xs)"

definition path_resolve :: "string \<Rightarrow> string \<Rightarrow> string" where
  "path_resolve cwd p =
     (let segs = (if p \<noteq> [] \<and> hd p = CHR ''/'' then split_on CHR ''/'' p
                  else split_on CHR ''/'' cwd @ split_on CHR ''/'' p)
      in ''/'' @ join ''/'' (norm_segs [] segs))"

subsection \<open>Base64\<close>

definition b64_alphabet :: string where
  "b64_alphabet = ''ABCDEFGHIJKLMNOPQRSTUVWXYZabcdefghijklmnopqrstuvwxyz0123456789+/''"

definition b64_digit :: "nat \<Rightarrow> char" where
  "b64_digit k = b64_alphabet ! k"

text \<open>Three bytes give four digits of six bits; a final group of two bytes or one
  byte is padded with \<open>=\<close>.\<close>

fun base64 :: "string \<Rightarrow> string" where
  "base64 (a # b # c # rest) =
     (let n = of_char a * 65536 + of_char b * 256 + of_char c in
      [b64_digit (n div 262144), b64_digit (n div 4096 mod 64), b64_digit (n div 64 mod 64),
       b64_digit (n mod 64)] @ base64 rest)"
| "base64 [a, b] =
     (let n = of_char a * 65536 + of_char b * 256 in
      [b64_digit (n div 262144), b64_digit (n div 4096 mod 64), b64_digit (n div 64 mod 64), CHR ''=''])"
| "base64 [a] =
     (let n = of_char a * 65536 in
      [b64_digit (n div 262144), b64_digit (n div 4096 mod 64), CHR ''='', CHR ''=''])"
| "base64 [] = []"

definition b64_val :: "char \<Rightarrow> nat" where
  "b64_val c = (case map_of (zip b64_alphabet [0..<64]) c of Some k \<Rightarrow> k | None \<Rightarrow> 0)"

fun unbase64 :: "string \<Rightarrow> string" where
  "unbase64 (w # x # y # z # rest) =
     (let n = b64_val w * 262144 + b64_val x * 4096 + b64_val y * 64 + b64_val z in
      (if y = CHR ''='' then [char_of (n div 65536)]
       else if z = CHR ''='' then [char_of (n div 65536), char_of (n div 256 mod 256)]
       else [char_of (n div 65536), char_of (n div 256 mod 256), char_of (n mod 256)]) @ unbase64 rest)"
| "unbase64 _ = []"

subsection \<open>The resource\<close>

record fs_world =
  cwd :: string
  files :: "string \<Rightarrow> string option"

definition pdf_name :: string where "pdf_name = ''financial-pdf''"
definition pdf_uri :: string where "pdf_uri = ''file://../../data/financial1.pdf''"
definition pdf_rel_path :: string where "pdf_rel_path = ''../../data/financial1.pdf''"

definition pdf_metadata :: jsval where
  "pdf_metadata = JObj [(''description'', JStr ([CHR 0x0A] @ ''      '' @ [CHR 0xE6, CHR 0x9C, CHR 0xAC, CHR 0xE8, CHR 0xB5, CHR 0x84, CHR 0xE6, CHR 0xBA, CHR 0x90, CHR 0xE6, CHR 0x98, CHR 0xAF] @ '' AI '' @ [CHR 0xE5, CHR 0x9C, CHR 0xA8, CHR 0xE6, CHR 0x8F, CHR 0x90, CHR 0xE4, CHR 0xBE, CHR 0x9B, CHR 0xE9, CHR 0x87, CHR 0x91, CHR 0xE8, CHR 0x9E, CHR 0x8D, CHR 0xE6, CHR 0x93, CHR 0x8D, CHR 0xE4, CHR 0xBD, CHR 0x9C, CHR 0xE5, CHR 0xBB, CHR 0xBA, CHR 0xE8, CHR 0xAE, CHR 0xAE, CHR 0xE6, CHR 0x97, CHR 0xB6, CHR 0xE5, CHR 0xBF, CHR 0x85, CHR 0xE9, CHR 0xA1, CHR 0xBB, CHR 0xE4, CHR 0xBE, CHR 0x9D, CHR 0xE8, CHR 0xB5, CHR 0x96, CHR 0xE7, CHR 0x9A, CHR 0x84, CHR 0xE5, CHR 0x94, CHR 0xAF, CHR 0xE4, CHR 0xB8, CHR 0x80, CHR 0xE5, CHR 0x8F, CHR 0x82, CHR 0xE8, CHR 0x80, CHR 0x83, CHR 0xE4, CHR 0xB9, CHR 0xA6, CHR 0xE7, CHR 0xB1, CHR 0x8D, CHR 0xE3, CHR 0x80, CHR 0x82, CHR 0x0A] @ ''      AI '' @ [CHR 0xE5, CHR 0x9C, CHR 0xA8, CHR 0xE7, CHR 0x94, CHR 0x9F, CHR 0xE6, CHR 0x88, CHR 0x90, CHR 0xE6, CHR 0x8A, CHR 0x95, CHR 0xE8, CHR 0xB5, CHR 0x84, CHR 0xE3, CHR 0x80, CHR 0x81, CHR 0xE4, CHR 0xBA, CHR 0xA4, CHR 0xE6, CHR 0x98, CHR 0x93, CHR 0xE6, CHR 0x88, CHR 0x96, CHR 0xE8, CHR 0xB5, CHR 0x84, CHR 0xE9, CHR 0x87, CHR 0x91, CHR 0xE7, CHR 0xAE, CHR 0xA1, CHR 0xE7, CHR 0x90, CHR 0x86, CHR 0xE7, CHR 0x9B, CHR 0xB8, CHR 0xE5, CHR 0x85, CHR 0xB3, CHR 0xE5, CHR 0xBB, CHR 0xBA, CHR 0xE8, CHR 0xAE, CHR 0xAE, CHR 0xE6, CHR 0x97, CHR 0xB6, CHR 0xEF, CHR 0xBC, CHR 0x8C, CHR 0xE5, CHR 0xBF, CHR 0x85, CHR 0xE9, CHR 0xA1, CHR 0xBB, CHR 0xE4, CHR 0xB8, CHR 0xA5, CHR 0xE6, CHR 0xA0, CHR 0xBC, CHR 0xE4, CHR 0xBE, CHR 0x9D, CHR 0xE6, CHR 0x8D, CHR 0xAE, CHR 0xE6, CHR 0xAD, CHR 0xA4, CHR 0xE4, CHR 0xB9, CHR 0xA6, CHR 0xE7, CHR 0xB1, CHR 0x8D, CHR 0xE7, CHR 0x9A, CHR 0x84, CHR 0xE5, CHR 0x86, CHR 0x85, CHR 0xE5, CHR 0xAE, CHR 0xB9, CHR 0xEF, CHR 0xBC, CHR 0x8C, CHR 0x0A] @ ''      '' @ [CHR 0xE4, CHR 0xB8, CHR 0x8D, CHR 0xE5, CHR 0xBE, CHR 0x97, CHR 0xE5, CHR 0xBC, CHR 0x95, CHR 0xE7, CHR 0x94, CHR 0xA8, CHR 0xE5, CHR 0x85, CHR 0xB6, CHR 0xE4, CHR 0xBB, CHR 0x96, CHR 0xE5, CHR 0xA4, CHR 0x96, CHR 0xE9, CHR 0x83, CHR 0xA8, CHR 0xE4, CHR 0xBF, CHR 0xA1, CHR 0xE6, CHR 0x81, CHR 0xAF, CHR 0xE6, CHR 0x88, CHR 0x96, CHR 0xE5, CHR 0x81, CHR 0x87, CHR 0xE8, CHR 0xAE, CHR 0xBE, CHR 0xE3, CHR 0x80, CHR 0x82, CHR 0x0A] @ ''      '')), (''type'', JStr ''text/plain'')]"

definition read_file :: "fs_world \<Rightarrow> string \<Rightarrow> js_exn + string" where
  "read_file w p =
     (case files w p of
        Some bs \<Rightarrow> Inr bs
      | None \<Rightarrow> Inl (Error (''ENOENT: no such file or directory, open '' @ [CHR 0x27] @ p @ [CHR 0x27])))"

definition pdf_read :: "fs_world \<Rightarrow> js_exn + jsval" where
  "pdf_read w =
     (let filePath = path_resolve (cwd w) pdf_rel_path in
      sbind (read_file w filePath) (\<lambda>fileBuffer.
      let base64Content = base64 fileBuffer in
      Inr (JObj [(''contents'', JArr [JObj [(''blob'', JStr base64Content),
                                             (''uri'', JStr (''file://'' @ filePath)),
                                             (''mimeType'', JStr ''application/pdf'')]]),
                 (''_meta'', JObj [(''source'', JStr ''local-pdf'')])])))"

record resource_reg =
  res_name :: string
  res_uri :: string
  res_meta :: jsval
  res_read :: "fs_world \<Rightarrow> js_exn + jsval"

definition financial_pdf_resource :: resource_reg where
  "financial_pdf_resource =
     \<lparr>res_name = pdf_name, res_uri = pdf_uri, res_meta = pdf_metadata, res_read = pdf_read\<rparr>"

text \<open>A segment of a normalised absolute path.\<close>

definition seg_ok :: "string \<Rightarrow> bool" where
  "seg_ok x = (x \<noteq> [] \<and> x \<noteq> ''.'' \<and> x \<noteq> ''..'' \<and> CHR ''/'' \<notin> set x)"

subsection \<open>Base64 and paths\<close>


lemma length_b64_alphabet: "length b64_alphabet = 64"
  by (simp add: b64_alphabet_def)

lemma distinct_b64_alphabet: "distinct b64_alphabet"
  by (simp add: b64_alphabet_def)

lemma b64_val_digit [simp]: "k < 64 \<Longrightarrow> b64_val (b64_digit k) = k"
  using map_of_zip_nth [of b64_alphabet "[0..<64]" k] length_b64_alphabet distinct_b64_alphabet
  by (simp add: b64_val_def b64_digit_def)

lemma b64_digit_not_pad [simp]: "k < 64 \<Longrightarrow> b64_digit k \<noteq> CHR ''=''"
proof
  assume k: "k < 64" and "b64_digit k = CHR ''=''"
  then have "CHR ''='' \<in> set b64_alphabet" using length_b64_alphabet
    by (metis b64_digit_def nth_mem)
  then show False by (simp add: b64_alphabet_def)
qed

lemma b64_recombine:
  "(n::nat) div 262144 * 262144 + n div 4096 mod 64 * 4096 + n div 64 mod 64 * 64 + n mod 64 = n"
proof -
  have e1: "n div 262144 = n div 4096 div 64" using div_mult2_eq [of n 4096 64] by simp
  have e2: "n div 4096 = n div 64 div 64" using div_mult2_eq [of n 64 64] by simp
  have a: "n div 4096 = n div 262144 * 64 + n div 4096 mod 64" unfolding e1 by simp
  have b: "n div 64 = n div 4096 * 64 + n div 64 mod 64" unfolding e2 by simp
  have c: "n = n div 64 * 64 + n mod 64" by simp
  show ?thesis using a b c by linarith
qed

lemma bytes3:
  fixes A B C :: nat
  assumes "A < 256" "B < 256" "C < 256"
  shows "(A * 65536 + B * 256 + C) div 65536 = A" "(A * 65536 + B * 256 + C) div 256 mod 256 = B"
    "(A * 65536 + B * 256 + C) mod 256 = C" "(A * 65536 + B * 256 + C) div 262144 < 64"
proof -
  have "B * 256 + C < 65536" using assms by linarith
  then show "(A * 65536 + B * 256 + C) div 65536 = A" by simp
  have "(A * 65536 + B * 256 + C) div 256 = A * 256 + B" using assms by simp
  then show "(A * 65536 + B * 256 + C) div 256 mod 256 = B" using assms by simp
  have e: "A * 65536 + B * 256 + C = C + (A * 256 + B) * 256" by simp
  show "(A * 65536 + B * 256 + C) mod 256 = C" unfolding e using assms by (metis mod_less mod_mult_self2 mod_mult_self1 mult.commute)
  have "A * 65536 + B * 256 + C < 262144 * 64" using assms by linarith
  then show "(A * 65536 + B * 256 + C) div 262144 < 64" by (simp add: div_less_iff_less_mult)
qed

lemma b64_val_pad [simp]: "b64_val CHR ''='' = 0"
proof -
  have "CHR ''='' \<notin> set b64_alphabet" by (simp add: b64_alphabet_def)
  then have "map_of (zip b64_alphabet [0..<64]) CHR ''='' = None"
    using map_of_zip_is_None [of b64_alphabet "[0..<64]" "CHR ''=''"] length_b64_alphabet by simp
  then show ?thesis by (simp add: b64_val_def)
qed

lemma char_of_eq: "(n::nat) mod 256 = of_char c \<Longrightarrow> char_of n = c"
  by (metis char_of_char char_of_mod_256)

lemma of_char_lt: "(of_char c :: nat) < 256"
  by (rule nat_of_char_less_256)

lemma unbase64_group3: "unbase64 (base64 (a # b # c # rest)) = a # b # c # unbase64 (base64 rest)"
proof -
  define n where "n = (of_char a :: nat) * 65536 + of_char b * 256 + of_char c"
  note bs = bytes3 [of "of_char a" "of_char b" "of_char c", OF of_char_lt of_char_lt of_char_lt, folded n_def]
  have d: "n div 262144 < 64" "n div 4096 mod 64 < 64" "n div 64 mod 64 < 64" "n mod 64 < 64"
    using bs(4) by simp_all
  have e: "base64 (a # b # c # rest) = [b64_digit (n div 262144), b64_digit (n div 4096 mod 64),
      b64_digit (n div 64 mod 64), b64_digit (n mod 64)] @ base64 rest"
    by (simp add: n_def Let_def)
  have c: "char_of (n div 65536) = a" "char_of (n div 256) = b" "char_of n = c"
    using bs(1-3) by (simp_all add: char_of_eq)
  show ?thesis unfolding e using d c by (simp add: b64_recombine)
qed

lemma unbase64_group2: "unbase64 (base64 [a, b]) = [a, b]"
proof -
  define n where "n = (of_char a :: nat) * 65536 + of_char b * 256 + 0"
  note bs = bytes3 [of "of_char a" "of_char b" 0, OF of_char_lt of_char_lt zero_less_numeral, folded n_def]
  have m: "n mod 64 = 0" unfolding n_def by simp
  have d: "n div 262144 < 64" "n div 4096 mod 64 < 64" "n div 64 mod 64 < 64"
    using bs(4) by simp_all
  have e: "base64 [a, b] = [b64_digit (n div 262144), b64_digit (n div 4096 mod 64),
      b64_digit (n div 64 mod 64), CHR ''='']"
    by (simp add: n_def Let_def)
  have r: "n div 262144 * 262144 + n div 4096 mod 64 * 4096 + n div 64 mod 64 * 64 = n"
    using b64_recombine [of n] m by simp
  have c: "char_of (n div 65536) = a" "char_of (n div 256) = b"
    using bs(1-2) by (simp_all add: char_of_eq)
  show ?thesis unfolding e using d c by (simp add: r Let_def)
qed

lemma unbase64_group1: "unbase64 (base64 [a]) = [a]"
proof -
  define n where "n = (of_char a :: nat) * 65536 + 0 * 256 + 0"
  note bs = bytes3 [of "of_char a" 0 0, OF of_char_lt zero_less_numeral zero_less_numeral, folded n_def]
  have m: "n mod 64 = 0" "n div 64 mod 64 = 0" unfolding n_def by simp_all
  have d: "n div 262144 < 64" "n div 4096 mod 64 < 64" using bs(4) by simp_all
  have e: "base64 [a] = [b64_digit (n div 262144), b64_digit (n div 4096 mod 64), CHR ''='', CHR ''='']"
    by (simp add: n_def Let_def)
  have r: "n div 262144 * 262144 + n div 4096 mod 64 * 4096 = n"
    using b64_recombine [of n] m by simp
  show ?thesis unfolding e using d bs(1) by (simp add: r Let_def)
qed

lemma unbase64_base64: "unbase64 (base64 bs) = bs"
  by (induction bs rule: base64.induct)
    (simp_all add: unbase64_group3 unbase64_group2 unbase64_group1 del: base64.simps(1-3))

lemma length_base64: "length (base64 bs) = 4 * ((length bs + 2) div 3)"
  by (induction bs rule: base64.induct) (simp_all add: Let_def, presburger)

lemma b64_digit_mem: "k < 64 \<Longrightarrow> b64_digit k \<in> set b64_alphabet"
  using length_b64_alphabet by (simp add: b64_digit_def)

lemma set_base64: "set (base64 bs) \<subseteq> set b64_alphabet \<union> {CHR ''=''}"
proof (induction bs rule: base64.induct)
  case (1 a b c rest)
  have "(of_char a * 65536 + of_char b * 256 + of_char c :: nat) div 262144 < 64"
    by (rule bytes3(4)) (simp_all add: of_char_lt)
  with 1 show ?case by (simp add: Let_def b64_digit_mem)
next
  case (2 a b)
  have "(of_char a * 65536 + of_char b * 256 + 0 :: nat) div 262144 < 64"
    by (rule bytes3(4)) (simp_all add: of_char_lt)
  then show ?case by (simp add: Let_def b64_digit_mem)
next
  case (3 a)
  have "(of_char a * 65536 + 0 * 256 + 0 :: nat) div 262144 < 64"
    by (rule bytes3(4)) (simp_all add: of_char_lt)
  then show ?case by (simp add: Let_def b64_digit_mem)
qed simp

lemma split_on_nomem: "c \<notin> set x \<Longrightarrow> split_on c x = [x]"
  by (induction x) auto

lemma split_on_append: "c \<notin> set x \<Longrightarrow> split_on c (x @ c # r) = x # split_on c r"
proof (induction x)
  case (Cons y x)
  then show ?case by (cases "split_on c (x @ c # r)") auto
qed simp

lemma split_on_join:
  "\<forall>x\<in>set segs. c \<notin> set x \<Longrightarrow> segs \<noteq> [] \<Longrightarrow> split_on c (join [c] segs) = segs"
  by (induction "[c]" segs rule: join.induct) (simp_all add: split_on_nomem split_on_append)

lemma norm_segs_ok:
  "\<forall>x\<in>set xs. seg_ok x \<Longrightarrow> norm_segs acc (xs @ ys) = norm_segs (rev xs @ acc) ys"
  by (induction xs arbitrary: acc) (auto simp: seg_ok_def)

lemma split_cwd:
  "\<forall>x\<in>set segs. seg_ok x \<Longrightarrow> split_on CHR ''/'' (''/'' @ join ''/'' segs) = [] # segs \<or> segs = []"
  by (cases "segs = []") (auto simp: seg_ok_def split_on_join)

lemma rev_tl_rev: "rev (tl (rev xs)) = butlast xs"
  by (induction xs) (auto simp: tl_append2 butlast_append split: if_splits)

lemma path_resolve_rel:
  "path_resolve c pdf_rel_path =
     ''/'' @ join ''/'' (norm_segs [] (split_on CHR ''/'' c @ [''..'', ''..'', ''data'', ''financial1.pdf'']))"
  by (simp add: path_resolve_def pdf_rel_path_def)

text \<open>The relative path of the PDF resolved against a working directory of normal segments: two directories above it, and the root when it has fewer than two levels.\<close>

lemma pdf_path_resolve:
  assumes "\<forall>x\<in>set segs. seg_ok x"
  shows "path_resolve (''/'' @ join ''/'' segs) pdf_rel_path =
           ''/'' @ join ''/'' (butlast (butlast segs) @ [''data'', ''financial1.pdf''])"
proof (cases "segs = []")
  case True
  then show ?thesis by (simp add: path_resolve_def pdf_rel_path_def)
next
  case False
  have sp: "split_on CHR ''/'' (''/'' @ join ''/'' segs) = [] # segs"
    using split_cwd [OF assms] False by simp
  have n: "norm_segs [] ([] # segs @ [''..'', ''..'', ''data'', ''financial1.pdf'']) =
      rev (tl (tl (rev segs))) @ [''data'', ''financial1.pdf'']"
    using norm_segs_ok [OF assms, of "[]" "[''..'', ''..'', ''data'', ''financial1.pdf'']"] by simp
  have b: "rev (tl (tl (rev segs))) = butlast (butlast segs)"
    by (metis rev_tl_rev rev_rev_ident)
  show ?thesis
    unfolding path_resolve_rel sp using n b by simp
qed

subsection \<open>Properties of the resource\<close>

text \<open>C37: the resource serves the file ../../data/financial1.pdf relative to the
  working directory of the process, not to the module: started in a directory of
  normal segments, the read callback reads the file two directories above it (the
  root when there are fewer than two levels), returns its bytes base64-encoded
  under that file's uri, and fails when that file does not exist.\<close>

theorem pdf_path_from_cwd:
  assumes "\<forall>x\<in>set segs. seg_ok x" and "cwd w = ''/'' @ join ''/'' segs"
  shows "let p = ''/'' @ join ''/'' (butlast (butlast segs) @ [''data'', ''financial1.pdf'']) in
           (case files w p of
              None \<Rightarrow> (\<exists>e. pdf_read w = Inl e)
            | Some bs \<Rightarrow> (\<exists>blob. pdf_read w =
                 Inr (JObj [(''contents'', JArr [JObj [(''blob'', JStr blob),
                        (''uri'', JStr (''file://'' @ p)), (''mimeType'', JStr ''application/pdf'')]]),
                      (''_meta'', JObj [(''source'', JStr ''local-pdf'')])])
                 \<and> unbase64 blob = bs))"
  using pdf_path_resolve [OF assms(1)] assms(2)
  by (simp add: Let_def pdf_read_def read_file_def sbind_def unbase64_base64 split: option.split)

theorem pdf_path_from_cwd_witness:
  "\<exists>blob. pdf_read \<lparr>cwd = ''/srv/x-mcp'',
             files = (\<lambda>p. if p = ''/data/financial1.pdf'' then Some ''%PDF-1.4'' else None)\<rparr> =
           Inr (JObj [(''contents'', JArr [JObj [(''blob'', JStr blob),
                        (''uri'', JStr ''file:///data/financial1.pdf''),
                        (''mimeType'', JStr ''application/pdf'')]]),
                      (''_meta'', JObj [(''source'', JStr ''local-pdf'')])])
         \<and> unbase64 blob = ''%PDF-1.4''"
  using pdf_path_from_cwd [of "[''srv'', ''x-mcp'']"
      "\<lparr>cwd = ''/srv/x-mcp'', files = (\<lambda>p. if p = ''/data/financial1.pdf'' then Some ''%PDF-1.4'' else None)\<rparr>"]
  by (simp add: seg_ok_def Let_def)

text \<open>C36: when the resolved file exists, reading the resource returns one content item whose blob decodes (base64) to exactly the file's bytes, with the uri file:// followed by the resolved path and the PDF MIME type.\<close>

theorem pdf_read_blob:
  assumes "files w (path_resolve (cwd w) pdf_rel_path) = Some bs"
  shows "\<exists>blob. pdf_read w =
           Inr (JObj [(''contents'', JArr [JObj [(''blob'', JStr blob),
                        (''uri'', JStr (''file://'' @ path_resolve (cwd w) pdf_rel_path)),
                        (''mimeType'', JStr ''application/pdf'')]]),
                      (''_meta'', JObj [(''source'', JStr ''local-pdf'')])])
         \<and> unbase64 blob = bs"
  using assms by (simp add: pdf_read_def read_file_def sbind_def unbase64_base64)

theorem pdf_read_blob_witness:
  "\<exists>blob. pdf_read \<lparr>cwd = ''/srv/x-mcp/src/binance'',
             files = (\<lambda>p. if p = ''/srv/x-mcp/data/financial1.pdf'' then Some ''%PDF-1.4'' else None)\<rparr> =
           Inr (JObj [(''contents'', JArr [JObj [(''blob'', JStr blob),
                        (''uri'', JStr ''file:///srv/x-mcp/data/financial1.pdf''),
                        (''mimeType'', JStr ''application/pdf'')]]),
                      (''_meta'', JObj [(''source'', JStr ''local-pdf'')])])
         \<and> unbase64 blob = ''%PDF-1.4''"
proof -
  have p: "path_resolve ''/srv/x-mcp/src/binance'' pdf_rel_path = ''/srv/x-mcp/data/financial1.pdf''"
    by (simp add: path_resolve_def pdf_rel_path_def)
  show ?thesis
    using pdf_read_blob [of "\<lparr>cwd = ''/srv/x-mcp/src/binance'',
             files = (\<lambda>p. if p = ''/srv/x-mcp/data/financial1.pdf'' then Some ''%PDF-1.4'' else None)\<rparr>"
        "''%PDF-1.4''"]
    by (simp add: p)
qed

text \<open>When the resolved file does not exist, the read callback rejects with the ENOENT error naming the resolved path.\<close>

theorem pdf_read_missing:
  "files w (path_resolve (cwd w) pdf_rel_path) = None \<Longrightarrow>
     pdf_read w = Inl (Error (''ENOENT: no such file or directory, open '' @ [CHR 0x27] @
                              path_resolve (cwd w) pdf_rel_path @ [CHR 0x27]))"
  by (simp add: pdf_read_def read_file_def sbind_def)

theorem pdf_read_missing_witness:
  "pdf_read \<lparr>cwd = ''/srv/x-mcp'', files = (\<lambda>p. None)\<rparr> =
     Inl (Error (''ENOENT: no such file or directory, open '' @ [CHR 0x27] @ ''/data/financial1.pdf'' @ [CHR 0x27]))"
proof -
  have p: "path_resolve ''/srv/x-mcp'' pdf_rel_path = ''/data/financial1.pdf''"
    by (simp add: path_resolve_def pdf_rel_path_def)
  show ?thesis using pdf_read_missing [of "\<lparr>cwd = ''/srv/x-mcp'', files = (\<lambda>p. None)\<rparr>"] by (simp add: p)
qed

text \<open>The uri of the returned content item, file:// followed by an absolute path, is never the uri the resource is registered under.\<close>

theorem pdf_uri_differs: "''file://'' @ path_resolve c p \<noteq> res_uri financial_pdf_resource"
  by (simp add: path_resolve_def financial_pdf_resource_def pdf_uri_def Let_def)

text \<open>\<open>Buffer.toString("base64")\<close> of n bytes has 4 * ceil(n / 3) characters, all from the base64 alphabet or the padding sign.\<close>

theorem base64_bounds:
  "length (base64 bs) = 4 * ((length bs + 2) div 3) \<and> set (base64 bs) \<subseteq> set b64_alphabet \<union> {CHR ''=''}"
  using set_base64 [of bs] by (simp add: length_base64)

end
