(* ===== verification/Weather.thy ===== *)
theory Weather
  imports Startup
begin

text \<open>
  The weather server of \<open>src/src/city_weather.ts\<close>: one tool,
  \<open>get_weather_by_city\<close>, registered with \<open>server.registerTool\<close> and a schema
  with one required string \<open>city\<close>. The handler looks the city up in the
  object \<open>cityCodeMap\<close>, answers ``city not supported'' when the lookup is
  falsy, otherwise sends one GET to the provider for the city code, checks
  \<open>data.status\<close>, and prints today's entry \<open>data.data.forecast[0]\<close> as seven
  labelled lines.

  \<open>cityCodeMap[city]\<close> is a property read on an ordinary object, so it also
  finds the members every object inherits from \<open>Object.prototype\<close>
  (\<open>constructor\<close>, \<open>toString\<close>, \<open>__proto__\<close>, ...): functions and an
  object, all truthy. The lookup is modelled by the text the value gives in the
  URL's template literal, \<open>None\<close> standing for \<open>undefined\<close>.
\<close>

subsection \<open>The city table\<close>

definition city_beijing :: string where
  "city_beijing = [CHR 0xE5, CHR 0x8C, CHR 0x97, CHR 0xE4, CHR 0xBA, CHR 0xAC]"

definition city_shanghai :: string where
  "city_shanghai = [CHR 0xE4, CHR 0xB8, CHR 0x8A, CHR 0xE6, CHR 0xB5, CHR 0xB7]"

definition city_guangzhou :: string where
  "city_guangzhou = [CHR 0xE5, CHR 0xB9, CHR 0xBF, CHR 0xE5, CHR 0xB7, CHR 0x9E]"

definition city_shenzhen :: string where
  "city_shenzhen = [CHR 0xE6, CHR 0xB7, CHR 0xB1, CHR 0xE5, CHR 0x9C, CHR 0xB3]"

definition city_hangzhou :: string where
  "city_hangzhou = [CHR 0xE6, CHR 0x9D, CHR 0xAD, CHR 0xE5, CHR 0xB7, CHR 0x9E]"

definition city_chengdu :: string where
  "city_chengdu = [CHR 0xE6, CHR 0x88, CHR 0x90, CHR 0xE9, CHR 0x83, CHR 0xBD]"

definition city_chongqing :: string where
  "city_chongqing = [CHR 0xE9, CHR 0x87, CHR 0x8D, CHR 0xE5, CHR 0xBA, CHR 0x86]"

definition cityCodeMap :: "(string \<times> string) list" where
  "cityCodeMap =
     [(city_beijing, ''101010100''), (city_shanghai, ''101020100''),
      (city_guangzhou, ''101280101''), (city_shenzhen, ''101280601''),
      (city_hangzhou, ''101210101''), (city_chengdu, ''101270101''),
      (city_chongqing, ''101040100'')]"

text \<open>The members of \<open>Object.prototype\<close> and their text in a template literal.\<close>

definition native_fn :: "string \<Rightarrow> string" where
  "native_fn n = ''function '' @ n @ ''() { [native code] }''"

definition object_proto_members :: "(string \<times> string) list" where
  "object_proto_members =
     [(''constructor'', native_fn ''Object''), (''__proto__'', ''[object Object]'')]
     @ map (\<lambda>n. (n, native_fn n))
         [''__defineGetter__'', ''__defineSetter__'', ''hasOwnProperty'', ''__lookupGetter__'',
          ''__lookupSetter__'', ''isPrototypeOf'', ''propertyIsEnumerable'', ''toString'',
          ''valueOf'', ''toLocaleString'']"

text \<open>\<open>cityCodeMap[city]\<close>: an own property first, then the prototype chain.\<close>

definition city_lookup :: "string \<Rightarrow> string option" where
  "city_lookup city =
     (case map_of cityCodeMap city of
        Some code \<Rightarrow> Some code
      | None \<Rightarrow> map_of object_proto_members city)"

subsection \<open>The handler\<close>

definition msg_city_unsupported :: string where
  "msg_city_unsupported =
     [CHR 0xE6, CHR 0x9A, CHR 0x82, CHR 0xE4, CHR 0xB8, CHR 0x8D, CHR 0xE6, CHR 0x94, CHR 0xAF,
      CHR 0xE6, CHR 0x8C, CHR 0x81, CHR 0xE5, CHR 0x9F, CHR 0x8E, CHR 0xE5, CHR 0xB8, CHR 0x82] @ '': ''"

definition msg_fetch_failed :: string where
  "msg_fetch_failed =
     [CHR 0xE8, CHR 0x8E, CHR 0xB7, CHR 0xE5, CHR 0x8F, CHR 0x96, CHR 0xE5, CHR 0xA4, CHR 0xA9,
      CHR 0xE6, CHR 0xB0, CHR 0x94, CHR 0xE5, CHR 0xA4, CHR 0xB1, CHR 0xE8, CHR 0xB4, CHR 0xA5]"

text \<open>The seven labels of the forecast text, each after a line break but the first.\<close>

definition lbl_city :: string where
  "lbl_city = [CHR 0xE5, CHR 0x9F, CHR 0x8E, CHR 0xE5, CHR 0xB8, CHR 0x82] @ '': ''"

definition lbl_date :: string where
  "lbl_date = [CHR 0x0A, CHR 0xE6, CHR 0x97, CHR 0xA5, CHR 0xE6, CHR 0x9C, CHR 0x9F] @ '': ''"

definition lbl_type :: string where
  "lbl_type = [CHR 0x0A, CHR 0xE5, CHR 0xA4, CHR 0xA9, CHR 0xE6, CHR 0xB0, CHR 0x94] @ '': ''"

definition lbl_high :: string where
  "lbl_high =
     [CHR 0x0A, CHR 0xE6, CHR 0x9C, CHR 0x80, CHR 0xE9, CHR 0xAB, CHR 0x98, CHR 0xE6, CHR 0xB8,
      CHR 0xA9, CHR 0xE5, CHR 0xBA, CHR 0xA6] @ '': ''"

definition lbl_low :: string where
  "lbl_low =
     [CHR 0x0A, CHR 0xE6, CHR 0x9C, CHR 0x80, CHR 0xE4, CHR 0xBD, CHR 0x8E, CHR 0xE6, CHR 0xB8,
      CHR 0xA9, CHR 0xE5, CHR 0xBA, CHR 0xA6] @ '': ''"

definition lbl_fx :: string where
  "lbl_fx = [CHR 0x0A, CHR 0xE9, CHR 0xA3, CHR 0x8E, CHR 0xE5, CHR 0x90, CHR 0x91] @ '': ''"

definition lbl_fl :: string where
  "lbl_fl = [CHR 0x0A, CHR 0xE9, CHR 0xA3, CHR 0x8E, CHR 0xE5, CHR 0x8A, CHR 0x9B] @ '': ''"

text \<open>\<open>{ content: [{ type: "text", text }] }\<close>, with no \<open>isError\<close>.\<close>

definition weather_text :: "string \<Rightarrow> jsval" where
  "weather_text t = JObj [(''content'', JArr [text_block t])]"

definition weather_url :: "string \<Rightarrow> string" where
  "weather_url code = ''http://t.weather.itboy.net/api/weather/city/'' @ code"

text \<open>\<open>axios.get(url)\<close>: a GET with no parameters.\<close>

definition weather_request :: "string \<Rightarrow> http_req" where
  "weather_request url =
     \<lparr>req_method = ''GET'', req_url = url, req_params = [], req_headers = [], req_body = None\<rparr>"

text \<open>The template literal of the answer; each read of \<open>weatherInfo\<close> throws
  when the forecast has no first entry.\<close>

definition forecast_text :: "string \<Rightarrow> jsval \<Rightarrow> string io" where
  "forecast_text city weatherInfo =
     io_bind (io_get weatherInfo ''date'') (\<lambda>date.
     io_bind (io_get weatherInfo ''type'') (\<lambda>type.
     io_bind (io_get weatherInfo ''high'') (\<lambda>high.
     io_bind (io_get weatherInfo ''low'') (\<lambda>low.
     io_bind (io_get weatherInfo ''fx'') (\<lambda>fx.
     io_bind (io_get weatherInfo ''fl'') (\<lambda>fl.
       io_return (lbl_city @ city @ lbl_date @ to_str date @ lbl_type @ to_str type
         @ lbl_high @ to_str high @ lbl_low @ to_str low @ lbl_fx @ to_str fx
         @ lbl_fl @ to_str fl)))))))"

definition get_weather_by_city :: "string \<Rightarrow> jsval io" where
  "get_weather_by_city city =
     (case city_lookup city of
        None \<Rightarrow> io_return (weather_text (msg_city_unsupported @ city))
      | Some cityCode \<Rightarrow>
          io_bind (io_request (weather_request (weather_url cityCode))) (\<lambda>data.
          if \<not> truthy data then io_return (weather_text msg_fetch_failed)
          else
          io_bind (io_get data ''status'') (\<lambda>status.
          if \<not> strict_eq status (JNum 200) then io_return (weather_text msg_fetch_failed)
          else
          io_bind (io_get data ''data'') (\<lambda>d.
          io_bind (io_get d ''forecast'') (\<lambda>forecast.
          io_bind (io_lift (get_idx forecast 0)) (\<lambda>weatherInfo.
          io_bind (forecast_text city weatherInfo) (\<lambda>t.
            io_return (weather_text t))))))))"

text \<open>The callback destructures \<open>{ city }\<close>; the property key and the template
  literal read the value through ToString.\<close>

definition weather_handler :: "jsval \<Rightarrow> jsval io" where
  "weather_handler args = get_weather_by_city (to_str (prop_val args ''city''))"

definition weather_schema :: zod_shape where
  "weather_schema = [(''city'', ZString, False)]"

definition register_weather :: "registry \<Rightarrow> js_exn + registry" where
  "register_weather reg = registerTool ''get_weather_by_city'' (Some weather_schema) weather_handler reg"

subsection \<open>Sample data\<close>

definition demo_forecast :: jsval where
  "demo_forecast =
     JObj [(''date'', JStr ''30''), (''type'', JStr ''sunny''), (''high'', JStr ''high 31C''),
           (''low'', JStr ''low 22C''), (''fx'', JStr ''SE''), (''fl'', JStr ''3'')]"

definition demo_weather :: jsval where
  "demo_weather =
     JObj [(''status'', JNum 200), (''data'', JObj [(''forecast'', JArr [demo_forecast])])]"

text \<open>The provider answers Beijing's code with a forecast and Shanghai's with
  status 500.\<close>

definition weather_demo_world :: world where
  "weather_demo_world =
     offline_world\<lparr>respond := (\<lambda>r.
        if req_url r = weather_url ''101010100'' then Inr demo_weather
        else if req_url r = weather_url ''101020100'' then Inr (JObj [(''status'', JNum 500)])
        else Inl (Error ''Request failed with status code 404''))\<rparr>"


subsection \<open>Lemmas\<close>

subsection \<open>Server construction and start-up\<close>

text \<open>The object passed to \<open>new McpServer\<close> (\<open>city_weather.ts\<close>), the server's only
  argument, and the \<open>main()\<close> that connects it to the stdio transport.\<close>

definition weather_instructions :: string where
  "weather_instructions =
     [CHR 0xE8, CHR 0x8E, CHR 0xB7, CHR 0xE5, CHR 0x8F, CHR 0x96, CHR 0xE5, CHR 0x9F, CHR 0x8E,
      CHR 0xE5, CHR 0xB8, CHR 0x82, CHR 0xE7, CHR 0x9A, CHR 0x84, CHR 0xE7, CHR 0xBB, CHR 0x8F,
      CHR 0xE7, CHR 0xBA, CHR 0xAC, CHR 0xE5, CHR 0xBA, CHR 0xA6, CHR 0xE4, CHR 0xBF, CHR 0xA1,
      CHR 0xE6, CHR 0x81, CHR 0xAF, CHR 0xEF, CHR 0xBC, CHR 0x8C, CHR 0xE5, CHR 0x92, CHR 0x8C,
      CHR 0xE5, CHR 0xBD, CHR 0x93, CHR 0xE5, CHR 0xA4, CHR 0xA9, CHR 0xE7, CHR 0x9A, CHR 0x84,
      CHR 0xE6, CHR 0xB8, CHR 0xA9, CHR 0xE5, CHR 0xBA, CHR 0xA6, CHR 0xE5, CHR 0x92, CHR 0x8C,
      CHR 0xE5, CHR 0xA4, CHR 0xA9, CHR 0xE6, CHR 0xB0, CHR 0x94, CHR 0xE4, CHR 0xBF, CHR 0xA1,
      CHR 0xE6, CHR 0x81, CHR 0xAF, CHR 0xE3, CHR 0x80, CHR 0x82, CHR 0xE4, CHR 0xBD, CHR 0xBF,
      CHR 0xE7, CHR 0x94, CHR 0xA8, CHR 0xE5, CHR 0x9C, CHR 0xBA, CHR 0xE6, CHR 0x99, CHR 0xAF,
      CHR 0xE5, CHR 0x8C, CHR 0x85, CHR 0xE6, CHR 0x8B, CHR 0xAC, CHR 0xE4, CHR 0xBD, CHR 0x86,
      CHR 0xE4, CHR 0xB8, CHR 0x8D, CHR 0xE9, CHR 0x99, CHR 0x90, CHR 0xE4, CHR 0xBA, CHR 0x8E,
      CHR 0xEF, CHR 0xBC, CHR 0x9A, CHR 0x0A]
     @ ''1. ''
     @ [CHR 0xE6, CHR 0x97, CHR 0x85, CHR 0xE8, CHR 0xA1, CHR 0x8C, CHR 0xE8, CHR 0xA7,
      CHR 0x84, CHR 0xE5, CHR 0x88, CHR 0x92, CHR 0xEF, CHR 0xBC, CHR 0x9A, CHR 0xE5, CHR 0xB8,
      CHR 0xAE, CHR 0xE5, CHR 0x8A, CHR 0xA9, CHR 0xE7, CHR 0x94, CHR 0xA8, CHR 0xE6, CHR 0x88,
      CHR 0xB7, CHR 0xE4, CHR 0xBA, CHR 0x86, CHR 0xE8, CHR 0xA7, CHR 0xA3, CHR 0xE7, CHR 0x9B,
      CHR 0xAE, CHR 0xE7, CHR 0x9A, CHR 0x84, CHR 0xE5, CHR 0x9C, CHR 0xB0, CHR 0xE7, CHR 0x9A,
      CHR 0x84, CHR 0xE5, CHR 0xA4, CHR 0xA9, CHR 0xE6, CHR 0xB0, CHR 0x94, CHR 0xE6, CHR 0x83,
      CHR 0x85, CHR 0xE5, CHR 0x86, CHR 0xB5, CHR 0xEF, CHR 0xBC, CHR 0x8C, CHR 0xE4, CHR 0xBE,
      CHR 0xBF, CHR 0xE4, CHR 0xBA, CHR 0x8E, CHR 0xE5, CHR 0xAE, CHR 0x89, CHR 0xE6, CHR 0x8E,
      CHR 0x92, CHR 0xE8, CHR 0xA1, CHR 0x8C, CHR 0xE7, CHR 0xA8, CHR 0x8B, CHR 0xE3, CHR 0x80,
      CHR 0x82, CHR 0x0A]
     @ ''2. ''
     @ [CHR 0xE6, CHR 0x97, CHR 0xA5, CHR 0xE5, CHR 0xB8, CHR 0xB8, CHR 0xE7, CHR 0x94,
      CHR 0x9F, CHR 0xE6, CHR 0xB4, CHR 0xBB, CHR 0xEF, CHR 0xBC, CHR 0x9A, CHR 0xE6, CHR 0x8F,
      CHR 0x90, CHR 0xE4, CHR 0xBE, CHR 0x9B, CHR 0xE5, CHR 0xA4, CHR 0xA9, CHR 0xE6, CHR 0xB0,
      CHR 0x94, CHR 0xE9, CHR 0xA2, CHR 0x84, CHR 0xE6, CHR 0x8A, CHR 0xA5, CHR 0xEF, CHR 0xBC,
      CHR 0x8C, CHR 0xE5, CHR 0xB8, CHR 0xAE, CHR 0xE5, CHR 0x8A, CHR 0xA9, CHR 0xE7, CHR 0x94,
      CHR 0xA8, CHR 0xE6, CHR 0x88, CHR 0xB7, CHR 0xE5, CHR 0x86, CHR 0xB3, CHR 0xE5, CHR 0xAE,
      CHR 0x9A, CHR 0xE7, CHR 0xA9, CHR 0xBF, CHR 0xE8, CHR 0xA1, CHR 0xA3, CHR 0xE5, CHR 0x92,
      CHR 0x8C, CHR 0xE5, CHR 0x87, CHR 0xBA, CHR 0xE8, CHR 0xA1, CHR 0x8C, CHR 0xE6, CHR 0x96,
      CHR 0xB9, CHR 0xE5, CHR 0xBC, CHR 0x8F, CHR 0xE3, CHR 0x80, CHR 0x82, CHR 0x0A]
     @ ''3. ''
     @ [CHR 0xE6, CHR 0xB4, CHR 0xBB, CHR 0xE5, CHR 0x8A, CHR 0xA8, CHR 0xE5, CHR 0xAE,
      CHR 0x89, CHR 0xE6, CHR 0x8E, CHR 0x92, CHR 0xEF, CHR 0xBC, CHR 0x9A, CHR 0xE6, CHR 0xA0,
      CHR 0xB9, CHR 0xE6, CHR 0x8D, CHR 0xAE, CHR 0xE5, CHR 0xA4, CHR 0xA9, CHR 0xE6, CHR 0xB0,
      CHR 0x94, CHR 0xE6, CHR 0x83, CHR 0x85, CHR 0xE5, CHR 0x86, CHR 0xB5, CHR 0xE8, CHR 0xB0,
      CHR 0x83, CHR 0xE6, CHR 0x95, CHR 0xB4, CHR 0xE6, CHR 0x88, CHR 0xB7, CHR 0xE5, CHR 0xA4,
      CHR 0x96, CHR 0xE6, CHR 0xB4, CHR 0xBB, CHR 0xE5, CHR 0x8A, CHR 0xA8, CHR 0xE7, CHR 0x9A,
      CHR 0x84, CHR 0xE6, CHR 0x97, CHR 0xB6, CHR 0xE9, CHR 0x97, CHR 0xB4, CHR 0xE5, CHR 0x92,
      CHR 0x8C, CHR 0xE5, CHR 0x9C, CHR 0xB0, CHR 0xE7, CHR 0x82, CHR 0xB9, CHR 0xE3, CHR 0x80,
      CHR 0x82, CHR 0x0A]
     @ ''4. ''
     @ [CHR 0xE5, CHR 0x81, CHR 0xA5, CHR 0xE5, CHR 0xBA, CHR 0xB7, CHR 0xE7, CHR 0xAE,
      CHR 0xA1, CHR 0xE7, CHR 0x90, CHR 0x86, CHR 0xEF, CHR 0xBC, CHR 0x9A, CHR 0xE6, CHR 0x8F,
      CHR 0x90, CHR 0xE9, CHR 0x86, CHR 0x92, CHR 0xE7, CHR 0x94, CHR 0xA8, CHR 0xE6, CHR 0x88,
      CHR 0xB7, CHR 0xE6, CHR 0xB3, CHR 0xA8, CHR 0xE6, CHR 0x84, CHR 0x8F, CHR 0xE5, CHR 0xA4,
      CHR 0xA9, CHR 0xE6, CHR 0xB0, CHR 0x94, CHR 0xE5, CHR 0x8F, CHR 0x98, CHR 0xE5, CHR 0x8C,
      CHR 0x96, CHR 0xEF, CHR 0xBC, CHR 0x8C, CHR 0xE9, CHR 0xA2, CHR 0x84, CHR 0xE9, CHR 0x98,
      CHR 0xB2, CHR 0xE6, CHR 0x84, CHR 0x9F, CHR 0xE5, CHR 0x86, CHR 0x92, CHR 0xE7, CHR 0xAD,
      CHR 0x89, CHR 0xE7, CHR 0x96, CHR 0xBE, CHR 0xE7, CHR 0x97, CHR 0x85, CHR 0xE3, CHR 0x80,
      CHR 0x82, CHR 0x0A]
     @ ''5. ''
     @ [CHR 0xE5, CHR 0x86, CHR 0x9C, CHR 0xE4, CHR 0xB8, CHR 0x9A, CHR 0xE7, CHR 0x94,
      CHR 0x9F, CHR 0xE4, CHR 0xBA, CHR 0xA7, CHR 0xEF, CHR 0xBC, CHR 0x9A, CHR 0xE5, CHR 0xB8,
      CHR 0xAE, CHR 0xE5, CHR 0x8A, CHR 0xA9, CHR 0xE5, CHR 0x86, CHR 0x9C, CHR 0xE6, CHR 0xB0,
      CHR 0x91, CHR 0xE4, CHR 0xBA, CHR 0x86, CHR 0xE8, CHR 0xA7, CHR 0xA3, CHR 0xE5, CHR 0xA4,
      CHR 0xA9, CHR 0xE6, CHR 0xB0, CHR 0x94, CHR 0xE6, CHR 0x83, CHR 0x85, CHR 0xE5, CHR 0x86,
      CHR 0xB5, CHR 0xEF, CHR 0xBC, CHR 0x8C, CHR 0xE5, CHR 0x90, CHR 0x88, CHR 0xE7, CHR 0x90,
      CHR 0x86, CHR 0xE5, CHR 0xAE, CHR 0x89, CHR 0xE6, CHR 0x8E, CHR 0x92, CHR 0xE5, CHR 0x86,
      CHR 0x9C, CHR 0xE4, CHR 0xBD, CHR 0x9C, CHR 0xE3, CHR 0x80, CHR 0x82, CHR 0x0A]
     @ ''6. ''
     @ [CHR 0xE4, CHR 0xBA, CHR 0xA4, CHR 0xE9, CHR 0x80, CHR 0x9A, CHR 0xE5, CHR 0x87,
      CHR 0xBA, CHR 0xE8, CHR 0xA1, CHR 0x8C, CHR 0xEF, CHR 0xBC, CHR 0x9A, CHR 0xE6, CHR 0x8F,
      CHR 0x90, CHR 0xE4, CHR 0xBE, CHR 0x9B, CHR 0xE5, CHR 0xA4, CHR 0xA9, CHR 0xE6, CHR 0xB0,
      CHR 0x94, CHR 0xE4, CHR 0xBF, CHR 0xA1, CHR 0xE6, CHR 0x81, CHR 0xAF, CHR 0xEF, CHR 0xBC,
      CHR 0x8C, CHR 0xE5, CHR 0xB8, CHR 0xAE, CHR 0xE5, CHR 0x8A, CHR 0xA9, CHR 0xE7, CHR 0x94,
      CHR 0xA8, CHR 0xE6, CHR 0x88, CHR 0xB7, CHR 0xE9, CHR 0x80, CHR 0x89, CHR 0xE6, CHR 0x8B,
      CHR 0xA9, CHR 0xE5, CHR 0x90, CHR 0x88, CHR 0xE9, CHR 0x80, CHR 0x82, CHR 0xE7, CHR 0x9A,
      CHR 0x84, CHR 0xE5, CHR 0x87, CHR 0xBA, CHR 0xE8, CHR 0xA1, CHR 0x8C, CHR 0xE6, CHR 0x96,
      CHR 0xB9, CHR 0xE5, CHR 0xBC, CHR 0x8F, CHR 0xE3, CHR 0x80, CHR 0x82, CHR 0x0A]
     @ ''7. ''
     @ [CHR 0xE7, CHR 0xB4, CHR 0xA7, CHR 0xE6, CHR 0x80, CHR 0xA5, CHR 0xE9, CHR 0xA2,
      CHR 0x84, CHR 0xE8, CHR 0xAD, CHR 0xA6, CHR 0xEF, CHR 0xBC, CHR 0x9A, CHR 0xE5, CHR 0x9C,
      CHR 0xA8, CHR 0xE6, CHR 0x9E, CHR 0x81, CHR 0xE7, CHR 0xAB, CHR 0xAF, CHR 0xE5, CHR 0xA4,
      CHR 0xA9, CHR 0xE6, CHR 0xB0, CHR 0x94, CHR 0xE6, CHR 0x83, CHR 0x85, CHR 0xE5, CHR 0x86,
      CHR 0xB5, CHR 0xE4, CHR 0xB8, CHR 0x8B, CHR 0xEF, CHR 0xBC, CHR 0x8C, CHR 0xE5, CHR 0x8F,
      CHR 0x8A, CHR 0xE6, CHR 0x97, CHR 0xB6, CHR 0xE9, CHR 0x80, CHR 0x9A, CHR 0xE7, CHR 0x9F,
      CHR 0xA5, CHR 0xE7, CHR 0x94, CHR 0xA8, CHR 0xE6, CHR 0x88, CHR 0xB7, CHR 0xE9, CHR 0x87,
      CHR 0x87, CHR 0xE5, CHR 0x8F, CHR 0x96, CHR 0xE9, CHR 0x98, CHR 0xB2, CHR 0xE6, CHR 0x8A,
      CHR 0xA4, CHR 0xE6, CHR 0x8E, CHR 0xAA, CHR 0xE6, CHR 0x96, CHR 0xBD, CHR 0xE3, CHR 0x80,
      CHR 0x82, CHR 0x0A]"

definition weather_server_info :: jsval where
  "weather_server_info =
     JObj [(''name'', JStr ''xing-weather-mcp''),
           (''version'', JStr ''1.0.0''),
           (''capabilities'', JObj [(''resources'', JObj []), (''tools'', JObj [])]),
           (''instructions'', JStr weather_instructions)]"

text \<open>\<open>const server = new McpServer({...})\<close>: the object is the only argument,
  so it is the server's \<open>serverInfo\<close> and there are no options.\<close>

definition weather_server :: server_obj where
  "weather_server = new_mcp_server weather_server_info None"

definition weather_main :: "js_exn + unit \<Rightarrow> start_out" where
  "weather_main conn = server_main msg_running conn"

lemma status_200_truthy: "get_prop data ''status'' = Inr (JNum 200) \<Longrightarrow> truthy data"
  by (cases data) (auto split: if_splits)

lemma forecast_text_obj:
  "io_bind (forecast_text city (JObj kvs)) f =
     f (lbl_city @ city @ lbl_date @ to_str (prop_val (JObj kvs) ''date'')
        @ lbl_type @ to_str (prop_val (JObj kvs) ''type'')
        @ lbl_high @ to_str (prop_val (JObj kvs) ''high'') @ lbl_low @ to_str (prop_val (JObj kvs) ''low'')
        @ lbl_fx @ to_str (prop_val (JObj kvs) ''fx'') @ lbl_fl @ to_str (prop_val (JObj kvs) ''fl''))"
  by (simp add: forecast_text_def io_bind_assoc io_bind_get_total nullish_def)

lemma forecast_text_state: "forecast_text c v w s = (r, s') \<Longrightarrow> s' = s"
proof -
  have "snd (forecast_text c v w s) = s"
    by (simp add: forecast_text_def io_bind_def io_get_apply io_return_def split: sum.splits)
  then show "forecast_text c v w s = (r, s') \<Longrightarrow> s' = s" by simp
qed

subsection \<open>Properties of the weather tool\<close>

text \<open>C16: for a city of the table whose forecast the provider returns with status
  200, the tool sends one GET for the city's code and answers with the seven
  labelled lines of today's entry: city, date, weather, high, low, wind direction
  and wind force.\<close>

theorem weather_supported_city:
  assumes code: "map_of cityCodeMap city = Some code"
    and r: "respond w (weather_request (weather_url code)) = Inr data"
    and st: "get_prop data ''status'' = Inr (JNum 200)"
    and d: "get_prop data ''data'' = Inr dd"
    and fc: "get_prop dd ''forecast'' = Inr (JArr (JObj kvs # rest))"
  shows "run_io (get_weather_by_city city) w =
     (Inr (weather_text (lbl_city @ city @ lbl_date @ to_str (prop_val (JObj kvs) ''date'')
        @ lbl_type @ to_str (prop_val (JObj kvs) ''type'')
        @ lbl_high @ to_str (prop_val (JObj kvs) ''high'') @ lbl_low @ to_str (prop_val (JObj kvs) ''low'')
        @ lbl_fx @ to_str (prop_val (JObj kvs) ''fx'') @ lbl_fl @ to_str (prop_val (JObj kvs) ''fl''))),
      io_init\<lparr>sent := [weather_request (weather_url code)]\<rparr>)"
proof -
  have t: "truthy data" using st by (rule status_200_truthy)
  show ?thesis
    using code r st d fc t
    by (simp add: get_weather_by_city_def city_lookup_def run_io_def io_bind_request io_simps
        forecast_text_obj) (simp add: io_return_def io_init_def)
qed

theorem weather_supported_city_witness:
  "run_io (get_weather_by_city city_beijing) weather_demo_world =
     (Inr (weather_text (lbl_city @ city_beijing @ lbl_date @ ''30'' @ lbl_type @ ''sunny''
        @ lbl_high @ ''high 31C'' @ lbl_low @ ''low 22C'' @ lbl_fx @ ''SE'' @ lbl_fl @ ''3'')),
      io_init\<lparr>sent := [weather_request (weather_url ''101010100'')]\<rparr>)"
proof -
  have h: "map_of cityCodeMap city_beijing = Some ''101010100''"
    "respond weather_demo_world (weather_request (weather_url ''101010100'')) = Inr demo_weather"
    "get_prop demo_weather ''status'' = Inr (JNum 200)"
    "get_prop demo_weather ''data'' = Inr (JObj [(''forecast'', JArr [demo_forecast])])"
    "get_prop (JObj [(''forecast'', JArr [demo_forecast])]) ''forecast'' = Inr (JArr [demo_forecast])"
    by (simp_all add: cityCodeMap_def weather_demo_world_def demo_weather_def weather_request_def
        weather_url_def)
  have f: "demo_forecast = JObj [(''date'', JStr ''30''), (''type'', JStr ''sunny''),
      (''high'', JStr ''high 31C''), (''low'', JStr ''low 22C''), (''fx'', JStr ''SE''), (''fl'', JStr ''3'')]"
    by (simp add: demo_forecast_def)
  from weather_supported_city [OF h(1-3) h(4) [unfolded f] h(5) [unfolded f]] show ?thesis
    by (simp add: f prop_val_def)
qed

text \<open>For a name that is neither in the table nor a member of
  \<open>Object.prototype\<close>, the tool sends nothing and answers ``city not supported''
  with the name, in a result not flagged as an error.\<close>

theorem weather_unsupported_city:
  assumes "map_of cityCodeMap city = None" and "map_of object_proto_members city = None"
  shows "run_io (get_weather_by_city city) w = (Inr (weather_text (msg_city_unsupported @ city)), io_init)
     \<and> \<not> client_is_error (weather_text (msg_city_unsupported @ city))"
  using assms
  by (simp add: get_weather_by_city_def city_lookup_def run_io_def io_return_def weather_text_def
      client_is_error_def)

theorem weather_unsupported_city_witness:
  "run_io (get_weather_by_city ''Paris'') offline_world =
     (Inr (weather_text (msg_city_unsupported @ ''Paris'')), io_init)
   \<and> \<not> client_is_error (weather_text (msg_city_unsupported @ ''Paris''))"
  by (rule weather_unsupported_city)
     (simp_all add: cityCodeMap_def object_proto_members_def city_beijing_def city_shanghai_def
      city_guangzhou_def city_shenzhen_def city_hangzhou_def city_chengdu_def city_chongqing_def)

text \<open>C17: for a name that is a member of \<open>Object.prototype\<close> (such as
  \<open>toString\<close>), the table lookup succeeds on the inherited member and the tool
  sends a request whose URL holds the member's text instead of a city code.\<close>

theorem weather_prototype_lookup:
  assumes "map_of cityCodeMap city = None" and "map_of object_proto_members city = Some t"
  shows "io_sent (get_weather_by_city city) w = [weather_request (weather_url t)]"
  using assms
  by (auto simp: get_weather_by_city_def city_lookup_def run_io_def io_bind_def io_request_def
      io_init_def io_get_apply io_return_def io_lift_def
      dest: forecast_text_state split: sum.splits prod.splits)

theorem weather_prototype_lookup_witness:
  "io_sent (get_weather_by_city ''toString'') offline_world =
     [weather_request (weather_url ''function toString() { [native code] }'')]"
  by (rule weather_prototype_lookup)
     (simp_all add: cityCodeMap_def object_proto_members_def native_fn_def city_beijing_def
      city_shanghai_def city_guangzhou_def city_shenzhen_def city_hangzhou_def city_chengdu_def
      city_chongqing_def)

text \<open>C18: when the provider's answer carries a status other than 200, the tool
  answers ``fetch failed'' after its one request, in a result not flagged as an
  error.\<close>

theorem weather_status_failure:
  assumes "map_of cityCodeMap city = Some code"
    and "respond w (weather_request (weather_url code)) = Inr data"
    and "truthy data" and "get_prop data ''status'' = Inr st" and "\<not> strict_eq st (JNum 200)"
  shows "run_io (get_weather_by_city city) w =
           (Inr (weather_text msg_fetch_failed), io_init\<lparr>sent := [weather_request (weather_url code)]\<rparr>)"
  using assms
  by (simp add: get_weather_by_city_def city_lookup_def run_io_def io_bind_request io_simps
      io_return_def io_init_def)

theorem weather_status_failure_witness:
  "run_io (get_weather_by_city city_shanghai) weather_demo_world =
     (Inr (weather_text msg_fetch_failed),
      io_init\<lparr>sent := [weather_request (weather_url ''101020100'')]\<rparr>)"
  by (rule weather_status_failure [where data = "JObj [(''status'', JNum 500)]" and st = "JNum 500"])
     (simp_all add: cityCodeMap_def weather_demo_world_def weather_request_def weather_url_def
      city_beijing_def city_shanghai_def)

end
