(* ===== verification/Template.thy ===== *)
theory Template
  imports Startup
begin

text \<open>
  The Android code generator of \<open>src/src/math_create_file.ts\<close> and its server
  \<open>src/src/index.ts\<close>. \<open>getCreateActivityTool()\<close> returns a tool definition
  whose handler reads \<open>packageName\<close>, \<open>componentName\<close> and
  \<open>bindingPackage\<close> from its argument (with defaults), derives the class, layout
  and binding names, computes three recommended file paths, and fills the three
  templates of \<open>DEFAULT_TEMPLATES\<close> by a chain of
  \<open>String.prototype.replace\<close> calls with global regular expressions
  \<open>/{{NAME}}/g\<close> (in a regular expression without the \<open>u\<close> flag a brace that
  starts no quantifier is a literal, so each pattern matches the text
  \<open>{{NAME}}\<close>). The replacement strings go through GetSubstitution, so a
  \<open>$\<close> in a name is a pattern (\<open>replace_all\<close> of \<open>Prelude\<close>).

  \<open>index.ts\<close> registers the handler with \<open>server.tool(name, description, {},
  handler)\<close>: the empty object is a zod raw shape, so the arguments are parsed
  against an empty schema, which drops every field, and the handler always
  receives \<open>{}\<close>.
\<close>

subsection \<open>The templates\<close>

definition tpl_activity :: string where
  "tpl_activity =
     ''package {{PACKAGE}}'' @ [CHR 0x0A]
     @ [CHR 0x0A]
     @ ''import android.os.Bundle'' @ [CHR 0x0A]
     @ ''import androidx.activity.viewModels'' @ [CHR 0x0A]
     @ ''import com.mgx.mathwallet.ui.activity.setting.safelock.BaseLockActivity'' @ [CHR 0x0A]
     @ ''import com.mgx.mathwallet.R'' @ [CHR 0x0A]
     @ ''import {{BINDING_IMPORT}}'' @ [CHR 0x0A]
     @ [CHR 0x0A]
     @ ''class {{ACTIVITY_CLASS}} : BaseLockActivity<{{VIEWMODEL_CLASS}}, {{BINDING_CLASS}}>() {'' @ [CHR 0x0A]
     @ [CHR 0x09] @ ''override fun layoutId(): Int {'' @ [CHR 0x0A]
     @ [CHR 0x09, CHR 0x09] @ ''return R.layout.{{LAYOUT_NAME}}'' @ [CHR 0x0A]
     @ [CHR 0x09] @ ''}'' @ [CHR 0x0A]
     @ [CHR 0x0A]
     @ [CHR 0x09] @ ''override fun initView(savedInstanceState: Bundle?) {'' @ [CHR 0x0A]
     @ [CHR 0x09, CHR 0x09] @ ''// '' @ [CHR 0xE4, CHR 0xBD, CHR 0xBF, CHR 0xE7, CHR 0x94, CHR 0xA8] @ '' ViewBinding'' @ [CHR 0xEF, CHR 0xBC, CHR 0x9A] @ ''binding '' @ [CHR 0xE5, CHR 0xB7, CHR 0xB2, CHR 0xE7, CHR 0x94, CHR 0xB1, CHR 0xE5, CHR 0x9F, CHR 0xBA, CHR 0xE7, CHR 0xB1, CHR 0xBB, CHR 0xE6, CHR 0x88, CHR 0x96] @ '' inflate '' @ [CHR 0xE6, CHR 0x96, CHR 0xB9, CHR 0xE6, CHR 0xB3, CHR 0x95, CHR 0xE6, CHR 0x8F, CHR 0x90, CHR 0xE4, CHR 0xBE, CHR 0x9B] @ [CHR 0x0A]
     @ [CHR 0x09] @ ''}'' @ [CHR 0x0A]
     @ ''}'' @ [CHR 0x0A]"

definition tpl_viewmodel :: string where
  "tpl_viewmodel =
     ''package {{PACKAGE}}'' @ [CHR 0x0A]
     @ [CHR 0x0A]
     @ ''import me.hgj.jetpackmvvm.ext.viewmodel.BaseViewModel'' @ [CHR 0x0A]
     @ [CHR 0x0A]
     @ ''class {{VIEWMODEL_CLASS}} : BaseViewModel() {'' @ [CHR 0x0A]
     @ [CHR 0x09] @ [CHR 0x0A]
     @ ''}'' @ [CHR 0x0A]"

definition tpl_layout :: string where
  "tpl_layout =
     ''<?xml version='' @ [CHR 0x22] @ ''1.0'' @ [CHR 0x22] @ '' encoding='' @ [CHR 0x22] @ ''utf-8'' @ [CHR 0x22] @ ''?>'' @ [CHR 0x0A]
     @ ''<layout'' @ [CHR 0x0A]
     @ ''    xmlns:android='' @ [CHR 0x22] @ ''http://schemas.android.com/apk/res/android'' @ [CHR 0x22] @ [CHR 0x0A]
     @ ''    android:layout_width='' @ [CHR 0x22] @ ''match_parent'' @ [CHR 0x22] @ [CHR 0x0A]
     @ ''    android:layout_height='' @ [CHR 0x22] @ ''match_parent'' @ [CHR 0x22] @ ''>'' @ [CHR 0x0A]
     @ ''    '' @ [CHR 0x0A]
     @ ''    <data>'' @ [CHR 0x0A]
     @ [CHR 0x09, CHR 0x09, CHR 0x09] @ ''<variable'' @ [CHR 0x0A]
     @ [CHR 0x09, CHR 0x09, CHR 0x09, CHR 0x09] @ ''name='' @ [CHR 0x22] @ ''viewmodel'' @ [CHR 0x22] @ [CHR 0x0A]
     @ [CHR 0x09, CHR 0x09, CHR 0x09, CHR 0x09] @ ''type='' @ [CHR 0x22] @ ''{{PACKAGE}}.{{VIEWMODEL_CLASS}}'' @ [CHR 0x22] @ '' />'' @ [CHR 0x0A]
     @ ''    </data>'' @ [CHR 0x0A]
     @ [CHR 0x0A]
     @ ''    <androidx.constraintlayout.widget.ConstraintLayout'' @ [CHR 0x0A]
     @ ''        android:layout_width='' @ [CHR 0x22] @ ''match_parent'' @ [CHR 0x22] @ [CHR 0x0A]
     @ ''        android:layout_height='' @ [CHR 0x22] @ ''match_parent'' @ [CHR 0x22] @ ''>'' @ [CHR 0x0A]
     @ [CHR 0x0A]
     @ ''    </androidx.constraintlayout.widget.ConstraintLayout>'' @ [CHR 0x0A]
     @ ''    '' @ [CHR 0x0A]
     @ ''</layout>'' @ [CHR 0x0A]"

subsection \<open>The tool definition\<close>

record tool_definition =
  td_name :: string
  td_description :: string
  td_title :: string
  td_handler :: "jsval \<Rightarrow> jsval io"

text \<open>\<open>(extra && extra.k) || d\<close>.\<close>

definition arg_or :: "jsval \<Rightarrow> string \<Rightarrow> string \<Rightarrow> jsval" where
  "arg_or extra k d = js_or (js_and extra (prop_val extra k)) (JStr d)"

text \<open>\<open>v.toLowerCase()\<close> and \<open>v.replace(/\\./g, "/")\<close> on the value \<open>v\<close>
  names: string methods, a \<open>TypeError\<close> on any other (truthy) value.\<close>

definition js_lower :: "string \<Rightarrow> jsval \<Rightarrow> js_exn + string" where
  "js_lower what v =
     (case v of JStr s \<Rightarrow> Inr (to_lower s)
      | _ \<Rightarrow> Inl (TypeError (what @ ''.toLowerCase is not a function'')))"

definition js_dots_to_slashes :: "string \<Rightarrow> jsval \<Rightarrow> js_exn + string" where
  "js_dots_to_slashes what v =
     (case v of JStr s \<Rightarrow> Inr (replace_all ''.'' ''/'' s)
      | _ \<Rightarrow> Inl (TypeError (what @ ''.replace is not a function'')))"

text \<open>The three recommended paths; the handler computes them and returns none.\<close>

definition recommended_paths ::
  "string \<Rightarrow> string \<Rightarrow> string \<Rightarrow> string \<Rightarrow> string \<times> string \<times> string" where
  "recommended_paths pkgDir activityClass viewModelClass layoutName =
     (''app/src/main/java/'' @ pkgDir @ ''/'' @ activityClass @ ''.kt'',
      ''app/src/main/java/'' @ pkgDir @ ''/'' @ viewModelClass @ ''.kt'',
      ''app/src/main/res/layout/'' @ layoutName @ ''.xml'')"

text \<open>The three replace chains, on the strings the handler has derived.\<close>

definition activity_code :: "string \<Rightarrow> string \<Rightarrow> string \<Rightarrow> string \<Rightarrow> string \<Rightarrow> string \<Rightarrow> string" where
  "activity_code pkg activityClass viewModelClass layoutName bindingClass bindingImport =
     replace_all ''{{BINDING_IMPORT}}'' bindingImport
      (replace_all ''{{BINDING_CLASS}}'' bindingClass
       (replace_all ''{{LAYOUT_NAME}}'' layoutName
        (replace_all ''{{VIEWMODEL_CLASS}}'' viewModelClass
         (replace_all ''{{ACTIVITY_CLASS}}'' activityClass
          (replace_all ''{{PACKAGE}}'' pkg tpl_activity)))))"

definition viewmodel_code :: "string \<Rightarrow> string \<Rightarrow> string" where
  "viewmodel_code pkg viewModelClass =
     replace_all ''{{VIEWMODEL_CLASS}}'' viewModelClass (replace_all ''{{PACKAGE}}'' pkg tpl_viewmodel)"

definition layout_code :: "string \<Rightarrow> string \<Rightarrow> string" where
  "layout_code layoutName viewModelClass =
     replace_all ''{{VIEWMODEL_CLASS}}'' viewModelClass (replace_all ''{{LAYOUT_NAME}}'' layoutName tpl_layout)"

definition create_activity_handler :: "jsval \<Rightarrow> jsval io" where
  "create_activity_handler extra =
     io_lift (
       let pkg = arg_or extra ''packageName'' ''com.mathwallet.app'';
           comp = arg_or extra ''componentName'' ''Example'';
           activityClass = to_str comp @ ''Activity'';
           viewModelClass = to_str comp @ ''ViewModel''
       in sbind (js_lower ''comp'' comp) (\<lambda>lc.
          let layoutName = ''activity_'' @ lc in
          sbind (js_dots_to_slashes ''pkg'' pkg) (\<lambda>pkgDir.
          sbind (js_dots_to_slashes ''pkg'' pkg) (\<lambda>pkgDir2.
          let paths = recommended_paths pkgDir activityClass viewModelClass layoutName;
              bindingClass = ''Activity'' @ to_str comp @ ''Binding'';
              bindingPackage = arg_or extra ''bindingPackage'' ''com.mgx.mathwallet.databinding'';
              bindingImport = to_str bindingPackage @ ''.'' @ bindingClass
          in Inr (JObj [(''content'', JArr [
                text_block (activity_code (to_str pkg) activityClass viewModelClass layoutName
                              bindingClass bindingImport),
                text_block (viewmodel_code (to_str pkg) viewModelClass),
                text_block (layout_code layoutName viewModelClass)])])))))"

definition getCreateActivityTool :: tool_definition where
  "getCreateActivityTool =
     \<lparr>td_name = [CHR 0xE5, CHR 0x88, CHR 0x9B, CHR 0xE5, CHR 0xBB, CHR 0xBA, CHR 0xE4, CHR 0xB8, CHR 0x80, CHR 0xE4, CHR 0xB8, CHR 0xAA, CHR 0xE6, CHR 0x96, CHR 0xB0, CHR 0xE7, CHR 0x9A, CHR 0x84] @ '' Android Activity '' @ [CHR 0xE7, CHR 0xBB, CHR 0x84, CHR 0xE4, CHR 0xBB, CHR 0xB6],
      td_description =
        [CHR 0xE6, CHR 0xA0, CHR 0xB9, CHR 0xE6, CHR 0x8D, CHR 0xAE, CHR 0xE6, CHR 0x8C,
        CHR 0x87, CHR 0xE5, CHR 0xAE, CHR 0x9A, CHR 0xE7, CHR 0x9A, CHR 0x84, CHR 0xE5,
        CHR 0x8C, CHR 0x85, CHR 0xE5, CHR 0x90, CHR 0x8D, CHR 0xE5, CHR 0x92, CHR 0x8C,
        CHR 0xE7, CHR 0xBB, CHR 0x84, CHR 0xE4, CHR 0xBB, CHR 0xB6, CHR 0xE5, CHR 0x90,
        CHR 0x8D, CHR 0xE7, CHR 0xA7, CHR 0xB0, CHR 0xEF, CHR 0xBC, CHR 0x8C, CHR 0xE7,
        CHR 0x94, CHR 0x9F, CHR 0xE6, CHR 0x88, CHR 0x90, CHR 0xE4, CHR 0xB8, CHR 0x80,
        CHR 0xE4, CHR 0xB8, CHR 0xAA, CHR 0xE5, CHR 0x8C, CHR 0x85, CHR 0xE5, CHR 0x90,
        CHR 0xAB] @ '' Activity'' @ [CHR 0xE3, CHR 0x80,
        CHR 0x81] @ ''ViewModel '' @ [CHR 0xE5, CHR 0x92,
        CHR 0x8C] @ '' XML Layout '' @ [CHR 0xE7, CHR 0x9A, CHR 0x84, CHR 0xE5, CHR 0xAE,
        CHR 0x8C, CHR 0xE6, CHR 0x95, CHR 0xB4, CHR 0xE4, CHR 0xBB, CHR 0xA3, CHR 0xE7,
        CHR 0xA0, CHR 0x81, CHR 0xE6, CHR 0xA8, CHR 0xA1, CHR 0xE6, CHR 0x9D, CHR 0xBF,
        CHR 0xEF, CHR 0xBC, CHR 0x8C, CHR 0xE7, CHR 0xAC, CHR 0xA6, CHR 0xE5, CHR 0x90,
        CHR 0x88] @ '' MathWallet Android '' @ [CHR 0xE9, CHR 0xA1, CHR 0xB9, CHR 0xE7,
        CHR 0x9B, CHR 0xAE, CHR 0xE7, CHR 0x9A, CHR 0x84, CHR 0xE7, CHR 0xBB, CHR 0x93,
        CHR 0xE6, CHR 0x9E, CHR 0x84, CHR 0xE5, CHR 0x92, CHR 0x8C, CHR 0xE8, CHR 0xA7,
        CHR 0x84, CHR 0xE8, CHR 0x8C, CHR 0x83, CHR 0xE3, CHR 0x80, CHR 0x82],
      td_title = [CHR 0xE5, CHR 0x88, CHR 0x9B, CHR 0xE5, CHR 0xBB, CHR 0xBA] @ '' Android '' @ [CHR 0xE7,
       CHR 0xBB, CHR 0x84, CHR 0xE4, CHR 0xBB, CHR 0xB6, CHR 0xE3, CHR 0x80, CHR 0x81,
       CHR 0xE7, CHR 0x94, CHR 0x9F, CHR 0xE6, CHR 0x88, CHR 0x90, CHR 0xE9, CHR 0x85,
       CHR 0x8D, CHR 0xE7, CHR 0xBD, CHR 0xAE, CHR 0xE6, CHR 0x96, CHR 0x87, CHR 0xE4,
       CHR 0xBB, CHR 0xB6, CHR 0xE5, CHR 0x92, CHR 0x8C, CHR 0xE9, CHR 0x92, CHR 0xB1,
       CHR 0xE5, CHR 0x8C, CHR 0x85, CHR 0xE7, CHR 0x9B, CHR 0xB8, CHR 0xE5, CHR 0x85,
       CHR 0xB3, CHR 0xE9, CHR 0x80, CHR 0xBB, CHR 0xE8, CHR 0xBE, CHR 0x91, CHR 0xE6,
       CHR 0x94, CHR 0xAF, CHR 0xE6, CHR 0x8C, CHR 0x81, CHR 0x0A, CHR 0x0A],
      td_handler = create_activity_handler\<rparr>"

subsection \<open>The server of index.ts\<close>

definition register_create_activity :: "registry \<Rightarrow> js_exn + registry" where
  "register_create_activity reg =
     server_tool (td_name getCreateActivityTool) (PlainObject []) (td_handler getCreateActivityTool) reg"

subsection \<open>The abstract specification\<close>

text \<open>
  A template as the specification reads it: literal text and named placeholders
  \<open>{{NAME}}\<close>. \<open>fill env ps\<close> puts the value that \<open>env\<close> gives a name in
  place of each placeholder and keeps an unbound placeholder as its text. The
  three templates of \<open>DEFAULT_TEMPLATES\<close> are the \<open>fill []\<close> of the part
  lists below (lemmas \<open>tpl_activity_parts\<close> and its siblings).
  \<open>derived_env\<close> holds the names the handler derives from the package, the
  component and the binding package, and \<open>generated_files\<close> the three texts
  the handler returns.
\<close>

datatype tpl_part = Lit string | Var string

fun fill_part :: "(string \<times> string) list \<Rightarrow> tpl_part \<Rightarrow> string" where
  "fill_part env (Lit s) = s"
| "fill_part env (Var n) = (case map_of env n of Some v \<Rightarrow> v | None \<Rightarrow> ''{{'' @ n @ ''}}'')"

definition fill :: "(string \<times> string) list \<Rightarrow> tpl_part list \<Rightarrow> string" where
  "fill env ps = concat (map (fill_part env) ps)"


definition activity_parts :: "tpl_part list" where
  "activity_parts =
     [Lit (''package ''),
      Var ''PACKAGE'',
      Lit ([CHR 0x0A, CHR 0x0A] @ ''import android.os.Bundle'' @ [CHR 0x0A] @ ''import androidx.activity.viewModels'' @ [CHR 0x0A] @ ''import com.mgx.mathwallet.ui.activity.setting.safelock.BaseLockActivity'' @ [CHR 0x0A] @ ''import com.mgx.mathwallet.R'' @ [CHR 0x0A] @ ''import ''),
      Var ''BINDING_IMPORT'',
      Lit ([CHR 0x0A, CHR 0x0A] @ ''class ''),
      Var ''ACTIVITY_CLASS'',
      Lit ('' : BaseLockActivity<''),
      Var ''VIEWMODEL_CLASS'',
      Lit ('', ''),
      Var ''BINDING_CLASS'',
      Lit (''>() {'' @ [CHR 0x0A, CHR 0x09] @ ''override fun layoutId(): Int {'' @ [CHR 0x0A, CHR 0x09, CHR 0x09] @ ''return R.layout.''),
      Var ''LAYOUT_NAME'',
      Lit ([CHR 0x0A, CHR 0x09] @ ''}'' @ [CHR 0x0A, CHR 0x0A, CHR 0x09] @ ''override fun initView(savedInstanceState: Bundle?) {'' @ [CHR 0x0A, CHR 0x09, CHR 0x09] @ ''// '' @ [CHR 0xE4, CHR 0xBD, CHR 0xBF, CHR 0xE7, CHR 0x94, CHR 0xA8] @ '' ViewBinding'' @ [CHR 0xEF, CHR 0xBC, CHR 0x9A] @ ''binding '' @ [CHR 0xE5, CHR 0xB7, CHR 0xB2, CHR 0xE7, CHR 0x94, CHR 0xB1, CHR 0xE5, CHR 0x9F, CHR 0xBA, CHR 0xE7, CHR 0xB1, CHR 0xBB, CHR 0xE6, CHR 0x88, CHR 0x96] @ '' inflate '' @ [CHR 0xE6, CHR 0x96, CHR 0xB9, CHR 0xE6, CHR 0xB3, CHR 0x95, CHR 0xE6, CHR 0x8F, CHR 0x90, CHR 0xE4, CHR 0xBE, CHR 0x9B, CHR 0x0A, CHR 0x09] @ ''}'' @ [CHR 0x0A] @ ''}'' @ [CHR 0x0A])]"

definition viewmodel_parts :: "tpl_part list" where
  "viewmodel_parts =
     [Lit (''package ''),
      Var ''PACKAGE'',
      Lit ([CHR 0x0A, CHR 0x0A] @ ''import me.hgj.jetpackmvvm.ext.viewmodel.BaseViewModel'' @ [CHR 0x0A, CHR 0x0A] @ ''class ''),
      Var ''VIEWMODEL_CLASS'',
      Lit ('' : BaseViewModel() {'' @ [CHR 0x0A, CHR 0x09, CHR 0x0A] @ ''}'' @ [CHR 0x0A])]"

definition layout_parts :: "tpl_part list" where
  "layout_parts =
     [Lit (''<?xml version='' @ [CHR 0x22] @ ''1.0'' @ [CHR 0x22] @ '' encoding='' @ [CHR 0x22] @ ''utf-8'' @ [CHR 0x22] @ ''?>'' @ [CHR 0x0A] @ ''<layout'' @ [CHR 0x0A] @ ''    xmlns:android='' @ [CHR 0x22] @ ''http://schemas.android.com/apk/res/android'' @ [CHR 0x22, CHR 0x0A] @ ''    android:layout_width='' @ [CHR 0x22] @ ''match_parent'' @ [CHR 0x22, CHR 0x0A] @ ''    android:layout_height='' @ [CHR 0x22] @ ''match_parent'' @ [CHR 0x22] @ ''>'' @ [CHR 0x0A] @ ''    '' @ [CHR 0x0A] @ ''    <data>'' @ [CHR 0x0A, CHR 0x09, CHR 0x09, CHR 0x09] @ ''<variable'' @ [CHR 0x0A, CHR 0x09, CHR 0x09, CHR 0x09, CHR 0x09] @ ''name='' @ [CHR 0x22] @ ''viewmodel'' @ [CHR 0x22, CHR 0x0A, CHR 0x09, CHR 0x09, CHR 0x09, CHR 0x09] @ ''type='' @ [CHR 0x22]),
      Var ''PACKAGE'',
      Lit (''.''),
      Var ''VIEWMODEL_CLASS'',
      Lit ([CHR 0x22] @ '' />'' @ [CHR 0x0A] @ ''    </data>'' @ [CHR 0x0A, CHR 0x0A] @ ''    <androidx.constraintlayout.widget.ConstraintLayout'' @ [CHR 0x0A] @ ''        android:layout_width='' @ [CHR 0x22] @ ''match_parent'' @ [CHR 0x22, CHR 0x0A] @ ''        android:layout_height='' @ [CHR 0x22] @ ''match_parent'' @ [CHR 0x22] @ ''>'' @ [CHR 0x0A, CHR 0x0A] @ ''    </androidx.constraintlayout.widget.ConstraintLayout>'' @ [CHR 0x0A] @ ''    '' @ [CHR 0x0A] @ ''</layout>'' @ [CHR 0x0A])]"

fun no_open2 :: "string \<Rightarrow> bool" where
  "no_open2 (a # b # s) = ((a \<noteq> CHR ''{'' \<or> b \<noteq> CHR ''{'') \<and> no_open2 (b # s))"
| "no_open2 s = True"

fun part_ok :: "tpl_part \<Rightarrow> bool" where
  "part_ok (Lit s) = (no_open2 s \<and> (s = [] \<or> last s \<noteq> CHR ''{''))"
| "part_ok (Var m) = (m \<noteq> [] \<and> CHR ''{'' \<notin> set m \<and> CHR ''}'' \<notin> set m)"


definition key_ok :: "string \<Rightarrow> bool" where
  "key_ok n = (n \<noteq> [] \<and> CHR ''{'' \<notin> set n \<and> CHR ''}'' \<notin> set n)"

definition val_ok :: "string \<Rightarrow> bool" where
  "val_ok v = (CHR ''{'' \<notin> set v \<and> CHR ''$'' \<notin> set v)"

fun replace_seq :: "(string \<times> string) list \<Rightarrow> string \<Rightarrow> string" where
  "replace_seq [] s = s"
| "replace_seq ((n, v) # env) s = replace_seq env (replace_all (''{{'' @ n @ ''}}'') v s)"


definition tpl_vars :: "tpl_part list \<Rightarrow> string list" where
  "tpl_vars ps = [n. Var n \<leftarrow> ps]"


definition derived_env :: "string \<Rightarrow> string \<Rightarrow> string \<Rightarrow> (string \<times> string) list" where
  "derived_env pkg cname bpkg =
     [(''PACKAGE'', pkg), (''ACTIVITY_CLASS'', cname @ ''Activity''),
      (''VIEWMODEL_CLASS'', cname @ ''ViewModel''), (''LAYOUT_NAME'', ''activity_'' @ to_lower cname),
      (''BINDING_CLASS'', ''Activity'' @ cname @ ''Binding''),
      (''BINDING_IMPORT'', bpkg @ ''.'' @ ''Activity'' @ cname @ ''Binding'')]"

definition generated_files :: "string \<Rightarrow> string \<Rightarrow> string \<Rightarrow> jsval" where
  "generated_files pkg cname bpkg =
     JObj [(''content'', JArr [
       text_block (fill (derived_env pkg cname bpkg) activity_parts),
       text_block (fill (derived_env pkg cname bpkg) viewmodel_parts),
       text_block (fill [(k, v) \<leftarrow> derived_env pkg cname bpkg. k \<noteq> ''PACKAGE''] layout_parts)])]"


subsection \<open>Replacement chains refine the specification\<close>

subsection \<open>Server construction and start-up\<close>

text \<open>The object passed to \<open>new McpServer\<close> (\<open>index.ts\<close>), the server's only
  argument, and the \<open>main()\<close> that connects it to the stdio transport.\<close>

definition math_instructions :: string where
  "math_instructions =
     [CHR 0xE6, CHR 0x9C, CHR 0xAC] @ '' MCP ''
     @ [CHR 0xE6, CHR 0x9C, CHR 0x8D, CHR 0xE5, CHR 0x8A, CHR 0xA1, CHR 0xE4, CHR 0xB8,
      CHR 0x93, CHR 0xE4, CHR 0xB8, CHR 0xBA]
     @ '' MathWallet Android ''
     @ [CHR 0xE9, CHR 0xA1, CHR 0xB9, CHR 0xE7, CHR 0x9B, CHR 0xAE, CHR 0xE5, CHR 0xBC,
      CHR 0x80, CHR 0xE5, CHR 0x8F, CHR 0x91, CHR 0xE8, CHR 0xBF, CHR 0x87, CHR 0xE7, CHR 0xA8,
      CHR 0x8B, CHR 0xE8, CHR 0xAE, CHR 0xBE, CHR 0xE8, CHR 0xAE, CHR 0xA1, CHR 0xEF, CHR 0xBC,
      CHR 0x8C, CHR 0xE6, CHR 0x8F, CHR 0x90, CHR 0xE4, CHR 0xBE, CHR 0x9B, CHR 0xE9, CHR 0xA1,
      CHR 0xB9, CHR 0xE7, CHR 0x9B, CHR 0xAE, CHR 0xE7, CHR 0xBB, CHR 0x84, CHR 0xE4, CHR 0xBB,
      CHR 0xB6, CHR 0xE7, CHR 0x9A, CHR 0x84, CHR 0xE8, CHR 0x87, CHR 0xAA, CHR 0xE5, CHR 0x8A,
      CHR 0xA8, CHR 0xE5, CHR 0x8C, CHR 0x96, CHR 0xE5, CHR 0x88, CHR 0x9B, CHR 0xE5, CHR 0xBB,
      CHR 0xBA, CHR 0xE4, CHR 0xB8, CHR 0x8E, CHR 0xE4, CHR 0xBB, CHR 0xA3, CHR 0xE7, CHR 0xA0,
      CHR 0x81, CHR 0xE7, CHR 0x94, CHR 0x9F, CHR 0xE6, CHR 0x88, CHR 0x90, CHR 0xE8, CHR 0x83,
      CHR 0xBD, CHR 0xE5, CHR 0x8A, CHR 0x9B, CHR 0xE3, CHR 0x80, CHR 0x82, CHR 0xE6, CHR 0x9C,
      CHR 0x8D, CHR 0xE5, CHR 0x8A, CHR 0xA1, CHR 0xE5, CHR 0x8A, CHR 0x9F, CHR 0xE8, CHR 0x83,
      CHR 0xBD, CHR 0xE5, CHR 0x92, CHR 0x8C, CHR 0xE8, CHR 0xA7, CHR 0x84, CHR 0xE5, CHR 0x88,
      CHR 0x99, CHR 0xE5, CHR 0xA6, CHR 0x82, CHR 0xE4, CHR 0xB8, CHR 0x8B, CHR 0xEF, CHR 0xBC,
      CHR 0x9A, CHR 0x0A, CHR 0x0A, CHR 0xE3, CHR 0x80, CHR 0x90, CHR 0xE6, CHR 0x9C, CHR 0x8D,
      CHR 0xE5, CHR 0x8A, CHR 0xA1, CHR 0xE7, CHR 0x9B, CHR 0xAE, CHR 0xE6, CHR 0xA0, CHR 0x87,
      CHR 0xE3, CHR 0x80, CHR 0x91, CHR 0x0A]
     @ ''- ''
     @ [CHR 0xE5, CHR 0xB8, CHR 0xAE, CHR 0xE5, CHR 0x8A, CHR 0xA9, CHR 0xE5, CHR 0xBC,
      CHR 0x80, CHR 0xE5, CHR 0x8F, CHR 0x91, CHR 0xE8, CHR 0x80, CHR 0x85, CHR 0xE5, CHR 0x9C,
      CHR 0xA8]
     @ '' MathWallet Android ''
     @ [CHR 0xE9, CHR 0xA1, CHR 0xB9, CHR 0xE7, CHR 0x9B, CHR 0xAE, CHR 0xE4, CHR 0xB8,
      CHR 0xAD, CHR 0xE5, CHR 0xBF, CHR 0xAB, CHR 0xE9, CHR 0x80, CHR 0x9F, CHR 0xE7, CHR 0x94,
      CHR 0x9F, CHR 0xE6, CHR 0x88, CHR 0x90, CHR 0xE7, CHR 0xAC, CHR 0xA6, CHR 0xE5, CHR 0x90,
      CHR 0x88, CHR 0xE8, CHR 0xA7, CHR 0x84, CHR 0xE8, CHR 0x8C, CHR 0x83, CHR 0xE7, CHR 0x9A,
      CHR 0x84, CHR 0xE4, CHR 0xBB, CHR 0xA3, CHR 0xE7, CHR 0xA0, CHR 0x81, CHR 0xE4, CHR 0xB8,
      CHR 0x8E, CHR 0xE9, CHR 0x85, CHR 0x8D, CHR 0xE7, CHR 0xBD, CHR 0xAE, CHR 0xE3, CHR 0x80,
      CHR 0x82, CHR 0x0A]
     @ ''- ''
     @ [CHR 0xE4, CHR 0xBF, CHR 0x9D, CHR 0xE8, CHR 0xAF, CHR 0x81, CHR 0xE7, CHR 0x94,
      CHR 0x9F, CHR 0xE6, CHR 0x88, CHR 0x90, CHR 0xE7, CHR 0xBB, CHR 0x93, CHR 0xE6, CHR 0x9E,
      CHR 0x9C, CHR 0xE9, CHR 0x81, CHR 0xB5, CHR 0xE5, CHR 0xBE, CHR 0xAA]
     @ '' AndroidX ''
     @ [CHR 0xE6, CHR 0xA0, CHR 0x87, CHR 0xE5, CHR 0x87, CHR 0x86, CHR 0xE5, CHR 0x92, CHR 0x8C]
     @ '' MathWallet ''
     @ [CHR 0xE7, CHR 0x9A, CHR 0x84, CHR 0xE9, CHR 0xA1, CHR 0xB9, CHR 0xE7, CHR 0x9B,
      CHR 0xAE, CHR 0xE7, CHR 0xBB, CHR 0x93, CHR 0xE6, CHR 0x9E, CHR 0x84, CHR 0xE3, CHR 0x80,
      CHR 0x82, CHR 0x0A, CHR 0x0A, CHR 0xE3, CHR 0x80, CHR 0x90, CHR 0xE6, CHR 0x94, CHR 0xAF,
      CHR 0xE6, CHR 0x8C, CHR 0x81, CHR 0xE7, CHR 0x9A, CHR 0x84, CHR 0xE5, CHR 0x8A, CHR 0x9F,
      CHR 0xE8, CHR 0x83, CHR 0xBD, CHR 0xE3, CHR 0x80, CHR 0x91, CHR 0x0A]
     @ ''1. '' @ [CHR 0xE5, CHR 0x88, CHR 0x9B, CHR 0xE5, CHR 0xBB, CHR 0xBA] @ '' Android ''
     @ [CHR 0xE7, CHR 0xBB, CHR 0x84, CHR 0xE4, CHR 0xBB, CHR 0xB6, CHR 0xEF, CHR 0xBC,
      CHR 0x9A, CHR 0x0A]
     @ ''   - Activity'' @ [CHR 0x0A] @ ''   - Fragment'' @ [CHR 0x0A] @ ''   - ViewModel''
     @ [CHR 0x0A] @ ''   - Module'' @ [CHR 0x0A] @ ''   - ''
     @ [CHR 0xE5, CHR 0x85, CHR 0xB6, CHR 0xE4, CHR 0xBB, CHR 0x96, CHR 0xE5, CHR 0xB8,
      CHR 0xB8, CHR 0xE8, CHR 0xA7, CHR 0x81, CHR 0xE7, CHR 0xBB, CHR 0x84, CHR 0xE4, CHR 0xBB,
      CHR 0xB6, CHR 0xEF, CHR 0xBC, CHR 0x88, CHR 0xE5, CHR 0xA6, CHR 0x82]
     @ '' XML Layout ''
     @ [CHR 0xE6, CHR 0x96, CHR 0x87, CHR 0xE4, CHR 0xBB, CHR 0xB6, CHR 0xEF, CHR 0xBC,
      CHR 0x89, CHR 0x0A]
     @ ''2. ''
     @ [CHR 0xE7, CHR 0x94, CHR 0x9F, CHR 0xE6, CHR 0x88, CHR 0x90, CHR 0xE9, CHR 0x85,
      CHR 0x8D, CHR 0xE7, CHR 0xBD, CHR 0xAE, CHR 0xE6, CHR 0x96, CHR 0x87, CHR 0xE4, CHR 0xBB,
      CHR 0xB6, CHR 0xEF, CHR 0xBC, CHR 0x9A, CHR 0x0A]
     @ ''   - Gradle ''
     @ [CHR 0xE4, CHR 0xBE, CHR 0x9D, CHR 0xE8, CHR 0xB5, CHR 0x96, CHR 0xE9, CHR 0x85,
      CHR 0x8D, CHR 0xE7, CHR 0xBD, CHR 0xAE, CHR 0x0A]
     @ ''   - ''
     @ [CHR 0xE9, CHR 0xA1, CHR 0xB9, CHR 0xE7, CHR 0x9B, CHR 0xAE, CHR 0xE5, CHR 0xB8,
      CHR 0xB8, CHR 0xE7, CHR 0x94, CHR 0xA8, CHR 0xE5, CHR 0xBA, CHR 0x93, CHR 0xE7, CHR 0x9A,
      CHR 0x84, CHR 0xE5, CHR 0xBC, CHR 0x95, CHR 0xE7, CHR 0x94, CHR 0xA8, CHR 0xE6, CHR 0xA8,
      CHR 0xA1, CHR 0xE6, CHR 0x9D, CHR 0xBF, CHR 0x0A]
     @ ''3. ''
     @ [CHR 0xE9, CHR 0x92, CHR 0xB1, CHR 0xE5, CHR 0x8C, CHR 0x85, CHR 0xE7, CHR 0x9B,
      CHR 0xB8, CHR 0xE5, CHR 0x85, CHR 0xB3, CHR 0xE9, CHR 0x80, CHR 0xBB, CHR 0xE8, CHR 0xBE,
      CHR 0x91, CHR 0xE6, CHR 0x94, CHR 0xAF, CHR 0xE6, CHR 0x8C, CHR 0x81, CHR 0xEF, CHR 0xBC,
      CHR 0x9A, CHR 0x0A]
     @ ''   - EIP712 ''
     @ [CHR 0xE7, CHR 0xAD, CHR 0xBE, CHR 0xE5, CHR 0x90, CHR 0x8D, CHR 0xE7, CHR 0x9B,
      CHR 0xB8, CHR 0xE5, CHR 0x85, CHR 0xB3]
     @ '' Kotlin '' @ [CHR 0xE5, CHR 0xB0, CHR 0x81, CHR 0xE8, CHR 0xA3, CHR 0x85, CHR 0x0A]
     @ ''   - ''
     @ [CHR 0xE9, CHR 0x92, CHR 0xB1, CHR 0xE5, CHR 0x8C, CHR 0x85, CHR 0xE7, CHR 0x89,
      CHR 0xB9, CHR 0xE5, CHR 0xAE, CHR 0x9A]
     @ '' Action'' @ [CHR 0xEF, CHR 0xBC, CHR 0x88, CHR 0xE5, CHR 0xA6, CHR 0x82] @ '' Transfer''
     @ [CHR 0xE3, CHR 0x80, CHR 0x81] @ ''Send ''
     @ [CHR 0xE7, CHR 0xAD, CHR 0x89, CHR 0xEF, CHR 0xBC, CHR 0x89, CHR 0xE7, CHR 0x9A,
      CHR 0x84, CHR 0xE4, CHR 0xBB, CHR 0xA3, CHR 0xE7, CHR 0xA0, CHR 0x81, CHR 0xE6, CHR 0xA8,
      CHR 0xA1, CHR 0xE6, CHR 0x9D, CHR 0xBF, CHR 0x0A, CHR 0x0A, CHR 0xE3, CHR 0x80, CHR 0x90,
      CHR 0xE8, CHR 0xBE, CHR 0x93, CHR 0xE5, CHR 0x85, CHR 0xA5, CHR 0xE8, CHR 0xA6, CHR 0x81,
      CHR 0xE6, CHR 0xB1, CHR 0x82, CHR 0xE3, CHR 0x80, CHR 0x91, CHR 0x0A]
     @ ''- ''
     @ [CHR 0xE5, CHR 0xBF, CHR 0x85, CHR 0xE9, CHR 0xA1, CHR 0xBB, CHR 0xE6, CHR 0x8C,
      CHR 0x87, CHR 0xE5, CHR 0xAE, CHR 0x9A, CHR 0xE7, CHR 0x94, CHR 0x9F, CHR 0xE6, CHR 0x88,
      CHR 0x90, CHR 0xE7, CHR 0x9A, CHR 0x84, CHR 0xE7, CHR 0xBB, CHR 0x84, CHR 0xE4, CHR 0xBB,
      CHR 0xB6, CHR 0xE7, CHR 0xB1, CHR 0xBB, CHR 0xE5, CHR 0x9E, CHR 0x8B, CHR 0xEF, CHR 0xBC,
      CHR 0x88, CHR 0xE5, CHR 0xA6, CHR 0x82]
     @ '' Activity'' @ [CHR 0xE3, CHR 0x80, CHR 0x81] @ ''Fragment''
     @ [CHR 0xE3, CHR 0x80, CHR 0x81] @ ''ViewModel'' @ [CHR 0xE3, CHR 0x80, CHR 0x81]
     @ ''Module ''
     @ [CHR 0xE7, CHR 0xAD, CHR 0x89, CHR 0xEF, CHR 0xBC, CHR 0x89, CHR 0xE3, CHR 0x80,
      CHR 0x82, CHR 0x0A]
     @ ''- ''
     @ [CHR 0xE5, CHR 0xBF, CHR 0x85, CHR 0xE9, CHR 0xA1, CHR 0xBB, CHR 0xE6, CHR 0x8C,
      CHR 0x87, CHR 0xE5, CHR 0xAE, CHR 0x9A, CHR 0xE7, CHR 0x9B, CHR 0xAE, CHR 0xE6, CHR 0xA0,
      CHR 0x87, CHR 0xE5, CHR 0x8C, CHR 0x85, CHR 0xE5, CHR 0x90, CHR 0x8D, CHR 0xEF, CHR 0xBC,
      CHR 0x88]
     @ ''package name'' @ [CHR 0xEF, CHR 0xBC, CHR 0x89, CHR 0xE3, CHR 0x80, CHR 0x82, CHR 0x0A]
     @ ''- ''
     @ [CHR 0xE5, CHR 0xBF, CHR 0x85, CHR 0xE9, CHR 0xA1, CHR 0xBB, CHR 0xE6, CHR 0x8C,
      CHR 0x87, CHR 0xE5, CHR 0xAE, CHR 0x9A, CHR 0xE7, CHR 0x94, CHR 0x9F, CHR 0xE6, CHR 0x88,
      CHR 0x90, CHR 0xE6, CHR 0x96, CHR 0x87, CHR 0xE4, CHR 0xBB, CHR 0xB6, CHR 0xE7, CHR 0x9A,
      CHR 0x84, CHR 0xE5, CHR 0x90, CHR 0x8D, CHR 0xE7, CHR 0xA7, CHR 0xB0, CHR 0xE3, CHR 0x80,
      CHR 0x82, CHR 0x0A]
     @ ''- ''
     @ [CHR 0xE5, CHR 0x8F, CHR 0xAF, CHR 0xE9, CHR 0x80, CHR 0x89, CHR 0xE5, CHR 0x8F,
      CHR 0x82, CHR 0xE6, CHR 0x95, CHR 0xB0, CHR 0xEF, CHR 0xBC, CHR 0x9A, CHR 0xE4, CHR 0xBE,
      CHR 0x9D, CHR 0xE8, CHR 0xB5, CHR 0x96, CHR 0xE6, CHR 0xB3, CHR 0xA8, CHR 0xE5, CHR 0x85,
      CHR 0xA5, CHR 0xE6, CHR 0x96, CHR 0xB9, CHR 0xE5, CHR 0xBC, CHR 0x8F, CHR 0xEF, CHR 0xBC,
      CHR 0x88]
     @ ''Hilt/Koin/''
     @ [CHR 0xE6, CHR 0x97, CHR 0xA0, CHR 0xEF, CHR 0xBC, CHR 0x89, CHR 0xE3, CHR 0x80, CHR 0x81]
     @ ''UI ''
     @ [CHR 0xE6, CHR 0xA1, CHR 0x86, CHR 0xE6, CHR 0x9E, CHR 0xB6, CHR 0xEF, CHR 0xBC, CHR 0x88]
     @ ''Compose/XML''
     @ [CHR 0xEF, CHR 0xBC, CHR 0x89, CHR 0xE3, CHR 0x80, CHR 0x81, CHR 0xE6, CHR 0x98,
      CHR 0xAF, CHR 0xE5, CHR 0x90, CHR 0xA6, CHR 0xE5, CHR 0x8C, CHR 0x85, CHR 0xE5, CHR 0x90,
      CHR 0xAB, CHR 0xE7, CHR 0xA4, CHR 0xBA, CHR 0xE4, CHR 0xBE, CHR 0x8B, CHR 0xE4, CHR 0xBB,
      CHR 0xA3, CHR 0xE7, CHR 0xA0, CHR 0x81, CHR 0xE3, CHR 0x80, CHR 0x82, CHR 0x0A, CHR 0x0A,
      CHR 0xE3, CHR 0x80, CHR 0x90, CHR 0xE8, CHR 0xBE, CHR 0x93, CHR 0xE5, CHR 0x87, CHR 0xBA,
      CHR 0xE7, CHR 0xBB, CHR 0x93, CHR 0xE6, CHR 0x9E, CHR 0x9C, CHR 0xE3, CHR 0x80, CHR 0x91,
      CHR 0x0A]
     @ ''- ''
     @ [CHR 0xE7, CHR 0x94, CHR 0x9F, CHR 0xE6, CHR 0x88, CHR 0x90, CHR 0xE5, CHR 0xAF,
      CHR 0xB9, CHR 0xE5, CHR 0xBA, CHR 0x94, CHR 0xE7, CHR 0x9A, CHR 0x84]
     @ '' Kotlin'' @ [CHR 0xE3, CHR 0x80, CHR 0x81] @ ''XML '' @ [CHR 0xE6, CHR 0x88, CHR 0x96]
     @ '' Gradle ''
     @ [CHR 0xE4, CHR 0xBB, CHR 0xA3, CHR 0xE7, CHR 0xA0, CHR 0x81, CHR 0xE7, CHR 0x89,
      CHR 0x87, CHR 0xE6, CHR 0xAE, CHR 0xB5, CHR 0xE3, CHR 0x80, CHR 0x82, CHR 0x0A]
     @ ''- ''
     @ [CHR 0xE6, CHR 0x8F, CHR 0x90, CHR 0xE4, CHR 0xBE, CHR 0x9B, CHR 0xE7, CHR 0x94,
      CHR 0x9F, CHR 0xE6, CHR 0x88, CHR 0x90, CHR 0xE6, CHR 0x96, CHR 0x87, CHR 0xE4, CHR 0xBB,
      CHR 0xB6, CHR 0xE7, CHR 0x9A, CHR 0x84, CHR 0xE6, CHR 0x8E, CHR 0xA8, CHR 0xE8, CHR 0x8D,
      CHR 0x90, CHR 0xE8, CHR 0xB7, CHR 0xAF, CHR 0xE5, CHR 0xBE, CHR 0x84, CHR 0xEF, CHR 0xBC,
      CHR 0x8C, CHR 0xE7, CHR 0xA1, CHR 0xAE, CHR 0xE4, CHR 0xBF, CHR 0x9D, CHR 0xE7, CHR 0xAC,
      CHR 0xA6, CHR 0xE5, CHR 0x90, CHR 0x88]
     @ '' MathWallet Android ''
     @ [CHR 0xE9, CHR 0xA1, CHR 0xB9, CHR 0xE7, CHR 0x9B, CHR 0xAE, CHR 0xE7, CHR 0x9A,
      CHR 0x84, CHR 0xE7, CHR 0x9B, CHR 0xAE, CHR 0xE5, CHR 0xBD, CHR 0x95, CHR 0xE7, CHR 0xBB,
      CHR 0x93, CHR 0xE6, CHR 0x9E, CHR 0x84, CHR 0xE3, CHR 0x80, CHR 0x82, CHR 0x0A]
     @ ''- ''
     @ [CHR 0xE8, CHR 0xBF, CHR 0x94, CHR 0xE5, CHR 0x9B, CHR 0x9E, CHR 0xE6, CHR 0xB8,
      CHR 0x85, CHR 0xE6, CHR 0x99, CHR 0xB0, CHR 0xE7, CHR 0x9A, CHR 0x84, CHR 0xE4, CHR 0xBB,
      CHR 0xA3, CHR 0xE7, CHR 0xA0, CHR 0x81, CHR 0xE8, CHR 0xAF, CHR 0xB4, CHR 0xE6, CHR 0x98,
      CHR 0x8E, CHR 0xEF, CHR 0xBC, CHR 0x8C, CHR 0xE4, CHR 0xBE, CHR 0xBF, CHR 0xE4, CHR 0xBA,
      CHR 0x8E, CHR 0xE5, CHR 0xBC, CHR 0x80, CHR 0xE5, CHR 0x8F, CHR 0x91, CHR 0xE8, CHR 0x80,
      CHR 0x85, CHR 0xE7, CHR 0x9B, CHR 0xB4, CHR 0xE6, CHR 0x8E, CHR 0xA5, CHR 0xE5, CHR 0xA4,
      CHR 0x8D, CHR 0xE5, CHR 0x88, CHR 0xB6, CHR 0xE5, CHR 0x88, CHR 0xB0, CHR 0xE9, CHR 0xA1,
      CHR 0xB9, CHR 0xE7, CHR 0x9B, CHR 0xAE, CHR 0xE4, CHR 0xB8, CHR 0xAD, CHR 0xE4, CHR 0xBD,
      CHR 0xBF, CHR 0xE7, CHR 0x94, CHR 0xA8, CHR 0xE3, CHR 0x80, CHR 0x82, CHR 0x0A, CHR 0x0A,
      CHR 0xE3, CHR 0x80, CHR 0x90, CHR 0xE4, CHR 0xBD, CHR 0xBF, CHR 0xE7, CHR 0x94, CHR 0xA8,
      CHR 0xE5, CHR 0x9C, CHR 0xBA, CHR 0xE6, CHR 0x99, CHR 0xAF, CHR 0xE3, CHR 0x80, CHR 0x91,
      CHR 0x0A]
     @ ''- '' @ [CHR 0xE5, CHR 0x9C, CHR 0xA8] @ '' MathWallet Android ''
     @ [CHR 0xE9, CHR 0xA1, CHR 0xB9, CHR 0xE7, CHR 0x9B, CHR 0xAE, CHR 0xE4, CHR 0xB8,
      CHR 0xAD, CHR 0xE5, CHR 0xBF, CHR 0xAB, CHR 0xE9, CHR 0x80, CHR 0x9F, CHR 0xE5, CHR 0x88,
      CHR 0x9B, CHR 0xE5, CHR 0xBB, CHR 0xBA, CHR 0xE6, CHR 0x96, CHR 0xB0, CHR 0xE5, CHR 0x8A,
      CHR 0x9F, CHR 0xE8, CHR 0x83, CHR 0xBD, CHR 0xE6, CHR 0xA8, CHR 0xA1, CHR 0xE5, CHR 0x9D,
      CHR 0x97, CHR 0xE3, CHR 0x80, CHR 0x82, CHR 0x0A]
     @ ''- ''
     @ [CHR 0xE5, CHR 0x9C, CHR 0xA8, CHR 0xE5, CHR 0xBC, CHR 0x80, CHR 0xE5, CHR 0x8F,
      CHR 0x91, CHR 0xE8, CHR 0xBF, CHR 0x87, CHR 0xE7, CHR 0xA8, CHR 0x8B, CHR 0xE4, CHR 0xB8,
      CHR 0xAD, CHR 0xE9, CHR 0x81, CHR 0xBF, CHR 0xE5, CHR 0x85, CHR 0x8D, CHR 0xE9, CHR 0x87,
      CHR 0x8D, CHR 0xE5, CHR 0xA4, CHR 0x8D, CHR 0xE6, CHR 0x89, CHR 0x8B, CHR 0xE5, CHR 0x86,
      CHR 0x99, CHR 0xE6, CHR 0xA8, CHR 0xA1, CHR 0xE6, CHR 0x9D, CHR 0xBF, CHR 0xE4, CHR 0xBB,
      CHR 0xA3, CHR 0xE7, CHR 0xA0, CHR 0x81, CHR 0xE3, CHR 0x80, CHR 0x82, CHR 0x0A]
     @ ''- ''
     @ [CHR 0xE4, CHR 0xBF, CHR 0x9D, CHR 0xE8, CHR 0xAF, CHR 0x81, CHR 0xE4, CHR 0xBB,
      CHR 0xA3, CHR 0xE7, CHR 0xA0, CHR 0x81, CHR 0xE9, CHR 0xA3, CHR 0x8E, CHR 0xE6, CHR 0xA0,
      CHR 0xBC, CHR 0xE5, CHR 0x92, CHR 0x8C, CHR 0xE9, CHR 0xA1, CHR 0xB9, CHR 0xE7, CHR 0x9B,
      CHR 0xAE, CHR 0xE7, CHR 0xBB, CHR 0x93, CHR 0xE6, CHR 0x9E, CHR 0x84, CHR 0xE7, CHR 0x9A,
      CHR 0x84, CHR 0xE4, CHR 0xB8, CHR 0x80, CHR 0xE8, CHR 0x87, CHR 0xB4, CHR 0xE6, CHR 0x80,
      CHR 0xA7, CHR 0xE3, CHR 0x80, CHR 0x82, CHR 0x0A]"

definition math_server_info :: jsval where
  "math_server_info =
     JObj [(''name'', JStr ''math-mcp''),
           (''version'', JStr ''1.0.0''),
           (''capabilities'', JObj [(''resources'', JObj []), (''tools'', JObj [])]),
           (''instructions'', JStr math_instructions)]"

text \<open>\<open>const server = new McpServer({...})\<close>: the object is the only argument,
  so it is the server's \<open>serverInfo\<close> and there are no options.\<close>

definition math_server :: server_obj where
  "math_server = new_mcp_server math_server_info None"

definition math_main :: "js_exn + unit \<Rightarrow> start_out" where
  "math_main conn = server_main msg_running conn"

lemma rl_skip: "CHR ''{'' \<notin> set v \<Longrightarrow> replace_lit (CHR ''{'' # p) r (v @ w) = v @ replace_lit (CHR ''{'' # p) r w"
  using replace_lit_skip [of "CHR ''{'' # p" v r w] by simp

lemma replace_lit_Cons_skip:
  "\<not> starts_with p (c # s) \<Longrightarrow> replace_lit p r (c # s) = c # replace_lit p r s"
  by simp

lemma replace_lit_lit:
  assumes "no_open2 s" and "s = [] \<or> last s \<noteq> CHR ''{''"
  shows "replace_lit (CHR ''{'' # CHR ''{'' # q) r (s @ w) = s @ replace_lit (CHR ''{'' # CHR ''{'' # q) r w"
  using assms
proof (induction s)
  case Nil
  then show ?case by simp
next
  case (Cons c s)
  have ih: "replace_lit (CHR ''{'' # CHR ''{'' # q) r (s @ w) = s @ replace_lit (CHR ''{'' # CHR ''{'' # q) r w"
    using Cons by (cases s) (auto simp: last_ConsR)
  have "\<not> starts_with (CHR ''{'' # CHR ''{'' # q) (c # s @ w)"
  proof (cases "c = CHR ''{''")
    case True
    with Cons.prems have "s \<noteq> []" by auto
    with True Cons.prems have "hd s \<noteq> CHR ''{''" by (cases s) auto
    with \<open>s \<noteq> []\<close> show ?thesis by (cases s) auto
  qed simp
  then have "replace_lit (CHR ''{'' # CHR ''{'' # q) r (c # s @ w)
      = c # replace_lit (CHR ''{'' # CHR ''{'' # q) r (s @ w)"
    by (simp del: starts_with.simps)
  with ih show ?case by simp
qed

lemma prefix_sep:
  "c \<notin> set n \<Longrightarrow> c \<notin> set m \<Longrightarrow> prefix (n @ c # x) (m @ c # y) \<Longrightarrow> n = m"
proof (induction n arbitrary: m)
  case Nil
  then show ?case by (cases m) auto
next
  case (Cons a n)
  then show ?case by (cases m) auto
qed

lemma replace_lit_other_var:
  assumes "m \<noteq> n" "m \<noteq> []" "CHR ''{'' \<notin> set m" "CHR ''}'' \<notin> set m" "CHR ''}'' \<notin> set n"
  shows "replace_lit (''{{'' @ n @ ''}}'') r (''{{'' @ m @ ''}}'' @ w) = ''{{'' @ m @ ''}}'' @ replace_lit (''{{'' @ n @ ''}}'') r w"
proof -
  let ?p = "''{{'' @ n @ ''}}''"
  have np: "\<not> starts_with ?p (CHR ''{'' # CHR ''{'' # m @ ''}}'' @ w)"
  proof
    assume "starts_with ?p (CHR ''{'' # CHR ''{'' # m @ ''}}'' @ w)"
    then have "starts_with (n @ CHR ''}'' # ''}'') (m @ CHR ''}'' # ''}'' @ w)"
      by (simp only: append_Cons append_Nil starts_with.simps simp_thms)
    then have "prefix (n @ CHR ''}'' # ''}'') (m @ CHR ''}'' # (''}'' @ w))"
      by (simp only: starts_with_iff append_Cons append_Nil)
    from prefix_sep [OF assms(5) assms(4) this] assms(1) show False by simp
  qed
  obtain c m' where m: "m = c # m'" using assms(2) by (cases m) auto
  with assms(3) have c: "c \<noteq> CHR ''{''" by auto
  have np2: "\<not> starts_with ?p (CHR ''{'' # m @ ''}}'' @ w)"
    using c m by simp
  have "replace_lit ?p r (''{{'' @ m @ ''}}'' @ w)
      = CHR ''{'' # replace_lit ?p r (CHR ''{'' # m @ ''}}'' @ w)"
    using replace_lit_Cons_skip [OF np] by simp
  also have "\<dots> = CHR ''{'' # CHR ''{'' # replace_lit ?p r (m @ ''}}'' @ w)"
    using replace_lit_Cons_skip [OF np2] by simp
  also have "replace_lit ?p r (m @ ''}}'' @ w) = m @ replace_lit ?p r (''}}'' @ w)"
    using assms(3) rl_skip [of m "CHR ''{'' # n @ ''}}''" r "''}}'' @ w"] by simp
  also have "replace_lit ?p r (''}}'' @ w) = ''}}'' @ replace_lit ?p r w"
    using rl_skip [of "''}}''" "CHR ''{'' # n @ ''}}''" r w] by simp
  finally show ?thesis by simp
qed


lemma map_of_no_brace:
  "\<forall>(k, x) \<in> set env. CHR ''{'' \<notin> set x \<Longrightarrow> map_of env m = Some x \<Longrightarrow> CHR ''{'' \<notin> set x"
  by (auto dest: map_of_SomeD)

lemma replace_lit_fill_part:
  assumes ok: "part_ok p" and "n \<noteq> []" "CHR ''{'' \<notin> set n" "CHR ''}'' \<notin> set n"
    and "map_of env n = None" and "CHR ''{'' \<notin> set v"
    and env: "\<forall>(k, x) \<in> set env. CHR ''{'' \<notin> set x"
  shows "replace_lit (''{{'' @ n @ ''}}'') v (fill_part env p @ w)
      = fill_part (env @ [(n, v)]) p @ replace_lit (''{{'' @ n @ ''}}'') v w"
proof (cases p)
  case (Lit s)
  with ok have "no_open2 s" "s = [] \<or> last s \<noteq> CHR ''{''" by simp_all
  from replace_lit_lit [OF this, of "n @ ''}}''" v w] Lit show ?thesis by simp
next
  case (Var m)
  show ?thesis
  proof (cases "map_of env m")
    case (Some x)
    with env have "CHR ''{'' \<notin> set x" by (rule map_of_no_brace)
    with Var Some show ?thesis
      using rl_skip [of x "CHR ''{'' # n @ ''}}''" v w] by simp
  next
    case None
    show ?thesis
    proof (cases "m = n")
      case True
      have e1: "fill_part env p = ''{{'' @ n @ ''}}''" using Var None True by simp
      have e2: "fill_part (env @ [(n, v)]) p = v" using Var None True by (simp add: map_add_def)
      have "replace_lit (''{{'' @ n @ ''}}'') v ((''{{'' @ n @ ''}}'') @ w)
          = v @ replace_lit (''{{'' @ n @ ''}}'') v w"
        by (rule replace_lit_match) simp
      then show ?thesis by (simp only: e1 e2)
    next
      case False
      with ok Var have mok: "m \<noteq> []" "CHR ''{'' \<notin> set m" "CHR ''}'' \<notin> set m" by simp_all
      have e1: "fill_part env p = ''{{'' @ m @ ''}}''" using Var None by simp
      have e2: "fill_part (env @ [(n, v)]) p = ''{{'' @ m @ ''}}''"
        using Var None False by (simp add: map_add_def)
      from replace_lit_other_var [OF False mok assms(4), of v w]
      show ?thesis by (simp only: e1 e2 append_assoc)
    qed
  qed
qed

lemma replace_lit_fill:
  assumes "list_all part_ok ps" and "n \<noteq> []" "CHR ''{'' \<notin> set n" "CHR ''}'' \<notin> set n"
    and "map_of env n = None" and "CHR ''{'' \<notin> set v"
    and "\<forall>(k, x) \<in> set env. CHR ''{'' \<notin> set x"
  shows "replace_lit (''{{'' @ n @ ''}}'') v (fill env ps) = fill (env @ [(n, v)]) ps"
  using assms(1)
proof (induction ps)
  case Nil
  then show ?case by (simp add: fill_def)
next
  case (Cons p ps)
  then have "part_ok p" and "replace_lit (''{{'' @ n @ ''}}'') v (fill env ps) = fill (env @ [(n, v)]) ps"
    by simp_all
  with replace_lit_fill_part [OF _ assms(2-7), of p "fill env ps"] show ?case by (simp add: fill_def)
qed


lemma replace_all_fill:
  assumes "list_all part_ok ps" and "n \<noteq> []" "CHR ''{'' \<notin> set n" "CHR ''}'' \<notin> set n"
    and "map_of env n = None" and "CHR ''{'' \<notin> set v" "CHR ''$'' \<notin> set v"
    and "\<forall>(k, x) \<in> set env. CHR ''{'' \<notin> set x"
  shows "replace_all (''{{'' @ n @ ''}}'') v (fill env ps) = fill (env @ [(n, v)]) ps"
  using replace_lit_fill [OF assms(1-6) assms(8)] replace_all_plain [OF assms(7)] by simp

lemma activity_parts_ok: "list_all part_ok activity_parts"
  by (simp add: activity_parts_def)

lemma tpl_activity_parts: "tpl_activity = fill [] activity_parts"
  by (simp add: tpl_activity_def fill_def activity_parts_def)


lemma replace_seq_fill:
  assumes "list_all part_ok ps" "distinct (map fst (env0 @ env))"
    "list_all (key_ok \<circ> fst) env" "list_all (val_ok \<circ> snd) (env0 @ env)"
  shows "replace_seq env (fill env0 ps) = fill (env0 @ env) ps"
  using assms(2-4)
proof (induction env arbitrary: env0)
  case Nil
  then show ?case by simp
next
  case (Cons nv env)
  obtain n v where nv: "nv = (n, v)" by fastforce
  have none: "map_of env0 n = None" using Cons.prems(1) nv by (auto simp: map_of_eq_None_iff)
  have env0: "\<forall>(k, x) \<in> set env0. CHR ''{'' \<notin> set x"
  proof -
    have "\<forall>x\<in>set env0. val_ok (snd x)" using Cons.prems(3) by (simp add: list_all_iff)
    then show ?thesis by (auto simp: val_ok_def)
  qed
  have "replace_all (''{{'' @ n @ ''}}'') v (fill env0 ps) = fill (env0 @ [(n, v)]) ps"
    using Cons.prems nv none env0 by (intro replace_all_fill assms(1)) (auto simp: key_ok_def val_ok_def)
  moreover have "replace_seq env (fill (env0 @ [(n, v)]) ps) = fill (env0 @ [(n, v)] @ env) ps"
    using Cons.IH [of "env0 @ [(n, v)]"] Cons.prems nv by simp
  ultimately show ?case using nv by simp
qed

lemma activity_code_fill:
  assumes "list_all val_ok [pkg, ac, vc, ln, bc, bi]"
  shows "activity_code pkg ac vc ln bc bi =
     fill [(''PACKAGE'', pkg), (''ACTIVITY_CLASS'', ac), (''VIEWMODEL_CLASS'', vc),
           (''LAYOUT_NAME'', ln), (''BINDING_CLASS'', bc), (''BINDING_IMPORT'', bi)] activity_parts"
proof -
  have "activity_code pkg ac vc ln bc bi = replace_seq [(''PACKAGE'', pkg), (''ACTIVITY_CLASS'', ac), (''VIEWMODEL_CLASS'', vc),
           (''LAYOUT_NAME'', ln), (''BINDING_CLASS'', bc), (''BINDING_IMPORT'', bi)] (fill [] activity_parts)"
    by (simp add: activity_code_def tpl_activity_parts)
  also have "\<dots> = fill [(''PACKAGE'', pkg), (''ACTIVITY_CLASS'', ac), (''VIEWMODEL_CLASS'', vc),
           (''LAYOUT_NAME'', ln), (''BINDING_CLASS'', bc), (''BINDING_IMPORT'', bi)] activity_parts"
    by (rule replace_seq_fill [of _ "[]", simplified append_Nil])
      (use assms in \<open>simp_all add: activity_parts_ok key_ok_def\<close>)
  finally show ?thesis .
qed


lemma viewmodel_parts_ok: "list_all part_ok viewmodel_parts"
  by (simp add: viewmodel_parts_def)

lemma layout_parts_ok: "list_all part_ok layout_parts"
  by (simp add: layout_parts_def)

lemma tpl_viewmodel_parts: "tpl_viewmodel = fill [] viewmodel_parts"
  by (simp add: tpl_viewmodel_def fill_def viewmodel_parts_def)

lemma tpl_layout_parts: "tpl_layout = fill [] layout_parts"
  by (simp add: tpl_layout_def fill_def layout_parts_def)

lemma viewmodel_code_fill:
  assumes "val_ok pkg" "val_ok vc"
  shows "viewmodel_code pkg vc = fill [(''PACKAGE'', pkg), (''VIEWMODEL_CLASS'', vc)] viewmodel_parts"
proof -
  have "viewmodel_code pkg vc = replace_seq [(''PACKAGE'', pkg), (''VIEWMODEL_CLASS'', vc)] (fill [] viewmodel_parts)"
    by (simp add: viewmodel_code_def tpl_viewmodel_parts)
  also have "\<dots> = fill [(''PACKAGE'', pkg), (''VIEWMODEL_CLASS'', vc)] viewmodel_parts"
    by (rule replace_seq_fill [of _ "[]", simplified append_Nil])
      (use assms in \<open>simp_all add: viewmodel_parts_ok key_ok_def\<close>)
  finally show ?thesis .
qed

lemma layout_code_fill:
  assumes "val_ok ln" "val_ok vc"
  shows "layout_code ln vc = fill [(''LAYOUT_NAME'', ln), (''VIEWMODEL_CLASS'', vc)] layout_parts"
proof -
  have "layout_code ln vc = replace_seq [(''LAYOUT_NAME'', ln), (''VIEWMODEL_CLASS'', vc)] (fill [] layout_parts)"
    by (simp add: layout_code_def tpl_layout_parts)
  also have "\<dots> = fill [(''LAYOUT_NAME'', ln), (''VIEWMODEL_CLASS'', vc)] layout_parts"
    by (rule replace_seq_fill [of _ "[]", simplified append_Nil])
      (use assms in \<open>simp_all add: layout_parts_ok key_ok_def\<close>)
  finally show ?thesis .
qed


lemma fill_cong:
  "(\<And>n. n \<in> set (tpl_vars ps) \<Longrightarrow> map_of e1 n = map_of e2 n) \<Longrightarrow> fill e1 ps = fill e2 ps"
proof (induction ps)
  case Nil
  then show ?case by (simp add: fill_def)
next
  case (Cons p ps)
  then show ?case by (cases p) (simp_all add: fill_def tpl_vars_def)
qed


lemma val_ok_append [simp]: "val_ok (s @ t) = (val_ok s \<and> val_ok t)"
  by (auto simp: val_ok_def)

lemma val_ok_Cons [simp]: "val_ok (c # s) = (c \<noteq> CHR ''{'' \<and> c \<noteq> CHR ''$'' \<and> val_ok s)"
  by (auto simp: val_ok_def)

lemma val_ok_Nil [simp]: "val_ok []"
  by (simp add: val_ok_def)

lemma val_ok_to_lower [simp]: "val_ok (to_lower s) = val_ok s"
  by (simp add: val_ok_def in_set_to_lower_other)

lemma create_activity_handler_strings:
  assumes "arg_or extra ''packageName'' ''com.mathwallet.app'' = JStr pkg"
    and "arg_or extra ''componentName'' ''Example'' = JStr cname"
    and "arg_or extra ''bindingPackage'' ''com.mgx.mathwallet.databinding'' = JStr bpkg"
    and "val_ok pkg" "val_ok cname" "val_ok bpkg"
  shows "create_activity_handler extra w s = (Inr (generated_files pkg cname bpkg), s)"
proof -
  have ok: "val_ok ''Activity''" "val_ok ''ViewModel''" "val_ok ''activity_''" "val_ok ''Binding''" "val_ok ''.''"
    by (simp_all add: val_ok_def)
  have a: "activity_code pkg (cname @ ''Activity'') (cname @ ''ViewModel'') (''activity_'' @ to_lower cname)
      (''Activity'' @ cname @ ''Binding'') (bpkg @ ''.'' @ ''Activity'' @ cname @ ''Binding'')
      = fill (derived_env pkg cname bpkg) activity_parts"
    unfolding derived_env_def using assms ok by (intro activity_code_fill) simp
  have v: "viewmodel_code pkg (cname @ ''ViewModel'') = fill (derived_env pkg cname bpkg) viewmodel_parts"
  proof -
    have "viewmodel_code pkg (cname @ ''ViewModel'')
        = fill [(''PACKAGE'', pkg), (''VIEWMODEL_CLASS'', cname @ ''ViewModel'')] viewmodel_parts"
      using assms by (simp add: viewmodel_code_fill)
    also have "\<dots> = fill (derived_env pkg cname bpkg) viewmodel_parts"
      by (rule fill_cong) (auto simp: tpl_vars_def viewmodel_parts_def derived_env_def)
    finally show ?thesis .
  qed
  have l: "layout_code (''activity_'' @ to_lower cname) (cname @ ''ViewModel'')
      = fill [(k, v) \<leftarrow> derived_env pkg cname bpkg. k \<noteq> ''PACKAGE''] layout_parts"
  proof -
    have "layout_code (''activity_'' @ to_lower cname) (cname @ ''ViewModel'')
        = fill [(''LAYOUT_NAME'', ''activity_'' @ to_lower cname), (''VIEWMODEL_CLASS'', cname @ ''ViewModel'')] layout_parts"
      using assms by (simp add: layout_code_fill)
    also have "\<dots> = fill [(k, v) \<leftarrow> derived_env pkg cname bpkg. k \<noteq> ''PACKAGE''] layout_parts"
      by (rule fill_cong) (auto simp: tpl_vars_def layout_parts_def derived_env_def)
    finally show ?thesis .
  qed
  show ?thesis
    using assms(1-3) a v l
    by (simp add: create_activity_handler_def js_lower_def js_dots_to_slashes_def sbind_def
        generated_files_def io_return_def)
qed


lemma arg_or_str:
  "s \<noteq> [] \<Longrightarrow> map_of kvs k = Some (JStr s) \<Longrightarrow> arg_or (JObj kvs) k d = JStr s"
  by (simp add: arg_or_def js_or_def js_and_def prop_val_def)

lemma arg_or_absent: "map_of kvs k = None \<Longrightarrow> arg_or (JObj kvs) k d = JStr d"
  by (simp add: arg_or_def js_or_def js_and_def prop_val_def)


subsection \<open>Properties of the generator\<close>

text \<open>C26: refinement of the handler: called with a packageName, componentName and bindingPackage that are non-empty and free of braces and dollar signs, the handler of getCreateActivityTool returns exactly the three templates with every placeholder filled from the derived names, except that the layout keeps its PACKAGE placeholder; the state is unchanged.\<close>

theorem create_activity_refines:
  assumes "pkg \<noteq> []" "cname \<noteq> []" "bpkg \<noteq> []" "val_ok pkg" "val_ok cname" "val_ok bpkg"
  shows "create_activity_handler
           (JObj [(''packageName'', JStr pkg), (''componentName'', JStr cname), (''bindingPackage'', JStr bpkg)]) w s
         = (Inr (generated_files pkg cname bpkg), s)"
  using assms by (intro create_activity_handler_strings) (simp_all add: arg_or_str)

theorem create_activity_refines_witness:
  "create_activity_handler
     (JObj [(''packageName'', JStr ''com.example.app''), (''componentName'', JStr ''Foo''),
            (''bindingPackage'', JStr ''com.example.app.databinding'')]) offline_world io_init
   = (Inr (generated_files ''com.example.app'' ''Foo'' ''com.example.app.databinding''), io_init)"
  using create_activity_refines [of "''com.example.app''" "''Foo''" "''com.example.app.databinding''"]
  by simp

text \<open>For package com.example.app and component Foo the generated activity declares the class FooActivity over FooViewModel and ActivityFooBinding and uses the layout activity_foo, and the view-model declares FooViewModel.\<close>

theorem create_activity_names:
  "\<exists>act vm lay.
     create_activity_handler
       (JObj [(''packageName'', JStr ''com.example.app''), (''componentName'', JStr ''Foo'')]) w s
       = (Inr (JObj [(''content'', JArr [text_block act, text_block vm, text_block lay])]), s)
     \<and> sublist ''class FooActivity : BaseLockActivity<FooViewModel, ActivityFooBinding>'' act
     \<and> sublist ''R.layout.activity_foo'' act
     \<and> sublist ''class FooViewModel'' vm \<and> sublist ''.FooViewModel'' lay"
proof -
  have h: "create_activity_handler
       (JObj [(''packageName'', JStr ''com.example.app''), (''componentName'', JStr ''Foo'')]) w s
      = (Inr (generated_files ''com.example.app'' ''Foo'' ''com.mgx.mathwallet.databinding''), s)"
    by (rule create_activity_handler_strings) (simp_all add: arg_or_str arg_or_absent)
  show ?thesis
    unfolding h generated_files_def
    by (intro exI conjI refl) code_simp+
qed

text \<open>C27: the server of index.ts registers the generator with an empty zod shape, so every call with an object argument gets the default output (package com.mathwallet.app, component Example), whatever fields the object has.\<close>

theorem create_activity_server_ignores_args:
  "\<exists>reg. register_create_activity empty_registry = Inr reg \<and>
     (\<forall>kvs w s. callTool reg (td_name getCreateActivityTool) (JObj kvs) w s =
        (Inr (ToolResult (generated_files ''com.mathwallet.app'' ''Example'' ''com.mgx.mathwallet.databinding'')), s))"
proof -
  let ?t = "\<lparr>t_schema = Some [], t_handler = create_activity_handler\<rparr>"
  let ?reg = "\<lparr>tools = [(td_name getCreateActivityTool, ?t)]\<rparr>"
  have r: "register_create_activity empty_registry = Inr ?reg"
    by (simp add: register_create_activity_def server_tool_def registerTool_def tool_arg_schema_def
        registered_def empty_registry_def getCreateActivityTool_def)
  have p: "zod_parse [] (JObj kvs) = Inr (JObj [])" for kvs
    by (simp add: zod_parse_def)
  have h: "create_activity_handler (JObj []) w s =
      (Inr (generated_files ''com.mathwallet.app'' ''Example'' ''com.mgx.mathwallet.databinding''), s)" for w s
    by (rule create_activity_handler_strings) (simp_all add: arg_or_absent)
  have "callTool ?reg (td_name getCreateActivityTool) (JObj kvs) w s =
      (Inr (ToolResult (generated_files ''com.mathwallet.app'' ''Example'' ''com.mgx.mathwallet.databinding'')), s)"
    for kvs w s
    by (simp add: callTool_def p run_callback_def h)
  with r show ?thesis by blast
qed

text \<open>C28: whatever its argument, the handler either returns a result with exactly three text blocks or throws a TypeError (a component name or package that is truthy but not a string), and it never changes the state.\<close>

theorem create_activity_handler_shape:
  "\<exists>r. create_activity_handler extra w s = (r, s) \<and>
     ((\<exists>a b c. r = Inr (JObj [(''content'', JArr [text_block a, text_block b, text_block c])]))
      \<or> (\<exists>m. r = Inl (TypeError m)))"
  by (auto simp: create_activity_handler_def js_lower_def js_dots_to_slashes_def sbind_def Let_def
      io_lift_def split: jsval.splits)

text \<open>C29: the generated layout still contains the placeholder {{PACKAGE}} followed by the view-model class: the layout chain never replaces PACKAGE.\<close>

theorem layout_keeps_package_token:
  assumes "val_ok ln" "val_ok vc"
  shows "sublist (''{{PACKAGE}}.'' @ vc) (layout_code ln vc)"
proof -
  let ?env = "[(''LAYOUT_NAME'', ln), (''VIEWMODEL_CLASS'', vc)]"
  have "fill ?env layout_parts =
      fill_part ?env (hd layout_parts) @ (''{{PACKAGE}}.'' @ vc) @ fill ?env (drop 4 layout_parts)"
    by (simp add: fill_def layout_parts_def)
  then show ?thesis
    using layout_code_fill [OF assms] by (simp only: sublist_appendI)
qed

theorem layout_keeps_package_token_witness:
  "sublist (''{{PACKAGE}}.'' @ ''ExampleViewModel'') (layout_code ''activity_example'' ''ExampleViewModel'')"
  using layout_keeps_package_token [of "''activity_example''" "''ExampleViewModel''"] by simp

text \<open>The replacement strings are GetSubstitution templates: a component name containing the two characters dollar and ampersand puts the placeholder itself into the generated class name.\<close>

theorem dollar_in_name:
  "viewmodel_code ''com.example.app'' (''A$&'' @ ''ViewModel'') =
     fill [(''PACKAGE'', ''com.example.app''), (''VIEWMODEL_CLASS'', ''A{{VIEWMODEL_CLASS}}ViewModel'')]
       viewmodel_parts"
  by code_simp


end
