(* ===== verification/Signing.thy ===== *)
theory Signing
  imports Json "HOL-Library.Word"
begin

text \<open>
  Request signing, \<open>signQuery\<close> of \<open>src/src/binance/binance_sign.ts\<close>:
  \<open>crypto.createHmac("sha256", secret).update(query).digest("hex")\<close>. The three
  calls are node's crypto library, modelled from their specifications:
  \<^item> SHA-256 of FIPS 180-4 on \<open>8 word\<close> bytes and \<open>32 word\<close> words: the
    padding \<open>sha_pad\<close>, the message schedule \<open>sha_schedule\<close>, the 64 rounds
    \<open>sha_round\<close> and the block step \<open>sha_block\<close>, all additions wrapping modulo
    \<open>2^32\<close>;
  \<^item> HMAC of RFC 2104 with the 64-byte block of SHA-256: a key longer than the
    block is hashed first, the key is padded with zero bytes to the block, and
    the inner and outer pads are \<open>0x36\<close> and \<open>0x5c\<close>;
  \<^item> \<open>digest("hex")\<close>: two lower-case hexadecimal digits per byte, high nibble
    first, with \<open>hex_digit\<close> of \<open>JsValue\<close>;
  \<^item> \<open>createHmac\<close> and \<open>update\<close> take JavaScript strings as UTF-8: the model's
    strings are already those bytes, so \<open>utf8_bytes\<close> reads each character as
    its byte.
  The lemmas give the digest's size, the hexadecimal text's size, alphabet and
  reading back, and the key normalisation of HMAC: secrets that differ only in
  trailing NUL characters sign every query alike.
\<close>

unbundle bit_operations_syntax

type_synonym byte = "8 word"
type_synonym u32 = "32 word"

subsection \<open>SHA-256\<close>

text \<open>The round constants (the first 32 bits of the fractional parts of the cube
  roots of the first 64 primes) and the initial hash value (square roots of the
  first eight primes), as decimal numerals.\<close>

definition sha_K :: "u32 list" where
  "sha_K = [
    1116352408, 1899447441, 3049323471, 3921009573, 961987163, 1508970993,
    2453635748, 2870763221, 3624381080, 310598401, 607225278, 1426881987,
    1925078388, 2162078206, 2614888103, 3248222580, 3835390401, 4022224774,
    264347078, 604807628, 770255983, 1249150122, 1555081692, 1996064986,
    2554220882, 2821834349, 2952996808, 3210313671, 3336571891, 3584528711,
    113926993, 338241895, 666307205, 773529912, 1294757372, 1396182291,
    1695183700, 1986661051, 2177026350, 2456956037, 2730485921, 2820302411,
    3259730800, 3345764771, 3516065817, 3600352804, 4094571909, 275423344,
    430227734, 506948616, 659060556, 883997877, 958139571, 1322822218,
    1537002063, 1747873779, 1955562222, 2024104815, 2227730452, 2361852424,
    2428436474, 2756734187, 3204031479, 3329325298]"

definition sha_H0 :: "u32 list" where
  "sha_H0 = [
    1779033703, 3144134277, 1013904242, 2773480762, 1359893119, 2600822924,
    528734635, 1541459225]"

definition rotr :: "nat \<Rightarrow> u32 \<Rightarrow> u32" where
  "rotr n x = drop_bit n x OR push_bit (32 - n) x"

definition big_sigma0 :: "u32 \<Rightarrow> u32" where
  "big_sigma0 x = rotr 2 x XOR rotr 13 x XOR rotr 22 x"

definition big_sigma1 :: "u32 \<Rightarrow> u32" where
  "big_sigma1 x = rotr 6 x XOR rotr 11 x XOR rotr 25 x"

definition small_sigma0 :: "u32 \<Rightarrow> u32" where
  "small_sigma0 x = rotr 7 x XOR rotr 18 x XOR drop_bit 3 x"

definition small_sigma1 :: "u32 \<Rightarrow> u32" where
  "small_sigma1 x = rotr 17 x XOR rotr 19 x XOR drop_bit 10 x"

definition sha_ch :: "u32 \<Rightarrow> u32 \<Rightarrow> u32 \<Rightarrow> u32" where
  "sha_ch x y z = (x AND y) XOR (NOT x AND z)"

definition sha_maj :: "u32 \<Rightarrow> u32 \<Rightarrow> u32 \<Rightarrow> u32" where
  "sha_maj x y z = (x AND y) XOR (x AND z) XOR (y AND z)"

text \<open>The \<open>k\<close> low bytes of \<open>n\<close>, most significant first, and four bytes read
  back as a big-endian word.\<close>

fun be_bytes :: "nat \<Rightarrow> nat \<Rightarrow> byte list" where
  "be_bytes 0 n = []"
| "be_bytes (Suc k) n = be_bytes k (n div 256) @ [of_nat n]"

definition be_word :: "byte list \<Rightarrow> u32" where
  "be_word bs = foldl (\<lambda>w b. push_bit 8 w OR ucast b) 0 bs"

text \<open>Padding: the byte \<open>0x80\<close>, zero bytes up to 56 modulo 64, and the
  message length in bits as a 64-bit big-endian number.\<close>

definition sha_pad :: "byte list \<Rightarrow> byte list" where
  "sha_pad m = m @ [0x80] @ replicate ((119 - length m mod 64) mod 64) 0
     @ be_bytes 8 (8 * length m)"

text \<open>Consecutive pieces of \<open>n\<close> elements (the last one shorter).\<close>

fun chunks :: "nat \<Rightarrow> 'a list \<Rightarrow> 'a list list" where
  "chunks n [] = []"
| "chunks n (x # xs) = take n (x # xs) # chunks n (drop (n - 1) xs)"

fun sched_ext :: "nat \<Rightarrow> u32 list \<Rightarrow> u32 list" where
  "sched_ext 0 ws = ws"
| "sched_ext (Suc n) ws =
     sched_ext n (ws @ [small_sigma1 (ws ! (length ws - 2)) + ws ! (length ws - 7)
                        + small_sigma0 (ws ! (length ws - 15)) + ws ! (length ws - 16)])"

definition sha_schedule :: "byte list \<Rightarrow> u32 list" where
  "sha_schedule blk = sched_ext 48 (map be_word (chunks 4 blk))"

text \<open>One round on the working variables \<open>[a, b, c, d, e, f, g, h]\<close>.\<close>

definition sha_round :: "u32 list \<Rightarrow> u32 \<times> u32 \<Rightarrow> u32 list" where
  "sha_round v kw = (let (k, w) = kw;
     t1 = v ! 7 + big_sigma1 (v ! 4) + sha_ch (v ! 4) (v ! 5) (v ! 6) + k + w;
     t2 = big_sigma0 (v ! 0) + sha_maj (v ! 0) (v ! 1) (v ! 2)
   in [t1 + t2, v ! 0, v ! 1, v ! 2, v ! 3 + t1, v ! 4, v ! 5, v ! 6])"

definition sha_block :: "u32 list \<Rightarrow> byte list \<Rightarrow> u32 list" where
  "sha_block h blk = map2 (+) h (foldl sha_round h (zip sha_K (sha_schedule blk)))"

definition sha256 :: "byte list \<Rightarrow> byte list" where
  "sha256 m =
     concat (map (\<lambda>w. be_bytes 4 (unat w)) (foldl sha_block sha_H0 (chunks 64 (sha_pad m))))"

subsection \<open>HMAC-SHA-256 and the hexadecimal digest\<close>

definition hmac_block_key :: "byte list \<Rightarrow> byte list" where
  "hmac_block_key key =
     (let k = (if 64 < length key then sha256 key else key) in k @ replicate (64 - length k) 0)"

definition hmac_sha256 :: "byte list \<Rightarrow> byte list \<Rightarrow> byte list" where
  "hmac_sha256 key m =
     (let k0 = hmac_block_key key
      in sha256 (map (\<lambda>b. b XOR 0x5c) k0 @ sha256 (map (\<lambda>b. b XOR 0x36) k0 @ m)))"

definition hex_byte :: "byte \<Rightarrow> string" where
  "hex_byte b = [hex_digit (unat b div 16), hex_digit (unat b mod 16)]"

definition hex_encode :: "byte list \<Rightarrow> string" where
  "hex_encode bs = concat (map hex_byte bs)"

definition utf8_bytes :: "string \<Rightarrow> byte list" where
  "utf8_bytes s = map (\<lambda>c. of_nat (of_char c)) s"

definition signQuery :: "string \<Rightarrow> string \<Rightarrow> string" where
  "signQuery query secret = hex_encode (hmac_sha256 (utf8_bytes secret) (utf8_bytes query))"

text \<open>Reading hexadecimal text back into bytes, two digits a byte (the reading
  \<open>Buffer.from(text, "hex")\<close> gives a well-formed digest).\<close>

fun hex_decode :: "string \<Rightarrow> byte list option" where
  "hex_decode [] = Some []"
| "hex_decode [c] = None"
| "hex_decode (c1 # c2 # cs) =
     (case (hex_val c1, hex_val c2, hex_decode cs) of
        (Some h, Some l, Some bs) \<Rightarrow> Some (of_nat (16 * h + l) # bs)
      | _ \<Rightarrow> None)"

subsection \<open>Lemmas\<close>

lemma be_bytes_length [simp]: "length (be_bytes k n) = k"
  by (induction k arbitrary: n) simp_all

lemma sha_round_length [simp]: "length (sha_round v kw) = 8"
  by (simp add: sha_round_def split_def Let_def)

lemma foldl_sha_round_length:
  "length v = 8 \<Longrightarrow> length (foldl sha_round v kws) = 8"
  by (induction kws arbitrary: v) simp_all

lemma sha_block_length:
  "length h = 8 \<Longrightarrow> length (sha_block h blk) = 8"
  by (simp add: sha_block_def foldl_sha_round_length)

lemma foldl_sha_block_length:
  "length h = 8 \<Longrightarrow> length (foldl sha_block h blks) = 8"
  by (induction blks arbitrary: h) (simp_all add: sha_block_length)

lemma length_concat_const:
  "(\<And>x. length (f x) = k) \<Longrightarrow> length (concat (map f xs)) = k * length xs"
  by (induction xs) simp_all

lemma sha256_length [simp]: "length (sha256 m) = 32"
proof -
  have "length (foldl sha_block sha_H0 (chunks 64 (sha_pad m))) = 8"
    by (rule foldl_sha_block_length) (simp add: sha_H0_def)
  then show ?thesis
    by (simp add: sha256_def length_concat_const)
qed

lemma sha_pad_length:
  "length (sha_pad m) = 64 * ((length m + 8) div 64 + 1)"
proof -
  define r where "r = length m mod 64"
  have r: "r < 64" "length m = 64 * (length m div 64) + r"
    by (simp_all add: r_def)
  have "length (sha_pad m) = length m + 9 + (119 - r) mod 64"
    by (simp add: sha_pad_def r_def)
  also have "\<dots> = 64 * ((length m + 8) div 64 + 1)"
  proof (cases "r < 56")
    case True
    then have "(119 - r) mod 64 = 55 - r" by (simp add: mod_if)
    moreover have "(length m + 8) div 64 = length m div 64"
      using r True by linarith
    ultimately show ?thesis using r True by simp
  next
    case False
    then have "(119 - r) mod 64 = 119 - r" using r by simp
    moreover have "(length m + 8) div 64 = length m div 64 + 1"
      using r False by linarith
    ultimately show ?thesis using r False by simp
  qed
  finally show ?thesis .
qed

lemma sched_ext_length [simp]: "length (sched_ext n ws) = length ws + n"
  by (induction n arbitrary: ws) simp_all

lemma chunks_full:
  "0 < n \<Longrightarrow> n dvd length xs \<Longrightarrow> c \<in> set (chunks n xs) \<Longrightarrow> length c = n"
proof (induction n xs rule: chunks.induct)
  case (1 n)
  then show ?case by simp
next
  case (2 n x xs)
  have le: "n \<le> Suc (length xs)"
    using 2(2,3) by (simp add: dvd_imp_le)
  have "length (drop (n - 1) xs) = Suc (length xs) - n"
    using 2(2) le by simp
  moreover have "n dvd Suc (length xs) - n"
    using 2(3) by (simp add: dvd_diff_nat)
  ultimately have "n dvd length (drop (n - 1) xs)"
    by simp
  then show ?case
    using 2 le by auto
qed

lemma chunks_count:
  "0 < n \<Longrightarrow> n dvd length xs \<Longrightarrow> length (chunks n xs) = length xs div n"
proof (induction n xs rule: chunks.induct)
  case (1 n)
  then show ?case by simp
next
  case (2 n x xs)
  have le: "n \<le> Suc (length xs)"
    using 2(2,3) by (simp add: dvd_imp_le)
  have "length (drop (n - 1) xs) = Suc (length xs) - n"
    using 2(2) le by simp
  moreover have "n dvd Suc (length xs) - n"
    using 2(3) by (simp add: dvd_diff_nat)
  ultimately have "n dvd length (drop (n - 1) xs)"
    by simp
  then have "length (chunks n (drop (n - 1) xs)) = (Suc (length xs) - n) div n"
    using 2 by simp
  then show ?case
    using 2(2) le by (simp add: le_div_geq)
qed

lemma sha_pad_blocks:
  "blk \<in> set (chunks 64 (sha_pad m)) \<Longrightarrow> length blk = 64 \<and> length (sha_schedule blk) = 64"
proof -
  assume blk: "blk \<in> set (chunks 64 (sha_pad m))"
  have "64 dvd length (sha_pad m)"
    by (simp add: sha_pad_length)
  then have len: "length blk = 64"
    using blk by (rule chunks_full [rotated]) simp
  then have "length (chunks 4 blk) = 16"
    by (simp add: chunks_count)
  then show ?thesis
    using len by (simp add: sha_schedule_def)
qed

lemma hmac_block_key_short:
  "length key \<le> 64 \<Longrightarrow> hmac_block_key key = key @ replicate (64 - length key) 0"
  by (simp add: hmac_block_key_def)

lemma hmac_block_key_long:
  "64 < length key \<Longrightarrow> hmac_block_key key = hmac_block_key (sha256 key)"
  by (simp add: hmac_block_key_def)

lemma hmac_block_key_length [simp]: "length (hmac_block_key key) = 64"
  by (simp add: hmac_block_key_def Let_def)

lemma hmac_block_key_nul:
  assumes "length key < 64"
  shows "hmac_block_key (key @ [0]) = hmac_block_key key"
proof -
  have "64 - length key = Suc (64 - Suc (length key))" using assms by simp
  then show ?thesis
    using assms by (simp add: hmac_block_key_short replicate_app_Cons_same)
qed

lemma hex_byte_length [simp]: "length (hex_byte b) = 2"
  by (simp add: hex_byte_def)

lemma hex_encode_length [simp]: "length (hex_encode bs) = 2 * length bs"
  by (simp add: hex_encode_def length_concat_const)

lemma unat_byte_bound: "unat (b :: byte) < 256"
  using unsigned_less [of b] by simp

lemma hex_digits_lower: "\<forall>n \<in> set [0..<16]. hex_digit n \<in> set ''0123456789abcdef''"
  by code_simp

lemma hex_digit_lower: "n < 16 \<Longrightarrow> hex_digit n \<in> set ''0123456789abcdef''"
  using hex_digits_lower by simp

lemma hex_byte_lower: "set (hex_byte b) \<subseteq> set ''0123456789abcdef''"
proof -
  have "unat b div 16 < 16" "unat b mod 16 < 16"
    using unat_byte_bound [of b] by simp_all
  then show ?thesis
    using hex_digit_lower by (simp add: hex_byte_def)
qed

lemma hex_encode_lower: "set (hex_encode bs) \<subseteq> set ''0123456789abcdef''"
  using hex_byte_lower unfolding hex_encode_def set_concat set_map by blast

lemma hex_decode_byte: "hex_decode (hex_byte b @ cs) = map_option ((#) b) (hex_decode cs)"
proof -
  have "16 * (unat b div 16) + unat b mod 16 = unat b" by simp
  moreover have "unat b div 16 < 16" using unat_byte_bound [of b] by simp
  ultimately show ?thesis
    by (simp add: hex_byte_def split: option.split)
qed

lemma hex_decode_encode: "hex_decode (hex_encode bs) = Some bs"
  by (induction bs) (simp_all add: hex_encode_def hex_decode_byte)

lemma utf8_bytes_length [simp]: "length (utf8_bytes s) = length s"
  by (simp add: utf8_bytes_def)

lemma utf8_bytes_nul: "utf8_bytes (s @ [CHR 0x00]) = utf8_bytes s @ [0]"
  by (simp add: utf8_bytes_def)

subsection \<open>Properties of the signature\<close>

text \<open>C25: The signature signQuery returns is always 64 characters long and is written in
  lower-case hexadecimal digits only: two digits for each of the 32 bytes of the
  HMAC-SHA-256 digest.\<close>

theorem signQuery_hex:
  "length (signQuery q s) = 64 \<and> set (signQuery q s) \<subseteq> set ''0123456789abcdef''"
proof
  show "length (signQuery q s) = 64"
    by (simp add: signQuery_def hmac_sha256_def Let_def)
  show "set (signQuery q s) \<subseteq> set ''0123456789abcdef''"
    unfolding signQuery_def by (rule hex_encode_lower)
qed

text \<open>C24: HMAC pads a key shorter than the 64-byte block with zero bytes, so a secret
  shorter than 64 bytes and the same secret with a NUL character appended sign
  every query alike.\<close>

theorem signQuery_trailing_nul:
  "length secret < 64 \<Longrightarrow> signQuery q (secret @ [CHR 0x00]) = signQuery q secret"
  by (simp add: signQuery_def hmac_sha256_def utf8_bytes_nul hmac_block_key_nul)

theorem signQuery_trailing_nul_witness:
  "length ''key'' < 64
   \<and> signQuery ''symbol=BTCUSDT'' (''key'' @ [CHR 0x00]) = signQuery ''symbol=BTCUSDT'' ''key''"
  using signQuery_trailing_nul [of "''key''" "''symbol=BTCUSDT''"] by simp

end
