(* ===== verification/Spec2Isabelle.thy ===== *)
theory Spec2Isabelle
  imports Tests Dist BinanceResource Weather Template Signing
begin

text \<open>
  \<^bold>\<open>A verification development of x-mcp.\<close>

  The repository holds several independent programs for the Model Context
  Protocol (MCP): five tool servers (train tickets, Binance market data, weather,
  courier tracking, an Android code generator) and a stand-alone script that
  checks for Python. Each server registers its tools with the SDK's
  \<open>McpServer\<close> and answers tool calls on the stdio transport; a tool is a handler
  that sends HTTP requests to a third-party API (or fills text templates),
  reshapes the answer and returns text blocks. No state survives a call. What can
  go wrong is in the handlers (the checks on arguments and answers, the order of
  the requests, the reshaping, what the result tells the client) and in the way
  each server hands its tools to the SDK.

  \<^bold>\<open>Library.\<close>
  \<^item> \<open>Prelude\<close>: strings as UTF-8 byte lists, the prefix test, ASCII case
    mapping, \<open>Array.prototype.join\<close>, \<open>String.prototype.replace\<close> with a
    global literal pattern (\<open>replace_all\<close>, GetSubstitution's \<open>$\<close> patterns
    included, and \<open>replace_lit\<close> without them), and \<open>sbind\<close>/\<open>smap\<close> for code
    that throws.
  \<^item> \<open>JsValue\<close>: the JavaScript values the handlers read and build
    (\<open>jsval\<close>), property reads that throw on \<open>undefined\<close>/\<open>null\<close>, truthiness,
    \<open>||\<close>, \<open>&&\<close>, \<open>===\<close>, ToString, ToNumber, \<open>JSON.stringify\<close>, and how a
    client reads a result's \<open>isError\<close>.
  \<^item> \<open>Effects\<close>: a handler as an \<open>'a io\<close>, a function of the world (the
    upstream answers, the \<open>Math.random()\<close> draws, the clock) and of a state
    recording the requests sent, the draws made and the lines written to stdout;
    \<open>io_bind\<close> is \<open>await\<close>, an \<open>Inl\<close> is a rejected promise, \<open>io_catch\<close> a
    \<open>try\<close>/\<open>catch\<close>. \<open>random_index\<close> is \<open>Math.floor(Math.random() * n)\<close> with
    the double product rounded to 53 bits.
  \<^item> \<open>Json\<close>: a reader for JSON arrays of strings (a state machine over the
    characters), used to show what the other side recovers from a stringified
    list.
  \<^item> \<open>Registry\<close>: the SDK's tool registry, modelled from the specification
    (the SDK is a dependency, not part of the repository): \<open>registerTool\<close> with
    its duplicate check, \<open>server.tool\<close> with a zod shape or a plain object as
    third argument, the zod argument check, and \<open>callTool\<close>, which validates,
    runs the callback and turns an exception into an error-flagged result.
    Its lemmas (reachable registries have distinct names, lookup after
    registration, the zod check, unknown tools, validation) serve the servers.
  \<^item> \<open>Startup\<close>: the SDK's \<open>new McpServer(serverInfo, options)\<close> and the
    initialize result it answers with (also from the specification), and
    \<open>server_main\<close>, the \<open>main()\<close> every server ends with: connect, then a
    banner on stderr, or the error on stderr and exit code 1.

  \<^bold>\<open>Components.\<close>
  \<^item> \<open>Train\<close> models \<open>src/dist/12306_tool.js\<close> (the compiled train-ticket
    server; its TypeScript source is not in the repository):
    \<open>handleGetHuochepiaoList\<close> (argument check, station-code POST, train-search
    POST, the checks on both answers, \<open>console.log\<close> of the search parameters),
    \<open>convertFieldNames\<close>, \<open>convertTrain\<close>/\<open>convertSeat\<close>,
    \<open>convertSeatName\<close>, the two response builders, \<open>getRandomUserAgent\<close> and
    \<open>handleGetSystemTime\<close>. C1-C9: missing arguments give an error with no
    effect; a successful search sends the two requests in order and returns the
    converted list; the seat translation is the specification's table; the
    conversion keeps one entry per train and per seat; the station flags agree;
    no result the handler returns, on any input and any upstream answer, is
    flagged as an error (shown with \<open>io_ensures\<close> of \<open>Effects\<close>, which
    follows every returned value through the binds); the time text reads back;
    the User-Agent is one of the list. The lemma \<open>train_code_lookup_fails\<close> gives
    the failed code lookup.
  \<^item> \<open>Binance\<close> models the eighteen request builders of
    \<open>src/src/binance/binance_get_api.ts\<close> and \<open>binance_config\<close> (only
    compiled, \<open>src/dist/binance/binance_config.js\<close>): the base-URL pool, the API
    key and the unused \<open>DefaultTradingPairDescription\<close>. C10-C13: the
    upper-casing builders are case-insensitive, the three ticker builders are
    not; the two depth and trade builders of the same endpoint agree exactly on
    a truthy limit, an absent limit being sent as 100 and a zero limit as 0 by
    one and dropped by the other; a stringified symbol list reads back as the
    list. The lemma
    \<open>axiosBinanceGet_one_get\<close> gives the one GET per builder to a pool URL.
  \<^item> \<open>BinanceServer\<close> models the tool configurations of
    \<open>binance_get_tool.ts\<close>, and the server object, the registration and
    \<open>main\<close> of \<open>binance_server.ts\<close>. C14-C15: a \<open>getCryptoPrice\<close> call
    sends the depth request for the upper-cased symbol; the tools that require
    a symbol refuse every argument object without one. The lemma \<open>binance_server_registers\<close>
    shows the eight tools register in order.
  \<^item> \<open>BinanceResource\<close> models the \<open>financial-pdf\<close> resource of
    \<open>binance_server.ts\<close>: its registration arguments and the read callback
    (\<open>path.resolve\<close> against the working directory, \<open>readFile\<close>, base64)
    over a world of a working directory and files. C36-C37: the blob decodes
    to the file's bytes (round trip through the decoder \<open>unbase64\<close>); the
    callback reads the file two directories above the working directory, not
    the module's. The lemmas give the base64 text's length and alphabet, and
    \<open>pdf_uri_differs\<close> shows that the returned uri is never the registered one.
  \<^item> \<open>Weather\<close> models \<open>src/src/city_weather.ts\<close>: the server object, the
    city table, the lookup, the \<open>get_weather_by_city\<close> handler, its
    registration and \<open>main\<close>. C16-C18: a supported city gives the seven
    labelled lines; a member of \<open>Object.prototype\<close> passes the lookup and is
    sent upstream; a failed fetch gives the failure text, not flagged as an
    error. The lemma \<open>weather_unsupported_city\<close> gives the not-supported text
    for other names.
  \<^item> \<open>Kuaidi\<close> models \<open>src/src/kuaidi100_tool.ts\<close>: the server object,
    \<open>httpGet\<close>, the \<open>query_trace\<close> callback, its registration and
    \<open>main\<close>. C19: the tool is registered without a schema and every call
    fails reading \<open>args.kuaidiNum\<close>; the lemma \<open>query_trace_request\<close> shows
    what the callback would send on an object that does carry \<open>args\<close>.
  \<^item> \<open>TrainServer\<close> models the rest of \<open>12306_tool.js\<close>: the exported
    tool descriptions \<open>GET_HUOCHEPIAO_LIST\<close>, \<open>GET_SYSTIME\<close> and
    \<open>SUPPORT_TOOLS\<close>, the server object, the registration of the two tools on
    the SDK model, and \<open>main\<close>. C21: for every argument value, validation
    against the exported JSON schemas (\<open>json_schema_valid\<close>, a device of
    the specification) accepts exactly what the server's zod shapes accept. The lemma \<open>train_server_calls\<close>
    shows the tools register in order and calls reach the handlers.
  \<^item> \<open>Tests\<close> models the vitest files \<open>src/test/binance.test.ts\<close> and
    \<open>src/test/add.test.ts\<close> as lists of cases run in order over the effect
    model; a case passes when its call does not throw (vitest's rule, from its
    documentation). C22-C23: the Binance cases pass whatever the exchange
    answers and send the depth, trades and 24-hour ticker requests (the third
    case carries the second one's name); the 12306 case passes when the station
    lookup fails.
  \<^item> \<open>Signing\<close> models \<open>signQuery\<close> of \<open>src/src/binance/binance_sign.ts\<close>
    with the crypto calls it makes, from their specifications: SHA-256 (FIPS
    180-4) on \<open>8 word\<close> and \<open>32 word\<close> values with wrapping additions, HMAC
    (RFC 2104) and the hexadecimal digest. Its lemmas give the digest's 32
    bytes, the padded message's length (a multiple of 64, the shortest one
    that fits the length field) and the 64-word schedule of every block.
    C24-C25: secrets that differ in trailing NUL characters sign alike; the
    signature is 64 lower-case hexadecimal digits. The lemma
    \<open>hex_decode_encode\<close> reads the hexadecimal text back to the bytes.
  \<^item> \<open>Dist\<close> models the compiled copies under \<open>src/dist\<close> of the modules
    whose sources are present (\<open>binance/binance_get_tool.js\<close>,
    \<open>kuaidi100_tool.js\<close>, \<open>dev_environment_tool.js\<close>). The compiled
    lines are the source's statement for statement, so these definitions
    coincide with the source theories' (the lemma \<open>dist_build_agrees\<close>); the
    compiled Binance tool module requires a \<open>binance_get_api.js\<close> that
    \<open>src/dist\<close> lacks.
  \<^item> \<open>Template\<close> models \<open>src/src/math_create_file.ts\<close> (the three templates
    as exact text, the handler of \<open>getCreateActivityTool\<close> with its defaults,
    derived names, paths and replace chains) and the registration in
    \<open>src/src/index.ts\<close> with its server object and \<open>main\<close>. The abstract
    specification is \<open>fill\<close>, which puts values for the named placeholders of
    a template given as parts; the chains refine it (\<open>replace_seq_fill\<close>) when
    the values hold no brace and no dollar sign. C26-C29: the handler returns
    the filled templates (refinement; the lemma \<open>create_activity_names\<close> gives
    the specification's example); through the server every call gets the
    default output, since the empty shape strips all arguments; the handler
    returns three text blocks or throws a \<open>TypeError\<close>; the layout keeps
    \<open>{{PACKAGE}}\<close>. The lemma \<open>dollar_in_name\<close> shows that a dollar-ampersand
    in a name inserts the placeholder.
  \<^item> \<open>DevEnv\<close> models \<open>src/src/dev_environment_tool.ts\<close> as an event loop:
    \<open>checkPython\<close>, \<open>installPython\<close> and the async main, with the
    \<open>exec\<close> callbacks and promise continuations as queued tasks, the step
    relation \<open>dev_step\<close> and the runner \<open>dev_run\<close>. C30-C35: every finished
    state is the sequential reading \<open>dev_spec\<close> (refinement); the script always
    finishes (liveness) and has no infinite run (termination); at most one task
    is outstanding, so the loop is deterministic (invariant); no install
    command runs when Python is found; on Linux the install outcome is never
    reported.

  \<^bold>\<open>Across the servers.\<close> C20, in this theory: each server object
  (\<open>weather_server\<close>, \<open>kuaidi_server\<close>, \<open>binance_server\<close>,
  \<open>math_server\<close>, \<open>train_server\<close>) is \<open>new McpServer(info)\<close> with no
  options and the instructions inside \<open>info\<close>, so for every registry and
  protocol version the initialize result carries no \<open>instructions\<close> and the
  text reaches the client only inside \<open>serverInfo\<close>.

  \<^bold>\<open>Bounds and approximations.\<close> Numbers are integers; ToNumber of text knows
  decimal integers only; case mapping and \<open>trim\<close> are ASCII only; objects have
  distinct keys. No loop of the servers is unbounded: every definition is total
  and executable, and the replace scans terminate on the length of the text.
  The script's event loop terminates by the rank \<open>dev_rank\<close> of its pending
  work (each callback or continuation queues at most one task of lower rank),
  which is also the termination measure of \<open>dev_run\<close>; no fuel is needed.
  The SHA-256 words are \<open>32 word\<close>, so the additions wrap as the standard
  requires; its loops run over the blocks and the 48 schedule extensions, both
  structural. The test model has no clock that advances during a request, so
  the cases' timeouts are data and never fire.

  \<^bold>\<open>Not modelled.\<close> The transport and the SDK's JSON-RPC machinery, the HTTP
  client libraries (their behaviour is the world's \<open>respond\<close>), \<open>exec\<close> and
  \<open>os.platform()\<close> (the script's world), the SDK's resource registry and
  URI matching, the descriptions and titles of the Binance tools and the
  template tool (prose the registry model does not store), the module-loading
  prologue \<open>tsc\<close> emits into the compiled files, and vitest's reporter and
  timeouts. The comment-only lines of the sources (the commented-out weather
  and courier tools) are not code.
\<close>

text \<open>C20: none of the five servers announces its instructions: each passes its
  instructions text (and the Binance server its misspelt ddescription) inside the
  one object it gives new McpServer, which the SDK keeps as serverInfo, so the
  initialize result carries no instructions member, whatever is registered and
  whatever protocol version is agreed, and the text reaches the client only
  nested inside serverInfo.\<close>

theorem servers_instructions_not_announced:
  "instructions_only_in_info weather_server weather_instructions
   \<and> instructions_only_in_info kuaidi_server kuaidi_instructions
   \<and> instructions_only_in_info binance_server binance_instructions
   \<and> instructions_only_in_info math_server math_instructions
   \<and> instructions_only_in_info train_server train_instructions"
  by (simp add: instructions_only_in_info_new weather_server_def kuaidi_server_def binance_server_def
      math_server_def train_server_def weather_server_info_def kuaidi_server_info_def
      binance_server_info_def math_server_info_def train_server_info_def prop_val_def)

end
